(* ===== verification/Prelude.thy ===== *)
theory Prelude
  imports Main
begin

text \<open>
  The shared ground of the development: procedures over an explicit state that either
  return or raise, the two ways the other theories reason about them (weakest
  preconditions for functional behaviour, \<open>keeps\<close> for state predicates every exit
  preserves), tables as lists of rows with the SQL operations the repositories use, and
  Python's truthiness-driven defaults.
\<close>

named_theorems wp_simps \<open>weakest preconditions of the procedure combinators and primitives\<close>
named_theorems keeps_intros \<open>introduction rules for preservation by a procedure\<close>
named_theorems table_simps \<open>the table operations under map, set and filter\<close>

section \<open>Procedures: state and exceptions\<close>

text \<open>
  A Python coroutine that reads and writes the process and database state and may raise.
  An exception leaves the state as it was when it was raised: what a rollback undoes is
  decided by the combinators of the theory World, not by the exception itself.
\<close>

type_synonym ('w, 'e, 'a) proc = "'w \<Rightarrow> ('e + 'a) \<times> 'w"

definition return :: "'a \<Rightarrow> ('w, 'e, 'a) proc" where
  "return x = (\<lambda>w. (Inr x, w))"

definition raise :: "'e \<Rightarrow> ('w, 'e, 'a) proc" where
  "raise e = (\<lambda>w. (Inl e, w))"

definition bind :: "('w, 'e, 'a) proc \<Rightarrow> ('a \<Rightarrow> ('w, 'e, 'b) proc) \<Rightarrow> ('w, 'e, 'b) proc" where
  "bind m f = (\<lambda>w. case m w of (Inl e, w') \<Rightarrow> (Inl e, w') | (Inr x, w') \<Rightarrow> f x w')"

definition seq :: "('w, 'e, 'a) proc \<Rightarrow> ('w, 'e, 'b) proc \<Rightarrow> ('w, 'e, 'b) proc" where
  "seq m n = bind m (\<lambda>_. n)"

definition asks :: "('w \<Rightarrow> 'a) \<Rightarrow> ('w, 'e, 'a) proc" where
  "asks f = (\<lambda>w. (Inr (f w), w))"

definition modify :: "('w \<Rightarrow> 'w) \<Rightarrow> ('w, 'e, unit) proc" where
  "modify f = (\<lambda>w. (Inr (), f w))"

definition try_except ::
    "('w, 'e, 'a) proc \<Rightarrow> ('e \<Rightarrow> ('w, 'e, 'a) proc) \<Rightarrow> ('w, 'e, 'a) proc" where
  "try_except m h = (\<lambda>w. case m w of (Inl e, w') \<Rightarrow> h e w' | (Inr x, w') \<Rightarrow> (Inr x, w'))"

definition lift_sum :: "'e + 'a \<Rightarrow> ('w, 'e, 'a) proc" where
  "lift_sum r = (case r of Inl e \<Rightarrow> raise e | Inr x \<Rightarrow> return x)"

definition ensure :: "bool \<Rightarrow> 'e \<Rightarrow> ('w, 'e, unit) proc" where
  "ensure b e = (if b then return () else raise e)"

definition some_or_raise :: "'a option \<Rightarrow> 'e \<Rightarrow> ('w, 'e, 'a) proc" where
  "some_or_raise x e = (case x of None \<Rightarrow> raise e | Some a \<Rightarrow> return a)"

primrec for_each :: "('a \<Rightarrow> ('w, 'e, 'b) proc) \<Rightarrow> 'a list \<Rightarrow> ('w, 'e, 'b list) proc" where
  "for_each f [] = return []"
| "for_each f (x # xs) = bind (f x) (\<lambda>y. bind (for_each f xs) (\<lambda>ys. return (y # ys)))"

lemmas proc_defs = return_def raise_def bind_def seq_def asks_def modify_def try_except_def
  lift_sum_def ensure_def some_or_raise_def

subsection \<open>Weakest preconditions\<close>

definition wp ::
    "('w, 'e, 'a) proc \<Rightarrow> ('a \<Rightarrow> 'w \<Rightarrow> bool) \<Rightarrow> ('e \<Rightarrow> 'w \<Rightarrow> bool) \<Rightarrow> 'w \<Rightarrow> bool" where
  "wp m Q E w = (case m w of (Inl e, w') \<Rightarrow> E e w' | (Inr x, w') \<Rightarrow> Q x w')"

lemma return_bind: "bind (return x) f = f x"
  by (simp add: bind_def return_def)

lemma bind_assoc: "bind (bind m f) g = bind m (\<lambda>x. bind (f x) g)"
  by (auto simp: bind_def fun_eq_iff split: prod.split sum.split)

lemma wp_return [wp_simps]: "wp (return x) Q E w = Q x w"
  by (simp add: wp_def return_def)

lemma wp_return_fun: "wp (return x) Q E = Q x"
  by (rule ext) (rule wp_return)

lemma wp_raise [wp_simps]: "wp (raise e) Q E w = E e w"
  by (simp add: wp_def raise_def)

lemma wp_bind [wp_simps]: "wp (bind m f) Q E w = wp m (\<lambda>x. wp (f x) Q E) E w"
  by (auto simp: wp_def bind_def split: prod.splits sum.splits)

lemma wp_bind_fun: "wp (bind m f) Q E = wp m (\<lambda>x. wp (f x) Q E) E"
  by (rule ext) (rule wp_bind)

lemma wp_seq [wp_simps]: "wp (seq m n) Q E w = wp m (\<lambda>_. wp n Q E) E w"
  by (simp add: seq_def wp_bind)

lemma wp_asks [wp_simps]: "wp (asks f) Q E w = Q (f w) w"
  by (simp add: wp_def asks_def)

lemma wp_modify [wp_simps]: "wp (modify f) Q E w = Q () (f w)"
  by (simp add: wp_def modify_def)

lemma wp_try_except [wp_simps]: "wp (try_except m h) Q E w = wp m Q (\<lambda>e. wp (h e) Q E) w"
  by (auto simp: wp_def try_except_def split: prod.splits sum.splits)

lemma wp_lift_sum [wp_simps]:
  "wp (lift_sum r) Q E w = (case r of Inl e \<Rightarrow> E e w | Inr x \<Rightarrow> Q x w)"
  by (auto simp: lift_sum_def wp_return wp_raise split: sum.splits)

lemma wp_ensure [wp_simps]: "wp (ensure b e) Q E w = (if b then Q () w else E e w)"
  by (simp add: ensure_def wp_return wp_raise)

lemma wp_some_or_raise [wp_simps]:
  "wp (some_or_raise x e) Q E w = (case x of None \<Rightarrow> E e w | Some a \<Rightarrow> Q a w)"
  by (auto simp: some_or_raise_def wp_return wp_raise split: option.splits)

lemma wp_if [wp_simps]: "wp (if b then m else n) Q E w = (if b then wp m Q E w else wp n Q E w)"
  by simp

lemma wp_case_option [wp_simps]:
  "wp (case x of None \<Rightarrow> m | Some y \<Rightarrow> f y) Q E w =
     (case x of None \<Rightarrow> wp m Q E w | Some y \<Rightarrow> wp (f y) Q E w)"
  by (simp split: option.split)

lemma wp_case_prod [wp_simps]:
  "wp (case x of (a, b) \<Rightarrow> f a b) Q E w = (case x of (a, b) \<Rightarrow> wp (f a b) Q E w)"
  by (simp split: prod.split)

lemma wp_mono:
  assumes "wp m Q E w"
    and "\<And>x w'. m w = (Inr x, w') \<Longrightarrow> Q x w' \<Longrightarrow> Q' x w'"
    and "\<And>e w'. m w = (Inl e, w') \<Longrightarrow> E e w' \<Longrightarrow> E' e w'"
  shows "wp m Q' E' w"
  using assms by (auto simp: wp_def split: prod.splits sum.splits)

lemma wp_conj:
  "wp m Q E w \<Longrightarrow> wp m Q' E' w \<Longrightarrow> wp m (\<lambda>x w'. Q x w' \<and> Q' x w') (\<lambda>e w'. E e w' \<and> E' e w') w"
  by (auto simp: wp_def split: prod.splits sum.splits)

lemma wp_ok: "m w = (Inr x, w') \<Longrightarrow> wp m Q E w \<Longrightarrow> Q x w'"
  by (simp add: wp_def)

lemma wp_error: "m w = (Inl e, w') \<Longrightarrow> wp m Q E w \<Longrightarrow> E e w'"
  by (simp add: wp_def)

lemma wp_result: "wp m Q E w \<longleftrightarrow>
    (\<forall>x w'. m w = (Inr x, w') \<longrightarrow> Q x w') \<and> (\<forall>e w'. m w = (Inl e, w') \<longrightarrow> E e w')"
  by (auto simp: wp_def split: prod.splits sum.splits)

subsection \<open>State predicates a procedure keeps on every exit\<close>

definition keeps :: "('w \<Rightarrow> bool) \<Rightarrow> ('w, 'e, 'a) proc \<Rightarrow> bool" where
  "keeps I m \<longleftrightarrow> (\<forall>w. I w \<longrightarrow> I (snd (m w)))"

lemma keepsD: "keeps I m \<Longrightarrow> I w \<Longrightarrow> I (snd (m w))"
  by (simp add: keeps_def)

lemma keepsD_eq: "keeps I m \<Longrightarrow> I w \<Longrightarrow> m w = (r, w') \<Longrightarrow> I w'"
  by (metis keepsD snd_conv)

lemma keeps_wp: "keeps I m \<longleftrightarrow> (\<forall>w. I w \<longrightarrow> wp m (\<lambda>_. I) (\<lambda>_. I) w)"
  by (simp add: keeps_def wp_def case_prod_beta split: sum.split)

lemma keeps_return [keeps_intros, simp]: "keeps I (return x)"
  by (simp add: keeps_def return_def)

lemma keeps_raise [keeps_intros, simp]: "keeps I (raise e)"
  by (simp add: keeps_def raise_def)

lemma keeps_asks [keeps_intros, simp]: "keeps I (asks f)"
  by (simp add: keeps_def asks_def)

lemma keeps_ensure [keeps_intros, simp]: "keeps I (ensure b e)"
  by (simp add: ensure_def)

lemma keeps_some_or_raise [keeps_intros, simp]: "keeps I (some_or_raise x e)"
  by (simp add: some_or_raise_def split: option.split)

lemma keeps_lift_sum [keeps_intros, simp]: "keeps I (lift_sum r)"
  by (simp add: lift_sum_def split: sum.split)

lemma keeps_bind [keeps_intros]:
  "keeps I m \<Longrightarrow> (\<And>x. keeps I (f x)) \<Longrightarrow> keeps I (bind m f)"
  by (auto simp: keeps_wp wp_simps intro: wp_mono)

lemma keeps_seq [keeps_intros]: "keeps I m \<Longrightarrow> keeps I n \<Longrightarrow> keeps I (seq m n)"
  by (simp add: seq_def keeps_bind)

lemma keeps_try_except [keeps_intros]:
  "keeps I m \<Longrightarrow> (\<And>e. keeps I (h e)) \<Longrightarrow> keeps I (try_except m h)"
  by (auto simp: keeps_wp wp_simps intro: wp_mono)

lemma keeps_if [keeps_intros]:
  "(b \<Longrightarrow> keeps I m) \<Longrightarrow> (\<not> b \<Longrightarrow> keeps I n) \<Longrightarrow> keeps I (if b then m else n)"
  by simp

lemma keeps_case_option [keeps_intros]:
  "(x = None \<Longrightarrow> keeps I m) \<Longrightarrow> (\<And>y. x = Some y \<Longrightarrow> keeps I (f y)) \<Longrightarrow>
   keeps I (case x of None \<Rightarrow> m | Some y \<Rightarrow> f y)"
  by (simp split: option.split)

lemma keeps_case_prod [keeps_intros]:
  "(\<And>a b. x = (a, b) \<Longrightarrow> keeps I (f a b)) \<Longrightarrow> keeps I (case x of (a, b) \<Rightarrow> f a b)"
  by (simp split: prod.split)

lemma keeps_for_each [keeps_intros]: "(\<And>x. keeps I (f x)) \<Longrightarrow> keeps I (for_each f xs)"
  by (induction xs) (auto intro!: keeps_intros)

lemma keeps_modify: "(\<And>w. I w \<Longrightarrow> I (f w)) \<Longrightarrow> keeps I (modify f)"
  by (simp add: keeps_def modify_def)

section \<open>Tables\<close>

text \<open>
  A table is the list of its rows in insertion order. \<open>SELECT ... WHERE\<close> is \<open>filter\<close>,
  \<open>ORDER BY\<close> a stable sort, \<open>LIMIT n\<close> a prefix, \<open>UPDATE ... WHERE\<close> and
  \<open>DELETE ... WHERE\<close> the two operations below. Rows that an \<open>ORDER BY\<close> leaves tied
  (or a query without one) come in insertion order, one of the orders PostgreSQL may
  choose.
\<close>

definition update_where :: "('r \<Rightarrow> bool) \<Rightarrow> ('r \<Rightarrow> 'r) \<Rightarrow> 'r list \<Rightarrow> 'r list" where
  "update_where P f rs = map (\<lambda>r. if P r then f r else r) rs"

definition delete_where :: "('r \<Rightarrow> bool) \<Rightarrow> 'r list \<Rightarrow> 'r list" where
  "delete_where P rs = filter (\<lambda>r. \<not> P r) rs"

text \<open>SQLAlchemy's \<open>scalar_one_or_none()\<close>: more than one row is an exception.\<close>

definition scalar_one_or_none :: "'e \<Rightarrow> 'r list \<Rightarrow> 'e + 'r option" where
  "scalar_one_or_none multiple rs =
     (case rs of [] \<Rightarrow> Inr None | [r] \<Rightarrow> Inr (Some r) | _ \<Rightarrow> Inl multiple)"

definition order_by :: "('r \<Rightarrow> int) \<Rightarrow> 'r list \<Rightarrow> 'r list" where
  "order_by k rs = sort_key k rs"

definition order_by_desc :: "('r \<Rightarrow> int) \<Rightarrow> 'r list \<Rightarrow> 'r list" where
  "order_by_desc k rs = sort_key (\<lambda>r. - k r) rs"

lemma update_where_Nil [table_simps, simp]: "update_where P f [] = []"
  by (simp add: update_where_def)

lemma update_where_Cons [table_simps, simp]:
  "update_where P f (r # rs) = (if P r then f r else r) # update_where P f rs"
  by (simp add: update_where_def)

lemma update_where_append [table_simps]:
  "update_where P f (rs @ rs') = update_where P f rs @ update_where P f rs'"
  by (simp add: update_where_def)

lemma length_update_where [table_simps, simp]: "length (update_where P f rs) = length rs"
  by (simp add: update_where_def)

lemma set_update_where [table_simps]:
  "set (update_where P f rs) = (\<lambda>r. if P r then f r else r) ` set rs"
  by (simp add: update_where_def)

lemma map_update_where:
  "(\<And>r. r \<in> set rs \<Longrightarrow> P r \<Longrightarrow> g (f r) = g r) \<Longrightarrow> map g (update_where P f rs) = map g rs"
  by (simp add: update_where_def)

lemma update_where_none: "(\<And>r. r \<in> set rs \<Longrightarrow> \<not> P r) \<Longrightarrow> update_where P f rs = rs"
  by (induction rs) auto

lemma filter_update_where:
  "(\<And>r. P r \<Longrightarrow> P (f r)) \<Longrightarrow> filter P (update_where P f rs) = map f (filter P rs)"
  by (induction rs) auto

lemma filter_update_where_other:
  "(\<And>r. P r \<Longrightarrow> \<not> R r \<and> \<not> R (f r)) \<Longrightarrow> filter R (update_where P f rs) = filter R rs"
  by (induction rs) auto

lemma set_delete_where [table_simps, simp]: "set (delete_where P rs) = {r \<in> set rs. \<not> P r}"
  by (auto simp: delete_where_def)

lemma distinct_map_delete_where:
  "distinct (map g rs) \<Longrightarrow> distinct (map g (delete_where P rs))"
  by (simp add: delete_where_def distinct_map_filter)

lemma delete_where_none: "(\<And>r. r \<in> set rs \<Longrightarrow> \<not> P r) \<Longrightarrow> delete_where P rs = rs"
  by (simp add: delete_where_def)

lemma set_order_by [simp]: "set (order_by k rs) = set rs"
  by (simp add: order_by_def)

lemma set_order_by_desc [simp]: "set (order_by_desc k rs) = set rs"
  by (simp add: order_by_desc_def)

lemma scalar_Inr_iff:
  "scalar_one_or_none e rs = Inr x \<longleftrightarrow> (rs = [] \<and> x = None) \<or> (\<exists>r. rs = [r] \<and> x = Some r)"
  by (auto simp: scalar_one_or_none_def split: list.splits)

lemma scalar_Some: "scalar_one_or_none e (filter P rs) = Inr (Some r) \<Longrightarrow> r \<in> set rs \<and> P r"
  by (auto simp: scalar_Inr_iff dest: filter_eq_ConsD)

lemma scalar_None: "scalar_one_or_none e (filter P rs) = Inr None \<Longrightarrow> r \<in> set rs \<Longrightarrow> \<not> P r"
  by (auto simp: scalar_Inr_iff filter_empty_conv)

lemma filter_key_unique:
  "distinct (map k rs) \<Longrightarrow> r \<in> set rs \<Longrightarrow> filter (\<lambda>x. k x = k r) rs = [r]"
proof (induction rs)
  case (Cons a rs)
  show ?case
  proof (cases "r = a")
    case True
    with Cons.prems have "filter (\<lambda>x. k x = k r) rs = []"
      by (simp add: filter_empty_conv) (metis image_eqI)
    with True show ?thesis by simp
  next
    case False
    with Cons.prems have "r \<in> set rs" "k a \<noteq> k r" by auto
    with Cons show ?thesis by simp
  qed
qed simp

lemma scalar_key:
  assumes "distinct (map k rs)" and "\<And>x. x \<in> set rs \<Longrightarrow> P x \<Longrightarrow> k x = c"
  shows "\<exists>x. scalar_one_or_none e (filter P rs) = Inr x"
proof (cases "filter P rs")
  case (Cons a as)
  then have a: "a \<in> set rs" "P a" by (auto dest: filter_eq_ConsD)
  have "set (filter P rs) \<subseteq> {a}"
  proof
    fix x assume "x \<in> set (filter P rs)"
    then have "x \<in> set rs" "k x = k a" using assms(2) a by auto
    then show "x \<in> {a}" using assms(1) a(1) by (auto simp: distinct_map inj_on_def)
  qed
  moreover have "distinct (filter P rs)"
    using assms(1) by (simp add: distinct_map)
  ultimately have "filter P rs = [a]" using Cons
    by (cases as) auto
  then show ?thesis by (simp add: scalar_one_or_none_def)
qed (simp add: scalar_one_or_none_def)

lemma scalar_key_hit:
  assumes "distinct (map k rs)" and "r \<in> set rs" and "\<And>x. P x \<longleftrightarrow> k x = k r"
  shows "scalar_one_or_none e (filter P rs) = Inr (Some r)"
proof -
  have "P = (\<lambda>x. k x = k r)" using assms(3) by auto
  then have "filter P rs = [r]" using filter_key_unique [OF assms(1,2)] by simp
  then show ?thesis by (simp add: scalar_one_or_none_def)
qed

section \<open>Python's \<open>x or default\<close>\<close>

definition or_default :: "int option \<Rightarrow> int \<Rightarrow> int" where
  "or_default x d = (case x of None \<Rightarrow> d | Some v \<Rightarrow> if v = 0 then d else v)"

definition or_str :: "string option \<Rightarrow> string \<Rightarrow> string" where
  "or_str x d = (case x of None \<Rightarrow> d | Some s \<Rightarrow> if s = [] then d else s)"

definition truthy_str :: "string option \<Rightarrow> bool" where
  "truthy_str x = (case x of None \<Rightarrow> False | Some s \<Rightarrow> s \<noteq> [])"

definition truthy_list :: "'a list option \<Rightarrow> bool" where
  "truthy_list x = (case x of None \<Rightarrow> False | Some xs \<Rightarrow> xs \<noteq> [])"

definition list_of :: "'a list option \<Rightarrow> 'a list" where
  "list_of x = (case x of None \<Rightarrow> [] | Some xs \<Rightarrow> xs)"

definition starts_with :: "string \<Rightarrow> string \<Rightarrow> bool" where
  "starts_with s p \<longleftrightarrow> take (length p) s = p"

definition ends_with :: "string \<Rightarrow> string \<Rightarrow> bool" where
  "ends_with s p \<longleftrightarrow> length p \<le> length s \<and> drop (length s - length p) s = p"

lemma starts_with_append [simp]: "starts_with (p @ s) p"
  by (simp add: starts_with_def)

lemma starts_with_iff: "starts_with s p \<longleftrightarrow> (\<exists>t. s = p @ t)"
  by (auto simp: starts_with_def) (metis append_take_drop_id)

end
