(* ===== verification/PyText.thy ===== *)
theory PyText
  imports Prelude "HOL-Library.Char_ord" "HOL-Library.List_Lexorder"
begin

text \<open>
  The texts the program builds and reads back: decimal integers, hexadecimal digits and
  UUIDs. A string is a list of characters with code points below 256; strings are ordered
  lexicographically, as Python orders them.
\<close>

section \<open>Decimal integers\<close>

definition digit_char :: "nat \<Rightarrow> char" where
  "digit_char n = char_of (48 + n)"

definition digit_value :: "char \<Rightarrow> nat" where
  "digit_value c = of_char c - 48"

definition is_digit :: "char \<Rightarrow> bool" where
  "is_digit c \<longleftrightarrow> 48 \<le> (of_char c :: nat) \<and> (of_char c :: nat) \<le> 57"

fun nat_str :: "nat \<Rightarrow> string" where
  "nat_str n = (if n < 10 then [digit_char n] else nat_str (n div 10) @ [digit_char (n mod 10)])"

declare nat_str.simps [simp del]

definition int_str :: "int \<Rightarrow> string" where
  "int_str i = (if i < 0 then CHR ''-'' # nat_str (nat (- i)) else nat_str (nat i))"

definition nat_of_digits :: "string \<Rightarrow> nat" where
  "nat_of_digits s = foldl (\<lambda>a c. 10 * a + digit_value c) 0 s"

lemma of_char_digit_char [simp]: "n < 10 \<Longrightarrow> of_char (digit_char n) = (48 + n :: nat)"
  by (simp add: digit_char_def)

lemma digit_value_digit_char [simp]: "n < 10 \<Longrightarrow> digit_value (digit_char n) = n"
  by (simp add: digit_value_def)

lemma is_digit_digit_char [simp]: "n < 10 \<Longrightarrow> is_digit (digit_char n)"
  by (simp add: is_digit_def)

lemma nat_str_digits: "c \<in> set (nat_str n) \<Longrightarrow> is_digit c"
proof (induction n rule: nat_str.induct)
  case (1 n)
  then show ?case by (cases "n < 10") (auto simp: nat_str.simps [of n])
qed

lemma nat_str_not_Nil [simp]: "nat_str n \<noteq> []"
  by (simp add: nat_str.simps [of n])

lemma nat_of_digits_nat_str [simp]: "nat_of_digits (nat_str n) = n"
proof (induction n rule: nat_str.induct)
  case (1 n)
  show ?case
  proof (cases "n < 10")
    case True
    then show ?thesis by (simp add: nat_str.simps [of n] nat_of_digits_def)
  next
    case False
    with 1 show ?thesis by (simp add: nat_str.simps [of n] nat_of_digits_def)
  qed
qed

lemma nat_str_inject [simp]: "nat_str m = nat_str n \<longleftrightarrow> m = n"
  by (metis nat_of_digits_nat_str)

text \<open>A decimal integer is delimited by the first character that is not a digit.\<close>

definition delimited :: "string \<Rightarrow> bool" where
  "delimited s \<longleftrightarrow> s = [] \<or> \<not> is_digit (hd s)"

lemma digits_delimited:
  assumes "\<forall>c \<in> set a. is_digit c" "\<forall>c \<in> set b. is_digit c"
    and "delimited s" "delimited t" and "a @ s = b @ t"
  shows "a = b \<and> s = t"
proof -
  have "takeWhile is_digit (a @ s) = a"
    using assms(1,3) by (cases s) (simp_all add: delimited_def takeWhile_append)
  moreover have "takeWhile is_digit (b @ t) = b"
    using assms(2,4) by (cases t) (simp_all add: delimited_def takeWhile_append)
  ultimately have "a = b" using assms(5) by simp
  then show ?thesis using assms(5) by simp
qed

lemma nat_str_delimited:
  "delimited s \<Longrightarrow> delimited t \<Longrightarrow> nat_str m @ s = nat_str n @ t \<Longrightarrow> m = n \<and> s = t"
  using digits_delimited [of "nat_str m" "nat_str n" s t] nat_str_digits by auto

lemma hd_nat_str: "is_digit (hd (nat_str n))"
  using nat_str_digits [of "hd (nat_str n)" n] by simp

lemma not_digit_minus [simp]: "\<not> is_digit (CHR ''-'')"
  by (simp add: is_digit_def)

lemma nat_str_neq_minus: "nat_str m @ s \<noteq> CHR ''-'' # t"
  using hd_nat_str [of m] by (cases "nat_str m") auto

lemma int_str_delimited:
  assumes "delimited s" "delimited t" "int_str i @ s = int_str j @ t"
  shows "i = j \<and> s = t"
proof (cases "i < 0")
  case True
  show ?thesis
  proof (cases "j < 0")
    case True
    with \<open>i < 0\<close> assms have "nat_str (nat (- i)) @ s = nat_str (nat (- j)) @ t"
      by (simp add: int_str_def)
    then have "nat (- i) = nat (- j) \<and> s = t" using assms nat_str_delimited by blast
    with \<open>i < 0\<close> True show ?thesis by arith
  next
    case False
    with \<open>i < 0\<close> assms nat_str_neq_minus [of "nat j" t] show ?thesis
      by (metis append_Cons int_str_def)
  qed
next
  case False
  show ?thesis
  proof (cases "j < 0")
    case True
    with False assms nat_str_neq_minus [of "nat i" s] show ?thesis
      by (metis append_Cons int_str_def)
  next
    case False
    with \<open>\<not> i < 0\<close> assms have "nat_str (nat i) @ s = nat_str (nat j) @ t"
      by (simp add: int_str_def)
    then have "nat i = nat j \<and> s = t" using assms nat_str_delimited by blast
    with \<open>\<not> i < 0\<close> False show ?thesis by arith
  qed
qed

section \<open>Hexadecimal digits\<close>

definition hex_char :: "nat \<Rightarrow> char" where
  "hex_char n = (if n < 10 then char_of (48 + n) else char_of (87 + n))"

definition hex_value :: "char \<Rightarrow> nat option" where
  "hex_value c =
     (let k = (of_char c :: nat) in
      if 48 \<le> k \<and> k \<le> 57 then Some (k - 48)
      else if 97 \<le> k \<and> k \<le> 102 then Some (k - 87)
      else if 65 \<le> k \<and> k \<le> 70 then Some (k - 55)
      else None)"

lemma hex_value_hex_char [simp]: "n < 16 \<Longrightarrow> hex_value (hex_char n) = Some n"
  by (auto simp: hex_value_def hex_char_def Let_def)

primrec hex_fixed :: "nat \<Rightarrow> nat \<Rightarrow> string" where
  "hex_fixed 0 n = []"
| "hex_fixed (Suc w) n = hex_fixed w (n div 16) @ [hex_char (n mod 16)]"

fun hex_number :: "string \<Rightarrow> nat \<Rightarrow> nat option" where
  "hex_number [] a = Some a"
| "hex_number (c # s) a =
     (case hex_value c of None \<Rightarrow> None | Some d \<Rightarrow> hex_number s (16 * a + d))"

lemma length_hex_fixed [simp]: "length (hex_fixed w n) = w"
  by (induction w arbitrary: n) auto

lemma hex_number_append:
  "hex_number (s @ t) a = (case hex_number s a of None \<Rightarrow> None | Some b \<Rightarrow> hex_number t b)"
  by (induction s arbitrary: a) (auto split: option.split)

lemma hex_number_hex_fixed: "n < 16 ^ w \<Longrightarrow> hex_number (hex_fixed w n) a = Some (16 ^ w * a + n)"
proof (induction w arbitrary: n)
  case (Suc w)
  then have "n div 16 < 16 ^ w" by (simp add: less_mult_imp_div_less mult.commute)
  with Suc.IH show ?case
    by (simp add: hex_number_append algebra_simps)
qed simp

lemma hex_fixed_no_hyphen: "c \<in> set (hex_fixed w n) \<Longrightarrow> c \<noteq> CHR ''-''"
proof (induction w arbitrary: n)
  case (Suc w)
  have "hex_char (n mod 16) \<noteq> CHR ''-''"
    using hex_value_hex_char [of "n mod 16"] by (auto simp: hex_value_def)
  with Suc show ?case by auto
qed simp

section \<open>UUIDs\<close>

text \<open>
  A UUID is its 128-bit value. \<open>uuid4()\<close> returns fresh ones (theory World). \<open>str()\<close>
  gives the 8-4-4-4-12 lower-case form; the constructor strips the hyphens and takes
  exactly 32 hexadecimal digits (the braces and \<open>urn:uuid:\<close> forms it also takes are left
  out: nothing in the program produces them).
\<close>

type_synonym uuid = nat

definition uuid_str :: "uuid \<Rightarrow> string" where
  "uuid_str u =
     (let h = hex_fixed 32 u in
      take 8 h @ ''-'' @ take 4 (drop 8 h) @ ''-'' @ take 4 (drop 12 h) @ ''-''
      @ take 4 (drop 16 h) @ ''-'' @ drop 20 h)"

definition uuid_of_str :: "string \<Rightarrow> uuid option" where
  "uuid_of_str s =
     (let h = filter (\<lambda>c. c \<noteq> CHR ''-'') s in
      if length h = 32 then hex_number h 0 else None)"

lemma uuid_groups:
  "take 8 h @ take 4 (drop 8 h) @ take 4 (drop 12 h) @ take 4 (drop 16 h) @ drop 20 h = h"
proof -
  have "take 4 (drop 16 h) @ drop 20 h = drop 16 h"
    and "take 4 (drop 12 h) @ drop 16 h = drop 12 h"
    and "take 4 (drop 8 h) @ drop 12 h = drop 8 h"
    using append_take_drop_id [of 4 "drop 16 h"] append_take_drop_id [of 4 "drop 12 h"]
      append_take_drop_id [of 4 "drop 8 h"] by (simp_all del: append_take_drop_id)
  then show ?thesis by (simp only: append_take_drop_id)
qed

lemma filter_hyphen_uuid_str: "filter (\<lambda>c. c \<noteq> CHR ''-'') (uuid_str u) = hex_fixed 32 u"
proof -
  let ?h = "hex_fixed 32 u"
  have sub: "filter (\<lambda>c. c \<noteq> CHR ''-'') xs = xs" if "set xs \<subseteq> set ?h" for xs
    using that hex_fixed_no_hyphen by (auto simp: filter_id_conv)
  have "filter (\<lambda>c. c \<noteq> CHR ''-'') (uuid_str u)
    = take 8 ?h @ take 4 (drop 8 ?h) @ take 4 (drop 12 ?h) @ take 4 (drop 16 ?h) @ drop 20 ?h"
    by (simp add: uuid_str_def Let_def sub set_take_subset set_drop_subset
        subset_trans [OF set_take_subset set_drop_subset] del: filter_append
        add: filter_append)
  then show ?thesis by (simp only: uuid_groups)
qed

lemma uuid_roundtrip: "u < 2 ^ 128 \<Longrightarrow> uuid_of_str (uuid_str u) = Some u"
proof -
  assume "u < 2 ^ 128"
  then have "u < 16 ^ 32" by simp
  then show ?thesis
    by (simp add: uuid_of_str_def filter_hyphen_uuid_str Let_def hex_number_hex_fixed)
qed

lemma uuid_str_inject:
  assumes "u < 2 ^ 128" "v < 2 ^ 128" "uuid_str u = uuid_str v"
  shows "u = v"
proof -
  have "Some u = uuid_of_str (uuid_str u)" by (rule uuid_roundtrip [OF assms(1), symmetric])
  also have "\<dots> = uuid_of_str (uuid_str v)" by (simp only: assms(3))
  also have "\<dots> = Some v" by (rule uuid_roundtrip [OF assms(2)])
  finally show ?thesis by (simp only: option.inject)
qed

lemma uuid_of_str_empty [simp]: "uuid_of_str [] = None"
  by (simp add: uuid_of_str_def)

end
