(* ===== verification/Json.thy ===== *)
theory Json
  imports PyText
begin

text \<open>
  The dynamically typed values the program passes around (\<open>dict[str, Any]\<close> payloads,
  results, receipt bodies) and \<open>json.dumps\<close>, whose text decides the size of a receipt and
  its deduplication hash. Floats do not occur in what the model builds and are left out.
\<close>

datatype json =
    JNull
  | JBool bool
  | JInt int
  | JStr string
  | JList "json list"
  | JDict "(string \<times> json) list"

type_synonym dict = "(string \<times> json) list"

section \<open>Dictionary access\<close>

definition dict_get :: "dict \<Rightarrow> string \<Rightarrow> json" where
  \<comment> \<open>\<open>d.get(k)\<close>\<close>
  "dict_get d k = (case map_of d k of None \<Rightarrow> JNull | Some v \<Rightarrow> v)"

definition has_key :: "dict \<Rightarrow> string \<Rightarrow> bool" where
  "has_key d k \<longleftrightarrow> map_of d k \<noteq> None"

definition get_or :: "dict \<Rightarrow> string \<Rightarrow> json \<Rightarrow> json" where
  \<comment> \<open>\<open>d.get(k, default)\<close>\<close>
  "get_or d k x = (if has_key d k then dict_get d k else x)"

definition dict_set :: "string \<Rightarrow> json \<Rightarrow> dict \<Rightarrow> dict" where
  \<comment> \<open>\<open>d[k] = v\<close>: an existing key keeps its place, a new one goes last\<close>
  "dict_set k v d = (if has_key d k then map (\<lambda>(k', v'). (k', if k' = k then v else v')) d
     else d @ [(k, v)])"

definition truthy :: "json \<Rightarrow> bool" where
  "truthy j = (case j of JNull \<Rightarrow> False | JBool b \<Rightarrow> b | JInt i \<Rightarrow> i \<noteq> 0 | JStr s \<Rightarrow> s \<noteq> []
     | JList xs \<Rightarrow> xs \<noteq> [] | JDict d \<Rightarrow> d \<noteq> [])"

definition json_or :: "json \<Rightarrow> json \<Rightarrow> json" where
  \<comment> \<open>\<open>a or b\<close>\<close>
  "json_or a b = (if truthy a then a else b)"

definition json_opt :: "json option \<Rightarrow> json" where
  "json_opt x = (case x of None \<Rightarrow> JNull | Some j \<Rightarrow> j)"

definition dict_opt :: "dict option \<Rightarrow> json" where
  "dict_opt x = (case x of None \<Rightarrow> JNull | Some d \<Rightarrow> JDict d)"

definition str_opt :: "string option \<Rightarrow> json" where
  "str_opt x = (case x of None \<Rightarrow> JNull | Some s \<Rightarrow> JStr s)"

definition dict_of :: "dict option \<Rightarrow> dict" where
  "dict_of x = (case x of None \<Rightarrow> [] | Some d \<Rightarrow> d)"

lemma dict_get_Nil [simp]: "dict_get [] k = JNull"
  by (simp add: dict_get_def)

lemma dict_get_Cons [simp]: "dict_get ((k', v) # d) k = (if k' = k then v else dict_get d k)"
  by (simp add: dict_get_def)

lemma has_key_Nil [simp]: "\<not> has_key [] k"
  by (simp add: has_key_def)

lemma has_key_Cons [simp]: "has_key ((k', v) # d) k \<longleftrightarrow> k' = k \<or> has_key d k"
  by (simp add: has_key_def)

lemma dict_get_append: "dict_get (d @ e) k = (if has_key d k then dict_get d k else dict_get e k)"
  by (induction d) auto

lemma has_key_append [simp]: "has_key (d @ e) k \<longleftrightarrow> has_key d k \<or> has_key e k"
  by (induction d) auto

lemma has_key_dict_set [simp]: "has_key (dict_set k v d) k' \<longleftrightarrow> k' = k \<or> has_key d k'"
proof -
  have "has_key (map (\<lambda>(k', v'). (k', if k' = k then v else v')) d) k' = has_key d k'"
    by (induction d) auto
  then show ?thesis by (auto simp: dict_set_def)
qed

lemma dict_get_dict_set [simp]:
  "dict_get (dict_set k v d) k' = (if k' = k then v else dict_get d k')"
proof -
  have "dict_get (map (\<lambda>(k', v'). (k', if k' = k then v else v')) d) k'
      = (if k' = k \<and> has_key d k then v else dict_get d k')"
    by (induction d) auto
  moreover have "\<not> has_key d k' \<Longrightarrow> dict_get d k' = JNull"
    by (simp add: dict_get_def has_key_def)
  ultimately show ?thesis by (auto simp: dict_set_def dict_get_append)
qed

section \<open>\<open>json.dumps\<close>\<close>

text \<open>
  \<open>ensure_ascii\<close> is on: the quote and the backslash are escaped with a backslash, five
  control characters by letter, every other character outside the printable ASCII range
  as \<open>\uXXXX\<close>.
\<close>

definition escape_char :: "char \<Rightarrow> string" where
  "escape_char c =
     (let k = (of_char c :: nat) in
      if k = 34 then [CHR 0x5C, CHR 0x22]
      else if k = 92 then [CHR 0x5C, CHR 0x5C]
      else if k = 10 then [CHR 0x5C, CHR ''n'']
      else if k = 13 then [CHR 0x5C, CHR ''r'']
      else if k = 9 then [CHR 0x5C, CHR ''t'']
      else if k = 12 then [CHR 0x5C, CHR ''f'']
      else if k = 8 then [CHR 0x5C, CHR ''b'']
      else if 32 \<le> k \<and> k \<le> 126 then [c]
      else [CHR 0x5C, CHR ''u'', CHR ''0'', CHR ''0'', hex_char (k div 16), hex_char (k mod 16)])"

definition quote :: "string \<Rightarrow> string" where
  "quote s = CHR 0x22 # concat (map escape_char s) @ [CHR 0x22]"

fun join :: "string \<Rightarrow> string list \<Rightarrow> string" where
  "join sep [] = []"
| "join sep [x] = x"
| "join sep (x # y # xs) = x @ sep @ join sep (y # xs)"

definition json_key :: "string \<Rightarrow> string \<times> string \<Rightarrow> string" where
  "json_key ksep kv = quote (fst kv) @ ksep @ snd kv"

primrec dumps :: "string \<Rightarrow> string \<Rightarrow> json \<Rightarrow> string" where
  "dumps isep ksep JNull = ''null''"
| "dumps isep ksep (JBool b) = (if b then ''true'' else ''false'')"
| "dumps isep ksep (JInt i) = int_str i"
| "dumps isep ksep (JStr s) = quote s"
| "dumps isep ksep (JList xs) = ''['' @ join isep (map (dumps isep ksep) xs) @ '']''"
| "dumps isep ksep (JDict d) =
     ''{'' @ join isep (map (json_key ksep) (map (map_prod id (dumps isep ksep)) d)) @ ''}''"

primrec sort_keys :: "json \<Rightarrow> json" where
  "sort_keys JNull = JNull"
| "sort_keys (JBool b) = JBool b"
| "sort_keys (JInt i) = JInt i"
| "sort_keys (JStr s) = JStr s"
| "sort_keys (JList xs) = JList (map sort_keys xs)"
| "sort_keys (JDict d) = JDict (sort_key fst (map (map_prod id sort_keys) d))"

definition dumps_default :: "json \<Rightarrow> string" where
  "dumps_default j = dumps '', '' '': '' j"

definition dumps_compact :: "json \<Rightarrow> string" where
  "dumps_compact j = dumps '','' '':'' j"

definition dumps_canonical :: "json \<Rightarrow> string" where
  \<comment> \<open>\<open>json.dumps(j, sort_keys=True, separators=(",", ":"))\<close>\<close>
  "dumps_canonical j = dumps_compact (sort_keys j)"

section \<open>The compact text determines the value\<close>

lemma hex_char_inject: "m < 16 \<Longrightarrow> n < 16 \<Longrightarrow> hex_char m = hex_char n \<Longrightarrow> m = n"
  by (metis hex_value_hex_char option.inject)

lemma of_char_less_256 [simp]: "(of_char c :: nat) < 256"
  by (cases c) (simp add: of_char_def horner_sum_bit_eq_take_bit take_bit_nat_less_exp)

lemma of_char_inject_nat: "(of_char c :: nat) = of_char d \<longleftrightarrow> c = d"
  by simp

definition letter_code :: "char \<Rightarrow> nat" where
  "letter_code x = (if x = CHR ''n'' then 10 else if x = CHR ''r'' then 13
     else if x = CHR ''t'' then 9 else if x = CHR ''f'' then 12 else if x = CHR ''b'' then 8
     else of_char x)"

abbreviation hex_escape :: "nat \<Rightarrow> string" where
  "hex_escape k \<equiv> [CHR 0x5C, CHR ''u'', CHR ''0'', CHR ''0'', hex_char (k div 16), hex_char (k mod 16)]"

lemma escape_char_shape:
  "(\<exists>x. escape_char c = [CHR 0x5C, x] \<and> x \<noteq> CHR ''u'' \<and> of_char c = letter_code x) \<or>
   (escape_char c = [c] \<and> c \<noteq> CHR 0x5C \<and> c \<noteq> CHR 0x22) \<or>
   escape_char c = hex_escape (of_char c)"
proof -
  let ?k = "of_char c :: nat"
  have special: "c \<noteq> CHR 0x5C \<and> c \<noteq> CHR 0x22" if "?k \<noteq> 34" "?k \<noteq> 92"
    using that by auto
  consider "?k = 34" | "?k = 92" | "?k = 10" | "?k = 13" | "?k = 9" | "?k = 12" | "?k = 8"
    | "?k \<notin> {34, 92, 10, 13, 9, 12, 8}" "32 \<le> ?k \<and> ?k \<le> 126"
    | "?k \<notin> {34, 92, 10, 13, 9, 12, 8}" "\<not> (32 \<le> ?k \<and> ?k \<le> 126)"
    by auto
  then show ?thesis
    by cases (simp_all add: escape_char_def letter_code_def special Let_def)
qed

lemma escape_char_cases:
  obtains (letter) x where "escape_char c = [CHR 0x5C, x]" "x \<noteq> CHR ''u''" "of_char c = letter_code x"
    | (plain) "escape_char c = [c]" "c \<noteq> CHR 0x5C" "c \<noteq> CHR 0x22"
    | (hex) "escape_char c = hex_escape (of_char c)"
  using escape_char_shape [of c] by blast

lemma escape_char_inject:
  assumes "escape_char c = escape_char d"
  shows "c = d"
proof (cases c rule: escape_char_cases)
  case (letter x)
  with assms have "escape_char d = [CHR 0x5C, x]" by simp
  then have "of_char d = letter_code x"
    using letter by (cases d rule: escape_char_cases) auto
  then show ?thesis using letter of_char_inject_nat by metis
next
  case plain
  with assms show ?thesis by (cases d rule: escape_char_cases) auto
next
  case hex
  let ?a = "of_char c :: nat" and ?b = "of_char d :: nat"
  have "escape_char d = hex_escape ?b"
    using hex assms by (cases d rule: escape_char_cases) auto
  with hex assms have h: "hex_char (?a div 16) = hex_char (?b div 16)"
    "hex_char (?a mod 16) = hex_char (?b mod 16)" by simp_all
  have "?a div 16 < 16" "?b div 16 < 16"
    using of_char_less_256 [of c] of_char_less_256 [of d] by linarith+
  then have "?a div 16 = ?b div 16" using h(1) by (rule hex_char_inject)
  moreover have "?a mod 16 = ?b mod 16" using h(2) by (rule hex_char_inject [rotated 2]) simp_all
  ultimately have "?a = ?b" by (metis div_mult_mod_eq)
  then show ?thesis by simp
qed

lemma escape_char_prefix: "escape_char c @ s = escape_char d @ t \<Longrightarrow> c = d \<and> s = t"
proof -
  assume eq: "escape_char c @ s = escape_char d @ t"
  then have "length (escape_char c) = length (escape_char d)"
    by (cases c rule: escape_char_cases; cases d rule: escape_char_cases) auto
  with eq show ?thesis using escape_char_inject by auto
qed

lemma escape_char_not_quote: "escape_char c @ s \<noteq> CHR 0x22 # t"
  by (cases c rule: escape_char_cases) auto

lemma escaped_prefix:
  "concat (map escape_char a) @ CHR 0x22 # s = concat (map escape_char b) @ CHR 0x22 # t \<Longrightarrow>
   a = b \<and> s = t"
proof (induction a arbitrary: b)
  case Nil
  then show ?case using escape_char_not_quote by (cases b) (auto, metis)
next
  case (Cons c a)
  show ?case
  proof (cases b)
    case Nil
    with Cons.prems show ?thesis using escape_char_not_quote by auto
  next
    case (Cons d b')
    with Cons.prems have "c = d \<and> concat (map escape_char a) @ CHR 0x22 # s
        = concat (map escape_char b') @ CHR 0x22 # t"
      using escape_char_prefix [of c _ d] by simp
    with Cons.IH Cons show ?thesis by blast
  qed
qed

lemma quote_prefix: "quote a @ s = quote b @ t \<Longrightarrow> a = b \<and> s = t"
  using escaped_prefix [of a s b t] by (simp add: quote_def)

abbreviation compact :: "json \<Rightarrow> string" where
  "compact \<equiv> dumps '','' '':''"

definition members :: "dict \<Rightarrow> string" where
  "members d = join '','' (map (json_key '':'') (map (map_prod id compact) d))"

definition elements :: "json list \<Rightarrow> string" where
  "elements xs = join '','' (map compact xs)"

lemma join_Cons: "join sep (x # xs) = (if xs = [] then x else x @ sep @ join sep xs)"
  by (cases xs) auto

lemma elements_simps [simp]:
  "elements [] = []"
  "elements (x # xs) = compact x @ (if xs = [] then [] else CHR '','' # elements xs)"
  by (simp_all add: elements_def join_Cons)

lemma members_simps [simp]:
  "members [] = []"
  "members ((k, x) # d) =
     quote k @ CHR '':'' # compact x @ (if d = [] then [] else CHR '','' # members d)"
  by (simp_all add: members_def join_Cons json_key_def)

lemma compact_collections:
  "compact (JList xs) = CHR ''['' # elements xs @ '']''"
  "compact (JDict d) = CHR ''{'' # members d @ ''}''"
  by (simp_all add: elements_def members_def)

declare dumps.simps(5,6) [simp del] compact_collections [simp]

lemma is_digit_closing [simp]:
  "\<not> is_digit (CHR '','')" "\<not> is_digit (CHR '']'')" "\<not> is_digit (CHR ''}'')"
  "\<not> is_digit (CHR ''['')" "\<not> is_digit (CHR ''{'')" "\<not> is_digit (CHR 0x22)"
  "\<not> is_digit (CHR ''n'')" "\<not> is_digit (CHR ''t'')" "\<not> is_digit (CHR ''f'')"
  by (simp_all add: is_digit_def)

lemma delimited_Cons [simp]: "delimited (c # s) \<longleftrightarrow> \<not> is_digit c"
  by (simp add: delimited_def)

text \<open>The first character tells the shape of the value.\<close>

fun shape :: "json \<Rightarrow> nat" where
  "shape JNull = 0"
| "shape (JBool True) = 1"
| "shape (JBool False) = 2"
| "shape (JInt i) = 3"
| "shape (JStr s) = 4"
| "shape (JList xs) = 5"
| "shape (JDict d) = 6"

definition shape_of_char :: "char \<Rightarrow> nat" where
  "shape_of_char c = (if c = CHR ''n'' then 0 else if c = CHR ''t'' then 1
     else if c = CHR ''f'' then 2 else if is_digit c \<or> c = CHR ''-'' then 3
     else if c = CHR 0x22 then 4 else if c = CHR ''['' then 5 else if c = CHR ''{'' then 6 else 7)"

lemma hd_compact: "\<exists>c r. compact j = c # r \<and> shape_of_char c = shape j"
proof (cases j)
  case (JInt i)
  have "is_digit c \<Longrightarrow> c \<noteq> CHR ''n'' \<and> c \<noteq> CHR ''t'' \<and> c \<noteq> CHR ''f''" for c
    using is_digit_closing by metis
  moreover obtain c r where "nat_str (nat i) = c # r" "is_digit c"
    using hd_nat_str [of "nat i"] by (cases "nat_str (nat i)") auto
  ultimately show ?thesis
    using JInt by (auto simp: int_str_def shape_of_char_def)
qed (auto simp: quote_def shape_of_char_def)

lemma compact_shape: "compact a @ s = compact b @ t \<Longrightarrow> shape a = shape b"
  using hd_compact [of a] hd_compact [of b] by auto

lemma compact_not_close: "compact j @ s \<noteq> CHR '']'' # t"
proof
  assume "compact j @ s = CHR '']'' # t"
  then have "shape j = 7" using hd_compact [of j] by (auto simp: shape_of_char_def)
  then show False by (cases j rule: shape.cases) auto
qed

lemma elements_prefix:
  assumes "\<forall>x \<in> set xs. \<forall>b s t. delimited s \<longrightarrow> delimited t \<longrightarrow>
      compact x @ s = compact b @ t \<longrightarrow> x = b \<and> s = t"
    and "elements xs @ CHR '']'' # s = elements ys @ CHR '']'' # t"
  shows "xs = ys \<and> s = t"
  using assms
proof (induction xs arbitrary: ys)
  case Nil
  then show ?case using compact_not_close
    by (cases ys) (auto simp: eq_commute)
next
  case (Cons x xs)
  show ?case
  proof (cases ys)
    case Nil
    with Cons.prems(2) compact_not_close [of x] show ?thesis
      by (auto split: if_splits)
  next
    case (Cons y ys')
    let ?u = "(if xs = [] then '']'' else '','' @ elements xs @ '']'') @ s"
    let ?v = "(if ys' = [] then '']'' else '','' @ elements ys' @ '']'') @ t"
    have "compact x @ ?u = compact y @ ?v"
      using Cons.prems(2) Cons by auto
    then have eq: "compact x @ ?u = compact y @ ?v" .
    have hyp: "delimited u \<Longrightarrow> delimited v \<Longrightarrow> compact x @ u = compact b @ v \<Longrightarrow> x = b \<and> u = v"
      for b u v using Cons.prems(1) by simp
    have "x = y \<and> ?u = ?v" by (rule hyp [OF _ _ eq]) simp_all
    then have xy: "x = y" and uv: "?u = ?v" by blast+
    show ?thesis
    proof (cases "xs = []")
      case True
      with uv have "ys' = [] \<and> s = t" by (auto split: if_splits)
      with True xy Cons show ?thesis by simp
    next
      case False
      with uv have "elements xs @ CHR '']'' # s = elements ys' @ CHR '']'' # t"
        by (auto split: if_splits)
      with Cons.IH [of ys'] Cons.prems(1) xy Cons show ?thesis by auto
    qed
  qed
qed

lemma members_prefix:
  assumes "\<forall>(k, x) \<in> set d. \<forall>b s t. delimited s \<longrightarrow> delimited t \<longrightarrow>
      compact x @ s = compact b @ t \<longrightarrow> x = b \<and> s = t"
    and "members d @ CHR ''}'' # s = members e @ CHR ''}'' # t"
  shows "d = e \<and> s = t"
  using assms
proof (induction d arbitrary: e)
  case Nil
  then show ?case
    by (cases e) (auto simp: quote_def)
next
  case (Cons kx d)
  obtain k x where kx: "kx = (k, x)" by (cases kx)
  show ?case
  proof (cases e)
    case Nil
    with Cons.prems(2) kx show ?thesis by (auto simp: quote_def)
  next
    case (Cons ly e')
    obtain l y where ly: "ly = (l, y)" by (cases ly)
    let ?u = "(if d = [] then ''}'' else '','' @ members d @ ''}'') @ s"
    let ?v = "(if e' = [] then ''}'' else '','' @ members e' @ ''}'') @ t"
    have "quote k @ CHR '':'' # compact x @ ?u = quote l @ CHR '':'' # compact y @ ?v"
      using Cons.prems(2) Cons kx ly by auto
    then have "k = l \<and> CHR '':'' # compact x @ ?u = CHR '':'' # compact y @ ?v"
      by (rule quote_prefix)
    then have kl: "k = l" and eq: "compact x @ ?u = compact y @ ?v"
      by (simp_all only: list.inject simp_thms)
    have hyp: "delimited u \<Longrightarrow> delimited v \<Longrightarrow> compact x @ u = compact b @ v \<Longrightarrow> x = b \<and> u = v"
      for b u v using Cons.prems(1) kx by simp
    have "x = y \<and> ?u = ?v" by (rule hyp [OF _ _ eq]) simp_all
    then have xy: "x = y" and uv: "?u = ?v" by blast+
    show ?thesis
    proof (cases "d = []")
      case True
      with uv have "e' = [] \<and> s = t" by (auto split: if_splits)
      with True xy kl Cons kx ly show ?thesis by simp
    next
      case False
      with uv have "members d @ CHR ''}'' # s = members e' @ CHR ''}'' # t"
        by (auto split: if_splits)
      with Cons.IH [of e'] Cons.prems(1) xy kl Cons kx ly show ?thesis by auto
    qed
  qed
qed

lemma compact_prefix:
  "delimited s \<Longrightarrow> delimited t \<Longrightarrow> compact a @ s = compact b @ t \<Longrightarrow> a = b \<and> s = t"
proof (induction a arbitrary: b s t)
  case JNull
  then show ?case using compact_shape [OF JNull.prems(3)] by (cases b rule: shape.cases) auto
next
  case (JBool p)
  then show ?case using compact_shape [OF JBool.prems(3)]
    by (cases p; cases b rule: shape.cases) auto
next
  case (JInt i)
  then show ?case using compact_shape [OF JInt.prems(3)] int_str_delimited [of s t i]
    by (cases b rule: shape.cases) auto
next
  case (JStr x)
  then show ?case using compact_shape [OF JStr.prems(3)] quote_prefix [of x s]
    by (cases b rule: shape.cases) auto
next
  case (JList xs)
  then obtain ys where b: "b = JList ys"
    using compact_shape [OF JList.prems(3)] by (cases b rule: shape.cases) auto
  with JList.prems(3) have "elements xs @ CHR '']'' # s = elements ys @ CHR '']'' # t" by simp
  then have "xs = ys \<and> s = t" by (rule elements_prefix [rotated]) (use JList.IH in blast)
  with b show ?case by simp
next
  case (JDict d)
  then obtain e where b: "b = JDict e"
    using compact_shape [OF JDict.prems(3)] by (cases b rule: shape.cases) auto
  with JDict.prems(3) have "members d @ CHR ''}'' # s = members e @ CHR ''}'' # t" by simp
  then have "d = e \<and> s = t"
    by (rule members_prefix [rotated]) (use JDict.IH in \<open>auto simp: snds.simps\<close>)
  with b show ?case by simp
qed

theorem dumps_compact_inject: "dumps_compact a = dumps_compact b \<longleftrightarrow> a = b"
proof
  assume "dumps_compact a = dumps_compact b"
  then have "compact a @ [] = compact b @ []" by (simp add: dumps_compact_def)
  then have "a = b \<and> [] = ([] :: string)" by (rule compact_prefix [rotated 2]) (simp_all add: delimited_def)
  then show "a = b" by simp
qed simp

end
