(* ===== verification/Datetime.thy ===== *)
theory Datetime
  imports PyText
begin

text \<open>
  Python's aware UTC datetimes: the number of microseconds since 0001-01-01T00:00:00+00:00,
  with the range check of \<open>timedelta\<close> arithmetic and the ISO 8601 text that
  \<open>isoformat()\<close> writes and \<open>fromisoformat()\<close> reads.
\<close>

type_synonym datetime = int

definition second :: int where "second = 1000000"

definition us_per_day :: int where "us_per_day = 86400000000"

definition max_ordinal :: int where "max_ordinal = 3652059"

definition in_range :: "datetime \<Rightarrow> bool" where
  "in_range t \<longleftrightarrow> 0 \<le> t \<and> t < max_ordinal * us_per_day"

text \<open>\<open>t + timedelta(microseconds=d)\<close>: None stands for \<open>OverflowError\<close>.\<close>

definition add_us :: "datetime \<Rightarrow> int \<Rightarrow> datetime option" where
  "add_us t d = (if in_range (t + d) then Some (t + d) else None)"

definition add_seconds :: "datetime \<Rightarrow> int \<Rightarrow> datetime option" where
  "add_seconds t n = add_us t (n * second)"

text \<open>\<open>int(delta.total_seconds())\<close> truncates towards zero.\<close>

definition trunc_seconds :: "int \<Rightarrow> int" where
  "trunc_seconds d = (if 0 \<le> d then d div second else - ((- d) div second))"

lemma add_seconds_Some: "add_seconds t n = Some u \<Longrightarrow> u = t + n * second"
  by (auto simp: add_seconds_def add_us_def split: if_splits)

section \<open>The proleptic Gregorian calendar\<close>

definition is_leap :: "int \<Rightarrow> bool" where
  "is_leap y \<longleftrightarrow> y mod 4 = 0 \<and> (y mod 100 \<noteq> 0 \<or> y mod 400 = 0)"

definition days_before_year :: "int \<Rightarrow> int" where
  "days_before_year y = (let p = y - 1 in p * 365 + p div 4 - p div 100 + p div 400)"

definition days_in_month :: "int \<Rightarrow> int \<Rightarrow> int" where
  "days_in_month y m = (if m = 2 then (if is_leap y then 29 else 28)
     else if m = 4 \<or> m = 6 \<or> m = 9 \<or> m = 11 then 30 else 31)"

primrec days_before_month :: "int \<Rightarrow> nat \<Rightarrow> int" where
  "days_before_month y 0 = 0"
| "days_before_month y (Suc m) =
     days_before_month y m + (if m = 0 then 0 else days_in_month y (int m))"

lemma days_before_year_mono: "days_before_year y + 365 \<le> days_before_year (y + 1)"
proof -
  define p q where "p = y - 1" and "q = (y - 1) div 4"
  define q' where "q' = y div 4"
  have "p div 100 = q div 25" unfolding p_def q_def
    using zdiv_zmult2_eq [of 25 "y - 1" 4] by simp
  moreover have "y div 100 = q' div 25" unfolding q'_def
    using zdiv_zmult2_eq [of 25 y 4] by simp
  moreover have "q \<le> q'" unfolding q_def q'_def by (rule zdiv_mono1) simp_all
  then have "q' div 25 - q div 25 \<le> q' - q" by linarith
  moreover have "p div 400 \<le> y div 400" unfolding p_def by (rule zdiv_mono1) simp_all
  moreover have "(y - 1) * 365 + q - d + b + 365 \<le> y * 365 + q' - e + c"
    if "e - d \<le> q' - q" "b \<le> c" for b c d e :: int
    using that by (simp add: left_diff_distrib)
  ultimately have "(y - 1) * 365 + q - (y - 1) div 100 + (y - 1) div 400 + 365
      \<le> y * 365 + q' - y div 100 + y div 400" unfolding p_def by metis
  then show ?thesis
    by (simp add: days_before_year_def Let_def q_def q'_def)
qed

function year_from :: "int \<Rightarrow> int \<Rightarrow> int" where
  "year_from n y = (if days_before_year (y + 1) < n then year_from n (y + 1) else y)"
  by pat_completeness auto
termination
proof (relation "measure (\<lambda>(n, y). nat (n - days_before_year y))", simp)
  fix n y :: int
  assume "days_before_year (y + 1) < n"
  then show "((n, y + 1), (n, y)) \<in> measure (\<lambda>(n, y). nat (n - days_before_year y))"
    using days_before_year_mono [of y] by auto
qed

declare year_from.simps [simp del]

fun month_day :: "nat \<Rightarrow> int \<Rightarrow> nat \<Rightarrow> int \<Rightarrow> nat \<times> int" where
  "month_day 0 y m d = (m, d)"
| "month_day (Suc k) y m d =
     (if days_in_month y (int m) < d
      then month_day k y (Suc m) (d - days_in_month y (int m)) else (m, d))"

definition ymd_of_ordinal :: "int \<Rightarrow> int \<times> nat \<times> int" where
  "ymd_of_ordinal n = (let y = year_from n ((n - 1) div 366 + 1);
     (m, d) = month_day 11 y 1 (n - days_before_year y) in (y, m, d))"

definition ordinal_of_ymd :: "int \<Rightarrow> nat \<Rightarrow> int \<Rightarrow> int" where
  "ordinal_of_ymd y m d = days_before_year y + days_before_month y m + d"

section \<open>\<open>isoformat\<close> and \<open>fromisoformat\<close>\<close>

primrec dec_fixed :: "nat \<Rightarrow> int \<Rightarrow> string" where
  "dec_fixed 0 n = []"
| "dec_fixed (Suc w) n = dec_fixed w (n div 10) @ [digit_char (nat (n mod 10))]"

definition dec_value :: "string \<Rightarrow> int" where
  "dec_value s = foldl (\<lambda>a c. 10 * a + int (digit_value c)) 0 s"

definition isoformat :: "datetime \<Rightarrow> string" where
  "isoformat t =
     (let (y, m, d) = ymd_of_ordinal (t div us_per_day + 1);
          us = t mod us_per_day; s = us div 1000000; f = us mod 1000000 in
      dec_fixed 4 y @ ''-'' @ dec_fixed 2 (int m) @ ''-'' @ dec_fixed 2 d @ ''T''
      @ dec_fixed 2 (s div 3600) @ '':'' @ dec_fixed 2 (s div 60 mod 60) @ '':''
      @ dec_fixed 2 (s mod 60) @ (if f = 0 then [] else ''.'' @ dec_fixed 6 f) @ ''+00:00'')"

text \<open>
  \<open>fromisoformat\<close> on the two layouts \<open>isoformat\<close> writes (with and without the six
  digits of a second); any other text, including the further layouts Python reads, is
  \<open>ValueError\<close> (None) here.
\<close>

definition digits_at :: "nat \<Rightarrow> nat \<Rightarrow> string \<Rightarrow> int option" where
  "digits_at i w s = (let t = take w (drop i s) in
     if length t = w \<and> list_all is_digit t then Some (dec_value t) else None)"

definition text_at :: "nat \<Rightarrow> string \<Rightarrow> string \<Rightarrow> bool" where
  "text_at i t s \<longleftrightarrow> take (length t) (drop i s) = t"

definition fromisoformat :: "string \<Rightarrow> datetime option" where
  "fromisoformat s =
     (case (digits_at 0 4 s, digits_at 5 2 s, digits_at 8 2 s,
            digits_at 11 2 s, digits_at 14 2 s, digits_at 17 2 s) of
        (Some y, Some m, Some d, Some hh, Some mm, Some ss) \<Rightarrow>
          (let f = (if drop 19 s = ''+00:00'' then Some 0
                    else if text_at 19 ''.'' s \<and> drop 26 s = ''+00:00'' then digits_at 20 6 s
                    else None) in
           if text_at 4 ''-'' s \<and> text_at 7 ''-'' s \<and> text_at 10 ''T'' s \<and> text_at 13 '':'' s
              \<and> text_at 16 '':'' s \<and> 1 \<le> y \<and> 1 \<le> m \<and> m \<le> 12 \<and> 1 \<le> d \<and> d \<le> days_in_month y m
              \<and> hh < 24 \<and> mm < 60 \<and> ss < 60
           then map_option (\<lambda>f. (ordinal_of_ymd y (nat m) d - 1) * us_per_day
                  + (hh * 3600 + mm * 60 + ss) * 1000000 + f) f
           else None)
      | _ \<Rightarrow> None)"

end
