(* ===== verification/Models.thy ===== *)
theory Models
  imports Json Datetime
begin

text \<open>
  The data model of \<open>src/asyncgate/models\<close> and \<open>engine/errors.py\<close>: the enumerations with
  their wire values, principals, tasks, leases, receipts, progress and relationships, the
  termination table, the standard receipt bodies and the exceptions.

  A table row and the pydantic model built from it by \<open>_row_to_model\<close> are one record
  (\<open>Rows\<close> has the columns and shows that this loses nothing). The
  five result columns of a task are one optional \<open>task_result\<close>; the parents of a receipt,
  stored as UUID texts, are the UUIDs themselves.
\<close>

section \<open>Enumerations\<close>

datatype task_status = QUEUED | LEASED | RUNNING | SUCCEEDED | FAILED | CANCELED

datatype outcome = O_SUCCEEDED | O_FAILED | O_CANCELED

datatype principal_kind = AGENT | WORKER | SERVICE | SYSTEM | HUMAN

datatype receipt_type =
    TASK_ASSIGNED | TASK_ACCEPTED | TASK_STARTED | TASK_COMPLETED | TASK_FAILED
  | TASK_CANCELED | TASK_RETRY_SCHEDULED | TASK_RESULT_READY | TASK_PROGRESS
  | LEASE_EXPIRED | TASK_ESCALATED | RECEIPT_ACKNOWLEDGED | SYSTEM_ANOMALY

instantiation task_status :: enum
begin

definition "enum_class.enum = [QUEUED, LEASED, RUNNING, SUCCEEDED, FAILED, CANCELED]"

definition "enum_class.enum_all P \<longleftrightarrow>
  P QUEUED \<and> P LEASED \<and> P RUNNING \<and> P SUCCEEDED \<and> P FAILED \<and> P CANCELED"

definition "enum_class.enum_ex P \<longleftrightarrow>
  P QUEUED \<or> P LEASED \<or> P RUNNING \<or> P SUCCEEDED \<or> P FAILED \<or> P CANCELED"

instance
proof
  show "UNIV = set (enum_class.enum :: task_status list)"
    using task_status.exhaust by (auto simp: enum_task_status_def)
  show "distinct (enum_class.enum :: task_status list)" by (simp add: enum_task_status_def)
  show "enum_class.enum_all P \<longleftrightarrow> Ball UNIV P" for P :: "task_status \<Rightarrow> bool"
    by (metis (full_types) UNIV_I enum_all_task_status_def task_status.exhaust)
  show "enum_class.enum_ex P \<longleftrightarrow> Bex UNIV P" for P :: "task_status \<Rightarrow> bool"
    by (metis (full_types) UNIV_I enum_ex_task_status_def task_status.exhaust)
qed

end

definition terminal_states :: "task_status list" where
  "terminal_states = [SUCCEEDED, FAILED, CANCELED]"

definition status_is_terminal :: "task_status \<Rightarrow> bool" where
  "status_is_terminal s \<longleftrightarrow> s \<in> set terminal_states"

fun status_value :: "task_status \<Rightarrow> string" where
  "status_value QUEUED = ''queued''"
| "status_value LEASED = ''leased''"
| "status_value RUNNING = ''running''"
| "status_value SUCCEEDED = ''succeeded''"
| "status_value FAILED = ''failed''"
| "status_value CANCELED = ''canceled''"

fun outcome_value :: "outcome \<Rightarrow> string" where
  "outcome_value O_SUCCEEDED = ''succeeded''"
| "outcome_value O_FAILED = ''failed''"
| "outcome_value O_CANCELED = ''canceled''"

fun kind_value :: "principal_kind \<Rightarrow> string" where
  "kind_value AGENT = ''agent''"
| "kind_value WORKER = ''worker''"
| "kind_value SERVICE = ''service''"
| "kind_value SYSTEM = ''system''"
| "kind_value HUMAN = ''human''"

fun receipt_type_value :: "receipt_type \<Rightarrow> string" where
  "receipt_type_value TASK_ASSIGNED = ''task.assigned''"
| "receipt_type_value TASK_ACCEPTED = ''task.accepted''"
| "receipt_type_value TASK_STARTED = ''task.started''"
| "receipt_type_value TASK_COMPLETED = ''task.completed''"
| "receipt_type_value TASK_FAILED = ''task.failed''"
| "receipt_type_value TASK_CANCELED = ''task.canceled''"
| "receipt_type_value TASK_RETRY_SCHEDULED = ''task.retry_scheduled''"
| "receipt_type_value TASK_RESULT_READY = ''task.result_ready''"
| "receipt_type_value TASK_PROGRESS = ''task.progress''"
| "receipt_type_value LEASE_EXPIRED = ''lease.expired''"
| "receipt_type_value TASK_ESCALATED = ''task.escalated''"
| "receipt_type_value RECEIPT_ACKNOWLEDGED = ''receipt.acknowledged''"
| "receipt_type_value SYSTEM_ANOMALY = ''system.anomaly''"

definition all_receipt_types :: "receipt_type list" where
  "all_receipt_types = [TASK_ASSIGNED, TASK_ACCEPTED, TASK_STARTED, TASK_COMPLETED, TASK_FAILED,
     TASK_CANCELED, TASK_RETRY_SCHEDULED, TASK_RESULT_READY, TASK_PROGRESS, LEASE_EXPIRED,
     TASK_ESCALATED, RECEIPT_ACKNOWLEDGED, SYSTEM_ANOMALY]"

text \<open>The enum constructors on wire values: \<open>TaskStatus(s)\<close> and the like, None for \<open>ValueError\<close>.\<close>

definition task_status_of :: "string \<Rightarrow> task_status option" where
  "task_status_of s = find (\<lambda>x. status_value x = s) enum_class.enum"

definition principal_kind_of :: "string \<Rightarrow> principal_kind option" where
  "principal_kind_of s = find (\<lambda>x. kind_value x = s) [AGENT, WORKER, SERVICE, SYSTEM, HUMAN]"

definition receipt_type_of :: "string \<Rightarrow> receipt_type option" where
  "receipt_type_of s = find (\<lambda>x. receipt_type_value x = s) all_receipt_types"

lemma task_status_of_value [simp]: "task_status_of (status_value x) = Some x"
  by (cases x) (simp_all add: task_status_of_def enum_task_status_def)

lemma principal_kind_of_value [simp]: "principal_kind_of (kind_value x) = Some x"
  by (cases x) (simp_all add: principal_kind_of_def)

lemma receipt_type_of_value [simp]: "receipt_type_of (receipt_type_value x) = Some x"
  by (cases x) (simp_all add: receipt_type_of_def all_receipt_types_def)

lemma kind_value_inject [simp]: "kind_value x = kind_value y \<longleftrightarrow> x = y"
  by (metis option.inject principal_kind_of_value)

lemma receipt_type_value_inject [simp]: "receipt_type_value x = receipt_type_value y \<longleftrightarrow> x = y"
  by (metis option.inject receipt_type_of_value)

section \<open>Records\<close>

record principal =
  p_kind :: principal_kind
  p_id :: string
  p_instance :: "string option"

record task_requirements =
  capabilities :: "string list"
  tags :: "string list"

record task_result =
  tr_outcome :: outcome
  tr_result :: "dict option"
  tr_error :: "dict option"
  tr_artifacts :: "json option"
  tr_completed_at :: datetime

record task =
  t_tenant :: uuid
  t_id :: uuid
  t_type :: string
  t_payload :: dict
  t_payload_pointer :: "string option"
  t_created_by :: principal
  t_principal_ai :: string
  t_requirements :: task_requirements
  t_expected_outcome_kind :: "string option"
  t_expected_artifact_mime :: "string option"
  t_priority :: int
  t_status :: task_status
  t_attempt :: int
  t_max_attempts :: int
  t_retry_backoff :: int
  t_idempotency_key :: "string option"
  t_created_at :: datetime
  t_updated_at :: datetime
  t_next_eligible_at :: "datetime option"
  t_started_at :: "datetime option"
  t_result :: "task_result option"
  t_instance :: "string option"

record lease =
  l_id :: uuid
  l_tenant :: uuid
  l_task :: uuid
  l_worker :: string
  l_expires_at :: datetime
  l_created_at :: datetime
  l_acquired_at :: datetime
  l_renewal_count :: int

record receipt =
  r_tenant :: uuid
  r_id :: uuid
  r_type :: receipt_type
  r_created_at :: datetime
  r_from :: principal
  r_to :: principal
  r_task :: "uuid option"
  r_lease :: "uuid option"
  r_schedule :: "string option"
  r_parents :: "uuid list"
  r_body :: dict
  r_hash :: "string option"
  r_instance :: "string option"
  r_delivered_at :: "datetime option"

record progress =
  pr_tenant :: uuid
  pr_task :: uuid
  pr_progress :: dict
  pr_updated_at :: datetime

record relationship =
  rel_tenant :: uuid
  rel_kind :: principal_kind
  rel_id :: string
  rel_instance :: "string option"
  rel_first_seen_at :: datetime
  rel_last_seen_at :: datetime
  rel_sessions :: int

definition mk_principal :: "principal_kind \<Rightarrow> string \<Rightarrow> principal" where
  "mk_principal k i = \<lparr>p_kind = k, p_id = i, p_instance = None\<rparr>"

lemma mk_principal_sel [simp]:
  "p_kind (mk_principal k i) = k" "p_id (mk_principal k i) = i" "p_instance (mk_principal k i) = None"
  by (simp_all add: mk_principal_def)

definition t_key :: "task \<Rightarrow> uuid \<times> uuid" where "t_key t = (t_tenant t, t_id t)"

definition l_key :: "lease \<Rightarrow> uuid \<times> uuid" where "l_key l = (l_tenant l, l_task l)"

definition r_key :: "receipt \<Rightarrow> uuid \<times> uuid" where "r_key r = (r_tenant r, r_id r)"

section \<open>\<open>Task\<close> and \<open>Lease\<close> methods\<close>

definition is_terminal :: "task \<Rightarrow> bool" where
  "is_terminal t = status_is_terminal (t_status t)"

fun valid_transitions :: "task_status \<Rightarrow> task_status list" where
  "valid_transitions QUEUED = [LEASED, CANCELED]"
| "valid_transitions LEASED = [RUNNING, SUCCEEDED, FAILED, CANCELED, QUEUED]"
| "valid_transitions RUNNING = [SUCCEEDED, FAILED, CANCELED, QUEUED]"
| "valid_transitions FAILED = [QUEUED]"
| "valid_transitions SUCCEEDED = []"
| "valid_transitions CANCELED = []"

definition can_transition_to :: "task \<Rightarrow> task_status \<Rightarrow> bool" where
  "can_transition_to t s \<longleftrightarrow> s \<in> set (valid_transitions (t_status t))"

definition is_expired :: "lease \<Rightarrow> datetime \<Rightarrow> bool" where
  "is_expired l now \<longleftrightarrow> l_expires_at l \<le> now"

definition in_flight :: "task_status \<Rightarrow> bool" where
  "in_flight s \<longleftrightarrow> s = LEASED \<or> s = RUNNING"

lemma status_is_terminal_simps [simp]:
  "\<not> status_is_terminal QUEUED" "\<not> status_is_terminal LEASED" "\<not> status_is_terminal RUNNING"
  "status_is_terminal SUCCEEDED" "status_is_terminal FAILED" "status_is_terminal CANCELED"
  by (simp_all add: status_is_terminal_def terminal_states_def)

lemma in_flight_simps [simp]:
  "in_flight LEASED" "in_flight RUNNING" "\<not> in_flight QUEUED" "\<not> in_flight SUCCEEDED"
  "\<not> in_flight FAILED" "\<not> in_flight CANCELED"
  by (simp_all add: in_flight_def)

lemma in_flight_not_terminal: "in_flight s \<Longrightarrow> \<not> status_is_terminal s"
  by (cases s) auto

section \<open>Termination semantics (\<open>models/termination.py\<close>)\<close>

definition TERMINATION_RULES :: "(receipt_type \<times> receipt_type list) list" where
  "TERMINATION_RULES = [(TASK_ASSIGNED, [TASK_COMPLETED, TASK_FAILED, TASK_CANCELED])]"

definition TERMINAL_RECEIPT_TYPES :: "receipt_type list" where
  "TERMINAL_RECEIPT_TYPES = concat (map snd TERMINATION_RULES)"

definition get_terminal_types :: "receipt_type \<Rightarrow> receipt_type list" where
  "get_terminal_types ty = (case map_of TERMINATION_RULES ty of None \<Rightarrow> [] | Some ts \<Rightarrow> ts)"

definition is_terminal_type :: "receipt_type \<Rightarrow> bool" where
  "is_terminal_type ty \<longleftrightarrow> ty \<in> set TERMINAL_RECEIPT_TYPES"

definition can_terminate_type :: "receipt_type \<Rightarrow> receipt_type \<Rightarrow> bool" where
  "can_terminate_type terminal obligation \<longleftrightarrow> terminal \<in> set (get_terminal_types obligation)"

definition get_obligation_types :: "receipt_type list" where
  "get_obligation_types = map fst TERMINATION_RULES"

lemma is_terminal_type_iff:
  "is_terminal_type ty \<longleftrightarrow> ty = TASK_COMPLETED \<or> ty = TASK_FAILED \<or> ty = TASK_CANCELED"
  by (auto simp: is_terminal_type_def TERMINAL_RECEIPT_TYPES_def TERMINATION_RULES_def)

lemma get_obligation_types_eq: "get_obligation_types = [TASK_ASSIGNED]"
  by (simp add: get_obligation_types_def TERMINATION_RULES_def)

section \<open>Receipt bodies (\<open>ReceiptBody\<close>)\<close>

definition dump_requirements :: "task_requirements \<Rightarrow> dict" where
  "dump_requirements q = [(''capabilities'', JList (map JStr (capabilities q))),
     (''tags'', JList (map JStr (tags q)))]"

definition body_task_assigned :: "string \<Rightarrow> dict option \<Rightarrow> dict" where
  "body_task_assigned instructions requirements =
     [(''instructions'', JStr instructions), (''requirements'', JDict (dict_of requirements)),
      (''success_criteria'', JNull), (''result_delivery'', JStr ''return_payload''),
      (''timeouts'', JDict [])]"

definition body_task_accepted :: "string list \<Rightarrow> dict" where
  "body_task_accepted caps =
     [(''worker_capabilities'', JList (map JStr caps)), (''expected_duration'', JNull)]"

definition body_task_started :: "datetime option \<Rightarrow> dict" where
  "body_task_started at = [(''started_at'', str_opt (map_option isoformat at))]"

definition body_task_completed :: "string \<Rightarrow> dict option \<Rightarrow> json option \<Rightarrow> dict" where
  "body_task_completed summary payload artifacts =
     [(''result_summary'', JStr summary), (''result_payload'', dict_opt payload),
      (''artifacts'', json_opt artifacts), (''delivery_proof'', JNull),
      (''completion_metadata'', JDict [])]"

definition body_task_failed :: "dict \<Rightarrow> bool \<Rightarrow> dict" where
  "body_task_failed err retry_recommended =
     [(''error'', JDict err), (''retry_recommended'', JBool retry_recommended),
      (''retry_after_seconds'', JNull)]"

definition body_task_result_ready ::
    "string \<Rightarrow> dict option \<Rightarrow> dict option \<Rightarrow> json option \<Rightarrow> dict" where
  "body_task_result_ready status payload err artifacts =
     [(''status'', JStr status), (''result_payload'', dict_opt payload), (''error'', dict_opt err),
      (''artifacts'', json_opt artifacts), (''how_to_retrieve'', JNull)]"

definition body_lease_expired :: "uuid \<Rightarrow> string \<Rightarrow> int \<Rightarrow> bool \<Rightarrow> dict" where
  "body_lease_expired task_id previous_worker attempt requeued =
     [(''task_id'', JStr (uuid_str task_id)), (''previous_worker_id'', JStr previous_worker),
      (''attempt'', JInt attempt), (''requeued'', JBool requeued)]"

definition body_task_escalated ::
    "string \<Rightarrow> string \<Rightarrow> string \<Rightarrow> string option \<Rightarrow> string option \<Rightarrow> dict" where
  "body_task_escalated class_label reason escalation_to outcome_kind artifact_mime =
     [(''escalation_class'', JStr class_label), (''escalation_reason'', JStr reason),
      (''escalation_to'', JStr escalation_to), (''expected_outcome_kind'', str_opt outcome_kind),
      (''expected_artifact_mime'', str_opt artifact_mime)]"

section \<open>Exceptions\<close>

text \<open>
  The engine's errors with their fields, the client's, and the Python and library
  exceptions the modelled code raises or lets through. A \<open>ValueError\<close> carries the reason
  instead of its message text.
\<close>

datatype value_error =
    Principal_ai_required
  | Missing_assigned_receipt uuid
  | Body_too_large nat
  | Too_many_parents nat
  | Too_many_artifacts nat
  | Terminal_without_parents receipt_type
  | Parent_not_found uuid uuid
  | Bad_uuid string
  | Bad_enum string
  | Bad_datetime string
  | Bad_config string
  | Unknown_tool string

datatype exn =
    TaskNotFound uuid
  | InvalidStateTransition task_status task_status
  | LeaseInvalidOrExpired uuid uuid
  | UnauthorizedError string
  | LeaseRenewalLimitExceeded uuid uuid int int
  | LeaseLifetimeExceeded uuid uuid int int
  | ReceiptNotYetCommitted receipt_type "uuid option" string
  | ReceiptUnbufferable
  | ReceiptRefused string string
  | CircuitBreakerOpen int
  | ValueError value_error
  | ValidationError
  | KeyError string
  | AttributeError string
  | PyTypeError string
  | IntegrityError
  | DataError
  | MultipleResultsFound
  | OverflowError
  | IndexError
  | RuntimeError string
  | HTTPException int
  | TransportError string

text \<open>The \<open>code\<close> attribute, where the exception has one (\<open>AsyncGateError\<close>, \<open>ReceiptRefused\<close>).\<close>

fun error_code :: "exn \<Rightarrow> string option" where
  "error_code (TaskNotFound _) = Some ''TASK_NOT_FOUND''"
| "error_code (InvalidStateTransition _ _) = Some ''INVALID_STATE_TRANSITION''"
| "error_code (LeaseInvalidOrExpired _ _) = Some ''LEASE_INVALID_OR_EXPIRED''"
| "error_code (UnauthorizedError _) = Some ''UNAUTHORIZED''"
| "error_code (LeaseRenewalLimitExceeded _ _ _ _) = Some ''LEASE_RENEWAL_LIMIT_EXCEEDED''"
| "error_code (LeaseLifetimeExceeded _ _ _ _) = Some ''LEASE_LIFETIME_EXCEEDED''"
| "error_code (ReceiptNotYetCommitted _ _ _) = Some ''ASYNCGATE_ERROR''"
| "error_code (ReceiptRefused c _) = Some c"
| "error_code _ = None"

end
