(* ===== verification/Config.thy ===== *)
theory Config
  imports Models
begin

text \<open>
  \<open>src/asyncgate/config.py\<close>: the settings the modelled code reads, with their defaults,
  validators and lookups. Settings that only reach libraries (log level, CORS, server host)
  are left out.
\<close>

datatype environment = DEVELOPMENT | STAGING | PRODUCTION

datatype receipt_mode = STANDALONE | RECEIPTGATE_INTEGRATED

fun environment_value :: "environment \<Rightarrow> string" where
  "environment_value DEVELOPMENT = ''development''"
| "environment_value STAGING = ''staging''"
| "environment_value PRODUCTION = ''production''"

fun receipt_mode_value :: "receipt_mode \<Rightarrow> string" where
  "receipt_mode_value STANDALONE = ''standalone''"
| "receipt_mode_value RECEIPTGATE_INTEGRATED = ''receiptgate_integrated''"

record escalation_target =
  et_class :: int
  et_to_kind :: string
  et_to_id :: string
  et_tenant :: "string option"

record settings =
  environment :: environment
  instance_id :: string
  receipt_mode :: receipt_mode
  receiptgate_endpoint :: "string option"
  default_tenant_id :: string
  emission_buffer_size :: int
  emission_retry_interval :: int
  emission_max_retries :: int
  breaker_enabled :: bool
  breaker_failure_threshold :: int
  breaker_timeout_seconds :: int
  breaker_half_open_max_calls :: int
  breaker_success_threshold :: int
  rate_limit_enabled :: bool
  rate_limit_backend :: string
  rate_limit_default_calls :: int
  rate_limit_default_window :: int
  redis_url :: "string option"
  lease_sweep_interval :: int
  default_lease_ttl :: int
  max_lease_ttl :: int
  max_lease_renewals :: int
  max_lease_lifetime :: int
  default_max_attempts :: int
  default_retry_backoff :: int
  max_retry_backoff :: int
  default_priority :: int
  default_list_limit :: int
  max_list_limit :: int
  default_bootstrap_max_items :: int
  max_bootstrap_max_items :: int
  escalation_enabled :: bool
  escalation_targets :: "escalation_target list"
  escalation_lease_expiry_class :: int
  allow_insecure_dev :: bool
  api_key :: "string option"

definition default_settings :: settings where
  "default_settings = \<lparr>
     environment = DEVELOPMENT, instance_id = ''asyncgate-1'', receipt_mode = STANDALONE,
     receiptgate_endpoint = None,
     default_tenant_id = ''00000000-0000-0000-0000-000000000000'',
     emission_buffer_size = 10000, emission_retry_interval = 30, emission_max_retries = 10,
     breaker_enabled = True, breaker_failure_threshold = 5, breaker_timeout_seconds = 60,
     breaker_half_open_max_calls = 3, breaker_success_threshold = 2,
     rate_limit_enabled = True, rate_limit_backend = ''memory'', rate_limit_default_calls = 100,
     rate_limit_default_window = 60, redis_url = None,
     lease_sweep_interval = 5, default_lease_ttl = 120, max_lease_ttl = 1800, max_lease_renewals = 10,
     max_lease_lifetime = 7200, default_max_attempts = 2, default_retry_backoff = 15,
     max_retry_backoff = 900, default_priority = 0, default_list_limit = 50,
     max_list_limit = 200, default_bootstrap_max_items = 50, max_bootstrap_max_items = 200,
     escalation_enabled = False, escalation_targets = [], escalation_lease_expiry_class = 1,
     allow_insecure_dev = False, api_key = None\<rparr>"

definition rate_limit_active :: "settings \<Rightarrow> bool" where
  "rate_limit_active s \<longleftrightarrow>
     (if environment s = STAGING \<or> environment s = PRODUCTION then True else rate_limit_enabled s)"

definition get_escalation_target :: "settings \<Rightarrow> int \<Rightarrow> escalation_target option" where
  "get_escalation_target s class_id = find (\<lambda>t. et_class t = class_id) (escalation_targets s)"

section \<open>Validators\<close>

definition validate_database_url :: "string \<Rightarrow> exn + string" where
  "validate_database_url v =
     (if starts_with v ''postgresql://'' \<or> starts_with v ''postgresql+asyncpg://'' then Inr v
      else Inl (ValueError (Bad_config ''database_url'')))"

definition validate_port :: "int \<Rightarrow> exn + int" where
  "validate_port v = (if 1 \<le> v \<and> v \<le> 65535 then Inr v else Inl (ValueError (Bad_config ''port'')))"

definition validate_integration_url :: "string option \<Rightarrow> exn + string option" where
  "validate_integration_url v =
     (case v of None \<Rightarrow> Inr v
      | Some u \<Rightarrow>
          if u \<noteq> [] \<and> \<not> (starts_with u ''http://'' \<or> starts_with u ''https://''
               \<or> starts_with u ''redis://'' \<or> starts_with u ''rediss://'')
          then Inl (ValueError (Bad_config ''url'')) else Inr v)"

text \<open>
  \<open>info.data\<close> holds the fields validated before \<open>api_key\<close>: \<open>env\<close> and
  \<open>allow_insecure_dev\<close> are declared above it.
\<close>

definition validate_api_key :: "environment \<Rightarrow> bool \<Rightarrow> string option \<Rightarrow> exn + string option" where
  "validate_api_key env allow_insecure v =
     (if (env = PRODUCTION \<or> env = STAGING) \<and> \<not> truthy_str v
      then Inl (ValueError (Bad_config ''api_key is required in environment''))
      else if \<not> truthy_str v \<and> \<not> allow_insecure
      then Inl (ValueError (Bad_config ''api_key is required''))
      else Inr v)"

lemma validate_api_key_closed:
  "validate_api_key env insecure v = Inr k \<Longrightarrow> truthy_str k \<or> (env = DEVELOPMENT \<and> insecure)"
  by (cases env) (auto simp: validate_api_key_def split: if_splits)

lemma get_escalation_target_class:
  "get_escalation_target s c = Some t \<Longrightarrow> t \<in> set (escalation_targets s) \<and> et_class t = c"
  by (auto simp: get_escalation_target_def find_Some_iff)

end
