(* ===== verification/CircuitBreaker.thy ===== *)
theory CircuitBreaker
  imports Models
begin

text \<open>
  \<open>src/asyncgate/integrations/circuit_breaker.py\<close>. The breaker is a record; each method is
  a function on it that receives the clock readings it takes. The critical sections of
  \<open>call\<close> (admission under the lock, then the outcome recorded under the lock again) are
  separate functions, so the step relation below interleaves concurrent calls. The awaited
  call itself is composed in the theory ReceiptGateClient.
\<close>

datatype circuit_state = CLOSED | OPEN | HALF_OPEN

fun circuit_state_value :: "circuit_state \<Rightarrow> string" where
  "circuit_state_value CLOSED = ''closed''"
| "circuit_state_value OPEN = ''open''"
| "circuit_state_value HALF_OPEN = ''half_open''"

record breaker_config =
  failure_threshold :: int
  timeout_seconds :: int
  half_open_max_calls :: int
  success_threshold :: int

record breaker =
  cb_state :: circuit_state
  cb_failure_count :: int
  cb_success_count :: int
  cb_last_failure_time :: "datetime option"
  cb_opened_at :: "datetime option"
  cb_half_open_calls :: int
  cb_total_calls :: int
  cb_total_failures :: int
  cb_total_successes :: int

definition new_breaker :: breaker where
  "new_breaker = \<lparr>cb_state = CLOSED, cb_failure_count = 0, cb_success_count = 0,
     cb_last_failure_time = None, cb_opened_at = None, cb_half_open_calls = 0,
     cb_total_calls = 0, cb_total_failures = 0, cb_total_successes = 0\<rparr>"

section \<open>Methods\<close>

definition transition_to_open :: "datetime \<Rightarrow> breaker \<Rightarrow> breaker" where
  "transition_to_open now b = b\<lparr>cb_state := OPEN, cb_opened_at := Some now, cb_half_open_calls := 0\<rparr>"

definition transition_to_half_open :: "breaker \<Rightarrow> breaker" where
  "transition_to_half_open b = b\<lparr>cb_state := HALF_OPEN, cb_success_count := 0,
     cb_failure_count := 0, cb_half_open_calls := 0\<rparr>"

definition transition_to_closed :: "breaker \<Rightarrow> breaker" where
  "transition_to_closed b = b\<lparr>cb_state := CLOSED, cb_failure_count := 0, cb_success_count := 0,
     cb_opened_at := None, cb_half_open_calls := 0\<rparr>"

text \<open>A \<open>timedelta\<close> is compared in microseconds, \<open>int()\<close> of its seconds truncates.\<close>

definition should_attempt_reset :: "breaker_config \<Rightarrow> datetime \<Rightarrow> breaker \<Rightarrow> bool" where
  "should_attempt_reset cfg now b = (case cb_opened_at b of
     None \<Rightarrow> False
   | Some opened \<Rightarrow> timeout_seconds cfg * second \<le> now - opened)"

definition seconds_until_half_open :: "breaker_config \<Rightarrow> datetime \<Rightarrow> breaker \<Rightarrow> int" where
  "seconds_until_half_open cfg now b = (case cb_opened_at b of
     None \<Rightarrow> timeout_seconds cfg
   | Some opened \<Rightarrow> trunc_seconds (max 0 (timeout_seconds cfg * second - (now - opened))))"

datatype admission = Admit | Reject

text \<open>The first critical section of \<open>call\<close>, up to the fallback or the raise.\<close>

definition admit :: "breaker_config \<Rightarrow> datetime \<Rightarrow> breaker \<Rightarrow> admission \<times> breaker" where
  "admit cfg now b0 =
     (let b = b0\<lparr>cb_total_calls := cb_total_calls b0 + 1\<rparr> in
      if cb_state b = OPEN \<and> \<not> should_attempt_reset cfg now b then (Reject, b)
      else
        let b = (if cb_state b = OPEN then transition_to_half_open b else b) in
        if cb_state b = HALF_OPEN then
          if half_open_max_calls cfg \<le> cb_half_open_calls b then (Reject, b)
          else (Admit, b\<lparr>cb_half_open_calls := cb_half_open_calls b + 1\<rparr>)
        else (Admit, b))"

definition on_success :: "breaker_config \<Rightarrow> breaker \<Rightarrow> breaker" where
  "on_success cfg b0 =
     (let b = b0\<lparr>cb_success_count := cb_success_count b0 + 1,
                cb_total_successes := cb_total_successes b0 + 1, cb_failure_count := 0\<rparr> in
      if cb_state b = HALF_OPEN \<and> success_threshold cfg \<le> cb_success_count b
      then transition_to_closed b else b)"

definition on_failure :: "breaker_config \<Rightarrow> datetime \<Rightarrow> datetime \<Rightarrow> breaker \<Rightarrow> breaker" where
  "on_failure cfg failed_at opened_at b0 =
     (let b = b0\<lparr>cb_failure_count := cb_failure_count b0 + 1,
                cb_total_failures := cb_total_failures b0 + 1, cb_success_count := 0,
                cb_last_failure_time := Some failed_at\<rparr> in
      if cb_state b = HALF_OPEN then transition_to_open opened_at b
      else if cb_state b = CLOSED \<and> failure_threshold cfg \<le> cb_failure_count b
      then transition_to_open opened_at b
      else b)"

text \<open>Whether \<open>_on_failure\<close> reads the clock a second time, for \<open>opened_at\<close>.\<close>

definition failure_opens :: "breaker_config \<Rightarrow> breaker \<Rightarrow> bool" where
  "failure_opens cfg b \<longleftrightarrow> cb_state b = HALF_OPEN \<or>
     (cb_state b = CLOSED \<and> failure_threshold cfg \<le> cb_failure_count b + 1)"

lemma failure_opens_iff: "cb_state b \<noteq> OPEN \<Longrightarrow> failure_opens cfg b \<longleftrightarrow> cb_state (on_failure cfg t u b) = OPEN"
  by (cases "cb_state b") (simp_all add: failure_opens_def on_failure_def transition_to_open_def Let_def)

definition cb_reset :: "breaker \<Rightarrow> breaker" where
  "cb_reset b = transition_to_closed b"

lemmas cb_defs = transition_to_open_def transition_to_half_open_def transition_to_closed_def
  should_attempt_reset_def admit_def on_success_def on_failure_def cb_reset_def Let_def

section \<open>Interleavings of concurrent calls\<close>

text \<open>
  The state is the breaker and the number of admitted calls whose outcome is not recorded
  yet: \<open>func\<close> is awaited outside the lock, so calls admitted in one state may record their
  outcome in another.
\<close>

datatype cb_event = Call datetime | Success | Failure datetime datetime | Refusal | Reset

inductive cb_step :: "breaker_config \<Rightarrow> breaker \<times> nat \<Rightarrow> cb_event \<Rightarrow> breaker \<times> nat \<Rightarrow> bool"
  for cfg where
  admitted: "admit cfg now b = (Admit, b') \<Longrightarrow> cb_step cfg (b, n) (Call now) (b', Suc n)"
| rejected: "admit cfg now b = (Reject, b') \<Longrightarrow> cb_step cfg (b, n) (Call now) (b', n)"
| success: "cb_step cfg (b, Suc n) Success (on_success cfg b, n)"
| failure: "cb_step cfg (b, Suc n) (Failure t u) (on_failure cfg t u b, n)"
| refusal: "cb_step cfg (b, Suc n) Refusal (b, n)"
| reset: "cb_step cfg (b, n) Reset (cb_reset b, n)"

inductive_cases cb_step_callE: "cb_step cfg s (Call now) s'"
inductive_cases cb_stepE: "cb_step cfg (b, n) ev (b', n')"

inductive cb_reachable :: "breaker_config \<Rightarrow> breaker \<times> nat \<Rightarrow> bool" for cfg where
  init: "cb_reachable cfg (new_breaker, 0)"
| step: "cb_reachable cfg s \<Longrightarrow> cb_step cfg s ev s' \<Longrightarrow> cb_reachable cfg s'"

definition cb_inv :: "breaker_config \<Rightarrow> breaker \<Rightarrow> bool" where
  "cb_inv cfg b \<longleftrightarrow>
     (cb_state b = CLOSED \<longrightarrow> cb_opened_at b = None \<and> cb_half_open_calls b = 0 \<and>
        (0 < failure_threshold cfg \<longrightarrow> cb_failure_count b < failure_threshold cfg)) \<and>
     (cb_state b = OPEN \<longrightarrow> cb_opened_at b \<noteq> None \<and> cb_half_open_calls b = 0) \<and>
     (cb_state b = HALF_OPEN \<longrightarrow> cb_opened_at b \<noteq> None \<and>
        (0 < success_threshold cfg \<longrightarrow> cb_success_count b < success_threshold cfg) \<and>
        (0 \<le> half_open_max_calls cfg \<longrightarrow>
           0 \<le> cb_half_open_calls b \<and> cb_half_open_calls b \<le> half_open_max_calls cfg)) \<and>
     0 \<le> cb_failure_count b \<and> 0 \<le> cb_success_count b"

lemma cb_inv_new: "cb_inv cfg new_breaker"
  by (simp add: cb_inv_def new_breaker_def)

lemma cb_inv_admit: "cb_inv cfg b \<Longrightarrow> admit cfg now b = (a, b') \<Longrightarrow> cb_inv cfg b'"
  by (cases "cb_state b") (auto simp: cb_inv_def cb_defs split: if_splits)

lemma cb_inv_on_success: "cb_inv cfg b \<Longrightarrow> cb_inv cfg (on_success cfg b)"
  by (cases "cb_state b") (auto simp: cb_inv_def cb_defs)

lemma cb_inv_on_failure: "cb_inv cfg b \<Longrightarrow> cb_inv cfg (on_failure cfg t u b)"
  by (cases "cb_state b") (auto simp: cb_inv_def cb_defs)

lemma cb_inv_reset: "cb_inv cfg b \<Longrightarrow> cb_inv cfg (cb_reset b)"
  by (auto simp: cb_inv_def cb_defs)

lemma cb_step_inv: "cb_step cfg s ev s' \<Longrightarrow> cb_inv cfg (fst s) \<Longrightarrow> cb_inv cfg (fst s')"
  by (induction rule: cb_step.induct)
    (auto simp: cb_inv_on_success cb_inv_on_failure cb_inv_reset intro: cb_inv_admit)

lemma cb_reachable_inv: "cb_reachable cfg s \<Longrightarrow> cb_inv cfg (fst s)"
  by (induction rule: cb_reachable.induct) (auto simp: cb_inv_new intro: cb_step_inv)

section \<open>Behaviour in each state\<close>

lemma admit_closed: "cb_state b = CLOSED \<Longrightarrow>
    admit cfg now b = (Admit, b\<lparr>cb_total_calls := cb_total_calls b + 1\<rparr>)"
  by (simp add: cb_defs)

lemma admit_open_waits: "cb_state b = OPEN \<Longrightarrow> \<not> should_attempt_reset cfg now b \<Longrightarrow>
    admit cfg now b = (Reject, b\<lparr>cb_total_calls := cb_total_calls b + 1\<rparr>)"
  by (simp add: cb_defs split: option.splits)

lemma admit_open_probes: "cb_state b = OPEN \<Longrightarrow> should_attempt_reset cfg now b \<Longrightarrow>
    0 < half_open_max_calls cfg \<Longrightarrow>
    fst (admit cfg now b) = Admit \<and> cb_state (snd (admit cfg now b)) = HALF_OPEN \<and>
    cb_half_open_calls (snd (admit cfg now b)) = 1"
  by (simp add: cb_defs split: option.splits)

text \<open>How the state moves: the transitions the class comment draws, and a manual reset.\<close>

definition cb_may_move :: "circuit_state \<Rightarrow> circuit_state \<Rightarrow> bool" where
  "cb_may_move s s' \<longleftrightarrow> s = s' \<or> (s, s') \<in> {(CLOSED, OPEN), (OPEN, HALF_OPEN), (HALF_OPEN, CLOSED), (HALF_OPEN, OPEN)}"

lemma cb_step_moves:
  "cb_step cfg s ev s' \<Longrightarrow> ev \<noteq> Reset \<Longrightarrow> cb_may_move (cb_state (fst s)) (cb_state (fst s'))"
proof (induction rule: cb_step.induct)
  case (admitted now b b' n)
  then show ?case by (cases "cb_state b") (auto simp: cb_may_move_def cb_defs split: if_splits)
next
  case (rejected now b b' n)
  then show ?case by (cases "cb_state b") (auto simp: cb_may_move_def cb_defs split: if_splits)
next
  case (success b n)
  then show ?case by (cases "cb_state b") (auto simp: cb_may_move_def cb_defs)
next
  case (failure b n t u)
  then show ?case by (cases "cb_state b") (auto simp: cb_may_move_def cb_defs)
qed (auto simp: cb_may_move_def)

text \<open>Consecutive failures open a closed breaker exactly at the threshold.\<close>

fun fail_times :: "breaker_config \<Rightarrow> (datetime \<times> datetime) list \<Rightarrow> breaker \<Rightarrow> breaker" where
  "fail_times cfg [] b = b"
| "fail_times cfg ((t, u) # ts) b = fail_times cfg ts (on_failure cfg t u b)"

lemma fail_times_stays_closed:
  "cb_state b = CLOSED \<Longrightarrow> cb_failure_count b + int (length ts) < failure_threshold cfg \<Longrightarrow>
   cb_state (fail_times cfg ts b) = CLOSED \<and>
   cb_failure_count (fail_times cfg ts b) = cb_failure_count b + int (length ts)"
  by (induction cfg ts b rule: fail_times.induct) (auto simp: on_failure_def Let_def)

lemma fail_times_append: "fail_times cfg (ts @ us) b = fail_times cfg us (fail_times cfg ts b)"
  by (induction cfg ts b rule: fail_times.induct) auto

text \<open>
  A breaker that used up its half-open calls without recording enough successes or any
  failure admits no further call, at whatever time it is asked.
\<close>

definition wedged :: "breaker_config \<Rightarrow> breaker \<Rightarrow> bool" where
  "wedged cfg b \<longleftrightarrow> cb_state b = HALF_OPEN \<and> half_open_max_calls cfg \<le> cb_half_open_calls b"

lemma wedged_rejects:
  "wedged cfg b \<Longrightarrow> admit cfg now b = (Reject, b\<lparr>cb_total_calls := cb_total_calls b + 1\<rparr>)"
  by (simp add: wedged_def cb_defs)

lemma wedged_step:
  "cb_step cfg s ev s' \<Longrightarrow> ev \<noteq> Reset \<Longrightarrow> snd s = 0 \<Longrightarrow> wedged cfg (fst s) \<Longrightarrow>
   snd s' = 0 \<and> wedged cfg (fst s')"
  by (induction rule: cb_step.induct) (auto simp: wedged_rejects, auto simp: wedged_def)

inductive cb_run :: "breaker_config \<Rightarrow> breaker \<times> nat \<Rightarrow> cb_event list \<Rightarrow> breaker \<times> nat \<Rightarrow> bool"
  for cfg where
  run_nil: "cb_run cfg s [] s"
| run_cons: "cb_step cfg s ev s' \<Longrightarrow> cb_run cfg s' evs s'' \<Longrightarrow> cb_run cfg s (ev # evs) s''"

lemma wedged_run:
  "cb_run cfg s evs s' \<Longrightarrow> Reset \<notin> set evs \<Longrightarrow> snd s = 0 \<Longrightarrow> wedged cfg (fst s) \<Longrightarrow>
   snd s' = 0 \<and> wedged cfg (fst s')"
proof (induction rule: cb_run.induct)
  case (run_cons s ev s' evs s'')
  then have "ev \<noteq> Reset" by auto
  from wedged_step [OF run_cons.hyps(1) this run_cons.prems(2,3)] run_cons show ?case by auto
qed simp

lemma cb_run_reachable: "cb_run cfg s evs s' \<Longrightarrow> cb_reachable cfg s \<Longrightarrow> cb_reachable cfg s'"
  by (induction rule: cb_run.induct) (auto intro: cb_reachable.step)

section \<open>Properties\<close>

text \<open>C28: in every interleaving of calls, outcomes and resets a closed breaker is below its failure
  threshold, an open one knows since when, and a half-open one has admitted no more probes than allowed
  and is below its success threshold.\<close>

theorem breaker_invariant:
  assumes "cb_reachable cfg (b, n)"
  shows "cb_inv cfg b"
  using cb_reachable_inv [OF assms] by simp

theorem breaker_invariant_witness:
  "cb_inv \<lparr>failure_threshold = 1, timeout_seconds = 60, half_open_max_calls = 1, success_threshold = 1\<rparr>
     (new_breaker\<lparr>cb_state := OPEN, cb_failure_count := 1, cb_total_calls := 1, cb_total_failures := 1,
        cb_last_failure_time := Some 7, cb_opened_at := Some 8\<rparr>)"
proof -
  let ?cfg = "\<lparr>failure_threshold = 1, timeout_seconds = 60, half_open_max_calls = 1, success_threshold = 1\<rparr>"
  have "cb_step ?cfg (new_breaker, 0) (Call 5) (new_breaker\<lparr>cb_total_calls := 1\<rparr>, 1)"
    using cb_step.admitted [of ?cfg 5 new_breaker "new_breaker\<lparr>cb_total_calls := 1\<rparr>" 0]
    by (simp add: admit_def new_breaker_def)
  moreover have "cb_step ?cfg (new_breaker\<lparr>cb_total_calls := 1\<rparr>, 1) (Failure 7 8)
      (new_breaker\<lparr>cb_state := OPEN, cb_failure_count := 1, cb_total_calls := 1, cb_total_failures := 1,
        cb_last_failure_time := Some 7, cb_opened_at := Some 8\<rparr>, 0)"
    using cb_step.failure [of ?cfg "new_breaker\<lparr>cb_total_calls := 1\<rparr>" 0 7 8]
    by (simp add: on_failure_def transition_to_open_def new_breaker_def Let_def)
  ultimately show ?thesis
    by (intro breaker_invariant) (rule cb_reachable.step [OF cb_reachable.step [OF cb_reachable.init]])
qed

text \<open>Consecutive failures of a closed breaker open it at the threshold, not before, and until the
  timeout has passed an open breaker rejects every call.\<close>

lemma breaker_opens_at_threshold:
  assumes "cb_state b = CLOSED" and "cb_failure_count b + int (length ts) + 1 = failure_threshold cfg"
  shows "cb_state (fail_times cfg ts b) = CLOSED \<and> cb_state (fail_times cfg (ts @ [(t, u)]) b) = OPEN \<and>
     (now - u < timeout_seconds cfg * second \<longrightarrow> fst (admit cfg now (fail_times cfg (ts @ [(t, u)]) b)) = Reject)"
proof -
  let ?b = "fail_times cfg ts b"
  have closed: "cb_state ?b = CLOSED" "cb_failure_count ?b = cb_failure_count b + int (length ts)"
    using fail_times_stays_closed [of b ts cfg] assms by simp_all
  with assms(2) have "cb_state (on_failure cfg t u ?b) = OPEN" "cb_opened_at (on_failure cfg t u ?b) = Some u"
    by (simp_all add: on_failure_def transition_to_open_def Let_def)
  with closed show ?thesis by (simp add: fail_times_append admit_def should_attempt_reset_def Let_def)
qed

text \<open>One call that succeeds, repeated.\<close>

definition probes :: "nat \<Rightarrow> datetime \<Rightarrow> cb_event list" where
  "probes k now = concat (replicate k [Call now, Success])"

definition probed :: "breaker_config \<Rightarrow> datetime \<Rightarrow> breaker \<Rightarrow> breaker" where
  "probed cfg now b = on_success cfg (snd (admit cfg now b))"

lemma probe_run:
  assumes "fst (admit cfg now b) = Admit" "cb_run cfg (probed cfg now b, n) (probes k now) s"
  shows "cb_run cfg (b, n) (probes (Suc k) now) s"
proof -
  have "admit cfg now b = (Admit, snd (admit cfg now b))" using assms(1) by (metis prod.collapse)
  from cb_step.admitted [OF this, of n] cb_step.success [of cfg "snd (admit cfg now b)" n] assms(2)
  show ?thesis unfolding probes_def probed_def by (auto intro: cb_run.intros)
qed

lemma probes_close:
  assumes "cb_state b = HALF_OPEN" "cb_success_count b = cb_half_open_calls b" "0 \<le> cb_success_count b"
    and "cb_success_count b + int (Suc k) = success_threshold cfg" "success_threshold cfg \<le> half_open_max_calls cfg"
  shows "\<exists>b'. cb_run cfg (b, n) (probes (Suc k) now) (b', n) \<and> cb_state b' = CLOSED"
  using assms
proof (induction k arbitrary: b)
  case 0
  then have adm: "fst (admit cfg now b) = Admit" and st: "cb_state (probed cfg now b) = CLOSED"
    by (simp_all add: admit_def probed_def on_success_def transition_to_closed_def Let_def)
  then show ?case using probe_run [OF adm, of n 0 "(probed cfg now b, n)"] by (auto simp: probes_def intro: cb_run.run_nil)
next
  case (Suc k)
  have adm: "fst (admit cfg now b) = Admit" using Suc.prems by (simp add: admit_def Let_def)
  have "\<exists>b'. cb_run cfg (probed cfg now b, n) (probes (Suc k) now) (b', n) \<and> cb_state b' = CLOSED"
    by (rule Suc.IH) (use Suc.prems in \<open>simp_all add: admit_def probed_def on_success_def Let_def\<close>)
  then show ?case using probe_run [OF adm] by blast
qed

text \<open>An open breaker whose timeout has passed recovers: as many successful calls as the success
  threshold close it, when at least that many probes may be admitted.\<close>

lemma breaker_recovers:
  assumes "cb_state b = OPEN" "cb_opened_at b = Some t" "timeout_seconds cfg * second \<le> now - t"
    and "0 < success_threshold cfg" "success_threshold cfg \<le> half_open_max_calls cfg"
  shows "\<exists>b'. cb_run cfg (b, n) (probes (nat (success_threshold cfg)) now) (b', n) \<and> cb_state b' = CLOSED"
proof -
  obtain k where k: "nat (success_threshold cfg) = Suc k" using assms(4) by (cases "nat (success_threshold cfg)") simp_all
  then have thr: "success_threshold cfg = int (Suc k)" using assms(4) by simp
  have adm: "fst (admit cfg now b) = Admit" using assms by (simp add: admit_def should_attempt_reset_def transition_to_half_open_def Let_def)
  show ?thesis
  proof (cases k)
    case 0
    then have "cb_state (probed cfg now b) = CLOSED"
      using assms thr by (simp add: probed_def admit_def should_attempt_reset_def transition_to_half_open_def on_success_def
          transition_to_closed_def Let_def)
    then show ?thesis using probe_run [OF adm, of n 0 "(probed cfg now b, n)"] k 0
      by (auto simp: probes_def intro: cb_run.run_nil)
  next
    case (Suc j)
    have "\<exists>b'. cb_run cfg (probed cfg now b, n) (probes (Suc j) now) (b', n) \<and> cb_state b' = CLOSED"
      by (rule probes_close) (use assms thr Suc in \<open>simp_all add: probed_def admit_def should_attempt_reset_def
          transition_to_half_open_def on_success_def Let_def\<close>)
    then show ?thesis using probe_run [OF adm] k Suc by metis
  qed
qed



end
