(* ===== verification/Metrics.thy ===== *)
theory Metrics
  imports Prelude Complex_Main
begin

text \<open>
  \<open>src/asyncgate/observability/metrics.py\<close>: counters, gauges and histograms by name. A
  \<open>float\<close> is a rational; a registry dictionary is a list of entries in insertion order.
\<close>

record histogram =
  h_count :: int
  h_total :: rat
  h_minimum :: "rat option"
  h_maximum :: "rat option"

record metrics_registry =
  m_counters :: "(string \<times> rat) list"
  m_gauges :: "(string \<times> rat) list"
  m_histograms :: "(string \<times> histogram) list"

definition empty_histogram :: histogram where
  "empty_histogram = \<lparr>h_count = 0, h_total = 0, h_minimum = None, h_maximum = None\<rparr>"

definition empty_metrics :: metrics_registry where
  "empty_metrics = \<lparr>m_counters = [], m_gauges = [], m_histograms = []\<rparr>"

text \<open>\<open>setdefault(name, new)\<close> followed by an update of the entry.\<close>

primrec upsert :: "string \<Rightarrow> 'v \<Rightarrow> ('v \<Rightarrow> 'v) \<Rightarrow> (string \<times> 'v) list \<Rightarrow> (string \<times> 'v) list" where
  "upsert k new f [] = [(k, f new)]"
| "upsert k new f (e # es) = (if fst e = k then (k, f (snd e)) # es else e # upsert k new f es)"

definition hist_observe :: "rat \<Rightarrow> histogram \<Rightarrow> histogram" where
  "hist_observe v h = h\<lparr>h_count := h_count h + 1, h_total := h_total h + v,
     h_minimum := (case h_minimum h of None \<Rightarrow> Some v | Some m \<Rightarrow> if v < m then Some v else Some m),
     h_maximum := (case h_maximum h of None \<Rightarrow> Some v | Some m \<Rightarrow> if m < v then Some v else Some m)\<rparr>"

definition hist_average :: "histogram \<Rightarrow> rat" where
  "hist_average h = (if h_count h \<noteq> 0 then h_total h / of_int (h_count h) else 0)"

definition inc_counter :: "string \<Rightarrow> rat \<Rightarrow> metrics_registry \<Rightarrow> metrics_registry" where
  "inc_counter name amount m = m\<lparr>m_counters := upsert name 0 (\<lambda>v. v + amount) (m_counters m)\<rparr>"

definition set_gauge :: "string \<Rightarrow> rat \<Rightarrow> metrics_registry \<Rightarrow> metrics_registry" where
  "set_gauge name v m = m\<lparr>m_gauges := upsert name 0 (\<lambda>_. v) (m_gauges m)\<rparr>"

definition observe :: "string \<Rightarrow> rat \<Rightarrow> metrics_registry \<Rightarrow> metrics_registry" where
  "observe name v m = m\<lparr>m_histograms := upsert name empty_histogram (hist_observe v) (m_histograms m)\<rparr>"

lemma map_of_upsert:
  "map_of (upsert k new f es) = (map_of es)(k \<mapsto> f (case map_of es k of None \<Rightarrow> new | Some v \<Rightarrow> v))"
  by (induction es) (auto simp: fun_eq_iff)

lemma distinct_upsert: "distinct (map fst es) \<Longrightarrow> distinct (map fst (upsert k new f es))"
proof (induction es)
  case (Cons e es)
  have "fst ` set (upsert k new f es) = insert k (fst ` set es)"
    by (induction es) auto
  with Cons show ?case by auto
qed simp

text \<open>A histogram after a run of observations summarises the run.\<close>

definition summarises :: "histogram \<Rightarrow> rat list \<Rightarrow> bool" where
  "summarises h vs \<longleftrightarrow> h_count h = int (length vs) \<and> h_total h = sum_list vs \<and>
     (if vs = [] then h_minimum h = None \<and> h_maximum h = None
      else h_minimum h = Some (Min (set vs)) \<and> h_maximum h = Some (Max (set vs)))"

lemma summarises_observe:
  assumes "summarises h vs"
  shows "summarises (hist_observe v h) (vs @ [v])"
proof (cases "vs = []")
  case False
  then have "Min (set (vs @ [v])) = min v (Min (set vs))" and "Max (set (vs @ [v])) = max v (Max (set vs))"
    by simp_all
  with False assms show ?thesis
    unfolding summarises_def hist_observe_def min_def max_def
    by (simp del: Min_gr_iff Max_less_iff Min_ge_iff Max_le_iff)
qed (use assms in \<open>simp add: summarises_def hist_observe_def\<close>)

lemma summarises_run: "summarises (fold hist_observe vs empty_histogram) vs"
proof (induction vs rule: rev_induct)
  case Nil
  show ?case by (simp add: summarises_def empty_histogram_def)
next
  case (snoc v vs)
  then show ?case using summarises_observe by simp
qed

end
