(* ===== verification/World.thy ===== *)
theory World
  imports Config CircuitBreaker Metrics
begin

text \<open>
  The state the service acts on and what it observes of its surroundings.

  \<open>env\<close> is what the code reads and does not change: the settings, the clocks, the random
  source, the answers of ReceiptGate, and the functions of the libraries it calls
  (\<open>hashlib\<close>, \<open>legivellum\<close>, \<open>jose\<close>, \<open>bcrypt\<close>, the \<open>code\<close> attributes of
  library exceptions). A clock is a function of how often it was
  read, so every \<open>utc_now()\<close> of the source is a reading of its own.

  \<open>world\<close> is data: the database as the current transaction sees it, the last committed
  one, how many clock readings, random draws and requests happened, the trace id of the
  request, the metrics and the ReceiptGate client with its file.
\<close>

section \<open>Surroundings\<close>

text \<open>A request raises (transport, HTTP status, not JSON) or yields a JSON-RPC response object.\<close>

datatype http_reply = Http_exn string | Http_ok dict

record env =
  e_settings :: settings
  e_clock :: "nat \<Rightarrow> datetime"
  e_perf :: "nat \<Rightarrow> rat"
  e_jitter :: "nat \<Rightarrow> int"
  e_post :: "nat \<Rightarrow> dict \<Rightarrow> http_reply"
  e_repr :: "json \<Rightarrow> string"
  e_sha256 :: "string \<Rightarrow> string"
  e_canonical :: "dict \<Rightarrow> dict option"
  e_derive_ulid :: "string \<Rightarrow> string \<Rightarrow> string"
  e_may_buffer :: "string \<Rightarrow> bool"
  e_buffer_path :: string
  e_worker_running :: bool
  e_jwt_key :: "string option"
  e_jwt_decode :: "string \<Rightarrow> string \<Rightarrow> string + dict"
  e_bcrypt :: "string \<Rightarrow> string \<Rightarrow> bool"
  e_token :: "nat \<Rightarrow> string"
  e_bcrypt_hash :: "nat \<Rightarrow> string \<Rightarrow> string"
  e_exn_code :: "exn \<Rightarrow> json option"

abbreviation cfg :: "env \<Rightarrow> settings" where "cfg e \<equiv> e_settings e"

section \<open>State\<close>

record user =
  u_id :: uuid
  u_email :: string
  u_is_active :: bool
  u_is_admin :: bool

record api_key_row =
  ak_id :: uuid
  ak_user :: uuid
  ak_prefix :: string
  ak_hash :: string
  ak_expires_at :: "datetime option"
  ak_is_revoked :: bool
  ak_usage_count :: int
  ak_last_used :: "datetime option"

record db =
  db_tasks :: "task list"
  db_leases :: "lease list"
  db_receipts :: "receipt list"
  db_progress :: "progress list"
  db_relationships :: "relationship list"
  db_users :: "user list"
  db_api_keys :: "api_key_row list"

definition empty_db :: db where
  "empty_db = \<lparr>db_tasks = [], db_leases = [], db_receipts = [], db_progress = [],
     db_relationships = [], db_users = [], db_api_keys = []\<rparr>"

record buffered_receipt =
  bf_id :: string
  bf_receipt :: dict
  bf_queued_at :: datetime
  bf_next_retry_at :: datetime
  bf_retry_count :: int
  bf_last_error :: json

record rg_client =
  rg_breaker :: "breaker option"
  rg_buffered :: "buffered_receipt list"
  rg_dropped :: int
  rg_replayed_ok :: int
  rg_replayed_failed :: int
  rg_last_error :: "string option"

record world =
  w_db :: db
  w_committed :: db
  w_clock :: nat
  w_perf :: nat
  w_rand :: nat
  w_post :: nat
  w_uuid :: nat
  w_trace :: "string option"
  w_metrics :: metrics_registry
  w_rg :: "rg_client option"
  w_disk :: "json option"

type_synonym 'a M = "(world, exn, 'a) proc"

definition initial_world :: world where
  "initial_world = \<lparr>w_db = empty_db, w_committed = empty_db, w_clock = 0, w_perf = 0, w_rand = 0,
     w_post = 0, w_uuid = 0, w_trace = None, w_metrics = empty_metrics, w_rg = None,
     w_disk = None\<rparr>"

section \<open>Clocks, identifiers, trace and metrics\<close>

definition utc_now :: "env \<Rightarrow> datetime M" where
  "utc_now e = (\<lambda>w. (Inr (e_clock e (w_clock w)), w\<lparr>w_clock := Suc (w_clock w)\<rparr>))"

definition perf_counter :: "env \<Rightarrow> rat M" where
  "perf_counter e = (\<lambda>w. (Inr (e_perf e (w_perf w)), w\<lparr>w_perf := Suc (w_perf w)\<rparr>))"

text \<open>\<open>random.uniform(0, 5)\<close>, in microseconds.\<close>

definition uniform_jitter :: "env \<Rightarrow> int M" where
  "uniform_jitter e = (\<lambda>w. (Inr (e_jitter e (w_rand w)), w\<lparr>w_rand := Suc (w_rand w)\<rparr>))"

definition http_post :: "env \<Rightarrow> dict \<Rightarrow> http_reply M" where
  "http_post e payload = (\<lambda>w. (Inr (e_post e (w_post w) payload), w\<lparr>w_post := Suc (w_post w)\<rparr>))"

text \<open>\<open>uuid4()\<close>: an identifier never drawn before.\<close>

definition uuid4 :: "uuid M" where
  "uuid4 = (\<lambda>w. (Inr (w_uuid w), w\<lparr>w_uuid := Suc (w_uuid w)\<rparr>))"

definition get_trace_id :: "string option M" where
  "get_trace_id = asks w_trace"

definition set_trace_id :: "string option \<Rightarrow> unit M" where
  "set_trace_id t = modify (\<lambda>w. w\<lparr>w_trace := t\<rparr>)"

definition ensure_trace_id :: "string M" where
  "ensure_trace_id = bind get_trace_id (\<lambda>t.
     if truthy_str t then return (the t)
     else bind uuid4 (\<lambda>u. seq (set_trace_id (Some (uuid_str u))) (return (uuid_str u))))"

definition metric :: "(metrics_registry \<Rightarrow> metrics_registry) \<Rightarrow> unit M" where
  "metric f = modify (\<lambda>w. w\<lparr>w_metrics := f (w_metrics w)\<rparr>)"

section \<open>Sessions and transactions (\<open>db/base.py\<close>)\<close>

definition select :: "(db \<Rightarrow> 'a) \<Rightarrow> 'a M" where
  "select f = asks (\<lambda>w. f (w_db w))"

definition write_db :: "(db \<Rightarrow> db) \<Rightarrow> unit M" where
  "write_db f = modify (\<lambda>w. w\<lparr>w_db := f (w_db w)\<rparr>)"

text \<open>
  \<open>async with session.begin_nested()\<close>: an exception undoes the block's database writes.
  What the block did elsewhere (the outbox, the breaker, the metrics, the ledger) stays.
\<close>

definition savepoint :: "'a M \<Rightarrow> 'a M" where
  "savepoint m = (\<lambda>w. case m w of
       (Inl x, w') \<Rightarrow> (Inl x, w'\<lparr>w_db := w_db w\<rparr>)
     | (Inr y, w') \<Rightarrow> (Inr y, w'))"

definition session_commit :: "unit M" where
  "session_commit = modify (\<lambda>w. w\<lparr>w_committed := w_db w\<rparr>)"

definition session_rollback :: "unit M" where
  "session_rollback = modify (\<lambda>w. w\<lparr>w_db := w_committed w\<rparr>)"

text \<open>\<open>get_session()\<close>: a new transaction on the committed data; commit, or roll back and re-raise.\<close>

definition with_session :: "'a M \<Rightarrow> 'a M" where
  "with_session m = seq session_rollback
     (try_except (bind m (\<lambda>x. seq session_commit (return x)))
        (\<lambda>ex. seq session_rollback (raise ex)))"

section \<open>Reasoning rules\<close>

lemma wp_utc_now [wp_simps]:
  "wp (utc_now e) Q E w = Q (e_clock e (w_clock w)) (w\<lparr>w_clock := Suc (w_clock w)\<rparr>)"
  by (simp add: wp_def utc_now_def)

lemma wp_perf_counter [wp_simps]:
  "wp (perf_counter e) Q E w = Q (e_perf e (w_perf w)) (w\<lparr>w_perf := Suc (w_perf w)\<rparr>)"
  by (simp add: wp_def perf_counter_def)

lemma wp_uniform_jitter [wp_simps]:
  "wp (uniform_jitter e) Q E w = Q (e_jitter e (w_rand w)) (w\<lparr>w_rand := Suc (w_rand w)\<rparr>)"
  by (simp add: wp_def uniform_jitter_def)

lemma wp_http_post [wp_simps]:
  "wp (http_post e p) Q E w = Q (e_post e (w_post w) p) (w\<lparr>w_post := Suc (w_post w)\<rparr>)"
  by (simp add: wp_def http_post_def)

lemma wp_uuid4 [wp_simps]: "wp uuid4 Q E w = Q (w_uuid w) (w\<lparr>w_uuid := Suc (w_uuid w)\<rparr>)"
  by (simp add: wp_def uuid4_def)

lemma wp_get_trace_id [wp_simps]: "wp get_trace_id Q E w = Q (w_trace w) w"
  by (simp add: get_trace_id_def wp_simps)

lemma wp_set_trace_id [wp_simps]: "wp (set_trace_id t) Q E w = Q () (w\<lparr>w_trace := t\<rparr>)"
  by (simp add: set_trace_id_def wp_simps)

lemma wp_metric [wp_simps]: "wp (metric f) Q E w = Q () (w\<lparr>w_metrics := f (w_metrics w)\<rparr>)"
  by (simp add: metric_def wp_simps)

lemma wp_select [wp_simps]: "wp (select f) Q E w = Q (f (w_db w)) w"
  by (simp add: select_def wp_simps)

lemma wp_write [wp_simps]: "wp (write_db f) Q E w = Q () (w\<lparr>w_db := f (w_db w)\<rparr>)"
  by (simp add: write_db_def wp_simps)

lemma wp_savepoint [wp_simps]:
  "wp (savepoint m) Q E w = wp m Q (\<lambda>x w'. E x (w'\<lparr>w_db := w_db w\<rparr>)) w"
  by (auto simp: wp_def savepoint_def split: prod.splits sum.splits)

lemma wp_session_commit [wp_simps]: "wp session_commit Q E w = Q () (w\<lparr>w_committed := w_db w\<rparr>)"
  by (simp add: session_commit_def wp_simps)

lemma wp_session_rollback [wp_simps]: "wp session_rollback Q E w = Q () (w\<lparr>w_db := w_committed w\<rparr>)"
  by (simp add: session_rollback_def wp_simps)

lemma wp_with_session:
  "wp (with_session m) Q E w =
     wp m (\<lambda>x w'. Q x (w'\<lparr>w_committed := w_db w'\<rparr>)) (\<lambda>x w'. E x (w'\<lparr>w_db := w_committed w'\<rparr>))
       (w\<lparr>w_db := w_committed w\<rparr>)"
  by (auto simp: with_session_def wp_def proc_defs session_commit_def session_rollback_def
      split: prod.splits sum.splits)

text \<open>
  \<open>on_db P\<close>: a predicate of what the transaction sees and of what is committed. Steps that
  touch neither keep every such predicate. \<open>both Q\<close>: a database predicate that holds of both,
  so neither a commit nor any rollback loses it.
\<close>

definition on_db :: "(db \<Rightarrow> db \<Rightarrow> bool) \<Rightarrow> world \<Rightarrow> bool" where
  "on_db P w \<longleftrightarrow> P (w_db w) (w_committed w)"

abbreviation both :: "(db \<Rightarrow> bool) \<Rightarrow> world \<Rightarrow> bool" where
  "both Q \<equiv> on_db (\<lambda>d c. Q d \<and> Q c)"

lemma on_db_simps [simp]:
  "on_db P (w\<lparr>w_clock := a\<rparr>) = on_db P w" "on_db P (w\<lparr>w_perf := b\<rparr>) = on_db P w"
  "on_db P (w\<lparr>w_rand := a\<rparr>) = on_db P w" "on_db P (w\<lparr>w_post := a\<rparr>) = on_db P w"
  "on_db P (w\<lparr>w_uuid := a\<rparr>) = on_db P w" "on_db P (w\<lparr>w_trace := t\<rparr>) = on_db P w"
  "on_db P (w\<lparr>w_metrics := m\<rparr>) = on_db P w" "on_db P (w\<lparr>w_rg := g\<rparr>) = on_db P w"
  "on_db P (w\<lparr>w_disk := k\<rparr>) = on_db P w"
  by (simp_all add: on_db_def)

lemma on_db_write [simp]: "on_db P (w\<lparr>w_db := d\<rparr>) = P d (w_committed w)"
  by (simp add: on_db_def)

lemma keeps_utc_now [keeps_intros, simp]: "keeps (on_db P) (utc_now e)"
  by (simp add: keeps_wp wp_simps)

lemma keeps_perf_counter [keeps_intros, simp]: "keeps (on_db P) (perf_counter e)"
  by (simp add: keeps_wp wp_simps)

lemma keeps_uniform_jitter [keeps_intros, simp]: "keeps (on_db P) (uniform_jitter e)"
  by (simp add: keeps_wp wp_simps)

lemma keeps_http_post [keeps_intros, simp]: "keeps (on_db P) (http_post e p)"
  by (simp add: keeps_wp wp_simps)

lemma keeps_uuid4 [keeps_intros, simp]: "keeps (on_db P) uuid4"
  by (simp add: keeps_wp wp_simps)

lemma keeps_get_trace_id [keeps_intros, simp]: "keeps I get_trace_id"
  by (simp add: get_trace_id_def)

lemma keeps_set_trace_id [keeps_intros, simp]: "keeps (on_db P) (set_trace_id t)"
  by (simp add: keeps_wp wp_simps)

lemma keeps_ensure_trace_id [keeps_intros, simp]: "keeps (on_db P) ensure_trace_id"
  by (auto simp: ensure_trace_id_def intro!: keeps_intros)

lemma keeps_metric [keeps_intros, simp]: "keeps (on_db P) (metric f)"
  by (simp add: keeps_wp wp_simps)

lemma keeps_select [keeps_intros, simp]: "keeps I (select f)"
  by (simp add: select_def)

lemma keeps_write: "(\<And>d. Q d \<Longrightarrow> Q (f d)) \<Longrightarrow> keeps (both Q) (write_db f)"
  by (simp add: keeps_wp wp_simps on_db_def)

lemma keeps_savepoint [keeps_intros]: "keeps (both Q) m \<Longrightarrow> keeps (both Q) (savepoint m)"
  by (auto simp: keeps_wp wp_simps on_db_def elim!: wp_mono)

lemma keeps_session_commit [keeps_intros, simp]: "keeps (both Q) session_commit"
  by (simp add: keeps_wp wp_simps on_db_def)

lemma keeps_session_rollback [keeps_intros, simp]: "keeps (both Q) session_rollback"
  by (simp add: keeps_wp wp_simps on_db_def)

lemma keeps_with_session [keeps_intros]: "keeps (both Q) m \<Longrightarrow> keeps (both Q) (with_session m)"
  by (auto simp: with_session_def intro!: keeps_intros)

end
