(* ===== verification/Store.thy ===== *)
theory Store
  imports World
begin

text \<open>
  The tables of \<open>src/asyncgate/db/tables.py\<close> with the constraints PostgreSQL enforces on
  them (column widths, primary and unique keys, foreign keys), the statements the
  repositories issue as procedures, and the interface \<open>db_frame\<close>: the laws of a database
  predicate that every statement keeps, from which the component theories derive, once,
  that every operation keeps it.
\<close>

section \<open>Columns\<close>

definition varchar :: "nat \<Rightarrow> string \<Rightarrow> bool" where
  "varchar n s \<longleftrightarrow> length s \<le> n"

definition varchar_opt :: "nat \<Rightarrow> string option \<Rightarrow> bool" where
  "varchar_opt n s = (case s of None \<Rightarrow> True | Some x \<Rightarrow> varchar n x)"

definition int4 :: "int \<Rightarrow> bool" where
  "int4 i \<longleftrightarrow> - (2 ^ 31) \<le> i \<and> i < 2 ^ 31"

definition task_fits :: "task \<Rightarrow> bool" where
  "task_fits t \<longleftrightarrow> varchar 255 (t_type t) \<and> varchar 255 (p_id (t_created_by t)) \<and>
     varchar_opt 255 (p_instance (t_created_by t)) \<and> varchar 255 (t_principal_ai t) \<and>
     varchar_opt 50 (t_expected_outcome_kind t) \<and> varchar_opt 255 (t_expected_artifact_mime t) \<and>
     int4 (t_priority t) \<and> int4 (t_attempt t) \<and> int4 (t_max_attempts t) \<and>
     int4 (t_retry_backoff t) \<and> varchar_opt 255 (t_idempotency_key t) \<and> varchar_opt 255 (t_instance t)"

definition lease_fits :: "lease \<Rightarrow> bool" where
  "lease_fits l \<longleftrightarrow> varchar 255 (l_worker l) \<and> int4 (l_renewal_count l)"

definition receipt_fits :: "receipt \<Rightarrow> bool" where
  "receipt_fits r \<longleftrightarrow> varchar 255 (p_id (r_from r)) \<and> varchar 255 (p_id (r_to r)) \<and>
     varchar_opt 255 (r_schedule r) \<and> varchar_opt 64 (r_hash r) \<and> varchar_opt 255 (r_instance r)"

definition relationship_fits :: "relationship \<Rightarrow> bool" where
  "relationship_fits r \<longleftrightarrow> varchar 255 (rel_id r) \<and> varchar_opt 255 (rel_instance r) \<and> int4 (rel_sessions r)"

section \<open>Keys\<close>

definition pr_key :: "progress \<Rightarrow> uuid \<times> uuid" where "pr_key p = (pr_tenant p, pr_task p)"

definition rel_key :: "relationship \<Rightarrow> uuid \<times> principal_kind \<times> string" where
  "rel_key r = (rel_tenant r, rel_kind r, rel_id r)"

text \<open>A unique constraint on a nullable column compares only rows where it is not null.\<close>

definition clashes :: "uuid \<times> 'a option \<Rightarrow> uuid \<times> 'a option \<Rightarrow> bool" where
  "clashes x y \<longleftrightarrow> x = y \<and> snd x \<noteq> None"

definition t_idem :: "task \<Rightarrow> uuid \<times> string option" where
  "t_idem t = (t_tenant t, t_idempotency_key t)"

definition r_idem :: "receipt \<Rightarrow> uuid \<times> string option" where
  "r_idem r = (r_tenant r, r_hash r)"

definition task_unique :: "db \<Rightarrow> task \<Rightarrow> bool" where
  "task_unique d t \<longleftrightarrow> (\<forall>x \<in> set (db_tasks d). t_key x \<noteq> t_key t \<and> \<not> clashes (t_idem x) (t_idem t))"

definition has_task :: "db \<Rightarrow> uuid \<Rightarrow> uuid \<Rightarrow> bool" where
  "has_task d tn tid \<longleftrightarrow> (\<exists>t \<in> set (db_tasks d). t_key t = (tn, tid))"

definition lease_unique :: "db \<Rightarrow> lease \<Rightarrow> bool" where
  "lease_unique d l \<longleftrightarrow> (\<forall>x \<in> set (db_leases d). l_id x \<noteq> l_id l \<and> l_key x \<noteq> l_key l) \<and>
     has_task d (l_tenant l) (l_task l)"

definition receipt_unique :: "db \<Rightarrow> receipt \<Rightarrow> bool" where
  "receipt_unique d r \<longleftrightarrow>
     (\<forall>x \<in> set (db_receipts d). r_key x \<noteq> r_key r \<and> \<not> clashes (r_idem x) (r_idem r))"

definition progress_unique :: "db \<Rightarrow> progress \<Rightarrow> bool" where
  "progress_unique d p \<longleftrightarrow> (\<forall>x \<in> set (db_progress d). pr_key x \<noteq> pr_key p) \<and>
     has_task d (pr_tenant p) (pr_task p)"

definition relationship_unique :: "db \<Rightarrow> relationship \<Rightarrow> bool" where
  "relationship_unique d r \<longleftrightarrow> (\<forall>x \<in> set (db_relationships d). rel_key x \<noteq> rel_key r)"

section \<open>Statements\<close>

text \<open>\<open>session.add(row)\<close> and \<open>flush()\<close>: the row's widths are checked, then the constraints.\<close>

definition insert_task :: "task \<Rightarrow> unit M" where
  "insert_task t = seq (ensure (task_fits t) DataError)
     (bind (select (\<lambda>d. task_unique d t)) (\<lambda>ok.
      seq (ensure ok IntegrityError)
        (write_db (\<lambda>d. d\<lparr>db_tasks := db_tasks d @ [t]\<rparr>))))"

definition insert_lease :: "lease \<Rightarrow> unit M" where
  "insert_lease l = seq (ensure (lease_fits l) DataError)
     (bind (select (\<lambda>d. lease_unique d l)) (\<lambda>ok.
      seq (ensure ok IntegrityError)
        (write_db (\<lambda>d. d\<lparr>db_leases := db_leases d @ [l]\<rparr>))))"

definition insert_receipt :: "receipt \<Rightarrow> unit M" where
  "insert_receipt r = seq (ensure (receipt_fits r) DataError)
     (bind (select (\<lambda>d. receipt_unique d r)) (\<lambda>ok.
      seq (ensure ok IntegrityError)
        (write_db (\<lambda>d. d\<lparr>db_receipts := db_receipts d @ [r]\<rparr>))))"

definition insert_progress :: "progress \<Rightarrow> unit M" where
  "insert_progress p = bind (select (\<lambda>d. progress_unique d p)) (\<lambda>ok.
      seq (ensure ok IntegrityError)
        (write_db (\<lambda>d. d\<lparr>db_progress := db_progress d @ [p]\<rparr>)))"

definition insert_relationship :: "relationship \<Rightarrow> unit M" where
  "insert_relationship r = seq (ensure (relationship_fits r) DataError)
     (bind (select (\<lambda>d. relationship_unique d r)) (\<lambda>ok.
      seq (ensure ok IntegrityError)
        (write_db (\<lambda>d. d\<lparr>db_relationships := db_relationships d @ [r]\<rparr>))))"

definition task_at :: "uuid \<Rightarrow> uuid \<Rightarrow> task \<Rightarrow> bool" where
  "task_at tn tid t \<longleftrightarrow> t_tenant t = tn \<and> t_id t = tid"

definition set_tasks :: "uuid \<Rightarrow> uuid \<Rightarrow> (task \<Rightarrow> task) \<Rightarrow> db \<Rightarrow> db" where
  "set_tasks tn tid f d = d\<lparr>db_tasks := update_where (task_at tn tid) f (db_tasks d)\<rparr>"

definition update_task :: "uuid \<Rightarrow> uuid \<Rightarrow> (task \<Rightarrow> task) \<Rightarrow> unit M" where
  "update_task tn tid f = write_db (set_tasks tn tid f)"

definition set_lease :: "uuid \<Rightarrow> (lease \<Rightarrow> lease) \<Rightarrow> db \<Rightarrow> db" where
  "set_lease lid f d = d\<lparr>db_leases := update_where (\<lambda>l. l_id l = lid) f (db_leases d)\<rparr>"

definition update_lease :: "uuid \<Rightarrow> (lease \<Rightarrow> lease) \<Rightarrow> unit M" where
  "update_lease lid f = write_db (set_lease lid f)"

definition lease_at :: "uuid \<Rightarrow> uuid \<Rightarrow> uuid option \<Rightarrow> lease \<Rightarrow> bool" where
  "lease_at tn tid lid l \<longleftrightarrow> l_tenant l = tn \<and> l_task l = tid \<and>
     (case lid of None \<Rightarrow> True | Some i \<Rightarrow> l_id l = i)"

definition drop_leases :: "uuid \<Rightarrow> uuid \<Rightarrow> uuid option \<Rightarrow> db \<Rightarrow> db" where
  "drop_leases tn tid lid d = d\<lparr>db_leases := delete_where (lease_at tn tid lid) (db_leases d)\<rparr>"

definition set_delivered :: "uuid \<Rightarrow> uuid list \<Rightarrow> datetime \<Rightarrow> db \<Rightarrow> db" where
  "set_delivered tn ids now d = d\<lparr>db_receipts :=
     update_where (\<lambda>r. r_tenant r = tn \<and> r_id r \<in> set ids \<and> r_delivered_at r = None)
       (\<lambda>r. r\<lparr>r_delivered_at := Some now\<rparr>) (db_receipts d)\<rparr>"

definition set_progress :: "uuid \<Rightarrow> uuid \<Rightarrow> dict \<Rightarrow> datetime \<Rightarrow> db \<Rightarrow> db" where
  "set_progress tn tid v now d = d\<lparr>db_progress :=
     update_where (\<lambda>p. pr_tenant p = tn \<and> pr_task p = tid)
       (\<lambda>p. p\<lparr>pr_progress := v, pr_updated_at := now\<rparr>) (db_progress d)\<rparr>"

definition rel_at :: "uuid \<Rightarrow> principal_kind \<Rightarrow> string \<Rightarrow> relationship \<Rightarrow> bool" where
  "rel_at tn k pid r \<longleftrightarrow> rel_tenant r = tn \<and> rel_kind r = k \<and> rel_id r = pid"

definition set_relationship ::
    "uuid \<Rightarrow> principal_kind \<Rightarrow> string \<Rightarrow> (relationship \<Rightarrow> relationship) \<Rightarrow> db \<Rightarrow> db" where
  "set_relationship tn k pid f d = d\<lparr>db_relationships :=
     update_where (rel_at tn k pid) f (db_relationships d)\<rparr>"

lemma set_tasks_sel [simp]:
  "db_leases (set_tasks tn tid f d) = db_leases d" "db_receipts (set_tasks tn tid f d) = db_receipts d"
  "db_progress (set_tasks tn tid f d) = db_progress d"
  "db_relationships (set_tasks tn tid f d) = db_relationships d"
  "db_users (set_tasks tn tid f d) = db_users d" "db_api_keys (set_tasks tn tid f d) = db_api_keys d"
  by (simp_all add: set_tasks_def)

lemma set_lease_sel [simp]:
  "db_tasks (set_lease lid g d) = db_tasks d" "db_receipts (set_lease lid g d) = db_receipts d"
  "db_progress (set_lease lid g d) = db_progress d"
  "db_relationships (set_lease lid g d) = db_relationships d"
  by (simp_all add: set_lease_def)

lemma drop_leases_sel [simp]:
  "db_tasks (drop_leases tn tid i d) = db_tasks d" "db_receipts (drop_leases tn tid i d) = db_receipts d"
  "db_progress (drop_leases tn tid i d) = db_progress d"
  "db_relationships (drop_leases tn tid i d) = db_relationships d"
  by (simp_all add: drop_leases_def)

lemma set_delivered_sel [simp]:
  "db_tasks (set_delivered tn ids now d) = db_tasks d" "db_leases (set_delivered tn ids now d) = db_leases d"
  "db_progress (set_delivered tn ids now d) = db_progress d"
  "db_relationships (set_delivered tn ids now d) = db_relationships d"
  by (simp_all add: set_delivered_def)

lemma set_progress_sel [simp]:
  "db_tasks (set_progress tn tid v now d) = db_tasks d" "db_leases (set_progress tn tid v now d) = db_leases d"
  "db_receipts (set_progress tn tid v now d) = db_receipts d"
  "db_relationships (set_progress tn tid v now d) = db_relationships d"
  by (simp_all add: set_progress_def)

lemma set_relationship_sel [simp]:
  "db_tasks (set_relationship tn k pid h d) = db_tasks d"
  "db_leases (set_relationship tn k pid h d) = db_leases d"
  "db_receipts (set_relationship tn k pid h d) = db_receipts d"
  "db_progress (set_relationship tn k pid h d) = db_progress d"
  by (simp_all add: set_relationship_def)

text \<open>
  What the repository guarantees of every receipt it inserts: a terminal receipt names only
  receipts of its tenant as parents, a completion that names any is locatable (its body has
  artifacts or a delivery proof), and there are at most ten parents.
\<close>

definition receipt_exists :: "uuid \<Rightarrow> uuid \<Rightarrow> db \<Rightarrow> bool" where
  "receipt_exists tn rid d \<longleftrightarrow> (\<exists>r \<in> set (db_receipts d). r_key r = (tn, rid))"

definition locatable :: "dict option \<Rightarrow> bool" where
  "locatable body \<longleftrightarrow> dict_get (dict_of body) ''artifacts'' \<noteq> JNull \<or>
     dict_get (dict_of body) ''delivery_proof'' \<noteq> JNull"

definition admissible :: "db \<Rightarrow> receipt \<Rightarrow> bool" where
  "admissible d r \<longleftrightarrow> r_delivered_at r = None \<and> length (r_parents r) \<le> 10 \<and>
     (is_terminal_type (r_type r) \<longrightarrow> (\<forall>p \<in> set (r_parents r). receipt_exists (r_tenant r) p d)) \<and>
     (r_type r = TASK_COMPLETED \<and> r_parents r \<noteq> [] \<longrightarrow> locatable (Some (r_body r)))"

text \<open>\<open>LIMIT n\<close>: PostgreSQL refuses a negative one.\<close>

definition sql_limit :: "int \<Rightarrow> 'r list \<Rightarrow> exn + 'r list" where
  "sql_limit n rs = (if n < 0 then Inl DataError else Inr (take (nat n) rs))"

text \<open>\<open>scalar_one_or_none()\<close> on a query.\<close>

definition one_or_none :: "(db \<Rightarrow> 'r list) \<Rightarrow> 'r option M" where
  "one_or_none q = bind (select q) (\<lambda>rs. lift_sum (scalar_one_or_none MultipleResultsFound rs))"

lemma sql_limit_Inr: "sql_limit n rs = Inr xs \<longleftrightarrow> 0 \<le> n \<and> xs = take (nat n) rs"
  by (auto simp: sql_limit_def)

lemma wp_one_or_none [wp_simps]:
  "wp (one_or_none q) Q E w =
     (case scalar_one_or_none MultipleResultsFound (q (w_db w)) of Inl x \<Rightarrow> E x w | Inr x \<Rightarrow> Q x w)"
  by (simp add: one_or_none_def wp_simps)

lemma keeps_one_or_none [keeps_intros, simp]: "keeps I (one_or_none q)"
  by (auto simp: one_or_none_def intro!: keeps_intros)

lemmas insert_defs = insert_task_def insert_lease_def insert_receipt_def insert_progress_def
  insert_relationship_def

lemma wp_insert_task [wp_simps]:
  "wp (insert_task t) Q E w =
     (if \<not> task_fits t then E DataError w
      else if \<not> task_unique (w_db w) t then E IntegrityError w
      else Q () (w\<lparr>w_db := (w_db w)\<lparr>db_tasks := db_tasks (w_db w) @ [t]\<rparr>\<rparr>))"
  by (simp add: insert_task_def wp_simps)

lemma wp_insert_lease [wp_simps]:
  "wp (insert_lease l) Q E w =
     (if \<not> lease_fits l then E DataError w
      else if \<not> lease_unique (w_db w) l then E IntegrityError w
      else Q () (w\<lparr>w_db := (w_db w)\<lparr>db_leases := db_leases (w_db w) @ [l]\<rparr>\<rparr>))"
  by (simp add: insert_lease_def wp_simps)

lemma wp_insert_receipt [wp_simps]:
  "wp (insert_receipt r) Q E w =
     (if \<not> receipt_fits r then E DataError w
      else if \<not> receipt_unique (w_db w) r then E IntegrityError w
      else Q () (w\<lparr>w_db := (w_db w)\<lparr>db_receipts := db_receipts (w_db w) @ [r]\<rparr>\<rparr>))"
  by (simp add: insert_receipt_def wp_simps)

lemma wp_insert_progress [wp_simps]:
  "wp (insert_progress p) Q E w =
     (if \<not> progress_unique (w_db w) p then E IntegrityError w
      else Q () (w\<lparr>w_db := (w_db w)\<lparr>db_progress := db_progress (w_db w) @ [p]\<rparr>\<rparr>))"
  by (simp add: insert_progress_def wp_simps)

lemma wp_insert_relationship [wp_simps]:
  "wp (insert_relationship r) Q E w =
     (if \<not> relationship_fits r then E DataError w
      else if \<not> relationship_unique (w_db w) r then E IntegrityError w
      else Q () (w\<lparr>w_db := (w_db w)\<lparr>db_relationships := db_relationships (w_db w) @ [r]\<rparr>\<rparr>))"
  by (simp add: insert_relationship_def wp_simps)

lemma wp_update_task [wp_simps]:
  "wp (update_task tn tid f) Q E w = Q () (w\<lparr>w_db := set_tasks tn tid f (w_db w)\<rparr>)"
  by (simp add: update_task_def wp_simps)

lemma wp_update_lease [wp_simps]:
  "wp (update_lease lid f) Q E w = Q () (w\<lparr>w_db := set_lease lid f (w_db w)\<rparr>)"
  by (simp add: update_lease_def wp_simps)

section \<open>What an update may not touch\<close>

definition t_frozen :: "task \<Rightarrow> task" where
  "t_frozen t = t\<lparr>t_status := QUEUED, t_attempt := 0, t_updated_at := 0,
     t_next_eligible_at := None, t_started_at := None, t_result := None\<rparr>"

definition l_frozen :: "lease \<Rightarrow> lease" where
  "l_frozen l = l\<lparr>l_expires_at := 0, l_renewal_count := 0\<rparr>"

definition r_frozen :: "receipt \<Rightarrow> receipt" where
  "r_frozen r = r\<lparr>r_delivered_at := None\<rparr>"

definition keeps_frozen :: "(task \<Rightarrow> task) \<Rightarrow> bool" where
  "keeps_frozen f \<longleftrightarrow> (\<forall>t. t_frozen (f t) = t_frozen t)"

definition keeps_lease_frozen :: "(lease \<Rightarrow> lease) \<Rightarrow> bool" where
  "keeps_lease_frozen f \<longleftrightarrow> (\<forall>l. l_frozen (f l) = l_frozen l)"

definition keeps_rel_key :: "(relationship \<Rightarrow> relationship) \<Rightarrow> bool" where
  "keeps_rel_key f \<longleftrightarrow> (\<forall>r. rel_key (f r) = rel_key r \<and> rel_first_seen_at (f r) = rel_first_seen_at r)"

lemma t_frozen_eqD:
  "t_frozen t = t_frozen t' \<Longrightarrow> t_tenant t = t_tenant t' \<and> t_id t = t_id t' \<and>
     t_idempotency_key t = t_idempotency_key t' \<and> t_created_by t = t_created_by t' \<and>
     t_max_attempts t = t_max_attempts t' \<and> t_instance t = t_instance t'"
  by (auto simp: t_frozen_def dest: arg_cong [where f = t_tenant] arg_cong [where f = t_id]
      arg_cong [where f = t_idempotency_key] arg_cong [where f = t_created_by]
      arg_cong [where f = t_max_attempts] arg_cong [where f = t_instance])

lemma l_frozen_eqD:
  "l_frozen l = l_frozen l' \<Longrightarrow> l_tenant l = l_tenant l' \<and> l_task l = l_task l' \<and> l_id l = l_id l' \<and>
     l_worker l = l_worker l' \<and> l_acquired_at l = l_acquired_at l' \<and> l_created_at l = l_created_at l'"
  by (auto simp: l_frozen_def dest: arg_cong [where f = l_tenant] arg_cong [where f = l_task]
      arg_cong [where f = l_id] arg_cong [where f = l_worker] arg_cong [where f = l_acquired_at]
      arg_cong [where f = l_created_at])

section \<open>The interface of database predicates\<close>

text \<open>
  \<open>P\<close> is a predicate of what the transaction sees and what is committed, \<open>T\<close> the tenants an
  operation acts in. The laws say that each statement on the receipts, the progress and the
  relationships, applied in one of these tenants and accepted by the database, keeps \<open>P\<close>:
  what holds of the operations that touch neither tasks nor leases.
\<close>

locale side_frame =
  fixes P :: "db \<Rightarrow> db \<Rightarrow> bool" and T :: "uuid \<Rightarrow> bool"
  assumes ins_receipt: "P d c \<Longrightarrow> T (r_tenant r) \<Longrightarrow> receipt_unique d r \<Longrightarrow> admissible d r \<Longrightarrow>
      P (d\<lparr>db_receipts := db_receipts d @ [r]\<rparr>) c"
    and deliver: "P d c \<Longrightarrow> T tn \<Longrightarrow> P (set_delivered tn ids now d) c"
    and ins_progress: "P d c \<Longrightarrow> T (pr_tenant p) \<Longrightarrow> progress_unique d p \<Longrightarrow>
      P (d\<lparr>db_progress := db_progress d @ [p]\<rparr>) c"
    and upd_progress: "P d c \<Longrightarrow> T tn \<Longrightarrow> P (set_progress tn tid v now d) c"
    and ins_rel: "P d c \<Longrightarrow> T (rel_tenant r') \<Longrightarrow> relationship_unique d r' \<Longrightarrow>
      P (d\<lparr>db_relationships := db_relationships d @ [r']\<rparr>) c"
    and upd_rel: "P d c \<Longrightarrow> T tn \<Longrightarrow> keeps_rel_key h \<Longrightarrow> P (set_relationship tn k pid h d) c"
begin

lemma keeps_set_delivered [keeps_intros]:
  "T tn \<Longrightarrow> keeps (on_db P) (write_db (set_delivered tn ids now))"
  by (auto simp: keeps_wp wp_simps on_db_def intro: deliver)

lemma wp_insert_receipt_on:
  "on_db P w \<Longrightarrow> T (r_tenant r) \<Longrightarrow> admissible (w_db w) r \<Longrightarrow>
   wp (insert_receipt r) (\<lambda>_. on_db P) (\<lambda>_. on_db P) w"
  by (auto simp: wp_simps on_db_def intro: ins_receipt)

lemma keeps_insert_progress [keeps_intros]: "T (pr_tenant p) \<Longrightarrow> keeps (on_db P) (insert_progress p)"
  by (auto simp: keeps_wp wp_simps on_db_def intro: ins_progress)

lemma keeps_set_progress [keeps_intros]:
  "T tn \<Longrightarrow> keeps (on_db P) (write_db (set_progress tn tid v now))"
  by (auto simp: keeps_wp wp_simps on_db_def intro: upd_progress)

lemma keeps_insert_relationship [keeps_intros]:
  "T (rel_tenant r) \<Longrightarrow> keeps (on_db P) (insert_relationship r)"
  by (auto simp: keeps_wp wp_simps on_db_def intro: ins_rel)

lemma keeps_set_relationship [keeps_intros]:
  "T tn \<Longrightarrow> keeps_rel_key h \<Longrightarrow> keeps (on_db P) (write_db (set_relationship tn k pid h))"
  by (auto simp: keeps_wp wp_simps on_db_def intro: upd_rel)

end

text \<open>Predicates that the ends of a transaction and the rows of users and API keys keep.\<close>

locale session_frame =
  fixes P :: "db \<Rightarrow> db \<Rightarrow> bool"
  assumes auth_rows: "P d c \<Longrightarrow> P (d\<lparr>db_users := us, db_api_keys := ks\<rparr>) c"
    and commit: "P d c \<Longrightarrow> P d d"
    and rollback: "P d c \<Longrightarrow> P c c"
begin

lemma keeps_auth_rows [keeps_intros]:
  "keeps (on_db P) (write_db (\<lambda>d. d\<lparr>db_users := f d, db_api_keys := g d\<rparr>))"
  by (auto simp: keeps_wp wp_simps on_db_def intro: auth_rows)

lemma keeps_commit [keeps_intros]: "keeps (on_db P) session_commit"
  by (auto simp: keeps_wp wp_simps on_db_def intro: commit)

lemma keeps_rollback [keeps_intros]: "keeps (on_db P) session_rollback"
  by (auto simp: keeps_wp wp_simps on_db_def intro: rollback)

lemma keeps_session [keeps_intros]: "keeps (on_db P) m \<Longrightarrow> keeps (on_db P) (with_session m)"
  by (auto simp: with_session_def intro!: keeps_intros)

end

locale outer_frame = side_frame P T + session_frame P for P T

text \<open>
  The statements on tasks and leases as well. A savepoint undoes what its block wrote, not
  what was committed; the creation of a task may roll the whole session back.
\<close>

locale store_frame = side_frame +
  assumes ins_task: "P d c \<Longrightarrow> T (t_tenant t) \<Longrightarrow> task_unique d t \<Longrightarrow>
      P (d\<lparr>db_tasks := db_tasks d @ [t]\<rparr>) c"
    and upd_task: "P d c \<Longrightarrow> T tn \<Longrightarrow> keeps_frozen f \<Longrightarrow> P (set_tasks tn tid f d) c"
    and ins_lease: "P d c \<Longrightarrow> T (l_tenant l) \<Longrightarrow> lease_unique d l \<Longrightarrow>
      P (d\<lparr>db_leases := db_leases d @ [l]\<rparr>) c"
    and upd_lease: "P d c \<Longrightarrow> T tn \<Longrightarrow> (\<exists>l \<in> set (db_leases d). l_tenant l = tn \<and> l_id l = lid) \<Longrightarrow>
      keeps_lease_frozen g \<Longrightarrow> P (set_lease lid g d) c"
    and del_lease: "P d c \<Longrightarrow> T tn \<Longrightarrow> P (drop_leases tn tid lid' d) c"
    and undo: "P d c \<Longrightarrow> P d' c' \<Longrightarrow> P d c'"
    and give_up: "P d c \<Longrightarrow> P c c"
begin

lemma keeps_insert_task [keeps_intros]: "T (t_tenant t) \<Longrightarrow> keeps (on_db P) (insert_task t)"
  by (auto simp: keeps_wp wp_simps on_db_def intro: ins_task)

lemma keeps_update_task [keeps_intros]:
  "T tn \<Longrightarrow> keeps_frozen f \<Longrightarrow> keeps (on_db P) (update_task tn tid f)"
  by (auto simp: keeps_wp wp_simps on_db_def intro: upd_task)

lemma keeps_insert_lease [keeps_intros]: "T (l_tenant l) \<Longrightarrow> keeps (on_db P) (insert_lease l)"
  by (auto simp: keeps_wp wp_simps on_db_def intro: ins_lease)

lemma keeps_drop_leases [keeps_intros]: "T tn \<Longrightarrow> keeps (on_db P) (write_db (drop_leases tn tid lid))"
  by (auto simp: keeps_wp wp_simps on_db_def intro: del_lease)

lemma keeps_undo [keeps_intros]: "keeps (on_db P) m \<Longrightarrow> keeps (on_db P) (savepoint m)"
  unfolding keeps_wp wp_savepoint
proof (intro allI impI)
  fix w assume m: "\<forall>w. on_db P w \<longrightarrow> wp m (\<lambda>_. on_db P) (\<lambda>_. on_db P) w" and w: "on_db P w"
  show "wp m (\<lambda>_. on_db P) (\<lambda>_ w'. on_db P (w'\<lparr>w_db := w_db w\<rparr>)) w"
    by (rule wp_mono [OF m [rule_format, OF w]]) (use w in \<open>auto simp: on_db_def intro: undo\<close>)
qed

lemma keeps_give_up [keeps_intros]: "keeps (on_db P) session_rollback"
  by (auto simp: keeps_wp wp_simps on_db_def intro: give_up)

end

locale service_frame = store_frame P T + session_frame P for P T

text \<open>
  \<open>Q\<close> is a predicate of the database that every statement keeps: the whole service keeps it,
  of what is seen and of what is committed.
\<close>

locale db_frame =
  fixes Q :: "db \<Rightarrow> bool" and T :: "uuid \<Rightarrow> bool"
  assumes ins_task: "Q d \<Longrightarrow> T (t_tenant t) \<Longrightarrow> task_unique d t \<Longrightarrow>
      Q (d\<lparr>db_tasks := db_tasks d @ [t]\<rparr>)"
    and upd_task: "Q d \<Longrightarrow> T tn \<Longrightarrow> keeps_frozen f \<Longrightarrow> Q (set_tasks tn tid f d)"
    and ins_lease: "Q d \<Longrightarrow> T (l_tenant l) \<Longrightarrow> lease_unique d l \<Longrightarrow>
      Q (d\<lparr>db_leases := db_leases d @ [l]\<rparr>)"
    and upd_lease: "Q d \<Longrightarrow> T tn \<Longrightarrow> (\<exists>l \<in> set (db_leases d). l_tenant l = tn \<and> l_id l = lid) \<Longrightarrow>
      keeps_lease_frozen g \<Longrightarrow> Q (set_lease lid g d)"
    and del_lease: "Q d \<Longrightarrow> T tn \<Longrightarrow> Q (drop_leases tn tid lid' d)"
    and ins_receipt: "Q d \<Longrightarrow> T (r_tenant r) \<Longrightarrow> receipt_unique d r \<Longrightarrow> admissible d r \<Longrightarrow>
      Q (d\<lparr>db_receipts := db_receipts d @ [r]\<rparr>)"
    and deliver: "Q d \<Longrightarrow> T tn \<Longrightarrow> Q (set_delivered tn ids now d)"
    and ins_progress: "Q d \<Longrightarrow> T (pr_tenant p) \<Longrightarrow> progress_unique d p \<Longrightarrow>
      Q (d\<lparr>db_progress := db_progress d @ [p]\<rparr>)"
    and upd_progress: "Q d \<Longrightarrow> T tn \<Longrightarrow> Q (set_progress tn tid v now d)"
    and ins_rel: "Q d \<Longrightarrow> T (rel_tenant r') \<Longrightarrow> relationship_unique d r' \<Longrightarrow>
      Q (d\<lparr>db_relationships := db_relationships d @ [r']\<rparr>)"
    and upd_rel: "Q d \<Longrightarrow> T tn \<Longrightarrow> keeps_rel_key h \<Longrightarrow> Q (set_relationship tn k pid h d)"
    and auth_rows: "Q d \<Longrightarrow> Q (d\<lparr>db_users := us, db_api_keys := ks\<rparr>)"

sublocale db_frame \<subseteq> whole: service_frame "\<lambda>d c. Q d \<and> Q c" T
  by unfold_locales (auto intro: ins_task upd_task ins_lease upd_lease del_lease ins_receipt deliver
      ins_progress upd_progress ins_rel upd_rel auth_rows)

end
