(* ===== verification/Principals.thy ===== *)
theory Principals
  imports Models
begin

text \<open>
  \<open>src/asyncgate/principals.py\<close>: canonical principal identifiers, the normalisation of
  external ones, and what the engine derives from a principal
  (\<open>_normalize_principal\<close>, \<open>_resolve_obligation_owner\<close>).
\<close>

definition SYSTEM_PRINCIPAL_ID :: string where "SYSTEM_PRINCIPAL_ID = ''sys:legivellum''"

definition SERVICE_PRINCIPAL_ID :: string where "SERVICE_PRINCIPAL_ID = ''svc:asyncgate''"

definition is_system :: "string \<Rightarrow> bool" where
  "is_system pid \<longleftrightarrow> pid = SYSTEM_PRINCIPAL_ID"

definition normalize_external :: "string \<Rightarrow> string" where
  "normalize_external pid = (if starts_with pid ''ext:'' then drop 4 pid else pid)"

definition normalize_principal_id :: "string \<Rightarrow> string" where
  "normalize_principal_id pid = normalize_external pid"

definition is_internal_principal_id :: "string \<Rightarrow> bool" where
  "is_internal_principal_id pid \<longleftrightarrow> starts_with pid ''sys:'' \<or> starts_with pid ''svc:''"

definition principal_id_variants :: "string \<Rightarrow> string list" where
  "principal_id_variants pid =
     (let normalized = normalize_principal_id pid in
      if is_internal_principal_id normalized then [normalized]
      else [normalized, ''ext:'' @ normalized])"

section \<open>The engine's view of a principal\<close>

definition service_principal :: principal where
  "service_principal = mk_principal SERVICE SERVICE_PRINCIPAL_ID"

definition system_owner :: principal where
  "system_owner = mk_principal SYSTEM SYSTEM_PRINCIPAL_ID"

definition normalize_principal :: "principal \<Rightarrow> principal" where
  "normalize_principal p = p\<lparr>p_id := normalize_external (p_id p)\<rparr>"

definition resolve_obligation_owner :: "principal \<Rightarrow> principal" where
  "resolve_obligation_owner created_by =
     (let normalized = normalize_principal created_by in
      if is_system (p_id normalized) \<or> p_id normalized = SERVICE_PRINCIPAL_ID
      then system_owner else normalized)"

section \<open>Lemmas\<close>

lemma normalize_external_ext [simp]: "normalize_external (''ext:'' @ s) = s"
  by (simp add: normalize_external_def starts_with_def)

lemma normalize_external_plain: "\<not> starts_with s ''ext:'' \<Longrightarrow> normalize_external s = s"
  by (simp add: normalize_external_def)

lemma normalized_in_variants [simp]: "normalize_external s \<in> set (principal_id_variants s)"
  by (simp add: principal_id_variants_def normalize_principal_id_def Let_def)

text \<open>
  Every variant of an identifier normalises to the identifier's own normal form, when that
  form carries no \<open>ext:\<close> prefix itself.
\<close>

lemma variants_normalize:
  "v \<in> set (principal_id_variants s) \<Longrightarrow> \<not> starts_with (normalize_external s) ''ext:'' \<Longrightarrow>
   normalize_external v = normalize_external s"
  by (auto simp: principal_id_variants_def normalize_principal_id_def Let_def
      normalize_external_plain normalize_external_ext [simplified] split: if_splits)

text \<open>
  What a receipt query by identifier finds: a receipt addressed to either spelling of an
  external principal is found under both spellings.
\<close>

lemma variants_of_both_spellings:
  "\<not> starts_with s ''ext:'' \<Longrightarrow>
   set (principal_id_variants (''ext:'' @ s)) = set (principal_id_variants s)"
  by (simp add: principal_id_variants_def normalize_principal_id_def normalize_external_plain
      normalize_external_ext [simplified])

text \<open>A legacy prefix does not hide an internal identifier from the check.\<close>

lemma ext_prefix_stays_internal:
  "is_internal_principal_id s \<Longrightarrow> is_internal_principal_id (normalize_external (''ext:'' @ s))"
  by (simp only: normalize_external_ext)

lemma internal_not_ext: "is_internal_principal_id s \<Longrightarrow> normalize_external s = s"
  by (auto simp: is_internal_principal_id_def normalize_external_def starts_with_iff)

lemma resolve_owner_id_not_service:
  "p_id (resolve_obligation_owner p) \<noteq> SERVICE_PRINCIPAL_ID"
  by (auto simp: resolve_obligation_owner_def Let_def system_owner_def SYSTEM_PRINCIPAL_ID_def
      SERVICE_PRINCIPAL_ID_def)

end
