(* ===== verification/TaskRepo.thy ===== *)
theory TaskRepo
  imports Store Principals
begin

text \<open>\<open>TaskRepository\<close> of \<open>src/asyncgate/db/repositories.py\<close>.\<close>

section \<open>Queries\<close>

definition task_get :: "uuid \<Rightarrow> uuid \<Rightarrow> task option M" where
  "task_get tn tid = one_or_none (\<lambda>d. filter (task_at tn tid) (db_tasks d))"

definition task_by_idempotency_key :: "uuid \<Rightarrow> string \<Rightarrow> task option M" where
  "task_by_idempotency_key tn key =
     one_or_none (\<lambda>d. filter (\<lambda>t. t_tenant t = tn \<and> t_idempotency_key t = Some key) (db_tasks d))"

definition task_get_many :: "uuid \<Rightarrow> uuid list \<Rightarrow> (uuid \<times> task) list M" where
  "task_get_many tn ids =
     (if ids = [] then return []
      else select (\<lambda>d. map (\<lambda>t. (t_id t, t))
             (filter (\<lambda>t. t_tenant t = tn \<and> t_id t \<in> set ids) (db_tasks d))))"

definition task_matches ::
    "uuid \<Rightarrow> task_status option \<Rightarrow> string option \<Rightarrow> string option \<Rightarrow> datetime option \<Rightarrow> task \<Rightarrow> bool" where
  "task_matches tn status type created_by_id older_than t \<longleftrightarrow> t_tenant t = tn \<and>
     (case status of None \<Rightarrow> True | Some s \<Rightarrow> t_status t = s) \<and>
     (if truthy_str type then t_type t = the type else True) \<and>
     (if truthy_str created_by_id
      then p_id (t_created_by t) \<in> set (principal_id_variants (the created_by_id)) else True) \<and>
     (case older_than of None \<Rightarrow> True | Some c \<Rightarrow> t_created_at t < c)"

text \<open>
  One row more than the page is fetched; its presence yields the cursor. \<open>rows[-1]\<close> of an
  empty page is an \<open>IndexError\<close> (a limit of 0), \<open>rows[:limit]\<close> with \<open>limit = -1\<close> drops the
  last row (and no row is fetched then).
\<close>

definition page :: "int \<Rightarrow> 'r list \<Rightarrow> exn + 'r list \<times> 'r option" where
  "page limit rows =
     (case sql_limit (limit + 1) rows of Inl x \<Rightarrow> Inl x
      | Inr rs \<Rightarrow>
          if limit < int (length rs) then
            (let kept = take (nat limit) rs in
             if kept = [] then Inl IndexError else Inr (kept, Some (last kept)))
          else Inr (rs, None))"

definition parse_cursor :: "string option \<Rightarrow> exn + datetime option" where
  "parse_cursor c = (if truthy_str c
     then (case fromisoformat (the c) of None \<Rightarrow> Inl (ValueError (Bad_datetime (the c)))
           | Some t \<Rightarrow> Inr (Some t))
     else Inr None)"

definition task_list ::
    "uuid \<Rightarrow> task_status option \<Rightarrow> string option \<Rightarrow> string option \<Rightarrow> int \<Rightarrow> string option \<Rightarrow>
     (task list \<times> string option) M" where
  "task_list tn status type created_by_id limit cursor =
     bind (lift_sum (parse_cursor cursor)) (\<lambda>older_than.
     bind (select (\<lambda>d. order_by_desc t_created_at
             (filter (task_matches tn status type created_by_id older_than) (db_tasks d)))) (\<lambda>rows.
     bind (lift_sum (page limit rows)) (\<lambda>(kept, last_row).
     return (kept, map_option (\<lambda>t. isoformat (t_created_at t)) last_row))))"

text \<open>\<open>GROUP BY status\<close>, read through \<open>status_counts.get(status, 0)\<close>.\<close>

definition task_count_by_status :: "uuid \<Rightarrow> (task_status \<Rightarrow> int) M" where
  "task_count_by_status tn =
     select (\<lambda>d s. int (length (filter (\<lambda>t. t_tenant t = tn \<and> t_status t = s) (db_tasks d))))"

section \<open>Creation\<close>

text \<open>\<open>principal_ai or created_by.instance_id or created_by.id\<close>.\<close>

definition resolve_principal_ai :: "string option \<Rightarrow> principal \<Rightarrow> string" where
  "resolve_principal_ai principal_ai created_by =
     or_str principal_ai (or_str (p_instance created_by) (p_id created_by))"

definition delayed :: "datetime \<Rightarrow> int option \<Rightarrow> exn + datetime option" where
  "delayed now delay = (case delay of None \<Rightarrow> Inr None
     | Some s \<Rightarrow> if s = 0 then Inr None
         else case add_seconds now s of None \<Rightarrow> Inl OverflowError | Some t \<Rightarrow> Inr (Some t))"

definition new_task ::
    "settings \<Rightarrow> uuid \<Rightarrow> uuid \<Rightarrow> datetime \<Rightarrow> string \<Rightarrow> dict \<Rightarrow> principal \<Rightarrow> string option \<Rightarrow>
     string option \<Rightarrow> task_requirements option \<Rightarrow> string option \<Rightarrow> string option \<Rightarrow> int \<Rightarrow>
     string option \<Rightarrow> int option \<Rightarrow> int option \<Rightarrow> datetime option \<Rightarrow> task" where
  "new_task s tn tid now type payload created_by principal_ai payload_pointer requirements
      expected_kind expected_mime priority idempotency_key max_attempts backoff eligible =
   \<lparr>t_tenant = tn, t_id = tid, t_type = type, t_payload = payload,
    t_payload_pointer = Some (or_str payload_pointer (''inline://task/'' @ uuid_str tid)),
    t_created_by = created_by, t_principal_ai = resolve_principal_ai principal_ai created_by,
    t_requirements = (case requirements of None \<Rightarrow> \<lparr>capabilities = [], tags = []\<rparr> | Some q \<Rightarrow> q),
    t_expected_outcome_kind = expected_kind, t_expected_artifact_mime = expected_mime,
    t_priority = priority, t_status = QUEUED, t_attempt = 0,
    t_max_attempts = or_default max_attempts (default_max_attempts s),
    t_retry_backoff = or_default backoff (default_retry_backoff s),
    t_idempotency_key = idempotency_key, t_created_at = now, t_updated_at = now,
    t_next_eligible_at = eligible, t_started_at = None, t_result = None,
    t_instance = Some (instance_id s)\<rparr>"

text \<open>
  Insert first; on a constraint violation the whole session is rolled back and the task
  with the idempotency key is fetched, else the violation is raised again.
\<close>

definition task_create ::
    "env \<Rightarrow> uuid \<Rightarrow> string \<Rightarrow> dict \<Rightarrow> principal \<Rightarrow> string option \<Rightarrow> string option \<Rightarrow>
     task_requirements option \<Rightarrow> string option \<Rightarrow> string option \<Rightarrow> int \<Rightarrow> string option \<Rightarrow>
     int option \<Rightarrow> int option \<Rightarrow> int option \<Rightarrow> task M" where
  "task_create e tn type payload created_by principal_ai payload_pointer requirements
      expected_kind expected_mime priority idempotency_key max_attempts backoff delay =
     bind (utc_now e) (\<lambda>now.
     bind uuid4 (\<lambda>tid.
     bind (lift_sum (delayed now delay)) (\<lambda>eligible.
     (let row = new_task (cfg e) tn tid now type payload created_by principal_ai payload_pointer
                  requirements expected_kind expected_mime priority idempotency_key max_attempts
                  backoff eligible
      in try_except (seq (insert_task row) (return row))
           (\<lambda>ex. if ex = IntegrityError then
                   seq session_rollback
                     (if truthy_str idempotency_key then
                        bind (task_by_idempotency_key tn (the idempotency_key)) (\<lambda>existing.
                        some_or_raise existing IntegrityError)
                      else raise IntegrityError)
                 else raise ex)))))"

section \<open>Updates\<close>

definition with_status ::
    "datetime \<Rightarrow> task_status \<Rightarrow> task_result option \<Rightarrow> datetime option \<Rightarrow> task \<Rightarrow> task" where
  "with_status now new_status result started_at t =
     t\<lparr>t_status := new_status, t_updated_at := now,
       t_result := (case result of None \<Rightarrow> t_result t | Some r \<Rightarrow> Some r),
       t_started_at := (case started_at of None \<Rightarrow> t_started_at t | Some s \<Rightarrow> Some s)\<rparr>"

definition task_update_status ::
    "env \<Rightarrow> uuid \<Rightarrow> uuid \<Rightarrow> task_status \<Rightarrow> task_result option \<Rightarrow> datetime option \<Rightarrow> task option M" where
  "task_update_status e tn tid new_status result started_at =
     bind (utc_now e) (\<lambda>now.
     seq (update_task tn tid (with_status now new_status result started_at))
       (task_get tn tid))"

definition task_cancel :: "env \<Rightarrow> uuid \<Rightarrow> uuid \<Rightarrow> string option \<Rightarrow> task option M" where
  "task_cancel e tn tid reason =
     bind (task_get tn tid) (\<lambda>t.
     case t of None \<Rightarrow> return None
     | Some task \<Rightarrow>
         if is_terminal task then return (Some task)
         else bind (utc_now e) (\<lambda>completed.
              task_update_status e tn tid CANCELED
                (Some \<lparr>tr_outcome = O_CANCELED, tr_result = None,
                   tr_error = (if truthy_str reason then Some [(''reason'', JStr (the reason))] else None),
                   tr_artifacts = None, tr_completed_at = completed\<rparr>) None))"

text \<open>
  \<open>min(base * 2 ** (attempt - 1), cap)\<close> seconds, in microseconds; with \<open>attempt = 0\<close> the
  power is the float 0.5, so the product is half the base.
\<close>

definition backoff_us :: "int \<Rightarrow> int \<Rightarrow> int \<Rightarrow> int" where
  "backoff_us base cap attempt =
     (if 1 \<le> attempt then min (base * 2 ^ nat (attempt - 1)) cap * second
      else min (base * second div 2 ^ nat (1 - attempt)) (cap * second))"

definition requeued :: "datetime \<Rightarrow> int \<Rightarrow> datetime \<Rightarrow> task \<Rightarrow> task" where
  "requeued now attempt eligible t =
     t\<lparr>t_status := QUEUED, t_attempt := attempt, t_next_eligible_at := Some eligible,
       t_updated_at := now, t_started_at := None\<rparr>"

definition task_requeue_with_backoff :: "env \<Rightarrow> uuid \<Rightarrow> uuid \<Rightarrow> bool \<Rightarrow> task option M" where
  "task_requeue_with_backoff e tn tid increment =
     bind (task_get tn tid) (\<lambda>t.
     case t of None \<Rightarrow> return None
     | Some task \<Rightarrow>
         bind (utc_now e) (\<lambda>now.
         (let attempt = (if increment then t_attempt task + 1 else t_attempt task) in
         bind (some_or_raise (add_us now (backoff_us (t_retry_backoff task) (max_retry_backoff (cfg e)) attempt))
                OverflowError) (\<lambda>eligible.
         seq (update_task tn tid (requeued now attempt eligible))
           (task_get tn tid)))))"

definition task_requeue_on_expiry :: "env \<Rightarrow> uuid \<Rightarrow> uuid \<Rightarrow> int \<Rightarrow> task option M" where
  "task_requeue_on_expiry e tn tid jitter =
     bind (task_get tn tid) (\<lambda>t.
     case t of None \<Rightarrow> return None
     | Some task \<Rightarrow>
         bind (utc_now e) (\<lambda>now.
         bind (some_or_raise (add_us now jitter) OverflowError) (\<lambda>eligible.
         seq (update_task tn tid (requeued now (t_attempt task) eligible))
           (task_get tn tid))))"

section \<open>Lemmas\<close>

lemma with_status_frozen [simp]: "keeps_frozen (with_status now s r st)"
  by (simp add: keeps_frozen_def t_frozen_def with_status_def)

lemma requeued_frozen [simp]: "keeps_frozen (requeued now a el)"
  by (simp add: keeps_frozen_def t_frozen_def requeued_def)

lemma with_status_sel [simp]:
  "t_tenant (with_status now s r st t) = t_tenant t" "t_id (with_status now s r st t) = t_id t"
  "t_status (with_status now s r st t) = s" "t_attempt (with_status now s r st t) = t_attempt t"
  "t_max_attempts (with_status now s r st t) = t_max_attempts t"
  "t_created_by (with_status now s r st t) = t_created_by t"
  "t_result (with_status now s (Some x) st t) = Some x"
  "t_result (with_status now s None st t) = t_result t"
  by (simp_all add: with_status_def)

lemma requeued_sel [simp]:
  "t_tenant (requeued now a el t) = t_tenant t" "t_id (requeued now a el t) = t_id t"
  "t_status (requeued now a el t) = QUEUED" "t_attempt (requeued now a el t) = a"
  "t_max_attempts (requeued now a el t) = t_max_attempts t"
  "t_created_by (requeued now a el t) = t_created_by t"
  "t_result (requeued now a el t) = t_result t" "t_started_at (requeued now a el t) = None"
  "t_next_eligible_at (requeued now a el t) = Some el"
  by (simp_all add: requeued_def)

lemma keeps_task_reads [keeps_intros, simp]:
  "keeps I (task_get tn tid)" "keeps I (task_by_idempotency_key tn k)" "keeps I (task_get_many tn ids)"
  "keeps I (task_count_by_status tn)" "keeps I (task_list tn st ty cb lmt cur)"
  by (auto simp: task_get_def task_by_idempotency_key_def task_get_many_def task_count_by_status_def
      task_list_def split: prod.splits intro!: keeps_intros)

lemma backoff_us_capped: "backoff_us base cap attempt \<le> cap * second"
  by (auto simp: backoff_us_def second_def min_def)

lemma backoff_us_nonneg: "0 \<le> base \<Longrightarrow> 0 \<le> cap \<Longrightarrow> 0 \<le> backoff_us base cap attempt"
  by (auto simp: backoff_us_def second_def min_def pos_imp_zdiv_nonneg_iff)

lemma page_Inr:
  "page limit rows = Inr (kept, nxt) \<Longrightarrow>
     kept = take (nat limit) rows \<and> (nxt = None \<longleftrightarrow> int (length rows) \<le> limit) \<and>
     (nxt \<noteq> None \<longrightarrow> kept \<noteq> [] \<and> nxt = Some (last kept))"
  by (auto simp: page_def sql_limit_def Let_def nat_add_distrib min_def split: if_splits)

context store_frame
begin

lemma keeps_task_create [keeps_intros]:
  "T tn \<Longrightarrow> keeps (on_db P) (task_create e tn ty pl cb pa pp rq ok om pri ik ma bo dl)"
  by (auto simp: task_create_def new_task_def Let_def intro!: keeps_intros)

lemma keeps_task_update_status [keeps_intros]:
  "T tn \<Longrightarrow> keeps (on_db P) (task_update_status e tn tid s r st)"
  by (auto simp: task_update_status_def intro!: keeps_intros)

lemma keeps_task_cancel [keeps_intros]: "T tn \<Longrightarrow> keeps (on_db P) (task_cancel e tn tid reason)"
  by (auto simp: task_cancel_def intro!: keeps_intros)

lemma keeps_task_requeue [keeps_intros]:
  "T tn \<Longrightarrow> keeps (on_db P) (task_requeue_with_backoff e tn tid inc)"
  "T tn \<Longrightarrow> keeps (on_db P) (task_requeue_on_expiry e tn tid j)"
  by (auto simp: task_requeue_with_backoff_def task_requeue_on_expiry_def Let_def intro!: keeps_intros)

end

end
