(* ===== verification/LeaseRepo.thy ===== *)
theory LeaseRepo
  imports TaskRepo
begin

text \<open>
  \<open>LeaseRepository\<close> of \<open>src/asyncgate/db/repositories.py\<close>. Row locks order concurrent
  transactions and have no effect within one, so \<open>for_update\<close> leaves no trace here: the
  development reasons about a call against an arbitrary database, the one it finds when it
  gets the lock.
\<close>

section \<open>Claiming\<close>

definition claimable :: "uuid \<Rightarrow> datetime \<Rightarrow> string list option \<Rightarrow> task \<Rightarrow> bool" where
  "claimable tn now accept_types t \<longleftrightarrow> t_tenant t = tn \<and> t_status t = QUEUED \<and>
     (case t_next_eligible_at t of None \<Rightarrow> True | Some el \<Rightarrow> el \<le> now) \<and>
     (truthy_list accept_types \<longrightarrow> t_type t \<in> set (list_of accept_types))"

text \<open>\<open>ORDER BY priority DESC, created_at ASC\<close>: two stable sorts, the last key first.\<close>

definition claim_order :: "task list \<Rightarrow> task list" where
  "claim_order ts = order_by_desc t_priority (order_by t_created_at ts)"

text \<open>The capability check of the loop, \<open>continue\<close> on False.\<close>

definition caps_match :: "string list \<Rightarrow> string list option \<Rightarrow> bool" where
  "caps_match task_caps caps \<longleftrightarrow>
     (if task_caps \<noteq> [] \<and> truthy_list caps then set task_caps \<subseteq> set (list_of caps)
      else \<not> (task_caps \<noteq> [] \<and> \<not> truthy_list caps))"

definition claim_candidates ::
    "uuid \<Rightarrow> datetime \<Rightarrow> string list option \<Rightarrow> int \<Rightarrow> db \<Rightarrow> exn + task list" where
  "claim_candidates tn now accept_types max_tasks d =
     sql_limit max_tasks (claim_order (filter (claimable tn now accept_types) (db_tasks d)))"

definition grant_lease :: "uuid \<Rightarrow> string \<Rightarrow> datetime \<Rightarrow> datetime \<Rightarrow> task \<Rightarrow> lease M" where
  "grant_lease tn worker now expires t =
     bind uuid4 (\<lambda>lid.
     (let l = \<lparr>l_id = lid, l_tenant = tn, l_task = t_id t, l_worker = worker,
               l_expires_at = expires, l_created_at = now, l_acquired_at = now,
               l_renewal_count = 0\<rparr>
      in seq (insert_lease l)
           (seq (update_task tn (t_id t) (\<lambda>x. x\<lparr>t_status := LEASED, t_updated_at := now\<rparr>))
              (return l))))"

definition lease_claim_next ::
    "env \<Rightarrow> uuid \<Rightarrow> string \<Rightarrow> string list option \<Rightarrow> string list option \<Rightarrow> int \<Rightarrow> int option \<Rightarrow> lease list M" where
  "lease_claim_next e tn worker caps accept_types max_tasks ttl =
     bind (utc_now e) (\<lambda>now.
     bind (some_or_raise (add_seconds now
             (min (or_default ttl (default_lease_ttl (cfg e))) (max_lease_ttl (cfg e)))) OverflowError) (\<lambda>expires.
     bind (select (claim_candidates tn now accept_types max_tasks)) (\<lambda>found.
     bind (lift_sum found) (\<lambda>ts.
     for_each (grant_lease tn worker now expires)
       (filter (\<lambda>t. caps_match (capabilities (t_requirements t)) caps) ts)))))"

section \<open>Queries\<close>

definition lease_get :: "uuid \<Rightarrow> uuid \<Rightarrow> lease option M" where
  "lease_get tn tid = one_or_none (\<lambda>d. filter (\<lambda>l. l_tenant l = tn \<and> l_task l = tid) (db_leases d))"

definition held_by :: "uuid \<Rightarrow> uuid \<Rightarrow> uuid \<Rightarrow> string \<Rightarrow> lease \<Rightarrow> bool" where
  "held_by tn tid lid worker l \<longleftrightarrow>
     l_tenant l = tn \<and> l_task l = tid \<and> l_id l = lid \<and> l_worker l = worker"

definition live_lease :: "uuid \<Rightarrow> uuid \<Rightarrow> uuid \<Rightarrow> string \<Rightarrow> datetime \<Rightarrow> lease \<Rightarrow> bool" where
  "live_lease tn tid lid worker now l \<longleftrightarrow> held_by tn tid lid worker l \<and> now < l_expires_at l"

definition lease_validate :: "env \<Rightarrow> uuid \<Rightarrow> uuid \<Rightarrow> uuid \<Rightarrow> string \<Rightarrow> lease option M" where
  "lease_validate e tn tid lid worker =
     bind (utc_now e) (\<lambda>now.
     one_or_none (\<lambda>d. filter (live_lease tn tid lid worker now) (db_leases d)))"

definition lease_list_for_worker :: "uuid \<Rightarrow> string \<Rightarrow> lease list M" where
  "lease_list_for_worker tn worker =
     select (\<lambda>d. filter (\<lambda>l. l_tenant l = tn \<and> l_worker l = worker) (db_leases d))"

definition expired_at :: "datetime \<Rightarrow> string option \<Rightarrow> task list \<Rightarrow> lease \<Rightarrow> bool" where
  "expired_at now inst ts l \<longleftrightarrow> l_expires_at l < now \<and>
     (\<exists>t \<in> set ts. t_key t = l_key l \<and> in_flight (t_status t) \<and>
        (truthy_str inst \<longrightarrow> t_instance t = inst))"

definition lease_get_expired :: "env \<Rightarrow> int \<Rightarrow> string option \<Rightarrow> lease list M" where
  "lease_get_expired e limit inst =
     bind (utc_now e) (\<lambda>now.
     bind (select (\<lambda>d. sql_limit limit (filter (expired_at now inst (db_tasks d)) (db_leases d))))
       lift_sum)"

section \<open>Renewal and release\<close>

definition renewed :: "datetime \<Rightarrow> int \<Rightarrow> lease \<Rightarrow> lease" where
  "renewed expires n l = l\<lparr>l_expires_at := expires, l_renewal_count := n\<rparr>"

text \<open>
  The row is looked up without an expiry condition. Both limits are checked before the new
  expiry is computed; the update addresses the row by its primary key.
\<close>

definition lease_renew ::
    "env \<Rightarrow> uuid \<Rightarrow> uuid \<Rightarrow> uuid \<Rightarrow> string \<Rightarrow> int option \<Rightarrow> lease option M" where
  "lease_renew e tn tid lid worker extend_by =
     bind (one_or_none (\<lambda>d. filter (held_by tn tid lid worker) (db_leases d))) (\<lambda>row.
     case row of None \<Rightarrow> return None
     | Some l \<Rightarrow>
         bind (utc_now e) (\<lambda>now.
         seq (ensure (\<not> max_lease_renewals (cfg e) \<le> l_renewal_count l)
                (LeaseRenewalLimitExceeded tid lid (l_renewal_count l) (max_lease_renewals (cfg e))))
         (seq (ensure (\<not> max_lease_lifetime (cfg e) \<le> trunc_seconds (now - l_acquired_at l))
                (LeaseLifetimeExceeded tid lid (trunc_seconds (now - l_acquired_at l)) (max_lease_lifetime (cfg e))))
         (bind (some_or_raise (add_seconds now
                 (min (or_default extend_by (default_lease_ttl (cfg e))) (max_lease_ttl (cfg e)))) OverflowError) (\<lambda>expires.
         seq (ensure (int4 (l_renewal_count l + 1)) DataError)
         (seq (update_lease lid (renewed expires (l_renewal_count l + 1)))
           (return (Some (renewed expires (l_renewal_count l + 1) l)))))))))"

definition lease_release :: "uuid \<Rightarrow> uuid \<Rightarrow> uuid option \<Rightarrow> bool M" where
  "lease_release tn tid lid =
     bind (select (\<lambda>d. \<exists>l \<in> set (db_leases d). lease_at tn tid lid l)) (\<lambda>hit.
     seq (write_db (drop_leases tn tid lid)) (return hit))"

section \<open>Lemmas\<close>

lemma renewed_frozen [simp]: "keeps_lease_frozen (renewed x n)"
  by (simp add: keeps_lease_frozen_def l_frozen_def renewed_def)

lemma renewed_sel [simp]:
  "l_id (renewed x n l) = l_id l" "l_tenant (renewed x n l) = l_tenant l"
  "l_task (renewed x n l) = l_task l" "l_worker (renewed x n l) = l_worker l"
  "l_expires_at (renewed x n l) = x" "l_renewal_count (renewed x n l) = n"
  "l_acquired_at (renewed x n l) = l_acquired_at l"
  by (simp_all add: renewed_def)

lemma leased_frozen [simp]: "keeps_frozen (\<lambda>x. x\<lparr>t_status := s, t_updated_at := now\<rparr>)"
  by (simp add: keeps_frozen_def t_frozen_def)

lemma keeps_lease_reads [keeps_intros, simp]:
  "keeps I (lease_get tn tid)" "keeps (on_db P) (lease_validate e tn tid lid wk)"
  "keeps I (lease_list_for_worker tn wk)" "keeps (on_db P) (lease_get_expired e n i)"
  by (auto simp: lease_get_def lease_validate_def lease_list_for_worker_def lease_get_expired_def
      intro!: keeps_intros)

lemma claim_order_set [simp]: "set (claim_order ts) = set ts"
  by (simp add: claim_order_def)

lemma length_claim_order [simp]: "length (claim_order ts) = length ts"
  by (simp add: claim_order_def order_by_def order_by_desc_def)

text \<open>The order in which tasks are offered: by priority, then oldest first.\<close>

definition before_in_queue :: "task \<Rightarrow> task \<Rightarrow> bool" where
  "before_in_queue x y \<longleftrightarrow> t_priority y < t_priority x \<or>
     (t_priority x = t_priority y \<and> t_created_at x \<le> t_created_at y)"

lemma filter_split_at:
  assumes "j < length s" "p (s ! j)"
  shows "filter p s = filter p (take j s) @ s ! j # filter p (drop (Suc j) s)"
proof -
  have "filter p s = filter p (take j s @ s ! j # drop (Suc j) s)"
    using assms(1) by (metis id_take_nth_drop)
  with assms(2) show ?thesis by simp
qed

lemma sorted_wrt_claim_order: "sorted_wrt before_in_queue (claim_order ts)"
proof -
  let ?c = "sort_key t_created_at ts" and ?k = "\<lambda>t. - t_priority t"
  have "before_in_queue (sort_key ?k ?c ! i) (sort_key ?k ?c ! j)"
    if ij: "i < j" "j < length (sort_key ?k ?c)" for i j
  proof -
    let ?s = "sort_key ?k ?c"
    have le: "?k (?s ! i) \<le> ?k (?s ! j)"
      using sorted_nth_mono [of "map ?k ?s" i j] ij by simp
    show ?thesis
    proof (cases "?k (?s ! i) = ?k (?s ! j)")
      case False
      with le show ?thesis by (simp add: before_in_queue_def)
    next
      case True
      let ?p = "\<lambda>t. ?k t = ?k (?s ! i)"
      have f: "filter ?p ?s = filter ?p ?c" by (rule sort_key_stable)
      have "sorted (map t_created_at (filter ?p ?c))"
        by (simp add: sorted_filter)
      with f have s: "sorted (map t_created_at (filter ?p ?s))" by simp
      have "filter ?p ?s = filter ?p (take j ?s) @ ?s ! j # filter ?p (drop (Suc j) ?s)"
        by (rule filter_split_at) (use ij True in auto)
      moreover have "?s ! i \<in> set (filter ?p (take j ?s))"
        using ij by (auto simp: in_set_conv_nth intro!: exI [of _ i])
      ultimately have "t_created_at (?s ! i) \<le> t_created_at (?s ! j)"
        using s by (auto simp: sorted_append)
      with True show ?thesis by (simp add: before_in_queue_def)
    qed
  qed
  then show ?thesis by (simp add: claim_order_def order_by_def order_by_desc_def sorted_wrt_iff_nth_less)
qed

lemma scalar_held: "scalar_one_or_none x (filter (held_by tn tid lid wk) ls) = Inr (Some l) \<Longrightarrow>
    l \<in> set ls \<and> held_by tn tid lid wk l"
  by (rule scalar_Some)

context store_frame
begin

lemma keeps_grant_lease [keeps_intros]: "T tn \<Longrightarrow> keeps (on_db P) (grant_lease tn wk now ex t)"
  by (auto simp: grant_lease_def Let_def intro!: keeps_intros)

lemma keeps_lease_claim_next [keeps_intros]:
  "T tn \<Longrightarrow> keeps (on_db P) (lease_claim_next e tn wk caps acc n ttl)"
  by (auto simp: lease_claim_next_def intro!: keeps_intros)

lemma keeps_lease_release [keeps_intros]: "T tn \<Longrightarrow> keeps (on_db P) (lease_release tn tid lid)"
  by (auto simp: lease_release_def intro!: keeps_intros)

lemma keeps_lease_renew [keeps_intros]:
  assumes "T tn" shows "keeps (on_db P) (lease_renew e tn tid lid wk ext)"
  unfolding keeps_wp
proof (intro allI impI)
  fix w assume w: "on_db P w"
  have "P (set_lease lid (renewed x n) (w_db w)) (w_committed w)"
    if "scalar_one_or_none MultipleResultsFound (filter (held_by tn tid lid wk) (db_leases (w_db w))) = Inr (Some l)"
    for x n l
    using w assms scalar_held [OF that] by (intro upd_lease [of _ _ tn]) (auto simp: on_db_def held_by_def)
  then show "wp (lease_renew e tn tid lid wk ext) (\<lambda>_. on_db P) (\<lambda>_. on_db P) w"
    using w by (auto simp: lease_renew_def wp_simps on_db_def split: sum.split option.split)
qed

end

end
