(* ===== verification/ReceiptRepo.thy ===== *)
theory ReceiptRepo
  imports TaskRepo
begin

text \<open>
  Receipts: the deduplication hash of \<open>models/receipt.py\<close> and \<open>ReceiptRepository\<close> of
  \<open>db/repositories.py\<close>. A \<open>parents\<close> argument is optional as in the source, where None and
  the empty list differ only in what is stored.
\<close>

section \<open>The deduplication hash\<close>

definition uuid_opt :: "uuid option \<Rightarrow> json" where
  "uuid_opt u = (case u of None \<Rightarrow> JNull | Some x \<Rightarrow> JStr (uuid_str x))"

definition body_digest :: "env \<Rightarrow> dict option \<Rightarrow> json" where
  "body_digest e body = (if truthy_list body
     then JStr (e_sha256 e (dumps_canonical (JDict (dict_of body)))) else JNull)"

definition hash_input ::
    "env \<Rightarrow> receipt_type \<Rightarrow> uuid option \<Rightarrow> principal \<Rightarrow> principal \<Rightarrow> uuid option \<Rightarrow> dict option \<Rightarrow>
     uuid list option \<Rightarrow> dict" where
  "hash_input e ty task from to lease body parents =
     [(''receipt_type'', JStr (receipt_type_value ty)), (''task_id'', uuid_opt task),
      (''from_kind'', JStr (kind_value (p_kind from))), (''from_id'', JStr (p_id from)),
      (''to_kind'', JStr (kind_value (p_kind to))), (''to_id'', JStr (p_id to)),
      (''lease_id'', uuid_opt lease),
      (''parents'', JList (map JStr (sort (map uuid_str (list_of parents))))),
      (''body_hash'', body_digest e body)]"

definition compute_receipt_hash ::
    "env \<Rightarrow> receipt_type \<Rightarrow> uuid option \<Rightarrow> principal \<Rightarrow> principal \<Rightarrow> uuid option \<Rightarrow> dict option \<Rightarrow>
     uuid list option \<Rightarrow> string" where
  "compute_receipt_hash e ty task from to lease body parents =
     e_sha256 e (dumps_canonical (JDict (hash_input e ty task from to lease body parents)))"

section \<open>Creation\<close>

definition MAX_RECEIPT_BODY_BYTES :: nat where "MAX_RECEIPT_BODY_BYTES = 64 * 1024"
definition MAX_RECEIPT_PARENTS :: nat where "MAX_RECEIPT_PARENTS = 10"
definition MAX_RECEIPT_ARTIFACTS :: nat where "MAX_RECEIPT_ARTIFACTS = 100"

definition body_size :: "dict option \<Rightarrow> nat" where
  "body_size body = length (dumps_compact (JDict (dict_of body)))"

definition artifact_count :: "dict option \<Rightarrow> nat" where
  "artifact_count body = (case dict_get (dict_of body) ''artifacts'' of JList xs \<Rightarrow> length xs | _ \<Rightarrow> 0)"

text \<open>The limits T5.1, in the order they are checked.\<close>

definition check_size :: "dict option \<Rightarrow> uuid list option \<Rightarrow> exn + unit" where
  "check_size body parents =
     (if truthy_list body \<and> MAX_RECEIPT_BODY_BYTES < body_size body
      then Inl (ValueError (Body_too_large (body_size body)))
      else if MAX_RECEIPT_PARENTS < length (list_of parents)
      then Inl (ValueError (Too_many_parents (length (list_of parents))))
      else if MAX_RECEIPT_ARTIFACTS < artifact_count body
      then Inl (ValueError (Too_many_artifacts (artifact_count body)))
      else Inr ())"

text \<open>T1.1: a terminal receipt names parents, and each is a receipt of the tenant.\<close>

definition check_parents :: "uuid \<Rightarrow> receipt_type \<Rightarrow> uuid list option \<Rightarrow> unit M" where
  "check_parents tn ty parents =
     (if is_terminal_type ty then
        seq (ensure (truthy_list parents) (ValueError (Terminal_without_parents ty)))
          (seq (for_each (\<lambda>p. bind (select (receipt_exists tn p)) (\<lambda>found.
                  ensure found (ValueError (Parent_not_found p tn)))) (list_of parents))
             (return ()))
      else return ())"

text \<open>T1.2: a success that is not locatable loses its parents.\<close>

definition strips_parents :: "receipt_type \<Rightarrow> dict option \<Rightarrow> bool" where
  "strips_parents ty body \<longleftrightarrow> ty = TASK_COMPLETED \<and> \<not> locatable body"

definition parents_used :: "receipt_type \<Rightarrow> dict option \<Rightarrow> uuid list option \<Rightarrow> uuid list option" where
  "parents_used ty body parents = (if strips_parents ty body then Some [] else parents)"

definition receipt_by_hash :: "uuid \<Rightarrow> string \<Rightarrow> receipt option M" where
  "receipt_by_hash tn h =
     one_or_none (\<lambda>d. filter (\<lambda>r. r_tenant r = tn \<and> r_hash r = Some h) (db_receipts d))"

definition new_receipt ::
    "settings \<Rightarrow> uuid \<Rightarrow> uuid \<Rightarrow> receipt_type \<Rightarrow> datetime \<Rightarrow> principal \<Rightarrow> principal \<Rightarrow> uuid option \<Rightarrow>
     uuid option \<Rightarrow> string option \<Rightarrow> uuid list \<Rightarrow> dict \<Rightarrow> string option \<Rightarrow> receipt" where
  "new_receipt s tn rid ty now from to task lease schedule parents body h =
   \<lparr>r_tenant = tn, r_id = rid, r_type = ty, r_created_at = now,
    r_from = mk_principal (p_kind from) (p_id from), r_to = mk_principal (p_kind to) (p_id to),
    r_task = task, r_lease = lease, r_schedule = schedule, r_parents = parents, r_body = body,
    r_hash = h, r_instance = Some (instance_id s), r_delivered_at = None\<rparr>"

definition anomaly_message :: "uuid \<Rightarrow> string" where
  "anomaly_message rid = ''Success receipt '' @ uuid_str rid @
     '' lacks locatability (no artifacts or delivery_proof). '' @
     ''Obligation remains open until properly locatable success is provided.''"

definition anomaly_body :: "uuid \<Rightarrow> uuid list option \<Rightarrow> json \<Rightarrow> dict" where
  "anomaly_body rid parents trace =
     [(''anomaly_type'', JStr ''locatability_missing''), (''message'', JStr (anomaly_message rid)),
      (''original_receipt_id'', JStr (uuid_str rid)),
      (''stripped_parents'', JList (map (\<lambda>p. JStr (uuid_str p)) (list_of parents)))] @
     (if truthy trace then [(''trace_id'', trace)] else [])"

definition emit_anomaly ::
    "env \<Rightarrow> uuid \<Rightarrow> uuid \<Rightarrow> principal \<Rightarrow> uuid option \<Rightarrow> uuid list option \<Rightarrow> dict option \<Rightarrow> unit M" where
  "emit_anomaly e tn rid to task parents body =
     bind get_trace_id (\<lambda>current.
     (let from_body = dict_get (dict_of body) ''trace_id'';
          trace = (if truthy from_body then from_body else str_opt current)
      in bind uuid4 (\<lambda>aid.
         bind (utc_now e) (\<lambda>now.
         insert_receipt (new_receipt (cfg e) tn aid SYSTEM_ANOMALY now service_principal to task None
           None [rid] (anomaly_body rid parents trace) None)))))"

text \<open>After the checks: the hash, the lookup of a duplicate, the insertion and the anomaly.\<close>

definition receipt_insert ::
    "env \<Rightarrow> uuid \<Rightarrow> uuid \<Rightarrow> datetime \<Rightarrow> receipt_type \<Rightarrow> principal \<Rightarrow> principal \<Rightarrow> uuid option \<Rightarrow>
     uuid option \<Rightarrow> string option \<Rightarrow> uuid list option \<Rightarrow> dict option \<Rightarrow> string option \<Rightarrow> receipt M" where
  "receipt_insert e tn rid now ty from to task lease schedule parents body given_hash =
     (let used = parents_used ty body parents;
          h = (if truthy_str given_hash then the given_hash
               else compute_receipt_hash e ty task from to lease body used);
          row = new_receipt (cfg e) tn rid ty now from to task lease schedule (list_of used)
                  (dict_of body) (Some h)
      in bind (if h \<noteq> [] then receipt_by_hash tn h else return None) (\<lambda>existing.
         case existing of
           Some r \<Rightarrow> return r
         | None \<Rightarrow>
             seq (insert_receipt row)
               (seq (if strips_parents ty body then emit_anomaly e tn rid to task parents body
                     else return ())
                  (return row))))"

definition receipt_create ::
    "env \<Rightarrow> uuid \<Rightarrow> receipt_type \<Rightarrow> principal \<Rightarrow> principal \<Rightarrow> uuid option \<Rightarrow> uuid option \<Rightarrow>
     string option \<Rightarrow> uuid list option \<Rightarrow> dict option \<Rightarrow> string option \<Rightarrow> receipt M" where
  "receipt_create e tn ty from to task lease schedule parents body given_hash =
     bind (utc_now e) (\<lambda>now.
     bind uuid4 (\<lambda>rid.
     seq (lift_sum (check_size body parents))
     (seq (check_parents tn ty parents)
     (receipt_insert e tn rid now ty from to task lease schedule parents body given_hash))))"

section \<open>Queries\<close>

definition first_of :: "'r list \<Rightarrow> 'r option" where
  "first_of rs = (case rs of [] \<Rightarrow> None | r # _ \<Rightarrow> Some r)"

definition addressed_to :: "uuid \<Rightarrow> principal_kind \<Rightarrow> string \<Rightarrow> receipt \<Rightarrow> bool" where
  "addressed_to tn k pid r \<longleftrightarrow>
     r_tenant r = tn \<and> p_kind (r_to r) = k \<and> p_id (r_to r) \<in> set (principal_id_variants pid)"

text \<open>The time of the cursor receipt; an unknown cursor sets no bound.\<close>

definition cursor_time :: "uuid \<Rightarrow> uuid option \<Rightarrow> datetime option M" where
  "cursor_time tn since = (case since of None \<Rightarrow> return None
     | Some rid \<Rightarrow> one_or_none (\<lambda>d. map r_created_at
                     (filter (\<lambda>r. r_tenant r = tn \<and> r_id r = rid) (db_receipts d))))"

definition after :: "datetime option \<Rightarrow> receipt \<Rightarrow> bool" where
  "after c r \<longleftrightarrow> (case c of None \<Rightarrow> True | Some t \<Rightarrow> t < r_created_at r)"

definition receipt_list ::
    "uuid \<Rightarrow> principal_kind \<Rightarrow> string \<Rightarrow> uuid option \<Rightarrow> int \<Rightarrow> (receipt list \<times> uuid option) M" where
  "receipt_list tn k pid since limit =
     bind (cursor_time tn since) (\<lambda>c.
     bind (select (\<lambda>d. order_by r_created_at
             (filter (\<lambda>r. addressed_to tn k pid r \<and> after c r) (db_receipts d)))) (\<lambda>rows.
     bind (lift_sum (page limit rows)) (\<lambda>(kept, last_row).
     return (kept, map_option r_id last_row))))"

definition ledger_matches ::
    "uuid \<Rightarrow> uuid option \<Rightarrow> uuid option \<Rightarrow> receipt_type option \<Rightarrow> task_status option \<Rightarrow> task list \<Rightarrow> receipt \<Rightarrow> bool" where
  "ledger_matches tn task lease ty status ts r \<longleftrightarrow> r_tenant r = tn \<and>
     (task \<noteq> None \<longrightarrow> r_task r = task) \<and> (lease \<noteq> None \<longrightarrow> r_lease r = lease) \<and>
     (case ty of None \<Rightarrow> True | Some x \<Rightarrow> r_type r = x) \<and>
     (case status of None \<Rightarrow> True
      | Some s \<Rightarrow> \<exists>t \<in> set ts. t_tenant t = r_tenant r \<and> Some (t_id t) = r_task r \<and> t_status t = s)"

definition receipt_list_filtered ::
    "uuid \<Rightarrow> uuid option \<Rightarrow> uuid option \<Rightarrow> receipt_type option \<Rightarrow> task_status option \<Rightarrow> uuid option \<Rightarrow>
     int \<Rightarrow> (receipt list \<times> uuid option) M" where
  "receipt_list_filtered tn task lease ty status since limit =
     bind (cursor_time tn since) (\<lambda>c.
     bind (select (\<lambda>d. order_by r_created_at
             (filter (\<lambda>r. ledger_matches tn task lease ty status (db_tasks d) r \<and> after c r)
               (db_receipts d)))) (\<lambda>rows.
     bind (lift_sum (page limit rows)) (\<lambda>(kept, last_row).
     return (kept, map_option r_id last_row))))"

definition receipt_mark_delivered :: "env \<Rightarrow> uuid \<Rightarrow> uuid list \<Rightarrow> int M" where
  "receipt_mark_delivered e tn ids =
     (if ids = [] then return 0
      else bind (utc_now e) (\<lambda>now.
           bind (select (\<lambda>d. length (filter (\<lambda>r. r_tenant r = tn \<and> r_id r \<in> set ids \<and>
                   r_delivered_at r = None) (db_receipts d)))) (\<lambda>n.
           seq (write_db (set_delivered tn ids now)) (return (int n)))))"

definition receipt_undelivered_for_task ::
    "uuid \<Rightarrow> uuid \<Rightarrow> principal_kind \<Rightarrow> string \<Rightarrow> receipt list M" where
  "receipt_undelivered_for_task tn task k pid =
     select (\<lambda>d. filter (\<lambda>r. addressed_to tn k pid r \<and> r_task r = Some task \<and> r_delivered_at r = None)
       (db_receipts d))"

definition receipt_undelivered_by_type ::
    "uuid \<Rightarrow> principal_kind \<Rightarrow> string \<Rightarrow> receipt_type \<Rightarrow> receipt list M" where
  "receipt_undelivered_by_type tn k pid ty =
     select (\<lambda>d. filter (\<lambda>r. addressed_to tn k pid r \<and> r_type r = ty \<and> r_delivered_at r = None)
       (db_receipts d))"

definition receipt_get_by_id :: "uuid \<Rightarrow> uuid \<Rightarrow> receipt option M" where
  "receipt_get_by_id tn rid =
     one_or_none (\<lambda>d. filter (\<lambda>r. r_tenant r = tn \<and> r_id r = rid) (db_receipts d))"

definition is_obligation_of :: "uuid \<Rightarrow> uuid \<Rightarrow> principal option \<Rightarrow> receipt \<Rightarrow> bool" where
  "is_obligation_of tn task owner r \<longleftrightarrow>
     r_tenant r = tn \<and> r_task r = Some task \<and> r_type r = TASK_ASSIGNED \<and>
     (case owner of None \<Rightarrow> True
      | Some p \<Rightarrow> p_kind (r_to r) = p_kind p \<and> p_id (r_to r) \<in> set (principal_id_variants (p_id p)))"

definition receipt_task_obligation :: "uuid \<Rightarrow> uuid \<Rightarrow> principal option \<Rightarrow> receipt option M" where
  "receipt_task_obligation tn task owner =
     select (\<lambda>d. first_of (order_by_desc r_created_at
       (filter (is_obligation_of tn task owner) (db_receipts d))))"

definition has_parent :: "uuid \<Rightarrow> uuid \<Rightarrow> receipt \<Rightarrow> bool" where
  "has_parent tn parent r \<longleftrightarrow> r_tenant r = tn \<and> parent \<in> set (r_parents r)"

definition terminates :: "uuid \<Rightarrow> uuid \<Rightarrow> receipt \<Rightarrow> bool" where
  "terminates tn parent r \<longleftrightarrow> has_parent tn parent r \<and> r_type r \<in> set TERMINAL_RECEIPT_TYPES"

definition receipt_get_by_parent :: "uuid \<Rightarrow> uuid \<Rightarrow> int \<Rightarrow> receipt list M" where
  "receipt_get_by_parent tn parent limit =
     bind (select (\<lambda>d. sql_limit limit (order_by r_created_at
       (filter (has_parent tn parent) (db_receipts d))))) lift_sum"

definition receipt_has_terminator :: "uuid \<Rightarrow> uuid \<Rightarrow> bool M" where
  "receipt_has_terminator tn parent =
     select (\<lambda>d. first_of (filter (terminates tn parent) (db_receipts d)) \<noteq> None)"

definition receipt_get_terminators :: "uuid \<Rightarrow> uuid \<Rightarrow> int \<Rightarrow> receipt list M" where
  "receipt_get_terminators tn parent limit =
     bind (select (\<lambda>d. sql_limit limit (order_by r_created_at
       (filter (terminates tn parent) (db_receipts d))))) lift_sum"

definition receipt_latest_terminator :: "uuid \<Rightarrow> uuid \<Rightarrow> receipt option M" where
  "receipt_latest_terminator tn parent =
     select (\<lambda>d. first_of (order_by_desc r_created_at (filter (terminates tn parent) (db_receipts d))))"

section \<open>Open obligations\<close>

text \<open>The batch check: identifiers of candidates that some terminal receipt names as parent.\<close>

definition terminated_ids :: "uuid \<Rightarrow> uuid list \<Rightarrow> db \<Rightarrow> uuid list" where
  "terminated_ids tn candidates d =
     concat (map (\<lambda>r. filter (\<lambda>p. p \<in> set candidates) (r_parents r))
       (filter (\<lambda>r. r_tenant r = tn \<and> r_type r \<in> set TERMINAL_RECEIPT_TYPES \<and> r_parents r \<noteq> [])
          (db_receipts d)))"

text \<open>The filtering loop, which stops after the row that fills the page.\<close>

fun collect_open :: "int \<Rightarrow> uuid list \<Rightarrow> receipt list \<Rightarrow> receipt list \<Rightarrow> receipt list" where
  "collect_open limit settled acc [] = acc"
| "collect_open limit settled acc (r # rs) =
     (let acc' = (if r_id r \<in> set settled then acc else acc @ [r]) in
      if limit \<le> int (length acc') then acc' else collect_open limit settled acc' rs)"

definition candidate_limit :: "int \<Rightarrow> int" where
  "candidate_limit limit = min (limit * 3) 1000"

definition is_candidate :: "uuid \<Rightarrow> principal_kind \<Rightarrow> string \<Rightarrow> datetime option \<Rightarrow> receipt \<Rightarrow> bool" where
  "is_candidate tn k pid c r \<longleftrightarrow>
     addressed_to tn k pid r \<and> r_type r \<in> set get_obligation_types \<and> after c r"

definition receipt_list_open_obligations ::
    "uuid \<Rightarrow> principal_kind \<Rightarrow> string \<Rightarrow> uuid option \<Rightarrow> int \<Rightarrow> (receipt list \<times> uuid option) M" where
  "receipt_list_open_obligations tn k pid since limit =
     (if get_obligation_types = [] then return ([], None)
      else
      bind (cursor_time tn since) (\<lambda>c.
      bind (select (\<lambda>d. sql_limit (candidate_limit limit + 1) (order_by r_created_at
              (filter (is_candidate tn k pid c) (db_receipts d))))) (\<lambda>q.
      bind (lift_sum q) (\<lambda>fetched.
      if fetched = [] then return ([], None)
      else
      (let more_candidates = (candidate_limit limit < int (length fetched));
           rows = (if more_candidates then take (nat (candidate_limit limit)) fetched else fetched)
       in bind (select (terminated_ids tn (map r_id rows))) (\<lambda>settled.
          (let opened = collect_open limit settled [] rows in
           if limit \<le> int (length opened) then
             (if opened = [] then raise IndexError
              else return (take (nat limit) opened, Some (r_id (last opened))))
           else return (take (nat limit) opened,
             if more_candidates \<and> rows \<noteq> [] then Some (r_id (last rows)) else None))))))))"

section \<open>Lemmas\<close>

lemma new_receipt_sel [simp]:
  "r_tenant (new_receipt s tn rid ty now from to task lease sch ps body h) = tn"
  "r_id (new_receipt s tn rid ty now from to task lease sch ps body h) = rid"
  "r_type (new_receipt s tn rid ty now from to task lease sch ps body h) = ty"
  "r_created_at (new_receipt s tn rid ty now from to task lease sch ps body h) = now"
  "p_kind (r_to (new_receipt s tn rid ty now from to task lease sch ps body h)) = p_kind to"
  "p_id (r_to (new_receipt s tn rid ty now from to task lease sch ps body h)) = p_id to"
  "r_task (new_receipt s tn rid ty now from to task lease sch ps body h) = task"
  "r_lease (new_receipt s tn rid ty now from to task lease sch ps body h) = lease"
  "r_parents (new_receipt s tn rid ty now from to task lease sch ps body h) = ps"
  "r_body (new_receipt s tn rid ty now from to task lease sch ps body h) = body"
  "r_hash (new_receipt s tn rid ty now from to task lease sch ps body h) = h"
  "r_delivered_at (new_receipt s tn rid ty now from to task lease sch ps body h) = None"
  by (simp_all add: new_receipt_def)

lemma keeps_receipt_reads [keeps_intros, simp]:
  "keeps I (receipt_by_hash tn h)" "keeps I (cursor_time tn since)"
  "keeps I (receipt_list tn k pid since n)" "keeps I (receipt_list_filtered tn task lease ty st since n)"
  "keeps I (receipt_get_by_id tn rid)" "keeps I (receipt_task_obligation tn tid owner)"
  "keeps I (receipt_get_by_parent tn p n)" "keeps I (receipt_has_terminator tn p)"
  "keeps I (receipt_get_terminators tn p n)" "keeps I (receipt_latest_terminator tn p)"
  "keeps I (receipt_list_open_obligations tn k pid since n)" "keeps I (check_parents tn ty' ps)"
  by (auto simp: receipt_by_hash_def cursor_time_def receipt_list_def receipt_list_filtered_def
      receipt_get_by_id_def receipt_task_obligation_def receipt_get_by_parent_def
      receipt_has_terminator_def receipt_get_terminators_def receipt_latest_terminator_def
      receipt_list_open_obligations_def check_parents_def Let_def intro!: keeps_intros)

lemma terminates_iff: "terminates tn p r \<longleftrightarrow> has_parent tn p r \<and> is_terminal_type (r_type r)"
  by (simp add: terminates_def is_terminal_type_def)

lemma first_of_None [simp]: "first_of rs = None \<longleftrightarrow> rs = []"
  by (cases rs) (auto simp: first_of_def)

lemma first_of_Some: "first_of rs = Some r \<Longrightarrow> r \<in> set rs"
  by (cases rs) (auto simp: first_of_def)

lemma terminated_ids_iff:
  "x \<in> set (terminated_ids tn ids d) \<longleftrightarrow> x \<in> set ids \<and> (\<exists>r \<in> set (db_receipts d). terminates tn x r)"
  by (auto simp: terminated_ids_def terminates_def has_parent_def)

text \<open>The loop is the first \<open>limit\<close> rows that are not settled.\<close>

lemma collect_open_eq:
  "int (length acc) < limit \<Longrightarrow>
   collect_open limit ids acc rows =
     take (nat limit) (acc @ filter (\<lambda>r. r_id r \<notin> set ids) rows)"
proof (induction limit ids acc rows rule: collect_open.induct)
  case (2 limit ids acc r rs)
  show ?case
  proof (cases "r_id r \<in> set ids")
    case True
    with 2 show ?thesis by simp
  next
    case False
    show ?thesis
    proof (cases "limit \<le> int (length (acc @ [r]))")
      case True
      with "2.prems" have "nat limit = Suc (length acc)" by simp
      with False True show ?thesis by simp
    next
      case more: False
      with False 2 show ?thesis by simp
    qed
  qed
qed auto

lemma order_by_desc_first:
  assumes "first_of (order_by_desc k rs) = Some r" and "x \<in> set rs"
  shows "k x \<le> k r"
proof -
  let ?s = "sort_key (\<lambda>r. - k r) rs"
  obtain ys where s: "?s = r # ys"
    using assms(1) by (cases ?s) (auto simp: first_of_def order_by_desc_def)
  have "sorted (map (\<lambda>r. - k r) ?s)" by simp
  with s have "\<forall>y \<in> set ys. k y \<le> k r" by simp
  moreover have "x \<in> set ?s" using assms(2) by simp
  ultimately show ?thesis using s by auto
qed

text \<open>The tests on \<open>body\<close> and \<open>parents\<close> that the limits make.\<close>

lemma check_size_Inr:
  "check_size body parents = Inr u \<longleftrightarrow>
     (truthy_list body \<longrightarrow> body_size body \<le> 65536) \<and> length (list_of parents) \<le> 10 \<and>
     artifact_count body \<le> 100"
  by (auto simp: check_size_def MAX_RECEIPT_BODY_BYTES_def MAX_RECEIPT_PARENTS_def
      MAX_RECEIPT_ARTIFACTS_def not_less)

text \<open>The parents check decides; a failure names its reason and writes nothing.\<close>

definition parents_ok :: "uuid \<Rightarrow> receipt_type \<Rightarrow> uuid list option \<Rightarrow> db \<Rightarrow> bool" where
  "parents_ok tn ty parents d \<longleftrightarrow> (is_terminal_type ty \<longrightarrow>
     truthy_list parents \<and> (\<forall>p \<in> set (list_of parents). receipt_exists tn p d))"

definition parents_error :: "uuid \<Rightarrow> receipt_type \<Rightarrow> uuid list option \<Rightarrow> db \<Rightarrow> exn" where
  "parents_error tn ty parents d = (if \<not> truthy_list parents then ValueError (Terminal_without_parents ty)
     else ValueError (Parent_not_found (hd (filter (\<lambda>p. \<not> receipt_exists tn p d) (list_of parents))) tn))"

lemma wp_parent_loop:
  "wp (for_each (\<lambda>p. bind (select (receipt_exists tn p)) (\<lambda>found.
       ensure found (ValueError (Parent_not_found p tn)))) ps) Q E w =
     (if \<forall>p \<in> set ps. receipt_exists tn p (w_db w) then Q (map (\<lambda>_. ()) ps) w
      else E (ValueError (Parent_not_found (hd (filter (\<lambda>p. \<not> receipt_exists tn p (w_db w)) ps)) tn)) w)"
  by (induction ps arbitrary: Q) (auto simp: wp_simps)

lemma wp_check_parents [wp_simps]:
  "wp (check_parents tn ty ps) Q E w =
     (if parents_ok tn ty ps (w_db w) then Q () w else E (parents_error tn ty ps (w_db w)) w)"
  by (auto simp: check_parents_def parents_ok_def parents_error_def wp_simps wp_parent_loop)

context side_frame
begin

lemma keeps_emit_anomaly [keeps_intros]:
  assumes "T tn" shows "keeps (on_db P) (emit_anomaly e tn rid to task ps body)"
proof -
  have "admissible d (new_receipt (cfg e) tn i SYSTEM_ANOMALY now frm who task None None [rid] b None)"
    for d i now frm who b by (simp add: admissible_def is_terminal_type_iff)
  then have "keeps (on_db P) (insert_receipt
      (new_receipt (cfg e) tn i SYSTEM_ANOMALY now frm who task None None [rid] b None))"
    for i now frm who b
    using assms by (auto simp: keeps_wp intro: wp_insert_receipt_on)
  then show ?thesis by (auto simp: emit_anomaly_def Let_def intro!: keeps_intros)
qed

lemma wp_receipt_insert_on:
  assumes "T tn" and w: "on_db P w"
    and ok: "\<And>h. admissible (w_db w) (new_receipt (cfg e) tn rid ty now from to task lease sch
      (list_of (parents_used ty body ps)) (dict_of body) (Some h))" (is "\<And>h. admissible _ (?row h)")
  shows "wp (receipt_insert e tn rid now ty from to task lease sch ps body gh) (\<lambda>_. on_db P) (\<lambda>_. on_db P) w"
proof -
  define anomaly where "anomaly = (if strips_parents ty body then emit_anomaly e tn rid to task ps body
    else return ())"
  have "keeps (on_db P) anomaly"
    unfolding anomaly_def by (intro keeps_if keeps_emit_anomaly keeps_return \<open>T tn\<close>)
  then have new: "wp (seq (insert_receipt (?row h)) (seq anomaly (return (?row h))))
      (\<lambda>_. on_db P) (\<lambda>_. on_db P) w" for h
    unfolding wp_seq
    by (intro wp_mono [OF wp_insert_receipt_on [OF w _ ok]])
      (use \<open>T tn\<close> in \<open>simp_all add: keeps_wp wp_return_fun\<close>)
  show ?thesis
    using w new unfolding receipt_insert_def anomaly_def [symmetric]
    by (simp add: Let_def wp_bind wp_if wp_return wp_case_option receipt_by_hash_def
        wp_one_or_none split: sum.split option.split)
qed

lemma keeps_receipt_create [keeps_intros]:
  assumes "T tn" shows "keeps (on_db P) (receipt_create e tn ty from to task lease sch ps body h)"
  unfolding keeps_wp
proof (intro allI impI)
  fix w assume w: "on_db P w"
  let ?w = "w\<lparr>w_clock := Suc (w_clock w), w_uuid := Suc (w_uuid w)\<rparr>"
  have w': "on_db P ?w" using w by simp
  have "wp (receipt_insert e tn (w_uuid w) now ty from to task lease sch ps body h)
      (\<lambda>_. on_db P) (\<lambda>_. on_db P) ?w"
    if "check_size body ps = Inr ()" "parents_ok tn ty ps (w_db w)" for now
    by (rule wp_receipt_insert_on [OF assms w'])
      (use that in \<open>auto simp: admissible_def check_size_Inr parents_ok_def parents_used_def
        strips_parents_def locatable_def is_terminal_type_iff list_of_def dict_of_def\<close>)
  then show "wp (receipt_create e tn ty from to task lease sch ps body h) (\<lambda>_. on_db P) (\<lambda>_. on_db P) w"
    using w by (auto simp: receipt_create_def wp_bind wp_utc_now wp_uuid4 wp_seq wp_lift_sum
        wp_check_parents split: sum.split)
qed

lemma keeps_receipt_mark_delivered [keeps_intros]:
  "T tn \<Longrightarrow> keeps (on_db P) (receipt_mark_delivered e tn ids)"
  by (auto simp: receipt_mark_delivered_def intro!: keeps_intros)

end

end
