(* ===== verification/MiscRepo.thy ===== *)
theory MiscRepo
  imports Store
begin

text \<open>
  \<open>ProgressRepository\<close> and \<open>RelationshipRepository\<close> of \<open>src/asyncgate/db/repositories.py\<close>:
  read the row by its key, then update it in place or insert it.
\<close>

section \<open>Progress\<close>

definition progress_find :: "uuid \<Rightarrow> uuid \<Rightarrow> progress option M" where
  "progress_find tn tid =
     one_or_none (\<lambda>d. filter (\<lambda>p. pr_tenant p = tn \<and> pr_task p = tid) (db_progress d))"

definition progress_update :: "env \<Rightarrow> uuid \<Rightarrow> uuid \<Rightarrow> dict \<Rightarrow> progress M" where
  "progress_update e tn tid v =
     bind (utc_now e) (\<lambda>now.
     bind (progress_find tn tid) (\<lambda>existing.
     (let row = \<lparr>pr_tenant = tn, pr_task = tid, pr_progress = v, pr_updated_at = now\<rparr> in
      seq (case existing of
             None \<Rightarrow> insert_progress row
           | Some _ \<Rightarrow> write_db (set_progress tn tid v now))
        (return row))))"

section \<open>Relationships\<close>

definition seen_again :: "datetime \<Rightarrow> string option \<Rightarrow> relationship \<Rightarrow> relationship" where
  "seen_again now inst r = r\<lparr>rel_last_seen_at := now, rel_sessions := rel_sessions r + 1,
     rel_instance := (if truthy_str inst then inst else rel_instance r)\<rparr>"

definition relationship_upsert ::
    "env \<Rightarrow> uuid \<Rightarrow> principal_kind \<Rightarrow> string \<Rightarrow> string option \<Rightarrow> relationship M" where
  "relationship_upsert e tn k pid inst =
     bind (utc_now e) (\<lambda>now.
     bind (one_or_none (\<lambda>d. filter (rel_at tn k pid) (db_relationships d))) (\<lambda>existing.
     case existing of
       Some r \<Rightarrow>
         seq (ensure (relationship_fits (seen_again now inst r)) DataError)
           (seq (write_db (set_relationship tn k pid (seen_again now inst)))
              (return (seen_again now inst r)))
     | None \<Rightarrow>
         (let r = \<lparr>rel_tenant = tn, rel_kind = k, rel_id = pid, rel_instance = inst,
                   rel_first_seen_at = now, rel_last_seen_at = now, rel_sessions = 1\<rparr>
          in seq (insert_relationship r) (return r))))"

section \<open>Lemmas\<close>

lemma seen_again_key [simp]: "keeps_rel_key (seen_again now inst)"
  by (simp add: keeps_rel_key_def rel_key_def seen_again_def)

lemma keeps_progress_find [keeps_intros, simp]: "keeps I (progress_find tn tid)"
  by (auto simp: progress_find_def intro!: keeps_intros)

lemma wp_progress_find [wp_simps]:
  "wp (progress_find tn tid) Q E w =
     (case scalar_one_or_none MultipleResultsFound
        (filter (\<lambda>p. pr_tenant p = tn \<and> pr_task p = tid) (db_progress (w_db w)))
      of Inl x \<Rightarrow> E x w | Inr x \<Rightarrow> Q x w)"
  by (simp add: progress_find_def wp_simps)

text \<open>The value last written is the one found, when the keys are unique.\<close>

lemma set_progress_find:
  assumes "distinct (map pr_key (db_progress d))" and "p \<in> set (db_progress d)" and "pr_key p = (tn, tid)"
  shows "filter (\<lambda>x. pr_tenant x = tn \<and> pr_task x = tid) (db_progress (set_progress tn tid v now d)) =
    [p\<lparr>pr_progress := v, pr_updated_at := now\<rparr>]"
proof -
  have P: "(\<lambda>x. pr_tenant x = tn \<and> pr_task x = tid) = (\<lambda>x. pr_key x = pr_key p)"
    using assms(3) by (auto simp: pr_key_def)
  have "filter (\<lambda>x. pr_key x = pr_key p) (db_progress d) = [p]"
    using filter_key_unique [OF assms(1,2)] .
  then show ?thesis
    by (simp add: set_progress_def filter_update_where P [symmetric])
qed

context side_frame
begin

lemma keeps_progress_update [keeps_intros]: "T tn \<Longrightarrow> keeps (on_db P) (progress_update e tn tid v)"
  by (auto simp: progress_update_def Let_def intro!: keeps_intros)

lemma keeps_relationship_upsert [keeps_intros]:
  "T tn \<Longrightarrow> keeps (on_db P) (relationship_upsert e tn k pid inst)"
  by (auto simp: relationship_upsert_def Let_def intro!: keeps_intros)

end

end
