(* ===== verification/Adapter.thy ===== *)
theory Adapter
  imports World Principals
begin

text \<open>
  \<open>src/asyncgate/receipts/memorygate_adapter.py\<close>: the rendering of a receipt in the schema of
  the ledger. \<open>CanonicalReceipt\<close> and \<open>derive_ulid\<close> belong to the package \<open>legivellum\<close> and are
  fields of \<open>env\<close>. Every field of the payload the ledger decides by is a definition of its
  own below.
\<close>

section \<open>Artifacts\<close>

definition NA :: json where "NA = JStr ''NA''"

definition is_dict :: "json \<Rightarrow> bool" where
  "is_dict j = (case j of JDict _ \<Rightarrow> True | _ \<Rightarrow> False)"

definition fields_of :: "json \<Rightarrow> dict" where
  "fields_of j = (case j of JDict d \<Rightarrow> d | _ \<Rightarrow> [])"

text \<open>\<open>d.get(k1) or d.get(k2) or ... or default\<close>.\<close>

definition get_first :: "dict \<Rightarrow> string list \<Rightarrow> json \<Rightarrow> json" where
  "get_first d ks dflt = foldr (\<lambda>k rest. json_or (dict_get d k) rest) ks dflt"

definition chosen_artifact :: "json \<Rightarrow> json" where
  "chosen_artifact artifacts = (case artifacts of
     JList (x # _) \<Rightarrow> x | JDict d \<Rightarrow> JDict d | _ \<Rightarrow> JNull)"

definition extract_artifact_fields :: "json \<Rightarrow> dict" where
  "extract_artifact_fields artifacts =
     (case chosen_artifact artifacts of
        JDict a \<Rightarrow>
          [(''artifact_location'', get_first a [''type'', ''store''] NA),
           (''artifact_pointer'', get_first a [''url'', ''uri'', ''output_path'', ''pointer''] NA),
           (''artifact_checksum'', get_first a [''checksum'', ''etag''] NA),
           (''artifact_size_bytes'', get_first a [''size_bytes'', ''bytes''] (JInt 0)),
           (''artifact_mime'', get_first a [''mime'', ''content_type'', ''artifact_mime''] NA)]
      | _ \<Rightarrow>
          [(''artifact_location'', NA), (''artifact_pointer'', NA), (''artifact_checksum'', NA),
           (''artifact_size_bytes'', JInt 0), (''artifact_mime'', NA)])"

definition extract_artifact_refs :: "json \<Rightarrow> json list" where
  "extract_artifact_refs artifacts =
     (if \<not> truthy artifacts then []
      else case artifacts of
        JList xs \<Rightarrow> filter is_dict xs
      | JDict d \<Rightarrow> [JDict d]
      | _ \<Rightarrow> [])"

section \<open>Phase, outcome and summary\<close>

definition derive_phase_and_status :: "receipt \<Rightarrow> task option \<Rightarrow> string \<times> string" where
  "derive_phase_and_status r task =
     (if r_type r = TASK_ESCALATED then (''escalate'', ''NA'')
      else if r_type r \<in> {TASK_COMPLETED, TASK_FAILED, TASK_CANCELED, TASK_RESULT_READY} then
        (if r_type r = TASK_FAILED then (''complete'', ''failure'')
         else if r_type r = TASK_CANCELED then (''complete'', ''canceled'')
         else case (r_type r = TASK_RESULT_READY, Option.bind task t_result) of
           (True, Some res) \<Rightarrow>
             (if tr_outcome res = O_FAILED then (''complete'', ''failure'')
              else if tr_outcome res = O_CANCELED then (''complete'', ''canceled'')
              else (''complete'', ''success''))
         | _ \<Rightarrow> (''complete'', ''success''))
      else (''accepted'', ''NA''))"

text \<open>\<open>body.get("artifacts")\<close>, else the artifacts of the task's result.\<close>

definition artifacts_source :: "dict \<Rightarrow> task option \<Rightarrow> json" where
  "artifacts_source body task =
     (if dict_get body ''artifacts'' = JNull
      then (case Option.bind task t_result of None \<Rightarrow> JNull | Some res \<Rightarrow> json_opt (tr_artifacts res))
      else dict_get body ''artifacts'')"

definition derive_outcome_kind :: "receipt \<Rightarrow> task option \<Rightarrow> string" where
  "derive_outcome_kind r task =
     (let body = r_body r;
          has_artifacts = (artifacts_source body task \<noteq> JNull);
          has_result = (dict_get body ''result_payload'' \<noteq> JNull);
          has_error = (dict_get body ''error'' \<noteq> JNull)
      in if has_artifacts \<and> has_result then ''mixed''
         else if has_artifacts then ''artifact_pointer''
         else if has_result \<or> has_error then ''response_text''
         else if Option.bind task t_result \<noteq> None then ''response_text''
         else ''NA'')"

definition error_message :: "dict \<Rightarrow> json" where
  "error_message body = dict_get (fields_of (dict_get body ''error'')) ''message''"

definition task_summary :: "receipt \<Rightarrow> task option \<Rightarrow> json" where
  "task_summary r task =
     (let body = r_body r in
      if r_type r = TASK_ASSIGNED \<and> has_key body ''instructions'' then dict_get body ''instructions''
      else if has_key body ''result_summary'' then dict_get body ''result_summary''
      else if is_dict (dict_get body ''error'') \<and> truthy (error_message body) then error_message body
      else case task of Some t \<Rightarrow> JStr (t_type t) | None \<Rightarrow> NA)"

definition outcome_text :: "dict \<Rightarrow> json" where
  "outcome_text body =
     (let summary = json_or (dict_get body ''result_summary'') NA in
      if summary = NA \<and> is_dict (dict_get body ''error'') then json_or (error_message body) NA
      else summary)"

section \<open>Principals\<close>

text \<open>The executor a transition is for; custody derives from it.\<close>

definition for_principal :: "receipt \<Rightarrow> task option \<Rightarrow> string" where
  "for_principal r task = (case task of
     None \<Rightarrow> p_id (r_to r)
   | Some t \<Rightarrow>
       if r_type r \<in> {TASK_ACCEPTED, TASK_COMPLETED, TASK_FAILED, TASK_CANCELED, TASK_ESCALATED}
       then p_id (r_from r) else p_id (t_created_by t))"

text \<open>Who performs it: the requester proposes acceptance, the executor discharges or escalates.\<close>

definition from_principal :: "receipt \<Rightarrow> task option \<Rightarrow> string" where
  "from_principal r task = (case task of
     None \<Rightarrow> p_id (r_from r)
   | Some t \<Rightarrow>
       if r_type r = TASK_ACCEPTED then p_id (t_created_by t)
       else if r_type r \<in> {TASK_COMPLETED, TASK_FAILED, TASK_CANCELED, TASK_ESCALATED}
       then p_id (r_from r) else p_id (t_created_by t))"

definition recipient_ai :: "receipt \<Rightarrow> task option \<Rightarrow> json" where
  "recipient_ai r task =
     (let base = (case task of
            None \<Rightarrow> JStr (p_id (r_to r))
          | Some t \<Rightarrow>
              if r_type r = TASK_ACCEPTED then JStr (p_id (r_from r))
              else JStr (or_str (Some (t_principal_ai t)) (p_id (r_to r))));
          target = (if has_key (r_body r) ''escalation_to'' then dict_get (r_body r) ''escalation_to'' else NA)
      in if fst (derive_phase_and_status r task) = ''escalate'' \<and> truthy target \<and> target \<noteq> NA
         then target else base)"

section \<open>The payload\<close>

definition get_default :: "dict \<Rightarrow> string \<Rightarrow> json \<Rightarrow> json" where
  "get_default d k v = (if has_key d k then dict_get d k else v)"

definition escalation_fields :: "dict \<Rightarrow> dict" where
  "escalation_fields body =
     [(''escalation_class'', get_default body ''escalation_class'' NA),
      (''escalation_reason'', get_default body ''escalation_reason'' NA),
      (''escalation_to'', get_default body ''escalation_to'' NA),
      (''retry_requested'', get_default body ''retry_requested'' (JBool False))]"

definition inputs_and_body :: "task option \<Rightarrow> dict \<times> string" where
  "inputs_and_body task = (case task of
     None \<Rightarrow> ([], ''TBD'')
   | Some t \<Rightarrow>
       ((if truthy_str (t_payload_pointer t)
         then [(''payload_pointer'', JStr (the (t_payload_pointer t)))] else []) @
        (if t_payload t \<noteq> [] then [(''payload'', JDict (t_payload t))] else []),
        if t_payload t \<noteq> [] then dumps_default (JDict (t_payload t))
        else if truthy_str (t_payload_pointer t) then the (t_payload_pointer t) else ''TBD''))"

definition receipt_metadata :: "receipt \<Rightarrow> dict" where
  "receipt_metadata r =
     [(''receipt_type'', JStr (receipt_type_value (r_type r))),
      (''lease_id'', case r_lease r of None \<Rightarrow> NA | Some l \<Rightarrow> JStr (uuid_str l)),
      (''parents'', JList (map (\<lambda>p. JStr (uuid_str p)) (r_parents r))),
      (''from_kind'', JStr (kind_value (p_kind (r_from r)))),
      (''to_kind'', JStr (kind_value (p_kind (r_to r))))] @
     (if has_key (r_body r) ''trace_id'' then [(''trace_id'', dict_get (r_body r) ''trace_id'')] else [])"

definition obligation_ulid :: "env \<Rightarrow> receipt \<Rightarrow> string" where
  "obligation_ulid e r = (case r_task r of
     Some t \<Rightarrow> e_derive_ulid e ''asyncgate.task'' (uuid_str t)
   | None \<Rightarrow> e_derive_ulid e ''asyncgate.receipt'' (uuid_str (r_id r)))"

definition memorygate_payload :: "env \<Rightarrow> receipt \<Rightarrow> task option \<Rightarrow> dict" where
  "memorygate_payload e r task =
     (let body = r_body r;
          refs = (if dict_get body ''artifact_refs'' = JNull then artifacts_source body task
                  else dict_get body ''artifact_refs'')
      in
      [(''schema_version'', JStr ''1.0''), (''tenant_id'', JStr (uuid_str (r_tenant r))),
       (''receipt_id'', JStr (uuid_str (r_id r))),
       (''task_id'', case r_task r of None \<Rightarrow> NA | Some t \<Rightarrow> JStr (uuid_str t)),
       (''obligation_id'', JStr (obligation_ulid e r)), (''parent_task_id'', NA),
       (''caused_by_receipt_id'', case r_parents r of [] \<Rightarrow> NA | p # _ \<Rightarrow> JStr (uuid_str p)),
       (''dedupe_key'', JStr (or_str (r_hash r) ''NA'')),
       (''attempt'', JInt (case task of None \<Rightarrow> 0 | Some t \<Rightarrow> t_attempt t)),
       (''from_principal'', JStr (from_principal r task)),
       (''for_principal'', JStr (for_principal r task)), (''source_system'', JStr ''asyncgate''),
       (''recipient_ai'', recipient_ai r task), (''trust_domain'', JStr ''default''),
       (''phase'', JStr (fst (derive_phase_and_status r task))),
       (''status'', JStr (snd (derive_phase_and_status r task))), (''realtime'', JBool False),
       (''task_type'', case task of None \<Rightarrow> NA | Some t \<Rightarrow> JStr (t_type t)),
       (''task_summary'', task_summary r task), (''task_body'', JStr (snd (inputs_and_body task))),
       (''inputs'', JDict (fst (inputs_and_body task))),
       (''expected_outcome_kind'', JStr (or_str (Option.bind task t_expected_outcome_kind) ''NA'')),
       (''expected_artifact_mime'', JStr (or_str (Option.bind task t_expected_artifact_mime) ''NA'')),
       (''outcome_kind'', JStr (derive_outcome_kind r task)), (''outcome_text'', outcome_text body)] @
      extract_artifact_fields (artifacts_source body task) @ escalation_fields body @
      [(''body'', JDict body), (''artifact_refs'', JList (extract_artifact_refs refs)),
       (''created_at'', JStr (isoformat (r_created_at r))),
       (''stored_at'', JStr (isoformat (r_created_at r))),
       (''started_at'', str_opt (map_option isoformat (Option.bind task t_started_at))),
       (''completed_at'', str_opt (map_option (\<lambda>res. isoformat (tr_completed_at res)) (Option.bind task t_result))),
       (''read_at'', JNull), (''archived_at'', JNull), (''metadata'', JDict (receipt_metadata r))])"

definition to_memorygate_receipt :: "env \<Rightarrow> receipt \<Rightarrow> task option \<Rightarrow> exn + dict" where
  "to_memorygate_receipt e r task =
     (case e_canonical e (memorygate_payload e r task) of
        None \<Rightarrow> Inl ValidationError | Some d \<Rightarrow> Inr d)"

section \<open>Lemmas\<close>

lemma payload_fields:
  "dict_get (memorygate_payload e r task) ''phase'' = JStr (fst (derive_phase_and_status r task))"
  "dict_get (memorygate_payload e r task) ''obligation_id'' = JStr (obligation_ulid e r)"
  "dict_get (memorygate_payload e r task) ''tenant_id'' = JStr (uuid_str (r_tenant r))"
  "dict_get (memorygate_payload e r task) ''for_principal'' = JStr (for_principal r task)"
  "dict_get (memorygate_payload e r task) ''from_principal'' = JStr (from_principal r task)"
  "dict_get (memorygate_payload e r task) ''recipient_ai'' = recipient_ai r task"
  by (simp_all add: memorygate_payload_def Let_def)

text \<open>Which phase each receipt type reaches the ledger under.\<close>

lemma phase_of_type:
  "fst (derive_phase_and_status r task) =
     (if r_type r = TASK_ESCALATED then ''escalate''
      else if is_terminal_type (r_type r) \<or> r_type r = TASK_RESULT_READY then ''complete''
      else ''accepted'')"
  by (auto simp: derive_phase_and_status_def is_terminal_type_iff split: option.splits)

end
