(* ===== verification/ReceiptGateClient.thy ===== *)
theory ReceiptGateClient
  imports World
begin

text \<open>
  \<open>src/asyncgate/integrations/memorygate_client.py\<close> and \<open>CircuitBreaker.call\<close>: requests to
  ReceiptGate behind the breaker, the durable outbox and its replay, and the singleton that
  loads the outbox from disk. The file is the JSON value written to it. The background
  worker's schedule is not part of the state: a replay is an operation that may run at any
  point (the theory Service).
\<close>

section \<open>Buffer items on disk\<close>

definition to_payload :: "buffered_receipt \<Rightarrow> json" where
  "to_payload b = JDict [(''buffer_id'', JStr (bf_id b)), (''receipt'', JDict (bf_receipt b)),
     (''queued_at'', JStr (isoformat (bf_queued_at b))),
     (''next_retry_at'', JStr (isoformat (bf_next_retry_at b))),
     (''retry_count'', JInt (bf_retry_count b)), (''last_error'', bf_last_error b)]"

text \<open>
  None stands for an exception, for which the loader skips the item. A \<open>receipt\<close> that is not
  an object and a \<open>retry_count\<close> that is not an integer, which \<open>to_payload\<close> never writes,
  count as such.
\<close>

definition json_datetime :: "json \<Rightarrow> datetime option" where
  "json_datetime j = (case j of JStr s \<Rightarrow> fromisoformat s | _ \<Rightarrow> None)"

definition py_str :: "env \<Rightarrow> json \<Rightarrow> string" where
  "py_str e j = (case j of JStr s \<Rightarrow> s | _ \<Rightarrow> e_repr e j)"

definition from_payload :: "env \<Rightarrow> json \<Rightarrow> buffered_receipt option" where
  "from_payload e j = (case j of
     JDict p \<Rightarrow>
       if \<not> (has_key p ''buffer_id'' \<and> has_key p ''receipt'') then None else
       (case (dict_get p ''receipt'', json_datetime (dict_get p ''queued_at''),
              json_datetime (dict_get p ''next_retry_at''),
              if has_key p ''retry_count'' then dict_get p ''retry_count'' else JInt 0) of
          (JDict r, Some q, Some n, JInt c) \<Rightarrow>
            Some \<lparr>bf_id = py_str e (dict_get p ''buffer_id''), bf_receipt = r, bf_queued_at = q,
                  bf_next_retry_at = n, bf_retry_count = c, bf_last_error = dict_get p ''last_error''\<rparr>
        | _ \<Rightarrow> None)
   | _ \<Rightarrow> None)"

definition max_items :: "env \<Rightarrow> nat" where
  "max_items e = nat (max 1 (emission_buffer_size (cfg e)))"

definition take_last :: "nat \<Rightarrow> 'a list \<Rightarrow> 'a list" where
  "take_last n xs = drop (length xs - n) xs"

definition raw_items :: "json \<Rightarrow> json list" where
  "raw_items j = (let items = (case j of JDict p \<Rightarrow>
                     (if has_key p ''items'' then dict_get p ''items'' else JList []) | _ \<Rightarrow> j)
     in case items of JList xs \<Rightarrow> xs | _ \<Rightarrow> [])"

definition load_buffer :: "env \<Rightarrow> json option \<Rightarrow> buffered_receipt list" where
  "load_buffer e disk = (case disk of None \<Rightarrow> []
     | Some j \<Rightarrow> take_last (max_items e) (List.map_filter (from_payload e) (raw_items j)))"

definition dump_buffer :: "buffered_receipt list \<Rightarrow> json" where
  "dump_buffer bs = JDict [(''version'', JInt 1), (''items'', JList (map to_payload bs))]"

section \<open>The client object\<close>

definition breaker_settings :: "env \<Rightarrow> breaker_config" where
  "breaker_settings e =
     \<lparr>failure_threshold = breaker_failure_threshold (cfg e),
      timeout_seconds = breaker_timeout_seconds (cfg e),
      half_open_max_calls = breaker_half_open_max_calls (cfg e),
      success_threshold = breaker_success_threshold (cfg e)\<rparr>"

definition new_client :: "env \<Rightarrow> json option \<Rightarrow> rg_client" where
  "new_client e disk =
     \<lparr>rg_breaker = (if breaker_enabled (cfg e) then Some new_breaker else None),
      rg_buffered = load_buffer e disk, rg_dropped = 0, rg_replayed_ok = 0,
      rg_replayed_failed = 0, rg_last_error = None\<rparr>"

definition get_receiptgate_client :: "env \<Rightarrow> rg_client M" where
  "get_receiptgate_client e = (\<lambda>w. case w_rg w of
       Some c \<Rightarrow> (Inr c, w)
     | None \<Rightarrow> (Inr (new_client e (w_disk w)), w\<lparr>w_rg := Some (new_client e (w_disk w))\<rparr>))"

definition set_client :: "rg_client \<Rightarrow> unit M" where
  "set_client c = modify (\<lambda>w. w\<lparr>w_rg := Some c\<rparr>)"

definition update_client :: "env \<Rightarrow> (rg_client \<Rightarrow> rg_client) \<Rightarrow> unit M" where
  "update_client e f = bind (get_receiptgate_client e) (\<lambda>c. set_client (f c))"

definition shutdown_receiptgate_client :: "unit M" where
  "shutdown_receiptgate_client = modify (\<lambda>w. w\<lparr>w_rg := None\<rparr>)"

section \<open>Calls behind the breaker\<close>

definition set_breaker :: "breaker \<Rightarrow> rg_client \<Rightarrow> rg_client" where
  "set_breaker b c = c\<lparr>rg_breaker := Some b\<rparr>"

text \<open>The clause \<open>except ReceiptRefused\<close>.\<close>

definition refusal_of :: "exn \<Rightarrow> (string \<times> string) option" where
  "refusal_of ex = (case ex of ReceiptRefused code msg \<Rightarrow> Some (code, msg) | _ \<Rightarrow> None)"

definition is_refusal :: "exn \<Rightarrow> bool" where
  "is_refusal ex \<longleftrightarrow> refusal_of ex \<noteq> None"

lemma refusal_of_Some: "refusal_of ex = Some (c, msg) \<longleftrightarrow> ex = ReceiptRefused c msg"
  by (cases ex) (auto simp: refusal_of_def)

definition record_success :: "env \<Rightarrow> unit M" where
  "record_success e = update_client e (\<lambda>c. c\<lparr>rg_breaker :=
     map_option (on_success (breaker_settings e)) (rg_breaker c)\<rparr>)"

definition record_failure :: "env \<Rightarrow> unit M" where
  "record_failure e = bind (get_receiptgate_client e) (\<lambda>c.
     case rg_breaker c of None \<Rightarrow> return ()
     | Some b \<Rightarrow>
         bind (utc_now e) (\<lambda>failed_at.
         bind (if failure_opens (breaker_settings e) b then utc_now e else return failed_at) (\<lambda>opened_at.
         set_client (set_breaker (on_failure (breaker_settings e) failed_at opened_at b) c))))"

text \<open>The clock is read only where \<open>opened_at\<close> is set.\<close>

definition read_if_opened :: "env \<Rightarrow> breaker \<Rightarrow> datetime M" where
  "read_if_opened e b = (if cb_opened_at b = None then return 0 else utc_now e)"

text \<open>\<open>call\<close> after the admission: fall back or fail fast, or run the function and record.\<close>

definition cb_proceed :: "env \<Rightarrow> 'a M \<Rightarrow> 'a M option \<Rightarrow> admission \<Rightarrow> breaker \<Rightarrow> 'a M" where
  "cb_proceed e func fallback decision b =
     (case decision of
        Reject \<Rightarrow>
          (case fallback of
             Some m \<Rightarrow> m
           | None \<Rightarrow> bind (read_if_opened e b) (\<lambda>later.
               raise (CircuitBreakerOpen (seconds_until_half_open (breaker_settings e) later b))))
      | Admit \<Rightarrow>
          try_except (bind func (\<lambda>r. seq (record_success e) (return r)))
            (\<lambda>ex. if is_refusal ex then raise ex else seq (record_failure e) (raise ex)))"

definition cb_call :: "env \<Rightarrow> 'a M \<Rightarrow> 'a M option \<Rightarrow> 'a M" where
  "cb_call e func fallback = bind (get_receiptgate_client e) (\<lambda>c.
     case rg_breaker c of None \<Rightarrow> func
     | Some b \<Rightarrow>
         bind (if cb_state b = OPEN then read_if_opened e b else return 0) (\<lambda>now.
         (case admit (breaker_settings e) now b of (decision, b') \<Rightarrow>
          seq (set_client (set_breaker b' c)) (cb_proceed e func fallback decision b'))))"

section \<open>Requests\<close>

definition GOVERNANCE_REFUSALS :: "string list" where
  "GOVERNANCE_REFUSALS = [''OBLIGATION_ALREADY_ACCEPTED'', ''OBLIGATION_ALREADY_EXISTS'',
     ''OBLIGATION_ALREADY_TERMINATED'', ''OBLIGATION_NOT_RECOVERABLE'', ''ACTOR_NOT_PERMITTED'',
     ''COMPLETE_WITHOUT_ACCEPT'', ''ESCALATE_WITHOUT_ACCEPT'', ''ACTOR_NOT_CUSTODIAN'',
     ''OBLIGATION_ID_REQUIRED'', ''IDENTITY_MISMATCH'', ''TENANT_MISMATCH'', ''NOT_PERMITTED'',
     ''NOT_VISIBLE'', ''ROUTING_INVARIANT_VIOLATION'', ''validation_failed'']"

definition rpc :: "string \<Rightarrow> dict \<Rightarrow> dict" where
  "rpc name arguments = [(''jsonrpc'', JStr ''2.0''), (''id'', JInt 1), (''method'', JStr ''tools/call''),
     (''params'', JDict [(''name'', JStr name), (''arguments'', JDict arguments)])]"

definition refusal_code :: "dict \<Rightarrow> string option" where
  "refusal_code data = (case dict_get data ''error'' of
     JDict err \<Rightarrow> (case dict_get err ''code'' of
         JStr s \<Rightarrow> if s \<in> set GOVERNANCE_REFUSALS then Some s else None | _ \<Rightarrow> None)
   | _ \<Rightarrow> None)"

definition rpc_result :: "dict \<Rightarrow> json" where
  "rpc_result data = (if has_key data ''result'' then dict_get data ''result'' else JDict [])"

definition emit_to_receiptgate :: "env \<Rightarrow> dict \<Rightarrow> json M" where
  "emit_to_receiptgate e receipt =
     bind (http_post e (rpc ''receiptgate.submit_receipt'' [(''receipt'', JDict receipt)])) (\<lambda>reply.
     case reply of
       Http_exn msg \<Rightarrow> raise (TransportError msg)
     | Http_ok data \<Rightarrow>
         if has_key data ''error'' then
           (let err = e_repr e (json_or (dict_get data ''error'') (JDict [])) in
            case refusal_code data of
              Some code \<Rightarrow> raise (ReceiptRefused code (''ReceiptGate refused: '' @ err))
            | None \<Rightarrow> raise (RuntimeError (''ReceiptGate error: '' @ err)))
         else return (rpc_result data))"

text \<open>\<open>list(x)\<close> of a JSON value.\<close>

definition py_list :: "json \<Rightarrow> exn + json list" where
  "py_list j = (case j of
     JList xs \<Rightarrow> Inr xs
   | JDict d \<Rightarrow> Inr (map (\<lambda>kv. JStr (fst kv)) d)
   | JStr s \<Rightarrow> Inr (map (\<lambda>c. JStr [c]) s)
   | _ \<Rightarrow> Inl (PyTypeError ''not iterable''))"

definition custody_rows :: "dict \<Rightarrow> exn + json list" where
  "custody_rows data = (case json_or (dict_get data ''result'') (JDict []) of
     JDict r \<Rightarrow> py_list (json_or (dict_get r ''receipts'') (JList []))
   | _ \<Rightarrow> Inl (AttributeError ''get''))"

definition list_custody :: "env \<Rightarrow> string \<Rightarrow> int \<Rightarrow> json list M" where
  "list_custody e recipient limit =
     (if \<not> truthy_str (receiptgate_endpoint (cfg e))
      then raise (RuntimeError ''receiptgate_endpoint not configured'')
      else bind (http_post e (rpc ''receiptgate.list_inbox''
             [(''recipient_ai'', JStr recipient), (''limit'', JInt limit)])) (\<lambda>reply.
        case reply of
          Http_exn msg \<Rightarrow> raise (TransportError msg)
        | Http_ok data \<Rightarrow>
            if has_key data ''error''
            then raise (RuntimeError (''ReceiptGate error reading custody: '' @ e_repr e (dict_get data ''error'')))
            else lift_sum (custody_rows data)))"

section \<open>Buffering\<close>

definition TRANSITION_FOR_PHASE :: "(string \<times> string) list" where
  "TRANSITION_FOR_PHASE = [(''accepted'', ''ACCEPT''), (''complete'', ''COMPLETE''), (''escalate'', ''ESCALATE'')]"

definition phase_may_buffer :: "env \<Rightarrow> json \<Rightarrow> bool" where
  "phase_may_buffer e phase = (case phase of
     JStr p \<Rightarrow> (case map_of TRANSITION_FOR_PHASE p of Some name \<Rightarrow> e_may_buffer e name | None \<Rightarrow> False)
   | _ \<Rightarrow> False)"

definition persist_buffer :: "env \<Rightarrow> unit M" where
  "persist_buffer e = bind (get_receiptgate_client e) (\<lambda>c.
     modify (\<lambda>w. w\<lparr>w_disk := Some (dump_buffer (rg_buffered c))\<rparr>))"

definition push_item :: "nat \<Rightarrow> buffered_receipt \<Rightarrow> rg_client \<Rightarrow> rg_client" where
  "push_item n item c =
     (if n \<le> length (rg_buffered c)
      then c\<lparr>rg_buffered := tl (rg_buffered c) @ [item], rg_dropped := rg_dropped c + 1\<rparr>
      else c\<lparr>rg_buffered := rg_buffered c @ [item]\<rparr>)"

definition buffered_outcome :: "uuid \<Rightarrow> nat \<Rightarrow> json" where
  "buffered_outcome u pending = JDict [(''status'', JStr ''buffered''), (''buffer_id'', JStr (uuid_str u)),
     (''pending_count'', JInt (int pending))]"

definition buffer_receipt :: "env \<Rightarrow> dict \<Rightarrow> json \<Rightarrow> json M" where
  "buffer_receipt e receipt err =
     bind (utc_now e) (\<lambda>now.
     bind uuid4 (\<lambda>u.
     seq (update_client e (push_item (max_items e)
            \<lparr>bf_id = uuid_str u, bf_receipt = receipt, bf_queued_at = now, bf_next_retry_at = now,
             bf_retry_count = 0, bf_last_error = err\<rparr>))
     (seq (persist_buffer e)
     (bind (get_receiptgate_client e) (\<lambda>c.
     return (buffered_outcome u (length (rg_buffered c))))))))"

definition fallback_to_buffer :: "env \<Rightarrow> dict \<Rightarrow> json M" where
  "fallback_to_buffer e receipt =
     (if \<not> phase_may_buffer e (dict_get receipt ''phase'') then raise ReceiptUnbufferable
      else buffer_receipt e receipt (JStr ''circuit_open''))"

definition emit_with_circuit :: "env \<Rightarrow> bool \<Rightarrow> dict \<Rightarrow> json M" where
  "emit_with_circuit e use_fallback receipt =
     cb_call e (emit_to_receiptgate e receipt)
       (if use_fallback then Some (fallback_to_buffer e receipt) else None)"

text \<open>\<open>str(exc)\<close> of what a request raises; no other exception's text is stored.\<close>

fun exn_str :: "exn \<Rightarrow> string" where
  "exn_str (ReceiptRefused _ msg) = msg"
| "exn_str (CircuitBreakerOpen n) =
     ''Circuit breaker open for receiptgate, retry after '' @ int_str n @ ''s''"
| "exn_str (TransportError msg) = msg"
| "exn_str (RuntimeError msg) = msg"
| "exn_str _ = []"

definition refused_outcome :: "string \<Rightarrow> string \<Rightarrow> json" where
  "refused_outcome code msg =
     JDict [(''status'', JStr ''refused''), (''code'', JStr code), (''detail'', JStr msg)]"

definition emit_receipt :: "env \<Rightarrow> dict \<Rightarrow> json M" where
  "emit_receipt e receipt =
     (if \<not> truthy_str (receiptgate_endpoint (cfg e))
      then return (JDict [(''status'', JStr ''skipped''),
             (''note'', JStr ''receiptgate_endpoint not configured'')])
      else try_except (emit_with_circuit e True receipt)
        (\<lambda>ex. case refusal_of ex of
           Some (code, msg) \<Rightarrow> return (refused_outcome code msg)
         | None \<Rightarrow>
             if \<not> phase_may_buffer e (dict_get receipt ''phase'') then raise ReceiptUnbufferable
             else buffer_receipt e receipt (JStr (exn_str ex))))"

section \<open>Replay\<close>

definition retry_delay_seconds :: "env \<Rightarrow> int \<Rightarrow> int" where
  "retry_delay_seconds e retry_count =
     min (max 1 (emission_retry_interval (cfg e)) * 2 ^ nat (max 0 (retry_count - 1))) 3600"

text \<open>Remove the first item with this id.\<close>

fun pop_item :: "string \<Rightarrow> buffered_receipt list \<Rightarrow> buffered_receipt list" where
  "pop_item bid [] = []"
| "pop_item bid (b # bs) = (if bf_id b = bid then bs else b # pop_item bid bs)"

definition find_item :: "string \<Rightarrow> buffered_receipt list \<Rightarrow> buffered_receipt option" where
  "find_item bid bs = find (\<lambda>b. bf_id b = bid) bs"

fun update_item :: "string \<Rightarrow> (buffered_receipt \<Rightarrow> buffered_receipt) \<Rightarrow> buffered_receipt list \<Rightarrow> buffered_receipt list" where
  "update_item bid f [] = []"
| "update_item bid f (b # bs) = (if bf_id b = bid then f b # bs else b # update_item bid f bs)"

definition remove_buffer_item :: "env \<Rightarrow> string \<Rightarrow> bool M" where
  "remove_buffer_item e bid = bind (get_receiptgate_client e) (\<lambda>c.
     if find_item bid (rg_buffered c) = None then return False
     else seq (set_client (c\<lparr>rg_buffered := pop_item bid (rg_buffered c)\<rparr>))
            (seq (persist_buffer e) (return True)))"

definition schedule_retry :: "env \<Rightarrow> string \<Rightarrow> string \<Rightarrow> unit M" where
  "schedule_retry e bid err = bind (get_receiptgate_client e) (\<lambda>c.
     case find_item bid (rg_buffered c) of
       None \<Rightarrow> return ()
     | Some item \<Rightarrow>
         seq (if max 0 (emission_max_retries (cfg e)) \<le> bf_retry_count item
              then set_client (c\<lparr>rg_buffered := pop_item bid (rg_buffered c), rg_dropped := rg_dropped c + 1\<rparr>)
              else bind (utc_now e) (\<lambda>now.
                   bind (some_or_raise (add_seconds now (retry_delay_seconds e (bf_retry_count item + 1)))
                          OverflowError) (\<lambda>due.
                   set_client (c\<lparr>rg_buffered := update_item bid
                     (\<lambda>b. b\<lparr>bf_retry_count := bf_retry_count b + 1, bf_last_error := JStr err,
                           bf_next_retry_at := due\<rparr>) (rg_buffered c)\<rparr>))))
           (persist_buffer e))"

record replay_summary =
  rs_replayed :: int
  rs_failed :: int
  rs_blocked :: int
  rs_remaining :: int

definition due_items :: "datetime \<Rightarrow> int \<Rightarrow> buffered_receipt list \<Rightarrow> buffered_receipt list" where
  "due_items now limit bs =
     take (nat (max 1 limit)) (sort_key bf_queued_at (filter (\<lambda>b. bf_next_retry_at b \<le> now) bs))"

definition note_replay_failure :: "env \<Rightarrow> exn \<Rightarrow> unit M" where
  "note_replay_failure e ex = update_client e (\<lambda>c. c\<lparr>rg_last_error := Some (exn_str ex),
     rg_replayed_failed := rg_replayed_failed c + 1\<rparr>)"

text \<open>One round of the loop; the flag says whether the loop goes on.\<close>

definition replay_one :: "env \<Rightarrow> buffered_receipt \<Rightarrow> replay_summary \<Rightarrow> (replay_summary \<times> bool) M" where
  "replay_one e item s =
     try_except
       (bind (emit_with_circuit e False (bf_receipt item)) (\<lambda>_.
        bind (remove_buffer_item e (bf_id item)) (\<lambda>removed.
        if removed
        then seq (update_client e (\<lambda>c. c\<lparr>rg_replayed_ok := rg_replayed_ok c + 1\<rparr>))
               (return (s\<lparr>rs_replayed := rs_replayed s + 1\<rparr>, True))
        else return (s, True))))
       (\<lambda>ex. seq (note_replay_failure e ex)
          (seq (schedule_retry e (bf_id item) (exn_str ex))
            (return (case ex of
               CircuitBreakerOpen _ \<Rightarrow> (s\<lparr>rs_blocked := rs_blocked s + 1\<rparr>, False)
             | _ \<Rightarrow> (s\<lparr>rs_failed := rs_failed s + 1\<rparr>, True)))))"

primrec replay_items :: "env \<Rightarrow> buffered_receipt list \<Rightarrow> replay_summary \<Rightarrow> replay_summary M" where
  "replay_items e [] s = return s"
| "replay_items e (b # bs) s = bind (replay_one e b s) (\<lambda>(s', go_on).
     if go_on then replay_items e bs s' else return s')"

definition replay_buffered_receipts :: "env \<Rightarrow> int \<Rightarrow> replay_summary M" where
  "replay_buffered_receipts e limit =
     bind (if truthy_str (receiptgate_endpoint (cfg e)) then
             bind (utc_now e) (\<lambda>now.
             bind (get_receiptgate_client e) (\<lambda>c.
             replay_items e (due_items now limit (rg_buffered c))
               \<lparr>rs_replayed = 0, rs_failed = 0, rs_blocked = 0, rs_remaining = 0\<rparr>))
           else return \<lparr>rs_replayed = 0, rs_failed = 0, rs_blocked = 0, rs_remaining = 0\<rparr>) (\<lambda>s.
     bind (get_receiptgate_client e) (\<lambda>c.
     return (s\<lparr>rs_remaining := int (length (rg_buffered c))\<rparr>)))"

section \<open>Statistics\<close>

definition get_circuit_stats :: "env \<Rightarrow> json M" where
  "get_circuit_stats e = bind (get_receiptgate_client e) (\<lambda>c. return
     (case rg_breaker c of None \<Rightarrow> JNull
      | Some b \<Rightarrow> JDict [(''state'', JStr (circuit_state_value (cb_state b))),
          (''failure_count'', JInt (cb_failure_count b)), (''success_count'', JInt (cb_success_count b)),
          (''total_calls'', JInt (cb_total_calls b)), (''total_failures'', JInt (cb_total_failures b)),
          (''total_successes'', JInt (cb_total_successes b)),
          (''opened_at'', str_opt (map_option isoformat (cb_opened_at b))),
          (''last_failure_time'', str_opt (map_option isoformat (cb_last_failure_time b)))]))"

definition min_time :: "datetime list \<Rightarrow> datetime option" where
  "min_time ts = (if ts = [] then None else Some (Min (set ts)))"

definition get_buffer_stats :: "env \<Rightarrow> json M" where
  "get_buffer_stats e = bind (utc_now e) (\<lambda>now. bind (get_receiptgate_client e) (\<lambda>c. return
     (JDict [(''path'', JStr (e_buffer_path e)), (''pending_count'', JInt (int (length (rg_buffered c)))),
        (''due_count'', JInt (int (length (filter (\<lambda>b. bf_next_retry_at b \<le> now) (rg_buffered c))))),
        (''dropped_count'', JInt (rg_dropped c)), (''replayed_success_count'', JInt (rg_replayed_ok c)),
        (''replayed_failure_count'', JInt (rg_replayed_failed c)),
        (''last_replay_error'', str_opt (rg_last_error c)),
        (''next_retry_at'', str_opt (map_option isoformat (min_time (map bf_next_retry_at (rg_buffered c))))),
        (''worker_running'', JBool (e_worker_running e))])))"

definition reset_circuit :: "env \<Rightarrow> unit M" where
  "reset_circuit e = update_client e (\<lambda>c. c\<lparr>rg_breaker := map_option cb_reset (rg_breaker c)\<rparr>)"

section \<open>The database is not touched\<close>

lemma keeps_get_client [keeps_intros, simp]: "keeps (on_db P) (get_receiptgate_client e)"
  by (auto simp: keeps_def get_receiptgate_client_def split: option.split)

lemma keeps_set_client [keeps_intros, simp]: "keeps (on_db P) (set_client c)"
  by (simp add: set_client_def keeps_modify)

lemma keeps_update_client [keeps_intros, simp]: "keeps (on_db P) (update_client e f)"
  by (auto simp: update_client_def intro!: keeps_intros)

lemma keeps_persist_buffer [keeps_intros, simp]: "keeps (on_db P) (persist_buffer e)"
  by (auto simp: persist_buffer_def intro!: keeps_intros keeps_modify)

lemma keeps_breaker_records [keeps_intros, simp]:
  "keeps (on_db P) (record_success e)" "keeps (on_db P) (record_failure e)"
  "keeps (on_db P) (read_if_opened e b)"
  by (auto simp: record_success_def record_failure_def read_if_opened_def intro!: keeps_intros)

lemma keeps_cb_call [keeps_intros]:
  assumes "keeps (on_db P) func" and "\<And>m. fallback = Some m \<Longrightarrow> keeps (on_db P) m"
  shows "keeps (on_db P) (cb_call e func fallback)"
  using assms
  by (auto simp: cb_call_def cb_proceed_def split: admission.split option.split intro!: keeps_intros)

lemma keeps_emit_to_receiptgate [keeps_intros, simp]: "keeps (on_db P) (emit_to_receiptgate e r)"
  by (auto simp: emit_to_receiptgate_def Let_def split: http_reply.split intro!: keeps_intros)

lemma keeps_list_custody [keeps_intros, simp]: "keeps (on_db P) (list_custody e wk n)"
  by (auto simp: list_custody_def split: http_reply.split intro!: keeps_intros)

lemma keeps_buffer_receipt [keeps_intros, simp]: "keeps (on_db P) (buffer_receipt e r err)"
  by (auto simp: buffer_receipt_def intro!: keeps_intros)

lemma keeps_emit_with_circuit [keeps_intros, simp]: "keeps (on_db P) (emit_with_circuit e fb r)"
  by (auto simp: emit_with_circuit_def fallback_to_buffer_def split: if_splits intro!: keeps_intros)

lemma keeps_emit_receipt [keeps_intros, simp]: "keeps (on_db P) (emit_receipt e r)"
  by (auto simp: emit_receipt_def intro!: keeps_intros)

lemma keeps_replay [keeps_intros, simp]: "keeps (on_db P) (replay_buffered_receipts e n)"
proof -
  have "keeps (on_db P) (schedule_retry e bid err)" for bid err
    by (auto simp: schedule_retry_def intro!: keeps_intros)
  then have "keeps (on_db P) (replay_one e b s)" for b s
    by (auto simp: replay_one_def note_replay_failure_def remove_buffer_item_def intro!: keeps_intros)
  then have "keeps (on_db P) (replay_items e bs s)" for bs s
    by (induction bs arbitrary: s) (auto intro!: keeps_intros)
  then show ?thesis by (auto simp: replay_buffered_receipts_def intro!: keeps_intros)
qed

lemma keeps_client_stats [keeps_intros, simp]:
  "keeps (on_db P) (get_circuit_stats e)" "keeps (on_db P) (get_buffer_stats e)"
  "keeps (on_db P) (reset_circuit e)" "keeps (on_db P) shutdown_receiptgate_client"
  by (auto simp: get_circuit_stats_def get_buffer_stats_def reset_circuit_def
      shutdown_receiptgate_client_def intro!: keeps_intros keeps_modify)

section \<open>The outbox\<close>

text \<open>The client the next call sees, and its outbox.\<close>

definition client_at :: "env \<Rightarrow> world \<Rightarrow> rg_client" where
  "client_at e w = (case w_rg w of Some c \<Rightarrow> c | None \<Rightarrow> new_client e (w_disk w))"

definition outbox :: "env \<Rightarrow> world \<Rightarrow> buffered_receipt list" where
  "outbox e w = rg_buffered (client_at e w)"

lemma wp_get_client [wp_simps]:
  "wp (get_receiptgate_client e) Q E w = Q (client_at e w) (w\<lparr>w_rg := Some (client_at e w)\<rparr>)"
proof (cases "w_rg w")
  case (Some c)
  then have "w\<lparr>w_rg := Some c\<rparr> = w" by simp
  then have "Q c (w\<lparr>w_rg := Some c\<rparr>) = Q c w" by (rule arg_cong)
  with Some show ?thesis by (simp add: wp_def get_receiptgate_client_def client_at_def)
qed (simp add: wp_def get_receiptgate_client_def client_at_def)

lemma wp_set_client [wp_simps]: "wp (set_client c) Q E w = Q () (w\<lparr>w_rg := Some c\<rparr>)"
  by (simp add: set_client_def wp_simps)

lemma wp_update_client [wp_simps]:
  "wp (update_client e f) Q E w = Q () (w\<lparr>w_rg := Some (f (client_at e w))\<rparr>)"
  by (simp add: update_client_def wp_simps)

lemma client_at_simps [simp]:
  "client_at e (w\<lparr>w_rg := Some c\<rparr>) = c" "client_at e (w\<lparr>w_clock := n\<rparr>) = client_at e w"
  "client_at e (w\<lparr>w_uuid := n\<rparr>) = client_at e w" "client_at e (w\<lparr>w_post := n\<rparr>) = client_at e w"
  "client_at e (w\<lparr>w_db := d\<rparr>) = client_at e w" "client_at e (w\<lparr>w_metrics := m\<rparr>) = client_at e w"
  "client_at e (w\<lparr>w_rg := Some c, w_disk := k\<rparr>) = c"
  by (simp_all add: client_at_def split: option.split)

lemma wp_persist_buffer [wp_simps]:
  "wp (persist_buffer e) Q E w =
     Q () (w\<lparr>w_rg := Some (client_at e w), w_disk := Some (dump_buffer (rg_buffered (client_at e w)))\<rparr>)"
  by (simp add: persist_buffer_def wp_simps)

lemma length_take_last [simp]: "length (take_last n xs) = min n (length xs)"
  by (simp add: take_last_def)

lemma length_load_buffer: "length (load_buffer e disk) \<le> max_items e"
  by (simp add: load_buffer_def split: option.split)

lemma max_items_pos: "0 < max_items e"
  by (simp add: max_items_def)

lemma length_push_item:
  "length (rg_buffered c) \<le> max_items e \<Longrightarrow> length (rg_buffered (push_item (max_items e) b c)) \<le> max_items e"
  using max_items_pos [of e] by (auto simp: push_item_def)

lemma length_pop_item: "length (pop_item bid bs) \<le> length bs"
  by (induction bs) auto

lemma length_update_item [simp]: "length (update_item bid f bs) = length bs"
  by (induction bs) auto

text \<open>The bound every operation of the client keeps.\<close>

definition bounded :: "env \<Rightarrow> world \<Rightarrow> bool" where
  "bounded e w \<longleftrightarrow> length (outbox e w) \<le> max_items e"

lemma bounded_simps [simp]:
  "bounded e (w\<lparr>w_rg := Some c\<rparr>) \<longleftrightarrow> length (rg_buffered c) \<le> max_items e"
  "bounded e (w\<lparr>w_rg := Some c, w_disk := k\<rparr>) \<longleftrightarrow> length (rg_buffered c) \<le> max_items e"
  "bounded e (w\<lparr>w_clock := n\<rparr>) = bounded e w" "bounded e (w\<lparr>w_uuid := n\<rparr>) = bounded e w"
  "bounded e (w\<lparr>w_post := n\<rparr>) = bounded e w"
  by (simp_all add: bounded_def outbox_def)

lemma bounded_client: "bounded e w \<Longrightarrow> length (rg_buffered (client_at e w)) \<le> max_items e"
  by (simp add: bounded_def outbox_def)

lemma keeps_bounded_basic [simp]:
  "keeps (bounded e) (utc_now e')" "keeps (bounded e) uuid4" "keeps (bounded e) (http_post e' p)"
  "keeps (bounded e) (get_receiptgate_client e)" "keeps (bounded e) (persist_buffer e)"
  by (simp_all add: keeps_wp wp_simps bounded_client)

lemma keeps_bounded_update:
  "(\<And>c. length (rg_buffered c) \<le> max_items e \<Longrightarrow> length (rg_buffered (f c)) \<le> max_items e) \<Longrightarrow>
   keeps (bounded e) (update_client e f)"
  by (simp add: keeps_wp wp_simps bounded_client)

end
