(* ===== verification/IsoTime.thy ===== *)
theory IsoTime
  imports Datetime
begin

text \<open>
  The text \<open>isoformat\<close> writes is read back by \<open>fromisoformat\<close> as the same instant: the
  calendar conversion is inverse to the day count, and the fixed-width fields are found at
  their places.
\<close>

section \<open>The calendar\<close>

lemma div_step:
  fixes y k :: int
  assumes k: "0 < k"
  shows "y div k - (y - 1) div k = (if y mod k = 0 then 1 else 0)"
proof -
  define q r where "q = y div k" and "r = y mod k"
  have y: "y = k * q + r" and r: "0 \<le> r" "r < k" using k by (auto simp: q_def r_def)
  have "(y - 1) div k = (if r = 0 then q - 1 else q)"
  proof (cases "r = 0")
    case True
    have "(y - 1) div k = q - 1"
      by (rule int_div_pos_eq [where r = "k - 1"]) (use y True k in \<open>auto simp: algebra_simps\<close>)
    with True show ?thesis by simp
  next
    case False
    have "(y - 1) div k = q"
      by (rule int_div_pos_eq [where r = "r - 1"]) (use y r False in auto)
    with False show ?thesis by simp
  qed
  then show ?thesis by (simp add: q_def r_def)
qed

lemma leap_count:
  "(c \<longrightarrow> b) \<Longrightarrow> (b \<longrightarrow> a) \<Longrightarrow>
   365 + (if a then 1 else 0) - (if b then 1 else 0) + (if c then 1 else 0) =
     (if a \<and> (\<not> b \<or> c) then 366 else (365 :: int))"
  by (cases a; cases b; cases c) simp_all

lemma days_in_year: "days_before_year (y + 1) = days_before_year y + (if is_leap y then 366 else 365)"
proof -
  have d: "y div 4 - (y - 1) div 4 = (if y mod 4 = 0 then 1 else 0)"
    "y div 100 - (y - 1) div 100 = (if y mod 100 = 0 then 1 else 0)"
    "y div 400 - (y - 1) div 400 = (if y mod 400 = 0 then 1 else 0)"
    by (rule div_step [OF zero_less_numeral])+
  have m: "y mod 400 = 0 \<Longrightarrow> y mod 100 = 0" "y mod 100 = 0 \<Longrightarrow> y mod 4 = 0"
    unfolding mod_eq_0_iff_dvd by (erule dvd_trans [rotated], simp)+
  have "days_before_year (y + 1) - days_before_year y =
     365 + (y div 4 - (y - 1) div 4) - (y div 100 - (y - 1) div 100) + (y div 400 - (y - 1) div 400)"
    by (simp add: days_before_year_def Let_def left_diff_distrib)
  also have "\<dots> = (if is_leap y then 366 else 365)"
    unfolding d is_leap_def by (rule leap_count) (use m in blast)+
  finally show ?thesis unfolding diff_eq_eq by (simp only: add.commute)
qed

lemma days_before_year_le: "y \<le> z \<Longrightarrow> days_before_year y \<le> days_before_year z"
proof (induction z rule: int_ge_induct)
  case (step z)
  then show ?case using days_in_year [of z] by (auto split: if_splits)
qed simp

lemma year_from_bounds:
  "days_before_year y < n \<Longrightarrow>
   y \<le> year_from n y \<and> days_before_year (year_from n y) < n \<and> n \<le> days_before_year (year_from n y + 1)"
proof (induction n y rule: year_from.induct)
  case (1 n y)
  then show ?case
    by (cases "days_before_year (y + 1) < n") (auto simp: year_from.simps [of n y])
qed

lemma days_in_month_bounds: "28 \<le> days_in_month y m \<and> days_in_month y m \<le> 31"
  by (simp add: days_in_month_def)

text \<open>The days from month \<open>m\<close> on, with \<open>k\<close> more months after it.\<close>

lemma month_day_spec:
  "1 \<le> m \<Longrightarrow> 1 \<le> d \<Longrightarrow> d \<le> days_before_month y (m + k + 1) - days_before_month y m \<Longrightarrow>
   month_day k y m d = (m', d') \<Longrightarrow>
   m \<le> m' \<and> m' \<le> m + k \<and> 1 \<le> d' \<and> d' \<le> days_in_month y (int m') \<and>
   days_before_month y m' + d' = days_before_month y m + d"
proof (induction k y m d rule: month_day.induct)
  case (1 y m d)
  then show ?case by simp
next
  case (2 k y m d)
  show ?case
  proof (cases "days_in_month y (int m) < d")
    case True
    then have md: "month_day k y (Suc m) (d - days_in_month y (int m)) = (m', d')" using 2 by simp
    have le: "d - days_in_month y (int m)
        \<le> days_before_month y (Suc m + k + 1) - days_before_month y (Suc m)"
      using "2.prems"(1,3) by simp
    have "Suc m \<le> m' \<and> m' \<le> Suc m + k \<and> 1 \<le> d' \<and> d' \<le> days_in_month y (int m') \<and>
        days_before_month y m' + d' = days_before_month y (Suc m) + (d - days_in_month y (int m))"
      by (rule "2.IH" [OF True _ _ le md]) (use "2.prems"(1) True in auto)
    with "2.prems"(1) show ?thesis by auto
  next
    case False
    with 2 show ?thesis by auto
  qed
qed

lemma days_before_month_13: "days_before_month y 13 = (if is_leap y then 366 else 365)"
  by (simp add: numeral_eq_Suc days_in_month_def)

lemma year_start:
  assumes "1 \<le> n" shows "days_before_year ((n - 1) div 366 + 1) < n"
proof -
  define p where "p = (n - 1) div 366"
  have p: "0 \<le> p" "366 * p \<le> n - 1"
    using assms by (auto simp: p_def pos_imp_zdiv_nonneg_iff)
  have "p div 400 \<le> p div 100" using p by (intro zdiv_mono2) auto
  moreover have "p div 4 \<le> p" using p zdiv_mono2 [of p 1 4] by simp
  moreover have "p * 365 + a - b + c < n" if "c \<le> b" "a \<le> p" for a b c :: int
    using that p by simp
  ultimately have "p * 365 + p div 4 - p div 100 + p div 400 < n" by blast
  then show ?thesis by (simp add: days_before_year_def Let_def p_def [symmetric])
qed

lemma ymd_of_ordinal_spec:
  assumes n: "1 \<le> n" "n \<le> max_ordinal" and ymd: "ymd_of_ordinal n = (y, m, d)"
  shows "1 \<le> y \<and> y \<le> 9999 \<and> 1 \<le> m \<and> m \<le> 12 \<and> 1 \<le> d \<and> d \<le> days_in_month y (int m) \<and>
    ordinal_of_ymd y m d = n"
proof -
  let ?y0 = "(n - 1) div 366 + 1"
  have y: "y = year_from n ?y0" and md: "month_day 11 y 1 (n - days_before_year y) = (m, d)"
    using ymd by (auto simp: ymd_of_ordinal_def Let_def split: prod.splits)
  have yb: "?y0 \<le> y" "days_before_year y < n" "n \<le> days_before_year (y + 1)"
    using year_from_bounds [OF year_start [OF n(1)]] y by auto
  have "n - days_before_year y \<le> days_before_month y (1 + 11 + 1) - days_before_month y 1"
    using yb(3) days_in_year [of y] days_before_month_13 [of y] by (simp add: numeral_eq_Suc split: if_splits)
  from month_day_spec [OF _ _ this md] yb(2)
  have m: "1 \<le> m" "m \<le> 12" "1 \<le> d" "d \<le> days_in_month y (int m)"
    "days_before_month y m + d = n - days_before_year y" by (auto simp: numeral_eq_Suc)
  have "1 \<le> y" using yb(1) n(1) pos_imp_zdiv_nonneg_iff [of 366 "n - 1"] by linarith
  moreover have "y \<le> 9999"
  proof (rule ccontr)
    assume "\<not> y \<le> 9999"
    then have "days_before_year 10000 \<le> days_before_year y" by (intro days_before_year_le) simp
    with yb(2) n(2) show False by (simp add: days_before_year_def Let_def max_ordinal_def)
  qed
  ultimately show ?thesis using m by (simp add: ordinal_of_ymd_def)
qed

section \<open>The text\<close>

lemma length_dec_fixed [simp]: "length (dec_fixed w n) = w"
  by (induction w arbitrary: n) auto

lemma digits_dec_fixed [simp]: "list_all is_digit (dec_fixed w n)"
  by (induction w arbitrary: n) (auto simp: nat_less_iff)

lemma dec_value_snoc: "dec_value (s @ [c]) = 10 * dec_value s + int (digit_value c)"
  by (simp add: dec_value_def)

lemma dec_value_dec_fixed: "0 \<le> n \<Longrightarrow> n < 10 ^ w \<Longrightarrow> dec_value (dec_fixed w n) = n"
proof (induction w arbitrary: n)
  case 0
  then show ?case by (simp add: dec_value_def)
next
  case (Suc w)
  have "n div 10 < 10 ^ w" using Suc.prems by (simp add: div_less_iff_less_mult)
  moreover have "digit_value (digit_char (nat (n mod 10))) = nat (n mod 10)"
    by (rule digit_value_digit_char) (simp add: nat_less_iff)
  ultimately show ?case using Suc by (simp add: dec_value_snoc pos_imp_zdiv_nonneg_iff)
qed

lemma fields_of_layout:
  assumes "length Y = 4" "length M = 2" "length D = 2" "length h = 2" "length n = 2" "length c = 2"
    and s: "s = Y @ ''-'' @ M @ ''-'' @ D @ ''T'' @ h @ '':'' @ n @ '':'' @ c @ tail"
  shows "take 4 s = Y" "take 2 (drop 5 s) = M" "take 2 (drop 8 s) = D" "take 2 (drop 11 s) = h"
    "take 2 (drop 14 s) = n" "take 2 (drop 17 s) = c" "drop 19 s = tail"
    "text_at 4 ''-'' s" "text_at 7 ''-'' s" "text_at 10 ''T'' s" "text_at 13 '':'' s" "text_at 16 '':'' s"
  using assms(1-6) unfolding s by (simp_all add: text_at_def drop_Cons' take_Cons')

lemma digits_at_field:
  "take w (drop i s) = dec_fixed w v \<Longrightarrow> 0 \<le> v \<Longrightarrow> v < 10 ^ w \<Longrightarrow> digits_at i w s = Some v"
  by (simp add: digits_at_def Let_def dec_value_dec_fixed)

lemma fromisoformat_fields:
  assumes "digits_at 0 4 s = Some y" "digits_at 5 2 s = Some m" "digits_at 8 2 s = Some d"
    "digits_at 11 2 s = Some hh" "digits_at 14 2 s = Some mm" "digits_at 17 2 s = Some ss"
    and "text_at 4 ''-'' s" "text_at 7 ''-'' s" "text_at 10 ''T'' s" "text_at 13 '':'' s" "text_at 16 '':'' s"
    and "1 \<le> y" "1 \<le> m" "m \<le> 12" "1 \<le> d" "d \<le> days_in_month y m" "hh < 24" "mm < 60" "ss < 60"
    and "(if drop 19 s = ''+00:00'' then Some 0
      else if text_at 19 ''.'' s \<and> drop 26 s = ''+00:00'' then digits_at 20 6 s else None) = Some f"
  shows "fromisoformat s = Some ((ordinal_of_ymd y (nat m) d - 1) * us_per_day
    + (hh * 3600 + mm * 60 + ss) * 1000000 + f)"
  unfolding fromisoformat_def Let_def assms(1-6,20) using assms(7-19) by simp

theorem fromisoformat_isoformat:
  assumes "in_range t" shows "fromisoformat (isoformat t) = Some t"
proof -
  define us where "us = t mod us_per_day"
  define f where "f = us mod 1000000"
  define sec where "sec = us div 1000000"
  obtain y m d where ymd: "ymd_of_ordinal (t div us_per_day + 1) = (y, m, d)" by (metis prod_cases3)
  have us: "0 \<le> us" "us < us_per_day" by (simp_all add: us_def us_per_day_def)
  have f: "0 \<le> f" "f < 1000000" by (simp_all add: f_def)
  have sec: "0 \<le> sec" "sec < 86400" "us = sec * 1000000 + f"
    using us by (auto simp: sec_def f_def us_per_day_def pos_imp_zdiv_nonneg_iff div_less_iff_less_mult)
  have "0 \<le> t div us_per_day" "t div us_per_day < max_ordinal"
    using assms by (auto simp: in_range_def us_per_day_def pos_imp_zdiv_nonneg_iff div_less_iff_less_mult)
  then have b: "1 \<le> y" "y \<le> 9999" "1 \<le> m" "m \<le> 12" "1 \<le> d" "d \<le> days_in_month y (int m)"
    and ord: "ordinal_of_ymd y m d = t div us_per_day + 1"
    using ymd_of_ordinal_spec [OF _ _ ymd] by auto
  define tail where "tail = (if f = 0 then [] else ''.'' @ dec_fixed 6 f) @ ''+00:00''"
  define s where "s = isoformat t"
  have s: "s = dec_fixed 4 y @ ''-'' @ dec_fixed 2 (int m) @ ''-'' @ dec_fixed 2 d @ ''T''
      @ dec_fixed 2 (sec div 3600) @ '':'' @ dec_fixed 2 (sec div 60 mod 60) @ '':''
      @ dec_fixed 2 (sec mod 60) @ tail"
    by (simp add: s_def isoformat_def ymd Let_def us_def f_def sec_def tail_def)
  note L = fields_of_layout [OF _ _ _ _ _ _ s, simplified]
  have hh: "0 \<le> sec div 3600" "sec div 3600 < 24" "0 \<le> sec div 60 mod 60" "sec div 60 mod 60 < 60"
    "0 \<le> sec mod 60" "sec mod 60 < 60"
    using sec by (auto simp: pos_imp_zdiv_nonneg_iff div_less_iff_less_mult)
  have "d \<le> 31" using b(6) days_in_month_bounds [of y "int m"] by linarith
  have p4: "x \<le> 9999 \<Longrightarrow> x < 10 ^ 4" and p2: "x < 60 \<Longrightarrow> x < 10 ^ 2" for x :: int
    by simp_all
  have "int m < 60" "d < 60" "sec div 3600 < 60" using b(4) \<open>d \<le> 31\<close> hh(2) by simp_all
  note lt = p4 [OF b(2)] p2 [OF this(1)] p2 [OF this(2)] p2 [OF this(3)] p2 [OF hh(4)] p2 [OF hh(6)]
  have "take 4 (drop 0 s) = dec_fixed 4 y" using L(1) by simp
  note at = digits_at_field [OF this _ lt(1)] digits_at_field [OF L(2) _ lt(2)]
    digits_at_field [OF L(3) _ lt(3)] digits_at_field [OF L(4) _ lt(4)]
    digits_at_field [OF L(5) _ lt(5)] digits_at_field [OF L(6) _ lt(6)]
  have dig: "digits_at 0 4 s = Some y" "digits_at 5 2 s = Some (int m)" "digits_at 8 2 s = Some d"
    "digits_at 11 2 s = Some (sec div 3600)" "digits_at 14 2 s = Some (sec div 60 mod 60)"
    "digits_at 17 2 s = Some (sec mod 60)"
    by (rule at, use b hh in linarith)+
  have tl: "(if drop 19 s = ''+00:00'' then Some 0
      else if text_at 19 ''.'' s \<and> drop 26 s = ''+00:00'' then digits_at 20 6 s else None) = Some f"
  proof (cases "f = 0")
    case False
    have "drop 26 s = drop 7 (drop 19 s)" "drop 20 s = drop 1 (drop 19 s)" by simp_all
    then have "drop 26 s = ''+00:00''" "take 6 (drop 20 s) = dec_fixed 6 f" "text_at 19 ''.'' s"
      using False unfolding L(7) text_at_def by (simp_all add: tail_def)
    moreover from this(2) f have "digits_at 20 6 s = Some f" by (intro digits_at_field) auto
    ultimately show ?thesis using False unfolding L(7) by (simp add: tail_def)
  qed (simp add: L(7) tail_def)
  have hms: "sec div 3600 * 3600 + sec div 60 mod 60 * 60 + sec mod 60 = sec"
  proof -
    have "sec div 3600 = sec div 60 div 60" by (simp add: zdiv_zmult2_eq [symmetric])
    then show ?thesis using div_mult_mod_eq [of sec 60] div_mult_mod_eq [of "sec div 60" 60] by linarith
  qed
  have "t = t div us_per_day * us_per_day + us" by (simp add: us_def)
  then have t: "(ordinal_of_ymd y m d - 1) * us_per_day
      + (sec div 3600 * 3600 + sec div 60 mod 60 * 60 + sec mod 60) * 1000000 + f = t"
    unfolding ord hms using sec(3) by simp
  have m: "1 \<le> int m" "int m \<le> 12" using b by simp_all
  from fromisoformat_fields [OF dig L(8-12) b(1) m b(5,6) hh(2,4,6) tl] t
  show ?thesis unfolding s_def by (simp only: nat_int)
qed

text \<open>Whatever text is read, the instant is one that \<open>datetime\<close> can hold.\<close>

lemma dec_value_bounds: "list_all is_digit s \<Longrightarrow> 0 \<le> dec_value s \<and> dec_value s < 10 ^ length s"
proof (induction s rule: rev_induct)
  case (snoc c s)
  then have "digit_value c \<le> 9" by (auto simp: is_digit_def digit_value_def)
  with snoc show ?case by (auto simp: dec_value_snoc)
qed (simp add: dec_value_def)

lemma digits_at_bounds: "digits_at i w s = Some v \<Longrightarrow> 0 \<le> v \<and> v < 10 ^ w"
  using dec_value_bounds [of "take w (drop i s)"]
  by (simp add: digits_at_def Let_def split: if_splits)

lemma days_before_month_le:
  assumes "m \<le> m'" "1 \<le> m" shows "days_before_month y m \<le> days_before_month y m'"
  using assms
proof (induction m' rule: dec_induct)
  case (step n)
  then show ?case using days_in_month_bounds [of y "int n"] by simp
qed simp

lemma fromisoformat_in_range:
  assumes "fromisoformat s = Some t" shows "in_range t"
proof -
  obtain y m d hh mm ss f where
    dig: "digits_at 0 4 s = Some y" "digits_at 11 2 s = Some hh" "digits_at 14 2 s = Some mm"
      "digits_at 17 2 s = Some ss"
    and b: "1 \<le> y" "1 \<le> m" "m \<le> 12" "1 \<le> d" "d \<le> days_in_month y m" "hh < 24" "mm < 60" "ss < 60"
    and f: "f = 0 \<or> digits_at 20 6 s = Some f"
    and t: "t = (ordinal_of_ymd y (nat m) d - 1) * us_per_day + (hh * 3600 + mm * 60 + ss) * 1000000 + f"
    using assms unfolding fromisoformat_def Let_def map_option_case
    by (fastforce split: option.split_asm if_split_asm)
  have nn: "0 \<le> hh" "0 \<le> mm" "0 \<le> ss" "y < 10 ^ 4"
    using dig [THEN digits_at_bounds] by auto
  have f: "0 \<le> f" "f < 1000000" using f digits_at_bounds [of 20 6 s f] by auto
  have m: "days_before_month y (nat m) + days_in_month y m = days_before_month y (Suc (nat m))"
    using b(2) by simp
  moreover have "days_before_month y (Suc (nat m)) \<le> days_before_month y 13"
    using b(2,3) by (intro days_before_month_le) auto
  moreover have "0 \<le> days_before_month y (nat m)"
    using days_before_month_le [of 1 "nat m" y] b(2) by simp
  ultimately have "1 \<le> ordinal_of_ymd y (nat m) d - days_before_year y"
    "ordinal_of_ymd y (nat m) d \<le> days_before_year (y + 1)"
    using b days_in_year [of y] days_before_month_13 [of y] by (auto simp: ordinal_of_ymd_def)
  moreover have "days_before_year (y + 1) \<le> days_before_year 10000"
    using nn(4) by (intro days_before_year_le) simp
  moreover have "0 \<le> days_before_year y"
    using days_before_year_le [OF b(1)] by (simp add: days_before_year_def)
  ultimately have o: "0 \<le> ordinal_of_ymd y (nat m) d - 1" "ordinal_of_ymd y (nat m) d - 1 \<le> max_ordinal - 1"
    by (auto simp: days_before_year_def [of 10000] max_ordinal_def)
  have "hh * 3600 + mm * 60 + ss \<le> 86399" using b(6-8) by linarith
  then have u: "0 \<le> (hh * 3600 + mm * 60 + ss) * 1000000 + f"
    "(hh * 3600 + mm * 60 + ss) * 1000000 + f < us_per_day"
    using nn f by (auto simp: us_per_day_def)
  have "(ordinal_of_ymd y (nat m) d - 1) * us_per_day \<le> (max_ordinal - 1) * us_per_day"
    using o(2) by (simp add: us_per_day_def)
  then have "t < max_ordinal * us_per_day" using u(2) t by (simp add: left_diff_distrib)
  moreover have "0 \<le> (ordinal_of_ymd y (nat m) d - 1) * us_per_day"
    using o(1) by (simp add: us_per_day_def)
  ultimately show ?thesis using u(1) t by (simp add: in_range_def)
qed

end
