(* ===== verification/Outbox.thy ===== *)
theory Outbox
  imports ReceiptGateClient IsoTime
begin

text \<open>
  Invariants of the ReceiptGate client. \<open>client_invariant\<close> is the interface: a relation
  between the client object and its file that the three ways of changing the outbox (buffer,
  remove, reschedule; each followed by the write to disk) keep. Every operation of the client
  keeps it then. Two such relations follow: the outbox is bounded, and the file always
  reloads to the outbox, so a restart loses no receipt.
\<close>

section \<open>The interface\<close>

definition fresh_item :: "uuid \<Rightarrow> datetime \<Rightarrow> dict \<Rightarrow> json \<Rightarrow> buffered_receipt" where
  "fresh_item u now r err = \<lparr>bf_id = uuid_str u, bf_receipt = r, bf_queued_at = now,
     bf_next_retry_at = now, bf_retry_count = 0, bf_last_error = err\<rparr>"

definition retried :: "string \<Rightarrow> datetime \<Rightarrow> buffered_receipt \<Rightarrow> buffered_receipt" where
  "retried err due b = b\<lparr>bf_retry_count := bf_retry_count b + 1, bf_last_error := JStr err,
     bf_next_retry_at := due\<rparr>"

definition saved :: "rg_client \<Rightarrow> json option" where
  "saved c = Some (dump_buffer (rg_buffered c))"

locale client_invariant =
  fixes e :: env and C :: "datetime \<Rightarrow> bool" and G :: "rg_client \<Rightarrow> json option \<Rightarrow> bool"
  assumes clock: "C (e_clock e n)"
    and later: "add_seconds t k = Some u \<Longrightarrow> C u"
    and load: "G (new_client e disk) disk"
    and same: "rg_buffered c' = rg_buffered c \<Longrightarrow> G c disk \<Longrightarrow> G c' disk"
    and push: "G c disk \<Longrightarrow> C now \<Longrightarrow> G (push_item (max_items e) (fresh_item u' now r err) c)
        (saved (push_item (max_items e) (fresh_item u' now r err) c))"
    and pop: "G c disk \<Longrightarrow> G (c\<lparr>rg_buffered := pop_item bid (rg_buffered c)\<rparr>)
        (saved (c\<lparr>rg_buffered := pop_item bid (rg_buffered c)\<rparr>))"
    and retry: "G c disk \<Longrightarrow> C due \<Longrightarrow> G (c\<lparr>rg_buffered := update_item bid (retried err' due) (rg_buffered c)\<rparr>)
        (saved (c\<lparr>rg_buffered := update_item bid (retried err' due) (rg_buffered c)\<rparr>))"
begin

definition inv :: "world \<Rightarrow> bool" where
  "inv w \<longleftrightarrow> G (client_at e w) (w_disk w)"

lemma inv_simps [simp]:
  "inv (w\<lparr>w_clock := n\<rparr>) = inv w" "inv (w\<lparr>w_uuid := n\<rparr>) = inv w" "inv (w\<lparr>w_post := n\<rparr>) = inv w"
  "inv (w\<lparr>w_perf := n\<rparr>) = inv w" "inv (w\<lparr>w_rand := n\<rparr>) = inv w" "inv (w\<lparr>w_trace := t\<rparr>) = inv w"
  "inv (w\<lparr>w_metrics := m\<rparr>) = inv w" "inv (w\<lparr>w_db := d\<rparr>) = inv w" "inv (w\<lparr>w_committed := d\<rparr>) = inv w"
  "inv (w\<lparr>w_rg := Some (client_at e w)\<rparr>) = inv w"
  by (simp_all add: inv_def client_at_def split: option.split)

lemma inv_client: "inv (w\<lparr>w_rg := Some c\<rparr>) \<longleftrightarrow> G c (w_disk w)"
  by (simp add: inv_def)

lemma inv_saved: "inv (w\<lparr>w_rg := Some c, w_disk := saved c\<rparr>) \<longleftrightarrow> G c (saved c)"
  by (simp add: inv_def client_at_def)

lemma keeps_basic [keeps_intros, simp]:
  "keeps inv (utc_now e')" "keeps inv uuid4" "keeps inv (http_post e' p)" "keeps inv (perf_counter e')"
  "keeps inv (uniform_jitter e')" "keeps inv (set_trace_id t)" "keeps inv (metric f)"
  "keeps inv (write_db g)" "keeps inv session_commit" "keeps inv session_rollback"
  "keeps inv (get_receiptgate_client e)"
  by (simp_all add: keeps_wp wp_simps)

lemma keeps_ensure_trace [keeps_intros, simp]: "keeps inv ensure_trace_id"
  by (auto simp: ensure_trace_id_def intro!: keeps_intros)

lemma keeps_savepoint_inv [keeps_intros]: "keeps inv m \<Longrightarrow> keeps inv (savepoint m)"
  by (auto simp: keeps_wp wp_simps elim!: wp_mono)

lemma keeps_with_session_inv [keeps_intros]: "keeps inv m \<Longrightarrow> keeps inv (with_session m)"
  by (auto simp: with_session_def intro!: keeps_intros)

lemma keeps_shutdown [keeps_intros, simp]: "keeps inv shutdown_receiptgate_client"
  by (simp add: keeps_wp wp_simps shutdown_receiptgate_client_def inv_def client_at_def load)

lemma keeps_update_same:
  "(\<And>c. rg_buffered (f c) = rg_buffered c) \<Longrightarrow> keeps inv (update_client e f)"
  by (auto simp: keeps_wp wp_simps inv_client) (auto simp: inv_def intro: same)

lemma keeps_set_same:
  "inv w \<Longrightarrow> rg_buffered c = rg_buffered (client_at e w) \<Longrightarrow> inv (w\<lparr>w_rg := Some c\<rparr>)"
  by (simp add: inv_client) (auto simp: inv_def intro: same)

lemma keeps_record_success [keeps_intros, simp]: "keeps inv (record_success e)"
  by (simp add: record_success_def keeps_update_same)

lemma keeps_reset_circuit [keeps_intros, simp]: "keeps inv (reset_circuit e)"
  by (simp add: reset_circuit_def keeps_update_same)

lemma keeps_record_failure [keeps_intros, simp]: "keeps inv (record_failure e)"
proof -
  have "inv (w\<lparr>w_rg := Some (set_breaker b (client_at e w)), w_clock := n\<rparr>)" if "inv w" for w b n
    using keeps_set_same [OF that, of "set_breaker b (client_at e w)"]
    by (simp add: set_breaker_def inv_def)
  then show ?thesis
    by (auto simp: keeps_wp record_failure_def wp_simps split: option.split intro!: keeps_set_same)
      (auto simp: set_breaker_def)
qed

lemma keeps_cb_call_inv [keeps_intros]:
  assumes "keeps inv func" and "\<And>m. fallback = Some m \<Longrightarrow> keeps inv m"
  shows "keeps inv (cb_call e func fallback)"
proof -
  have "keeps inv (cb_proceed e func fallback d b)" for d b
    using assms
    by (auto simp: cb_proceed_def read_if_opened_def split: admission.split option.split intro!: keeps_intros)
  then have proceed: "wp (cb_proceed e func fallback d b) (\<lambda>_. inv) (\<lambda>_. inv) w" if "inv w" for d b w
    using that by (simp add: keeps_wp)
  have func: "wp func (\<lambda>_. inv) (\<lambda>_. inv) w" if "inv w" for w
    using assms(1) that by (simp add: keeps_wp)
  have set: "inv (w\<lparr>w_rg := Some (set_breaker b (client_at e w))\<rparr>)" if "inv w" for b w
    using keeps_set_same [OF that, of "set_breaker b (client_at e w)"] by (simp add: set_breaker_def)
  have set_later: "inv (w\<lparr>w_clock := n, w_rg := Some (set_breaker b (client_at e w))\<rparr>)" if "inv w" for b w n
    using set [of "w\<lparr>w_clock := n\<rparr>"] that by simp
  show ?thesis
    unfolding keeps_wp cb_call_def
    by (auto simp: wp_simps read_if_opened_def func split: option.split prod.split
        intro!: proceed set set_later)
qed

lemma keeps_emit_to_receiptgate_inv [keeps_intros, simp]: "keeps inv (emit_to_receiptgate e r)"
  by (auto simp: emit_to_receiptgate_def Let_def split: http_reply.split intro!: keeps_intros)

lemma keeps_list_custody_inv [keeps_intros, simp]: "keeps inv (list_custody e wk n)"
  by (auto simp: list_custody_def split: http_reply.split intro!: keeps_intros)

lemma keeps_buffer_receipt_inv [keeps_intros, simp]: "keeps inv (buffer_receipt e r err)"
  unfolding keeps_wp buffer_receipt_def fresh_item_def [symmetric]
  using push [OF _ clock, unfolded saved_def] by (auto simp: wp_simps inv_def)

lemma keeps_emit_with_circuit_inv [keeps_intros, simp]: "keeps inv (emit_with_circuit e fb r)"
  by (auto simp: emit_with_circuit_def fallback_to_buffer_def split: if_splits intro!: keeps_intros)

lemma keeps_emit_receipt_inv [keeps_intros, simp]: "keeps inv (emit_receipt e r)"
  by (auto simp: emit_receipt_def intro!: keeps_intros)

lemma keeps_remove_inv [keeps_intros, simp]: "keeps inv (remove_buffer_item e bid)"
  unfolding keeps_wp remove_buffer_item_def
  using pop [unfolded saved_def] by (auto simp: wp_simps inv_def)

lemma keeps_schedule_retry_inv [keeps_intros, simp]: "keeps inv (schedule_retry e bid err)"
  unfolding keeps_wp schedule_retry_def retried_def [symmetric]
proof (intro allI impI)
  fix w assume w: "inv w"
  have G: "G (client_at e w) (w_disk w)" using w by (simp add: inv_def)
  have drop: "G (client_at e w\<lparr>rg_buffered := pop_item bid (rg_buffered (client_at e w)), rg_dropped := n\<rparr>)
      (saved (client_at e w\<lparr>rg_buffered := pop_item bid (rg_buffered (client_at e w)), rg_dropped := n\<rparr>))" for n
    using same [OF _ pop [OF G, of bid]] by (simp add: saved_def)
  show "wp (bind (get_receiptgate_client e) (\<lambda>c. case find_item bid (rg_buffered c) of None \<Rightarrow> return ()
     | Some item \<Rightarrow> seq (if max 0 (emission_max_retries (cfg e)) \<le> bf_retry_count item
         then set_client (c\<lparr>rg_buffered := pop_item bid (rg_buffered c), rg_dropped := rg_dropped c + 1\<rparr>)
         else bind (utc_now e) (\<lambda>now.
              bind (some_or_raise (add_seconds now (retry_delay_seconds e (bf_retry_count item + 1))) OverflowError)
                (\<lambda>due. set_client (c\<lparr>rg_buffered := update_item bid (retried err due) (rg_buffered c)\<rparr>))))
       (persist_buffer e))) (\<lambda>_. inv) (\<lambda>_. inv) w"
    using w drop [unfolded saved_def] retry [OF G later, unfolded saved_def]
    by (auto simp: wp_simps inv_def split: option.split)
qed

lemma keeps_replay_inv [keeps_intros, simp]: "keeps inv (replay_buffered_receipts e n)"
proof -
  have "keeps inv (replay_one e b s)" for b s
    by (auto simp: replay_one_def note_replay_failure_def intro!: keeps_intros keeps_update_same)
  then have "keeps inv (replay_items e bs s)" for bs s
    by (induction bs arbitrary: s) (auto intro!: keeps_intros)
  then show ?thesis by (auto simp: replay_buffered_receipts_def intro!: keeps_intros)
qed

end

section \<open>The outbox is bounded\<close>

definition within_bound :: "env \<Rightarrow> rg_client \<Rightarrow> json option \<Rightarrow> bool" where
  "within_bound e c disk \<longleftrightarrow> length (rg_buffered c) \<le> max_items e"

interpretation bounded_outbox: client_invariant e "\<lambda>_. True" "within_bound e" for e
proof
  show "within_bound e (c\<lparr>rg_buffered := pop_item bid (rg_buffered c)\<rparr>)
      (saved (c\<lparr>rg_buffered := pop_item bid (rg_buffered c)\<rparr>))"
    if "within_bound e c disk" for c disk bid
    using that length_pop_item [of bid "rg_buffered c"] by (simp add: within_bound_def)
qed (auto simp: within_bound_def new_client_def length_load_buffer length_push_item)

section \<open>The file reloads to the outbox\<close>

definition well_timed :: "buffered_receipt \<Rightarrow> bool" where
  "well_timed b \<longleftrightarrow> in_range (bf_queued_at b) \<and> in_range (bf_next_retry_at b)"

definition durable :: "env \<Rightarrow> rg_client \<Rightarrow> json option \<Rightarrow> bool" where
  "durable e c disk \<longleftrightarrow> load_buffer e disk = rg_buffered c \<and> list_all well_timed (rg_buffered c) \<and>
     length (rg_buffered c) \<le> max_items e"

lemma from_to_payload: "well_timed b \<Longrightarrow> from_payload e (to_payload b) = Some b"
  by (simp add: from_payload_def to_payload_def well_timed_def json_datetime_def py_str_def
      fromisoformat_isoformat)

lemma from_payload_well_timed: "from_payload e j = Some b \<Longrightarrow> well_timed b"
  by (auto simp: from_payload_def json_datetime_def well_timed_def fromisoformat_in_range
      split: json.splits if_splits option.splits)

lemma map_filter_payload:
  "list_all well_timed bs \<Longrightarrow> List.map_filter (from_payload e) (map to_payload bs) = bs"
  by (induction bs) (auto simp: List.map_filter_def from_to_payload)

lemma load_dump: "list_all well_timed bs \<Longrightarrow> length bs \<le> max_items e \<Longrightarrow>
    load_buffer e (Some (dump_buffer bs)) = bs"
  by (simp add: load_buffer_def dump_buffer_def raw_items_def map_filter_payload take_last_def)

lemma load_well_timed: "list_all well_timed (load_buffer e disk)"
proof -
  have "list_all well_timed (List.map_filter (from_payload e) xs)" for xs
    using from_payload_well_timed by (induction xs) (auto simp: List.map_filter_def split: option.split)
  then show ?thesis
    by (auto simp: load_buffer_def take_last_def list_all_iff dest: in_set_dropD split: option.split)
qed

lemma set_push_item: "set (rg_buffered (push_item n b c)) \<subseteq> insert b (set (rg_buffered c))"
  by (cases "rg_buffered c") (auto simp: push_item_def)

lemma set_pop_item: "set (pop_item bid bs) \<subseteq> set bs"
  by (induction bs) auto

lemma set_update_item: "x \<in> set (update_item bid f bs) \<Longrightarrow> x \<in> set bs \<or> (\<exists>b \<in> set bs. x = f b)"
  by (induction bs) (auto split: if_splits)

lemma durable_saved:
  "list_all well_timed (rg_buffered c) \<Longrightarrow> length (rg_buffered c) \<le> max_items e \<Longrightarrow> durable e c (saved c)"
  by (simp add: durable_def saved_def load_dump)

lemma durable_invariant:
  assumes "\<And>n. in_range (e_clock e n)" shows "client_invariant e in_range (durable e)"
proof
  show "durable e (new_client e disk) disk" for disk
    by (simp add: durable_def new_client_def load_well_timed length_load_buffer)
  show "in_range u" if "add_seconds t k = Some u" for t k u
    using that by (auto simp: add_seconds_def add_us_def split: if_splits)
  show "durable e (push_item (max_items e) (fresh_item u now r err) c)
      (saved (push_item (max_items e) (fresh_item u now r err) c))"
    if "durable e c disk" "in_range now" for c disk now u r err
    using that set_push_item [of "max_items e" "fresh_item u now r err" c]
    by (intro durable_saved)
      (auto simp: durable_def list_all_iff length_push_item well_timed_def fresh_item_def)
  show "durable e (c\<lparr>rg_buffered := pop_item bid (rg_buffered c)\<rparr>)
      (saved (c\<lparr>rg_buffered := pop_item bid (rg_buffered c)\<rparr>))"
    if "durable e c disk" for c disk bid
    using that set_pop_item [of bid "rg_buffered c"] length_pop_item [of bid "rg_buffered c"]
    by (intro durable_saved) (auto simp: durable_def list_all_iff)
  show "durable e (c\<lparr>rg_buffered := update_item bid (retried err due) (rg_buffered c)\<rparr>)
      (saved (c\<lparr>rg_buffered := update_item bid (retried err due) (rg_buffered c)\<rparr>))"
    if "durable e c disk" "in_range due" for c disk due bid err
    using that
    by (intro durable_saved)
      (auto simp: durable_def list_all_iff well_timed_def retried_def dest!: set_update_item)
qed (use assms in \<open>auto simp: durable_def\<close>)

text \<open>A restart drops the client object; the next one reads the file.\<close>

definition restart :: "world \<Rightarrow> world" where
  "restart w = w\<lparr>w_rg := None\<rparr>"

lemma durable_restart:
  "durable e (client_at e w) (w_disk w) \<Longrightarrow> outbox e (restart w) = outbox e w"
  by (simp add: durable_def outbox_def restart_def client_at_def new_client_def)

section \<open>What an emission does\<close>

text \<open>Two worlds a request of the client does not tell apart.\<close>

definition same_outbox :: "env \<Rightarrow> world \<Rightarrow> world \<Rightarrow> bool" where
  "same_outbox e w w' \<longleftrightarrow> outbox e w' = outbox e w \<and> w_disk w' = w_disk w \<and> w_post w' = w_post w"

lemma same_outbox_refl [simp]: "same_outbox e w w"
  by (simp add: same_outbox_def)

lemma same_outbox_trans: "same_outbox e w w' \<Longrightarrow> same_outbox e w' w'' \<Longrightarrow> same_outbox e w w''"
  by (simp add: same_outbox_def)

lemma same_outbox_set:
  "rg_buffered c = rg_buffered (client_at e w) \<Longrightarrow> same_outbox e w (w\<lparr>w_rg := Some c\<rparr>)"
  "rg_buffered c = rg_buffered (client_at e w) \<Longrightarrow> same_outbox e w (w\<lparr>w_clock := n, w_rg := Some c\<rparr>)"
  "rg_buffered c = rg_buffered (client_at e w) \<Longrightarrow> same_outbox e w (w\<lparr>w_rg := Some c, w_clock := n\<rparr>)"
  by (simp_all add: same_outbox_def outbox_def client_at_def)

lemma wp_record_success: "wp (record_success e) (\<lambda>_ w'. same_outbox e w w') (\<lambda>_ _. False) w"
  by (simp add: record_success_def wp_simps same_outbox_set)

lemma wp_record_failure: "wp (record_failure e) (\<lambda>_ w'. same_outbox e w w') (\<lambda>_ _. False) w"
  by (auto simp: record_failure_def wp_simps same_outbox_set set_breaker_def split: option.split)

lemma wp_read_if_opened: "wp (read_if_opened e b) (\<lambda>_ w'. same_outbox e w w') (\<lambda>_ _. False) w"
  by (auto simp: read_if_opened_def wp_simps same_outbox_def outbox_def)

text \<open>
  The rule for a call behind the breaker: the postconditions may not depend on the breaker
  or the clock; then it is enough that the function and the fallback establish them.
\<close>

lemma wp_cb_call:
  assumes func: "\<And>w1. same_outbox e w w1 \<Longrightarrow> wp func Q E w1"
    and fb: "\<And>w1 m. fallback = Some m \<Longrightarrow> same_outbox e w w1 \<Longrightarrow> wp m Q E w1"
    and fast: "\<And>w1 n. fallback = None \<Longrightarrow> same_outbox e w w1 \<Longrightarrow> E (CircuitBreakerOpen n) w1"
    and Q: "\<And>x w1 w2. Q x w1 \<Longrightarrow> same_outbox e w1 w2 \<Longrightarrow> Q x w2"
    and E: "\<And>x w1 w2. E x w1 \<Longrightarrow> same_outbox e w1 w2 \<Longrightarrow> E x w2"
  shows "wp (cb_call e func fallback) Q E w"
proof -
  have admitted: "wp (try_except (bind func (\<lambda>r. seq (record_success e) (return r)))
      (\<lambda>ex. if is_refusal ex then raise ex else seq (record_failure e) (raise ex))) Q E w1"
    if s: "same_outbox e w w1" for w1
    unfolding wp_try_except wp_bind
  proof (rule wp_mono [OF func [OF s]])
    show "wp (seq (record_success e) (return x)) Q
        (\<lambda>ex. wp (if is_refusal ex then raise ex else seq (record_failure e) (raise ex)) Q E) w2"
      if "Q x w2" for x w2
      unfolding wp_seq
      by (rule wp_mono [OF wp_record_success]) (use Q [OF that] in \<open>simp_all add: wp_return\<close>)
    show "wp (if is_refusal x then raise x else seq (record_failure e) (raise x)) Q E w2"
      if "E x w2" for x w2
    proof (cases "is_refusal x")
      case False
      have "wp (seq (record_failure e) (raise x)) Q E w2"
        unfolding wp_seq
        by (rule wp_mono [OF wp_record_failure]) (use E [OF that] in \<open>simp_all add: wp_raise\<close>)
      with False show ?thesis by simp
    qed (use that in \<open>simp add: wp_raise\<close>)
  qed
  have proceed: "wp (cb_proceed e func fallback d b) Q E w1" if s: "same_outbox e w w1" for d b w1
  proof (cases d)
    case Reject
    show ?thesis
    proof (cases fallback)
      case None
      have "wp (bind (read_if_opened e b) (\<lambda>later.
          raise (CircuitBreakerOpen (seconds_until_half_open (breaker_settings e) later b)))) Q E w1"
        unfolding wp_bind
        by (rule wp_mono [OF wp_read_if_opened])
          (use fast [OF None] same_outbox_trans [OF s] in \<open>auto simp: wp_simps\<close>)
      with Reject None show ?thesis by (simp add: cb_proceed_def)
    qed (use Reject fb s in \<open>simp add: cb_proceed_def\<close>)
  qed (use admitted [OF s] in \<open>simp add: cb_proceed_def\<close>)
  have here: "same_outbox e w (w\<lparr>w_rg := Some (client_at e w)\<rparr>)" by (rule same_outbox_set) simp
  have set: "same_outbox e w (w\<lparr>w_rg := Some (set_breaker b (client_at e w))\<rparr>)"
    "same_outbox e w (w\<lparr>w_clock := n, w_rg := Some (set_breaker b (client_at e w))\<rparr>)" for b n
    by (rule same_outbox_set, simp add: set_breaker_def)+
  show ?thesis
    unfolding cb_call_def
    by (auto simp: wp_simps read_if_opened_def split: option.split prod.split
        intro!: proceed func here set)
qed

text \<open>The request itself: the ledger's verdict, or no answer.\<close>

definition submission :: "dict \<Rightarrow> dict" where
  "submission r = rpc ''receiptgate.submit_receipt'' [(''receipt'', JDict r)]"

lemma wp_emit_to_receiptgate:
  "wp (emit_to_receiptgate e r)
     (\<lambda>x w'. \<exists>data. e_post e (w_post w) (submission r) = Http_ok data \<and> \<not> has_key data ''error'' \<and>
        x = rpc_result data \<and> w' = w\<lparr>w_post := Suc (w_post w)\<rparr>)
     (\<lambda>x w'. w' = w\<lparr>w_post := Suc (w_post w)\<rparr> \<and>
        (\<forall>c msg. x = ReceiptRefused c msg \<longrightarrow> (\<exists>data. e_post e (w_post w) (submission r) = Http_ok data \<and>
             has_key data ''error'' \<and> refusal_code data = Some c))) w"
  by (auto simp: emit_to_receiptgate_def submission_def wp_simps Let_def
      split: http_reply.split option.split)

text \<open>The ledger answered: it took the receipt or refused it, and nothing is queued.\<close>

definition ledger_answered :: "env \<Rightarrow> dict \<Rightarrow> world \<Rightarrow> exn + json \<Rightarrow> world \<Rightarrow> bool" where
  "ledger_answered e r w res w' \<longleftrightarrow>
     (\<exists>data. e_post e (w_post w) (submission r) = Http_ok data \<and> w_post w' = Suc (w_post w) \<and>
        outbox e w' = outbox e w \<and> w_disk w' = w_disk w \<and>
        (if has_key data ''error''
         then \<exists>c msg. refusal_code data = Some c \<and> res = Inr (refused_outcome c msg)
         else res = Inr (rpc_result data)))"

definition not_queued :: "env \<Rightarrow> dict \<Rightarrow> world \<Rightarrow> exn + json \<Rightarrow> world \<Rightarrow> bool" where
  "not_queued e r w res w' \<longleftrightarrow> \<not> phase_may_buffer e (dict_get r ''phase'') \<and>
     res = Inl ReceiptUnbufferable \<and> outbox e w' = outbox e w \<and> w_disk w' = w_disk w"

definition queued :: "env \<Rightarrow> dict \<Rightarrow> world \<Rightarrow> exn + json \<Rightarrow> world \<Rightarrow> bool" where
  "queued e r w res w' \<longleftrightarrow> phase_may_buffer e (dict_get r ''phase'') \<and>
     (\<exists>c u now err. rg_buffered c = outbox e w \<and>
        outbox e w' = rg_buffered (push_item (max_items e) (fresh_item u now r err) c) \<and>
        w_disk w' = Some (dump_buffer (outbox e w')) \<and>
        res = Inr (buffered_outcome u (length (outbox e w'))))"

lemma wp_buffer_receipt:
  assumes "phase_may_buffer e (dict_get r ''phase'')" and "outbox e w1 = outbox e w"
  shows "wp (buffer_receipt e r err) (\<lambda>x. queued e r w (Inr x)) (\<lambda>_ _. False) w1"
proof -
  have q: "queued e r w (Inr (buffered_outcome u (length (rg_buffered c)))) w3"
    if "client_at e w3 = c" "w_disk w3 = Some (dump_buffer (rg_buffered c))"
      "c = push_item (max_items e) (fresh_item u now r err) (client_at e w1)" for w3 c u now
    unfolding queued_def using assms that by (auto simp: outbox_def)
  show ?thesis
    by (auto simp: buffer_receipt_def fresh_item_def [symmetric] wp_simps intro!: q)
qed

definition emission_ends :: "env \<Rightarrow> dict \<Rightarrow> world \<Rightarrow> exn + json \<Rightarrow> world \<Rightarrow> bool" where
  "emission_ends e r w res w' \<longleftrightarrow>
     ledger_answered e r w res w' \<or> not_queued e r w res w' \<or> queued e r w res w'"

lemma wp_emit_receipt:
  assumes ep: "truthy_str (receiptgate_endpoint (cfg e))"
  shows "wp (emit_receipt e r) (\<lambda>x. emission_ends e r w (Inr x)) (\<lambda>x. emission_ends e r w (Inl x)) w"
proof -
  let ?posted = "\<lambda>w1. w_post w1 = Suc (w_post w) \<and> outbox e w1 = outbox e w \<and> w_disk w1 = w_disk w"
  let ?Q = "\<lambda>x w1. ledger_answered e r w (Inr x) w1 \<or> queued e r w (Inr x) w1"
  let ?E = "\<lambda>x w1. outbox e w1 = outbox e w \<and> w_disk w1 = w_disk w \<and>
     (\<forall>c msg. x = ReceiptRefused c msg \<longrightarrow> w_post w1 = Suc (w_post w) \<and>
        (\<exists>data. e_post e (w_post w) (submission r) = Http_ok data \<and> has_key data ''error'' \<and>
           refusal_code data = Some c))"
  have emit: "wp (emit_to_receiptgate e r) ?Q ?E w1" if s: "same_outbox e w w1" for w1
  proof (rule wp_mono [OF wp_emit_to_receiptgate])
    have eq: "w_post w1 = w_post w" "outbox e w1 = outbox e w" "w_disk w1 = w_disk w"
      using s by (auto simp: same_outbox_def)
    have post: "?posted (w1\<lparr>w_post := Suc (w_post w1)\<rparr>)"
      using eq by (simp add: outbox_def)
    show "?Q x w2" if ex: "\<exists>data. e_post e (w_post w1) (submission r) = Http_ok data \<and>
        \<not> has_key data ''error'' \<and> x = rpc_result data \<and> w2 = w1\<lparr>w_post := Suc (w_post w1)\<rparr>" for x w2
    proof -
      obtain data where "e_post e (w_post w1) (submission r) = Http_ok data" "\<not> has_key data ''error''"
        "x = rpc_result data" "w2 = w1\<lparr>w_post := Suc (w_post w1)\<rparr>" using ex by blast
      with post eq have "ledger_answered e r w (Inr x) w2"
        unfolding ledger_answered_def by (intro exI [of _ data]) simp
      then show ?thesis ..
    qed
    show "?E x w2" if "w2 = w1\<lparr>w_post := Suc (w_post w1)\<rparr> \<and>
        (\<forall>c msg. x = ReceiptRefused c msg \<longrightarrow> (\<exists>data. e_post e (w_post w1) (submission r) = Http_ok data \<and>
             has_key data ''error'' \<and> refusal_code data = Some c))" for x w2
      using that post eq(1) by simp
  qed
  have fallback: "wp (fallback_to_buffer e r) ?Q ?E w1" if s: "same_outbox e w w1" for w1
  proof (cases "phase_may_buffer e (dict_get r ''phase'')")
    case True
    then have "wp (buffer_receipt e r (JStr ''circuit_open'')) ?Q ?E w1"
      by (rule wp_mono [OF wp_buffer_receipt]) (use s in \<open>auto simp: same_outbox_def\<close>)
    with True show ?thesis by (simp add: fallback_to_buffer_def)
  qed (use s in \<open>simp add: fallback_to_buffer_def wp_simps same_outbox_def\<close>)
  have "wp (emit_with_circuit e True r) ?Q ?E w"
    unfolding emit_with_circuit_def
  proof (rule wp_cb_call)
    show "?Q x w2" if "?Q x w1" "same_outbox e w1 w2" for x w1 w2
      using that by (auto simp: same_outbox_def ledger_answered_def queued_def)
    show "?E x w2" if "?E x w1" "same_outbox e w1 w2" for x w1 w2
      using that by (auto simp: same_outbox_def)
  qed (use emit fallback in auto)
  then have "wp (emit_with_circuit e True r) (\<lambda>x. emission_ends e r w (Inr x))
      (\<lambda>ex. wp (case refusal_of ex of Some (code, msg) \<Rightarrow> return (refused_outcome code msg)
         | None \<Rightarrow> if \<not> phase_may_buffer e (dict_get r ''phase'') then raise ReceiptUnbufferable
              else buffer_receipt e r (JStr (exn_str ex)))
         (\<lambda>x. emission_ends e r w (Inr x)) (\<lambda>x. emission_ends e r w (Inl x))) w"
  proof (rule wp_mono)
    show "emission_ends e r w (Inr x) w1" if "?Q x w1" for x w1
      using that by (auto simp: emission_ends_def)
    fix ex w1 assume E: "?E ex w1"
    have other: "wp (if \<not> phase_may_buffer e (dict_get r ''phase'') then raise ReceiptUnbufferable
        else buffer_receipt e r (JStr (exn_str ex)))
        (\<lambda>x. emission_ends e r w (Inr x)) (\<lambda>x. emission_ends e r w (Inl x)) w1"
    proof (cases "phase_may_buffer e (dict_get r ''phase'')")
      case True
      then have "wp (buffer_receipt e r (JStr (exn_str ex)))
          (\<lambda>x. emission_ends e r w (Inr x)) (\<lambda>x. emission_ends e r w (Inl x)) w1"
        by (rule wp_mono [OF wp_buffer_receipt]) (use E in \<open>auto simp: emission_ends_def\<close>)
      with True show ?thesis by simp
    qed (use E in \<open>simp add: wp_simps emission_ends_def not_queued_def\<close>)
    show "wp (case refusal_of ex of Some (code, msg) \<Rightarrow> return (refused_outcome code msg)
         | None \<Rightarrow> if \<not> phase_may_buffer e (dict_get r ''phase'') then raise ReceiptUnbufferable
              else buffer_receipt e r (JStr (exn_str ex)))
         (\<lambda>x. emission_ends e r w (Inr x)) (\<lambda>x. emission_ends e r w (Inl x)) w1"
    proof (cases "refusal_of ex")
      case (Some refusal)
      then obtain c msg where "ex = ReceiptRefused c msg" "refusal = (c, msg)"
        by (cases refusal) (auto simp: refusal_of_Some)
      with Some E show ?thesis by (simp add: wp_return emission_ends_def ledger_answered_def) blast
    qed (use other in simp)
  qed
  with ep show ?thesis by (simp add: emit_receipt_def wp_try_except)
qed

section \<open>Runs of the client\<close>

text \<open>What happens to the client: an emission, a round of the replay worker, a reset, its shutdown, a restart.\<close>

datatype client_event = Emit dict | Replay_round int | Reset_breaker | Shutdown | Restarted

fun client_step :: "env \<Rightarrow> client_event \<Rightarrow> world \<Rightarrow> world" where
  "client_step e (Emit r) w = snd (emit_receipt e r w)"
| "client_step e (Replay_round n) w = snd (replay_buffered_receipts e n w)"
| "client_step e Reset_breaker w = snd (reset_circuit e w)"
| "client_step e Shutdown w = snd (shutdown_receiptgate_client w)"
| "client_step e Restarted w = restart w"

fun client_run :: "env \<Rightarrow> client_event list \<Rightarrow> world \<Rightarrow> world" where
  "client_run e [] w = w"
| "client_run e (ev # evs) w = client_run e evs (client_step e ev w)"

context client_invariant
begin

lemma step_inv: "inv w \<Longrightarrow> inv (client_step e ev w)"
  by (cases ev) (auto intro: keepsD keeps_emit_receipt_inv keeps_replay_inv keeps_reset_circuit keeps_shutdown,
      simp add: restart_def inv_def client_at_def load)

lemma run_inv: "w_rg w = None \<Longrightarrow> inv (client_run e evs w)"
proof -
  have "inv w \<Longrightarrow> inv (client_run e evs w)" for w
    by (induction evs arbitrary: w) (auto intro: step_inv simp del: client_step.simps)
  then show "w_rg w = None \<Longrightarrow> inv (client_run e evs w)" by (simp add: inv_def client_at_def load)
qed

end

section \<open>Properties\<close>

text \<open>C30: whatever is emitted, however the ledger answers and in whatever state the file was found, the outbox
  never holds more receipts than its bound.\<close>

theorem outbox_bounded:
  assumes "w_rg w = None"
  shows "length (outbox e (client_run e evs w)) \<le> max_items e"
  using bounded_outbox.run_inv [OF assms, of e evs]
  by (simp add: bounded_outbox.inv_def within_bound_def outbox_def)


text \<open>An environment whose ledger cannot be reached, and which may queue.\<close>

definition offline :: env where
  "offline = \<lparr>e_settings = default_settings\<lparr>receiptgate_endpoint := Some ''http://ledger''\<rparr>,
     e_clock = (\<lambda>n. 63000000000000000), e_perf = (\<lambda>n. 0), e_jitter = (\<lambda>n. 0), e_post = (\<lambda>n p. Http_exn ''down''),
     e_repr = (\<lambda>j. ''?''), e_sha256 = (\<lambda>s. s), e_canonical = Some, e_derive_ulid = (\<lambda>k s. k @ s),
     e_may_buffer = (\<lambda>p. True), e_buffer_path = ''buffer.json'', e_worker_running = False, e_jwt_key = None,
     e_jwt_decode = (\<lambda>t k. Inl ''no''), e_bcrypt = (\<lambda>k h. k = h), e_token = (\<lambda>n. ''token''),
     e_bcrypt_hash = (\<lambda>n k. k), e_exn_code = (\<lambda>x. None)\<rparr>"

theorem outbox_bounded_witness:
  "length (outbox offline (client_run offline [Emit [(''phase'', JStr ''accepted'')], Restarted] initial_world)) \<le> 10000"
  using outbox_bounded [of initial_world offline "[Emit [(''phase'', JStr ''accepted'')], Restarted]"]
  by (simp add: initial_world_def max_items_def offline_def default_settings_def del: client_run.simps)




end
