(* ===== verification/EngineBase.thy ===== *)
theory EngineBase
  imports LeaseRepo ReceiptRepo MiscRepo Adapter Outbox
begin

text \<open>
  The internal helpers of \<open>AsyncGateEngine\<close> (\<open>src/asyncgate/engine/core.py\<close>): finding the
  obligation of a task, emitting a receipt locally and to ReceiptGate, the result-ready and
  escalation receipts, and the transition to running.
\<close>

section \<open>The obligation of a task\<close>

definition get_task_obligation :: "uuid \<Rightarrow> uuid \<Rightarrow> principal option \<Rightarrow> receipt option M" where
  "get_task_obligation tn tid hint =
     bind (receipt_task_obligation tn tid hint) (\<lambda>o1.
     if o1 = None \<and> hint \<noteq> None then receipt_task_obligation tn tid None else return o1)"

definition get_task_owner :: "uuid \<Rightarrow> task \<Rightarrow> principal M" where
  "get_task_owner tn t =
     (let hint = resolve_obligation_owner (t_created_by t) in
      bind (get_task_obligation tn (t_id t) (Some hint)) (\<lambda>ob.
      return (case ob of Some r \<Rightarrow> r_to r | None \<Rightarrow> hint)))"

definition get_task_obligation_or_raise :: "uuid \<Rightarrow> uuid \<Rightarrow> principal option \<Rightarrow> receipt M" where
  "get_task_obligation_or_raise tn tid hint =
     bind (get_task_obligation tn tid hint) (\<lambda>ob.
     some_or_raise ob (ValueError (Missing_assigned_receipt tid)))"

text \<open>\<open>obligation.to_ if obligation else owner_hint\<close> and the parents that go with it.\<close>

definition owner_and_parents :: "uuid \<Rightarrow> task \<Rightarrow> (principal \<times> uuid list option \<times> receipt option) M" where
  "owner_and_parents tn t =
     (let hint = resolve_obligation_owner (t_created_by t) in
      bind (get_task_obligation tn (t_id t) (Some hint)) (\<lambda>ob.
      return (case ob of
        Some r \<Rightarrow> (r_to r, Some [r_id r], Some r)
      | None \<Rightarrow> (hint, None, None))))"

section \<open>Emitting a receipt\<close>

definition eligible_types :: "receipt_type list" where
  "eligible_types = [TASK_ACCEPTED, TASK_COMPLETED, TASK_FAILED, TASK_CANCELED, TASK_ESCALATED]"

definition forwards :: "env \<Rightarrow> receipt_type \<Rightarrow> bool" where
  "forwards e ty \<longleftrightarrow> receipt_mode (cfg e) = RECEIPTGATE_INTEGRATED \<and>
     truthy_str (receiptgate_endpoint (cfg e)) \<and> ty \<in> set eligible_types"

definition traced_body :: "string \<Rightarrow> dict option \<Rightarrow> dict" where
  "traced_body trace body =
     (let b = dict_of body in
      if trace \<noteq> [] \<and> \<not> has_key b ''trace_id'' then dict_set ''trace_id'' (JStr trace) b else b)"

text \<open>The \<open>try\<close> of the forwarding: None when it failed and was only logged.\<close>

definition forward_receipt :: "env \<Rightarrow> uuid \<Rightarrow> uuid option \<Rightarrow> receipt \<Rightarrow> json option M" where
  "forward_receipt e tn task_id r =
     try_except
       (bind (case task_id of None \<Rightarrow> return None | Some tid \<Rightarrow> task_get tn tid) (\<lambda>task.
        bind (lift_sum (to_memorygate_receipt e r task)) (\<lambda>payload.
        bind (emit_receipt e payload) (\<lambda>outcome. return (Some outcome)))))
       (\<lambda>ex. if ex = ReceiptUnbufferable then raise ex else return None)"

text \<open>The \<open>else\<close> clause: a buffered transition is not a committed one.\<close>

definition check_committed :: "env \<Rightarrow> receipt_type \<Rightarrow> uuid option \<Rightarrow> json option \<Rightarrow> exn + unit" where
  "check_committed e ty task_id outcome = (case outcome of
     None \<Rightarrow> Inr ()
   | Some (JDict d) \<Rightarrow>
       if dict_get d ''status'' = JStr ''buffered''
       then Inl (ReceiptNotYetCommitted ty task_id (py_str e (dict_get d ''buffer_id''))) else Inr ()
   | Some _ \<Rightarrow> Inl (AttributeError ''get''))"

definition engine_emit ::
    "env \<Rightarrow> uuid \<Rightarrow> receipt_type \<Rightarrow> principal \<Rightarrow> principal \<Rightarrow> uuid option \<Rightarrow> uuid option \<Rightarrow>
     dict option \<Rightarrow> uuid list option \<Rightarrow> receipt M" where
  "engine_emit e tn ty from to task_id lease_id body parents =
     bind ensure_trace_id (\<lambda>trace.
     bind (perf_counter e) (\<lambda>started.
     bind (receipt_create e tn ty from to task_id lease_id None parents (Some (traced_body trace body)) None) (\<lambda>r.
     seq (metric (inc_counter ''receipts.emitted.count'' 1))
     (bind (perf_counter e) (\<lambda>ended.
     seq (metric (observe ''receipts.emit_latency_ms'' ((ended - started) * 1000)))
     (if forwards e ty then
        bind (forward_receipt e tn task_id r) (\<lambda>outcome.
        seq (lift_sum (check_committed e ty task_id outcome)) (return r))
      else return r))))))"

definition emit_result_ready ::
    "env \<Rightarrow> uuid \<Rightarrow> task \<Rightarrow> principal option \<Rightarrow> uuid list option \<Rightarrow> receipt M" where
  "emit_result_ready e tn t owner parents =
     engine_emit e tn TASK_RESULT_READY service_principal
       (case owner of Some p \<Rightarrow> p | None \<Rightarrow> t_created_by t) (Some (t_id t)) None
       (Some (body_task_result_ready (status_value (t_status t))
          (Option.bind (t_result t) tr_result) (Option.bind (t_result t) tr_error)
          (Option.bind (t_result t) tr_artifacts))) parents"

section \<open>Escalation\<close>

text \<open>\<open>str.isspace\<close> on the characters below 256. \<open>int(text)\<close>: spaces around, a sign, digits with single underscores between them.\<close>

definition is_space :: "char \<Rightarrow> bool" where
  "is_space c \<longleftrightarrow> c \<in> {CHR '' '', CHR 0x09, CHR 0x0A, CHR 0x0B, CHR 0x0C, CHR 0x0D,
     CHR 0x1C, CHR 0x1D, CHR 0x1E, CHR 0x1F, CHR 0x85, CHR 0xA0}"

definition strip :: "string \<Rightarrow> string" where
  "strip s = rev (dropWhile is_space (rev (dropWhile is_space s)))"

fun py_digits :: "bool \<Rightarrow> int \<Rightarrow> string \<Rightarrow> int option" where
  "py_digits after_digit acc [] = (if after_digit then Some acc else None)"
| "py_digits after_digit acc (c # s) =
     (if is_digit c then py_digits True (10 * acc + int (digit_value c)) s
      else if c = CHR ''_'' \<and> after_digit \<and> s \<noteq> [] then py_digits False acc s
      else None)"

definition py_int :: "string \<Rightarrow> int option" where
  "py_int text = (case strip text of
     [] \<Rightarrow> None
   | c # s \<Rightarrow> if c = CHR ''-'' then map_option uminus (py_digits False 0 s)
            else if c = CHR ''+'' then py_digits False 0 s else py_digits False 0 (c # s))"

definition escalation_class :: "settings \<Rightarrow> dict \<Rightarrow> int" where
  "escalation_class s payload = (case dict_get payload ''escalation_class'' of
     JInt i \<Rightarrow> i
   | JBool b \<Rightarrow> (if b then 1 else 0)
   | JStr t \<Rightarrow> (case py_int t of Some i \<Rightarrow> i | None \<Rightarrow> escalation_lease_expiry_class s)
   | _ \<Rightarrow> escalation_lease_expiry_class s)"

definition escalation_tenant :: "uuid \<Rightarrow> escalation_target option \<Rightarrow> uuid" where
  "escalation_tenant tn target = (case target of
     None \<Rightarrow> tn
   | Some t \<Rightarrow> if truthy_str (et_tenant t)
       then (case uuid_of_str (the (et_tenant t)) of Some u \<Rightarrow> u | None \<Rightarrow> tn) else tn)"

definition escalation_recipient ::
    "escalation_target option \<Rightarrow> receipt option \<Rightarrow> task \<Rightarrow> exn + principal \<times> string" where
  "escalation_recipient target ob t = (case target of
     Some x \<Rightarrow> (case principal_kind_of (et_to_kind x) of
         None \<Rightarrow> Inl (ValueError (Bad_enum (et_to_kind x)))
       | Some k \<Rightarrow> Inr (mk_principal k (normalize_external (et_to_id x)), et_to_id x))
   | None \<Rightarrow>
       (let p = (case ob of Some r \<Rightarrow> r_to r | None \<Rightarrow> t_created_by t) in Inr (p, p_id p)))"

definition emit_escalation ::
    "env \<Rightarrow> uuid \<Rightarrow> task \<Rightarrow> string \<Rightarrow> int \<Rightarrow> string \<Rightarrow> receipt option \<Rightarrow> uuid option \<Rightarrow>
     principal option \<Rightarrow> receipt option M" where
  "emit_escalation e tn t reason class_id label ob lease_id issued_by =
     (if \<not> escalation_enabled (cfg e) then return None
      else
        (let target = get_escalation_target (cfg e) class_id in
         bind (lift_sum (escalation_recipient target ob t)) (\<lambda>(to, escalation_to).
         bind (engine_emit e (escalation_tenant tn target) TASK_ESCALATED
                 (case issued_by of Some p \<Rightarrow> p | None \<Rightarrow> service_principal) to
                 (Some (t_id t)) lease_id
                 (Some (body_task_escalated label reason escalation_to (t_expected_outcome_kind t)
                    (t_expected_artifact_mime t)))
                 (map_option (\<lambda>r. [r_id r]) ob)) (\<lambda>r.
         return (Some r)))))"

section \<open>Starting\<close>

definition worker_principal :: "string \<Rightarrow> principal" where
  "worker_principal worker = mk_principal WORKER worker"

definition transition_to_running ::
    "env \<Rightarrow> uuid \<Rightarrow> task \<Rightarrow> string \<Rightarrow> uuid \<Rightarrow> principal \<Rightarrow> uuid list option \<Rightarrow> datetime M" where
  "transition_to_running e tn t worker lease_id owner parents =
     (if t_status t = RUNNING then
        (case t_started_at t of Some s \<Rightarrow> return s | None \<Rightarrow> utc_now e)
      else
        seq (ensure (t_status t = LEASED) (InvalidStateTransition (t_status t) RUNNING))
        (bind (case t_started_at t of Some s \<Rightarrow> return s | None \<Rightarrow> utc_now e) (\<lambda>started.
         savepoint
           (seq (bind (task_update_status e tn (t_id t) RUNNING None (Some started)) (\<lambda>_. return ()))
             (bind (engine_emit e tn TASK_STARTED (worker_principal worker) owner (Some (t_id t))
                (Some lease_id) (Some (body_task_started (Some started))) parents) (\<lambda>_.
              return started))))))"

section \<open>Lemmas\<close>

lemma keeps_obligation_reads [keeps_intros, simp]:
  "keeps I (get_task_obligation tn tid hint)" "keeps I (get_task_owner tn t)"
  "keeps I (get_task_obligation_or_raise tn tid hint)" "keeps I (owner_and_parents tn t)"
  by (auto simp: get_task_obligation_def get_task_owner_def get_task_obligation_or_raise_def
      owner_and_parents_def Let_def intro!: keeps_intros)

lemma keeps_forward_receipt [keeps_intros, simp]: "keeps (on_db P) (forward_receipt e tn tid r)"
  by (auto simp: forward_receipt_def intro!: keeps_intros)

context side_frame
begin

lemma keeps_engine_emit [keeps_intros]:
  "T tn \<Longrightarrow> keeps (on_db P) (engine_emit e tn ty from to task lease body ps)"
  by (auto simp: engine_emit_def intro!: keeps_intros)

lemma keeps_emit_result_ready [keeps_intros]:
  "T tn \<Longrightarrow> keeps (on_db P) (emit_result_ready e tn t owner ps)"
  by (auto simp: emit_result_ready_def intro!: keeps_intros)

lemma keeps_emit_escalation [keeps_intros]:
  "(\<And>x. T x) \<Longrightarrow> keeps (on_db P) (emit_escalation e tn t reason c label ob lid by_whom)"
  by (auto simp: emit_escalation_def Let_def intro!: keeps_intros)

end

context store_frame
begin

lemma keeps_transition_to_running [keeps_intros]:
  "T tn \<Longrightarrow> keeps (on_db P) (transition_to_running e tn t wk lid owner ps)"
  by (auto simp: transition_to_running_def intro!: keeps_intros)

end

end
