(* ===== verification/Engine.thy ===== *)
theory Engine
  imports EngineBase
begin

text \<open>
  The operations of \<open>AsyncGateEngine\<close> (\<open>src/asyncgate/engine/core.py\<close>) that change state:
  the tasker's, the worker's and the lease sweep. A handler that has an atomic block is split
  where its source is, into the checks before the savepoint and the block, so that a block
  can be reasoned about against the database it meets when it gets the row locks.
\<close>

section \<open>Tasker\<close>

text \<open>
  \<open>TaskRequirements(**requirements)\<close>: a field that is missing is empty, other keys are
  ignored, a field that is not a list of strings is a validation error.
\<close>

definition string_list :: "json \<Rightarrow> string list option" where
  "string_list j = (case j of JList xs \<Rightarrow>
       if list_all (\<lambda>x. case x of JStr _ \<Rightarrow> True | _ \<Rightarrow> False) xs
       then Some (map (\<lambda>x. case x of JStr s \<Rightarrow> s | _ \<Rightarrow> []) xs) else None
     | _ \<Rightarrow> None)"

definition requirement_field :: "dict \<Rightarrow> string \<Rightarrow> string list option" where
  "requirement_field d k = (if has_key d k then string_list (dict_get d k) else Some [])"

definition requirements_of :: "json \<Rightarrow> exn + task_requirements option" where
  "requirements_of j = (if \<not> truthy j then Inr None else case j of
       JDict d \<Rightarrow> (case (requirement_field d ''capabilities'', requirement_field d ''tags'') of
           (Some c, Some g) \<Rightarrow> Inr (Some \<lparr>capabilities = c, tags = g\<rparr>)
         | _ \<Rightarrow> Inl ValidationError)
     | _ \<Rightarrow> Inl (PyTypeError ''argument after ** must be a mapping''))"

definition create_task ::
    "env \<Rightarrow> uuid \<Rightarrow> string \<Rightarrow> dict \<Rightarrow> principal \<Rightarrow> string \<Rightarrow> string option \<Rightarrow> json \<Rightarrow>
     string option \<Rightarrow> string option \<Rightarrow> int option \<Rightarrow> string option \<Rightarrow> int option \<Rightarrow> int option \<Rightarrow>
     int option \<Rightarrow> bool \<Rightarrow> (uuid \<times> task_status) M" where
  "create_task e tn type payload created_by principal_ai payload_pointer requirements
      expected_kind expected_mime priority idempotency_key max_attempts backoff delay is_internal =
     (let creator = normalize_principal created_by in
      seq (ensure (\<not> (is_internal_principal_id (p_id creator) \<and> \<not> is_internal))
             (UnauthorizedError ''Internal principal IDs require authenticated internal access''))
      (bind (lift_sum (requirements_of requirements)) (\<lambda>task_requirements.
       seq (ensure (principal_ai \<noteq> []) (ValueError Principal_ai_required))
      (bind (task_create e tn type payload creator (Some principal_ai) payload_pointer task_requirements
               expected_kind expected_mime (or_default priority (default_priority (cfg e)))
               idempotency_key max_attempts backoff delay) (\<lambda>t.
       seq (bind (engine_emit e tn TASK_ASSIGNED service_principal (resolve_obligation_owner creator)
              (Some (t_id t)) None
              (Some (body_task_assigned (''Execute task type: '' @ type)
                 (Some (dump_requirements (t_requirements t))))) None) (\<lambda>_. return ()))
         (return (t_id t, t_status t)))))))"

definition cancel_body :: "principal \<Rightarrow> string option \<Rightarrow> datetime \<Rightarrow> dict" where
  "cancel_body p reason now =
     [(''canceled_by'', JDict [(''kind'', JStr (kind_value (p_kind p))), (''id'', JStr (p_id p))]),
      (''reason'', str_opt reason), (''canceled_at'', JStr (isoformat now))]"

definition may_cancel :: "principal \<Rightarrow> principal \<Rightarrow> bool \<Rightarrow> exn + unit" where
  "may_cancel owner p is_internal =
     (if is_internal then Inr ()
      else if p_kind owner = SYSTEM \<and> p_id owner = SYSTEM_PRINCIPAL_ID
      then Inl (UnauthorizedError ''Internal authorization required to cancel system-owned tasks'')
      else if p_id owner \<noteq> p_id p \<or> p_kind owner \<noteq> p_kind p
      then Inl (UnauthorizedError ''not authorized to cancel task owned by another principal'')
      else Inr ())"

text \<open>The receipts of the block, to the owner: the cancellation and the result.\<close>

definition announce_cancel :: "env \<Rightarrow> uuid \<Rightarrow> task \<Rightarrow> principal \<Rightarrow> string option \<Rightarrow> principal \<Rightarrow> uuid list \<Rightarrow> unit M" where
  "announce_cancel e tn t p reason owner parents =
     bind (utc_now e) (\<lambda>now.
     bind (engine_emit e tn TASK_CANCELED p owner (Some (t_id t)) None
             (Some (cancel_body p reason now)) (Some parents)) (\<lambda>_.
     bind (emit_result_ready e tn t (Some owner) (Some parents)) (\<lambda>_.
     return ())))"

definition cancel_atomic ::
    "env \<Rightarrow> uuid \<Rightarrow> uuid \<Rightarrow> principal \<Rightarrow> string option \<Rightarrow> principal \<Rightarrow> uuid list \<Rightarrow> task M" where
  "cancel_atomic e tn tid p reason owner parents =
     bind (lease_release tn tid None) (\<lambda>_.
     bind (task_cancel e tn tid reason) (\<lambda>canceled.
     bind (some_or_raise canceled (AttributeError ''task_id'')) (\<lambda>t.
     seq (announce_cancel e tn t p reason owner parents) (return t))))"

definition cancel_task ::
    "env \<Rightarrow> uuid \<Rightarrow> uuid \<Rightarrow> principal \<Rightarrow> string option \<Rightarrow> bool \<Rightarrow> (bool \<times> task_status) M" where
  "cancel_task e tn tid who reason is_internal =
     (let p = normalize_principal who in
      bind (task_get tn tid) (\<lambda>found.
      bind (some_or_raise found (TaskNotFound tid)) (\<lambda>t.
      bind (get_task_obligation_or_raise tn tid (Some (resolve_obligation_owner (t_created_by t)))) (\<lambda>ob.
      seq (lift_sum (may_cancel (r_to ob) p is_internal))
      (if is_terminal t then return (False, t_status t)
       else
         bind (savepoint (cancel_atomic e tn tid p reason (r_to ob) [r_id ob])) (\<lambda>t'.
         return (True, t_status t')))))))"

definition ack_receipt :: "env \<Rightarrow> uuid \<Rightarrow> uuid \<Rightarrow> principal \<Rightarrow> bool M" where
  "ack_receipt e tn rid who =
     bind (engine_emit e tn RECEIPT_ACKNOWLEDGED (normalize_principal who) service_principal
             None None (Some [(''acknowledged_receipt_id'', JStr (uuid_str rid))]) (Some [rid])) (\<lambda>_.
     return True)"

section \<open>Leasing\<close>

record offer =
  o_task :: task
  o_lease :: uuid
  o_caused_by :: string
  o_expires_at :: datetime

definition accept_lease :: "env \<Rightarrow> uuid \<Rightarrow> string \<Rightarrow> string list option \<Rightarrow> lease \<Rightarrow> offer list M" where
  "accept_lease e tn worker caps l =
     bind (task_get tn (l_task l)) (\<lambda>found.
     case found of None \<Rightarrow> return []
     | Some t \<Rightarrow>
         bind (owner_and_parents tn t) (\<lambda>(owner, parents, ob).
         bind (engine_emit e tn TASK_ACCEPTED (worker_principal worker) owner (Some (t_id t))
                 (Some (l_id l)) (Some (body_task_accepted (list_of caps))) parents) (\<lambda>_.
         return [\<lparr>o_task = t, o_lease = l_id l,
                  o_caused_by = (case ob of Some r \<Rightarrow> uuid_str (r_id r) | None \<Rightarrow> ''NA''),
                  o_expires_at = l_expires_at l\<rparr>])))"

definition lease_next ::
    "env \<Rightarrow> uuid \<Rightarrow> string \<Rightarrow> string list option \<Rightarrow> string list option \<Rightarrow> int \<Rightarrow> int option \<Rightarrow> offer list M" where
  "lease_next e tn worker caps accept_types max_tasks ttl =
     bind (lease_claim_next e tn worker caps accept_types (min max_tasks 10) ttl) (\<lambda>ls.
     bind (for_each (accept_lease e tn worker caps) ls) (\<lambda>offers.
     return (concat offers)))"

definition renew_lease :: "env \<Rightarrow> uuid \<Rightarrow> string \<Rightarrow> uuid \<Rightarrow> uuid \<Rightarrow> int option \<Rightarrow> datetime M" where
  "renew_lease e tn worker tid lid extend_by =
     bind (task_get tn tid) (\<lambda>found.
     bind (some_or_raise found (TaskNotFound tid)) (\<lambda>t.
     seq (ensure (in_flight (t_status t)) (LeaseInvalidOrExpired tid lid))
     (bind (lease_renew e tn tid lid worker extend_by) (\<lambda>l.
      bind (some_or_raise l (LeaseInvalidOrExpired tid lid)) (\<lambda>l'.
      return (l_expires_at l'))))))"

section \<open>Executing\<close>

text \<open>The guard every reporting operation starts with: a live lease, then the task.\<close>

definition require_lease :: "env \<Rightarrow> uuid \<Rightarrow> uuid \<Rightarrow> uuid \<Rightarrow> string \<Rightarrow> task M" where
  "require_lease e tn tid lid worker =
     bind (lease_validate e tn tid lid worker) (\<lambda>l.
     bind (some_or_raise l (LeaseInvalidOrExpired tid lid)) (\<lambda>_.
     bind (task_get tn tid) (\<lambda>t.
     some_or_raise t (TaskNotFound tid))))"

definition report_progress :: "env \<Rightarrow> uuid \<Rightarrow> string \<Rightarrow> uuid \<Rightarrow> uuid \<Rightarrow> dict \<Rightarrow> bool M" where
  "report_progress e tn worker tid lid v =
     bind (require_lease e tn tid lid worker) (\<lambda>t.
     bind (owner_and_parents tn t) (\<lambda>(owner, parents, _).
     seq (if t_status t = LEASED
          then bind (transition_to_running e tn t worker lid owner parents) (\<lambda>_. return ())
          else return ())
     (bind (progress_update e tn tid v) (\<lambda>_.
      bind (engine_emit e tn TASK_PROGRESS (worker_principal worker) owner (Some tid) (Some lid)
              (Some [(''progress'', JDict v)]) parents) (\<lambda>_.
      return True)))))"

definition start_task :: "env \<Rightarrow> uuid \<Rightarrow> string \<Rightarrow> uuid \<Rightarrow> uuid \<Rightarrow> datetime option M" where
  "start_task e tn worker tid lid =
     bind (require_lease e tn tid lid worker) (\<lambda>t.
     if t_status t = RUNNING then return (t_started_at t)
     else
       bind (owner_and_parents tn t) (\<lambda>(owner, parents, _).
       bind (transition_to_running e tn t worker lid owner parents) (\<lambda>started.
       return (Some started))))"

section \<open>Completing\<close>

definition complete_check :: "env \<Rightarrow> uuid \<Rightarrow> string \<Rightarrow> uuid \<Rightarrow> uuid \<Rightarrow> receipt M" where
  "complete_check e tn worker tid lid =
     bind (require_lease e tn tid lid worker) (\<lambda>t.
     seq (ensure (can_transition_to t SUCCEEDED) (InvalidStateTransition (t_status t) SUCCEEDED))
       (get_task_obligation_or_raise tn tid (Some (resolve_obligation_owner (t_created_by t)))))"

text \<open>The receipts of the block: the completion and, from the task re-read, the result.\<close>

definition announce_complete ::
    "env \<Rightarrow> uuid \<Rightarrow> string \<Rightarrow> uuid \<Rightarrow> uuid \<Rightarrow> dict \<Rightarrow> json option \<Rightarrow> receipt \<Rightarrow> unit M" where
  "announce_complete e tn worker tid lid result artifacts ob =
     bind (engine_emit e tn TASK_COMPLETED (worker_principal worker) (r_to ob) (Some tid) (Some lid)
             (Some (body_task_completed ''Task completed successfully'' (Some result) artifacts))
             (Some [r_id ob])) (\<lambda>_.
     bind (task_get tn tid) (\<lambda>t1.
     bind (some_or_raise t1 (AttributeError ''task_id'')) (\<lambda>t2.
     bind (emit_result_ready e tn t2 (Some (r_to ob)) (Some [r_id ob])) (\<lambda>_.
     return ()))))"

text \<open>\<open>TaskResult\<close> takes an object, a list of objects or nothing as artifacts.\<close>

definition artifacts_valid :: "json option \<Rightarrow> bool" where
  "artifacts_valid artifacts = (case artifacts of
     Some (JList xs) \<Rightarrow> list_all is_dict xs | Some j \<Rightarrow> is_dict j | None \<Rightarrow> True)"

definition complete_atomic ::
    "env \<Rightarrow> uuid \<Rightarrow> string \<Rightarrow> uuid \<Rightarrow> uuid \<Rightarrow> dict \<Rightarrow> json option \<Rightarrow> receipt \<Rightarrow> unit M" where
  "complete_atomic e tn worker tid lid result artifacts ob =
     bind (require_lease e tn tid lid worker) (\<lambda>t.
     seq (ensure (can_transition_to t SUCCEEDED) (InvalidStateTransition (t_status t) SUCCEEDED))
     (bind (utc_now e) (\<lambda>now.
      seq (ensure (artifacts_valid artifacts) ValidationError)
     (bind (task_update_status e tn tid SUCCEEDED
              (Some \<lparr>tr_outcome = O_SUCCEEDED, tr_result = Some result, tr_error = None,
                     tr_artifacts = artifacts, tr_completed_at = now\<rparr>) None) (\<lambda>_.
      bind (lease_release tn tid (Some lid)) (\<lambda>_.
      announce_complete e tn worker tid lid result artifacts ob))))))"

definition complete ::
    "env \<Rightarrow> uuid \<Rightarrow> string \<Rightarrow> uuid \<Rightarrow> uuid \<Rightarrow> dict \<Rightarrow> json option \<Rightarrow> bool M" where
  "complete e tn worker tid lid result artifacts =
     bind (complete_check e tn worker tid lid) (\<lambda>ob.
     seq (savepoint (complete_atomic e tn worker tid lid result artifacts ob)) (return True))"

section \<open>Failing\<close>

definition retry_body :: "dict \<Rightarrow> task \<Rightarrow> dict" where
  "retry_body err t =
     [(''reason'', JStr ''Worker reported retryable failure''), (''error'', JDict err),
      (''requeued'', JBool True), (''attempt'', JInt (t_attempt t)),
      (''max_attempts'', JInt (t_max_attempts t)),
      (''next_eligible_at'', str_opt (map_option isoformat (t_next_eligible_at t)))]"

definition should_requeue :: "bool \<Rightarrow> task \<Rightarrow> bool" where
  "should_requeue retryable t \<longleftrightarrow> retryable \<and> t_attempt t + 1 < t_max_attempts t"

definition fail_check :: "env \<Rightarrow> uuid \<Rightarrow> string \<Rightarrow> uuid \<Rightarrow> uuid \<Rightarrow> bool \<Rightarrow> (bool \<times> receipt) M" where
  "fail_check e tn worker tid lid retryable =
     bind (require_lease e tn tid lid worker) (\<lambda>t.
     bind (get_task_obligation_or_raise tn tid (Some (resolve_obligation_owner (t_created_by t)))) (\<lambda>ob.
     return (should_requeue retryable t, ob)))"

definition announce_retry ::
    "env \<Rightarrow> uuid \<Rightarrow> string \<Rightarrow> uuid \<Rightarrow> uuid \<Rightarrow> dict \<Rightarrow> task \<Rightarrow> receipt \<Rightarrow> receipt M" where
  "announce_retry e tn worker tid lid err t ob =
     engine_emit e tn TASK_RETRY_SCHEDULED (worker_principal worker) (r_to ob) (Some tid)
       (Some lid) (Some (retry_body err t)) (Some [r_id ob])"

definition fail_requeue ::
    "env \<Rightarrow> uuid \<Rightarrow> string \<Rightarrow> uuid \<Rightarrow> uuid \<Rightarrow> dict \<Rightarrow> receipt \<Rightarrow> datetime option M" where
  "fail_requeue e tn worker tid lid err ob =
     bind (task_requeue_with_backoff e tn tid True) (\<lambda>t1.
     bind (some_or_raise t1 (AttributeError ''next_eligible_at'')) (\<lambda>t.
     bind (announce_retry e tn worker tid lid err t ob) (\<lambda>_.
     return (t_next_eligible_at t))))"

definition announce_failure :: "env \<Rightarrow> uuid \<Rightarrow> string \<Rightarrow> uuid \<Rightarrow> uuid \<Rightarrow> dict \<Rightarrow> receipt \<Rightarrow> unit M" where
  "announce_failure e tn worker tid lid err ob =
     bind (engine_emit e tn TASK_FAILED (worker_principal worker) (r_to ob) (Some tid) (Some lid)
             (Some (body_task_failed err False)) (Some [r_id ob])) (\<lambda>_.
     bind (task_get tn tid) (\<lambda>t1.
     bind (some_or_raise t1 (AttributeError ''task_id'')) (\<lambda>t2.
     bind (emit_result_ready e tn t2 (Some (r_to ob)) (Some [r_id ob])) (\<lambda>_.
     return ()))))"

definition fail_terminal ::
    "env \<Rightarrow> uuid \<Rightarrow> string \<Rightarrow> uuid \<Rightarrow> uuid \<Rightarrow> dict \<Rightarrow> receipt \<Rightarrow> datetime option M" where
  "fail_terminal e tn worker tid lid err ob =
     bind (utc_now e) (\<lambda>now.
     bind (task_update_status e tn tid FAILED
             (Some \<lparr>tr_outcome = O_FAILED, tr_result = None, tr_error = Some err,
                    tr_artifacts = None, tr_completed_at = now\<rparr>) None) (\<lambda>_.
     seq (announce_failure e tn worker tid lid err ob) (return None)))"

definition fail_atomic ::
    "env \<Rightarrow> uuid \<Rightarrow> string \<Rightarrow> uuid \<Rightarrow> uuid \<Rightarrow> dict \<Rightarrow> bool \<Rightarrow> receipt \<Rightarrow> datetime option M" where
  "fail_atomic e tn worker tid lid err requeue ob =
     bind (require_lease e tn tid lid worker) (\<lambda>_.
     bind (lease_release tn tid (Some lid)) (\<lambda>_.
     if requeue then fail_requeue e tn worker tid lid err ob
     else fail_terminal e tn worker tid lid err ob))"

definition fail_task ::
    "env \<Rightarrow> uuid \<Rightarrow> string \<Rightarrow> uuid \<Rightarrow> uuid \<Rightarrow> dict \<Rightarrow> bool \<Rightarrow> (bool \<times> datetime option) M" where
  "fail_task e tn worker tid lid err retryable =
     bind (fail_check e tn worker tid lid retryable) (\<lambda>(requeue, ob).
     bind (savepoint (fail_atomic e tn worker tid lid err requeue ob)) (\<lambda>eligible.
     return (requeue, eligible)))"

section \<open>Expiring leases\<close>

definition announce_expiry ::
    "env \<Rightarrow> lease \<Rightarrow> task \<Rightarrow> principal \<Rightarrow> uuid list option \<Rightarrow> receipt option \<Rightarrow> unit M" where
  "announce_expiry e l t owner parents ob =
     bind (engine_emit e (l_tenant l) LEASE_EXPIRED service_principal owner (Some (t_id t)) (Some (l_id l))
             (Some (body_lease_expired (t_id t) (l_worker l) (t_attempt t) True)) parents) (\<lambda>_.
     bind (emit_escalation e (l_tenant l) t ''lease_expired'' (escalation_class (cfg e) (t_payload t))
             ''policy'' ob (Some (l_id l)) (Some (worker_principal (l_worker l)))) (\<lambda>_.
     return ()))"

definition expire_atomic ::
    "env \<Rightarrow> lease \<Rightarrow> task \<Rightarrow> int \<Rightarrow> principal \<Rightarrow> uuid list option \<Rightarrow> receipt option \<Rightarrow> unit M" where
  "expire_atomic e l t jitter owner parents ob =
     bind (task_requeue_on_expiry e (l_tenant l) (l_task l) jitter) (\<lambda>_.
     bind (lease_release (l_tenant l) (l_task l) (Some (l_id l))) (\<lambda>_.
     announce_expiry e l t owner parents ob))"

text \<open>One round of the loop: whether the lease was counted as expired.\<close>

definition expire_one :: "env \<Rightarrow> lease \<Rightarrow> bool M" where
  "expire_one e l =
     bind (task_get (l_tenant l) (l_task l)) (\<lambda>found.
     case found of None \<Rightarrow> return False
     | Some t \<Rightarrow>
         if is_terminal t then return False
         else
           bind (owner_and_parents (l_tenant l) t) (\<lambda>(owner, parents, ob).
           bind (uniform_jitter e) (\<lambda>jitter.
           try_except
             (seq (savepoint (expire_atomic e l t jitter owner parents ob))
               (seq (metric (inc_counter ''leases.expired'' 1)) (return True)))
             (\<lambda>_. seq (metric (inc_counter ''leases.expired.failed'' 1)) (return False)))))"

primrec expire_loop :: "env \<Rightarrow> int \<Rightarrow> lease list \<Rightarrow> int \<Rightarrow> int M" where
  "expire_loop e batch_size [] count = return count"
| "expire_loop e batch_size (l # ls) count =
     bind (expire_one e l) (\<lambda>expired.
     if expired then
       seq (if (count + 1) mod batch_size = 0 then session_commit else return ())
         (expire_loop e batch_size ls (count + 1))
     else expire_loop e batch_size ls count)"

definition expire_leases :: "env \<Rightarrow> int \<Rightarrow> int M" where
  "expire_leases e batch_size =
     bind (lease_get_expired e 100 (Some (instance_id (cfg e)))) (\<lambda>ls.
     expire_loop e batch_size ls 0)"

text \<open>One iteration of \<open>lease_sweep_loop\<close> (\<open>tasks/sweep.py\<close>); its errors are logged.\<close>

definition sweep_once :: "env \<Rightarrow> int M" where
  "sweep_once e = try_except (bind ensure_trace_id (\<lambda>_. with_session (expire_leases e 20))) (\<lambda>_. return 0)"

section \<open>Every operation keeps what every statement keeps\<close>

lemma keeps_require_lease [keeps_intros, simp]: "keeps (on_db P) (require_lease e tn tid lid wk)"
  by (auto simp: require_lease_def intro!: keeps_intros)

lemma keeps_checks [keeps_intros, simp]:
  "keeps (on_db P) (complete_check e tn wk tid lid)" "keeps (on_db P) (fail_check e tn wk tid lid rt)"
  by (auto simp: complete_check_def fail_check_def intro!: keeps_intros)

context side_frame
begin

lemma keeps_announce [keeps_intros]:
  "T tn \<Longrightarrow> keeps (on_db P) (announce_cancel e tn t p reason owner ps)"
  "T tn \<Longrightarrow> keeps (on_db P) (announce_complete e tn wk tid lid res art ob)"
  "T tn \<Longrightarrow> keeps (on_db P) (announce_failure e tn wk tid lid err ob)"
  "T tn \<Longrightarrow> keeps (on_db P) (announce_retry e tn wk tid lid err t ob)"
  "(\<And>x. T x) \<Longrightarrow> keeps (on_db P) (announce_expiry e l t owner ps' ob')"
  by (auto simp: announce_cancel_def announce_complete_def announce_failure_def announce_retry_def
      announce_expiry_def intro!: keeps_intros)

lemma keeps_ack_receipt [keeps_intros]: "T tn \<Longrightarrow> keeps (on_db P) (ack_receipt e tn rid p)"
  by (auto simp: ack_receipt_def intro!: keeps_intros)

end

context store_frame
begin

lemma keeps_create_task [keeps_intros]:
  "T tn \<Longrightarrow> keeps (on_db P) (create_task e tn ty pl cb ai pp rq ek em pr ik ma bo dl is_int)"
  by (auto simp: create_task_def Let_def intro!: keeps_intros)

lemma keeps_cancel_task [keeps_intros]: "T tn \<Longrightarrow> keeps (on_db P) (cancel_task e tn tid p reason is_int)"
  by (auto simp: cancel_task_def cancel_atomic_def Let_def intro!: keeps_intros)

lemma keeps_lease_next [keeps_intros]:
  "T tn \<Longrightarrow> keeps (on_db P) (lease_next e tn wk caps acc n ttl)"
  by (auto simp: lease_next_def accept_lease_def intro!: keeps_intros)

lemma keeps_renew_lease [keeps_intros]: "T tn \<Longrightarrow> keeps (on_db P) (renew_lease e tn wk tid lid ext)"
  by (auto simp: renew_lease_def intro!: keeps_intros)

lemma keeps_report_progress [keeps_intros]:
  "T tn \<Longrightarrow> keeps (on_db P) (report_progress e tn wk tid lid v)"
  by (auto simp: report_progress_def intro!: keeps_intros)

lemma keeps_start_task [keeps_intros]: "T tn \<Longrightarrow> keeps (on_db P) (start_task e tn wk tid lid)"
  by (auto simp: start_task_def intro!: keeps_intros)

lemma keeps_complete_atomic [keeps_intros]:
  "T tn \<Longrightarrow> keeps (on_db P) (complete_atomic e tn wk tid lid res art ob)"
  by (auto simp: complete_atomic_def intro!: keeps_intros)

lemma keeps_complete [keeps_intros]: "T tn \<Longrightarrow> keeps (on_db P) (complete e tn wk tid lid res art)"
  by (auto simp: complete_def intro!: keeps_intros)

lemma keeps_fail_atomic [keeps_intros]:
  "T tn \<Longrightarrow> keeps (on_db P) (fail_atomic e tn wk tid lid err rq ob)"
  by (auto simp: fail_atomic_def fail_requeue_def fail_terminal_def intro!: keeps_intros)

lemma keeps_fail_task [keeps_intros]: "T tn \<Longrightarrow> keeps (on_db P) (fail_task e tn wk tid lid err rt)"
  by (auto simp: fail_task_def intro!: keeps_intros)

lemma keeps_expire_one [keeps_intros]: "(\<And>x. T x) \<Longrightarrow> keeps (on_db P) (expire_one e l)"
  by (auto simp: expire_one_def expire_atomic_def intro!: keeps_intros)

end

context service_frame
begin

lemma keeps_expire_leases [keeps_intros]:
  assumes "\<And>x. T x" shows "keeps (on_db P) (expire_leases e n)"
proof -
  have "keeps (on_db P) (expire_loop e n ls c)" for ls c
    by (induction ls arbitrary: c) (auto intro!: keeps_intros assms)
  then show ?thesis by (auto simp: expire_leases_def intro!: keeps_intros)
qed

lemma keeps_sweep_once [keeps_intros]: "(\<And>x. T x) \<Longrightarrow> keeps (on_db P) (sweep_once e)"
  by (auto simp: sweep_once_def intro!: keeps_intros)

end

end
