(* ===== verification/EngineQueries.thy ===== *)
theory EngineQueries
  imports Engine
begin

text \<open>
  The read operations of \<open>AsyncGateEngine\<close>: receipts, obligations, tasks, configuration and
  metrics. Responses are the JSON the service sends, with identifiers and instants as the
  texts the encoder writes for them.
\<close>

section \<open>Rendering\<close>

definition uuid_json :: "uuid \<Rightarrow> json" where "uuid_json u = JStr (uuid_str u)"

definition time_json :: "datetime \<Rightarrow> json" where "time_json t = JStr (isoformat t)"

definition time_opt :: "datetime option \<Rightarrow> json" where
  "time_opt t = str_opt (map_option isoformat t)"

definition principal_json :: "principal \<Rightarrow> json" where
  "principal_json p = JDict [(''kind'', JStr (kind_value (p_kind p))), (''id'', JStr (p_id p))]"

definition result_json :: "task_result \<Rightarrow> json" where
  "result_json r = JDict [(''outcome'', JStr (outcome_value (tr_outcome r))),
     (''result'', dict_opt (tr_result r)), (''error'', dict_opt (tr_error r)),
     (''artifacts'', json_opt (tr_artifacts r)), (''completed_at'', time_json (tr_completed_at r))]"

definition task_to_dict :: "task \<Rightarrow> dict" where
  "task_to_dict t =
     [(''task_id'', uuid_json (t_id t)), (''type'', JStr (t_type t)),
      (''payload'', JDict (t_payload t)), (''payload_pointer'', str_opt (t_payload_pointer t)),
      (''created_by'', principal_json (t_created_by t)), (''principal_ai'', JStr (t_principal_ai t)),
      (''requirements'', JDict (dump_requirements (t_requirements t))),
      (''expected_outcome_kind'', str_opt (t_expected_outcome_kind t)),
      (''expected_artifact_mime'', str_opt (t_expected_artifact_mime t)),
      (''priority'', JInt (t_priority t)), (''status'', JStr (status_value (t_status t))),
      (''attempt'', JInt (t_attempt t)), (''max_attempts'', JInt (t_max_attempts t)),
      (''created_at'', time_json (t_created_at t)), (''updated_at'', time_json (t_updated_at t)),
      (''next_eligible_at'', time_opt (t_next_eligible_at t)),
      (''started_at'', time_opt (t_started_at t))] @
     (case t_result t of None \<Rightarrow> [] | Some r \<Rightarrow> [(''result'', result_json r)])"

definition receipt_to_dict :: "receipt \<Rightarrow> dict" where
  "receipt_to_dict r =
     [(''receipt_id'', uuid_json (r_id r)), (''receipt_type'', JStr (receipt_type_value (r_type r))),
      (''created_at'', time_json (r_created_at r)), (''from'', principal_json (r_from r)),
      (''to'', principal_json (r_to r)), (''task_id'', uuid_opt (r_task r)),
      (''lease_id'', uuid_opt (r_lease r)), (''parents'', JList (map uuid_json (r_parents r))),
      (''body'', JDict (r_body r)), (''delivered_at'', time_opt (r_delivered_at r))]"

definition receipts_json :: "receipt list \<Rightarrow> json" where
  "receipts_json rs = JList (map (\<lambda>r. JDict (receipt_to_dict r)) rs)"

definition list_limit :: "settings \<Rightarrow> int option \<Rightarrow> int" where
  "list_limit s limit = min (or_default limit (default_list_limit s)) (max_list_limit s)"

section \<open>Tasks\<close>

definition get_task :: "uuid \<Rightarrow> uuid \<Rightarrow> json M" where
  "get_task tn tid =
     bind (task_get tn tid) (\<lambda>found.
     bind (some_or_raise found (TaskNotFound tid)) (\<lambda>t.
     bind (progress_find tn tid) (\<lambda>p.
     return (JDict (case p of None \<Rightarrow> task_to_dict t
       | Some x \<Rightarrow> dict_set ''progress'' (JDict (pr_progress x)) (task_to_dict t))))))"

definition list_tasks ::
    "env \<Rightarrow> uuid \<Rightarrow> string option \<Rightarrow> string option \<Rightarrow> string option \<Rightarrow> int option \<Rightarrow> string option \<Rightarrow> json M" where
  "list_tasks e tn status type created_by_id limit cursor =
     bind (if truthy_str status then
             (case task_status_of (the status) of
                None \<Rightarrow> raise (ValueError (Bad_enum (the status)))
              | Some s \<Rightarrow> return (Some s))
           else return None) (\<lambda>st.
     bind (task_list tn st type created_by_id (list_limit (cfg e) limit) cursor) (\<lambda>(ts, next_cursor).
     return (JDict [(''tasks'', JList (map (\<lambda>t. JDict (task_to_dict t)) ts)),
       (''next_cursor'', str_opt next_cursor)])))"

section \<open>Receipts\<close>

definition list_receipts ::
    "env \<Rightarrow> uuid \<Rightarrow> string \<Rightarrow> string \<Rightarrow> uuid option \<Rightarrow> int option \<Rightarrow> json M" where
  "list_receipts e tn to_kind to_id since limit =
     bind (some_or_raise (principal_kind_of to_kind) (ValueError (Bad_enum to_kind))) (\<lambda>k.
     bind (receipt_list tn k (normalize_external to_id) since (list_limit (cfg e) limit)) (\<lambda>(rs, next_cursor).
     return (JDict [(''receipts'', receipts_json rs), (''next_cursor'', uuid_opt next_cursor)])))"

definition task_by_id :: "(uuid \<times> task) list \<Rightarrow> uuid option \<Rightarrow> task option" where
  "task_by_id m tid = (case tid of None \<Rightarrow> None | Some i \<Rightarrow> map_of m i)"

definition list_receipts_ledger ::
    "env \<Rightarrow> uuid \<Rightarrow> uuid option \<Rightarrow> uuid option \<Rightarrow> receipt_type option \<Rightarrow> task_status option \<Rightarrow>
     uuid option \<Rightarrow> int option \<Rightarrow> json M" where
  "list_receipts_ledger e tn task lease ty status since limit =
     bind (receipt_list_filtered tn task lease ty status since (list_limit (cfg e) limit)) (\<lambda>(rs, next_cursor).
     bind (task_get_many tn (List.map_filter r_task rs)) (\<lambda>tasks.
     bind (for_each (\<lambda>r. lift_sum (to_memorygate_receipt e r (task_by_id tasks (r_task r)))) rs) (\<lambda>payloads.
     return (JDict [(''receipts'', JList (map JDict payloads)), (''next_cursor'', uuid_opt next_cursor)]))))"

definition get_receipt :: "uuid \<Rightarrow> uuid \<Rightarrow> json M" where
  "get_receipt tn rid = bind (receipt_get_by_id tn rid) (\<lambda>r.
     return (case r of None \<Rightarrow> JNull | Some x \<Rightarrow> JDict (receipt_to_dict x)))"

definition list_receipts_by_parent :: "uuid \<Rightarrow> uuid \<Rightarrow> int \<Rightarrow> json M" where
  "list_receipts_by_parent tn parent limit =
     bind (receipt_get_by_parent tn parent limit) (\<lambda>rs. return (receipts_json rs))"

definition get_latest_terminator :: "uuid \<Rightarrow> uuid \<Rightarrow> json M" where
  "get_latest_terminator tn parent = bind (receipt_latest_terminator tn parent) (\<lambda>r.
     return (case r of None \<Rightarrow> JNull | Some x \<Rightarrow> JDict (receipt_to_dict x)))"

definition has_terminator :: "uuid \<Rightarrow> uuid \<Rightarrow> bool M" where
  "has_terminator tn parent = receipt_has_terminator tn parent"

definition list_open_obligations ::
    "uuid \<Rightarrow> principal \<Rightarrow> uuid option \<Rightarrow> int \<Rightarrow> (receipt list \<times> uuid option) M" where
  "list_open_obligations tn who since limit =
     (let p = normalize_principal who in
      receipt_list_open_obligations tn (p_kind p) (p_id p) since limit)"

text \<open>The legacy \<open>bootstrap\<close> of the engine: the inbox, marked as delivered.\<close>

definition relationship_json :: "relationship \<Rightarrow> json" where
  "relationship_json r = JDict
     [(''principal_kind'', JStr (kind_value (rel_kind r))), (''principal_id'', JStr (rel_id r)),
      (''principal_instance_id'', str_opt (rel_instance r)),
      (''first_seen_at'', time_json (rel_first_seen_at r)), (''last_seen_at'', time_json (rel_last_seen_at r)),
      (''sessions_count'', JInt (rel_sessions r))]"

definition bootstrap_limit :: "settings \<Rightarrow> int option \<Rightarrow> int" where
  "bootstrap_limit s n = min (or_default n (default_bootstrap_max_items s)) (max_bootstrap_max_items s)"

definition engine_bootstrap :: "env \<Rightarrow> uuid \<Rightarrow> principal \<Rightarrow> uuid option \<Rightarrow> int option \<Rightarrow> json M" where
  "engine_bootstrap e tn who since n =
     (let p = normalize_principal who in
      bind (relationship_upsert e tn (p_kind p) (p_id p) (p_instance p)) (\<lambda>rel.
      bind (receipt_list tn (p_kind p) (p_id p) since (bootstrap_limit (cfg e) n)) (\<lambda>(inbox, next_cursor).
      bind (receipt_mark_delivered e tn (map r_id inbox)) (\<lambda>_.
      return (JDict
        [(''server'', JDict [(''name'', JStr ''AsyncGate''), (''version'', JStr ''0.1.0''),
            (''instance_id'', JStr (instance_id (cfg e))), (''uptime'', JInt 0),
            (''environment'', JStr (environment_value (environment (cfg e))))]),
         (''relationship'', relationship_json rel),
         (''attention'', JDict [(''inbox_receipts'', receipts_json inbox), (''assigned_tasks'', JList []),
            (''waiting_results'', JList []), (''running_or_scheduled'', JList []),
            (''anomalies'', JList (map (\<lambda>r. JDict (r_body r)) (filter (\<lambda>r. r_type r = SYSTEM_ANOMALY) inbox)))]),
         (''cursor'', JDict [(''latest_receipt_id'', uuid_opt next_cursor)])])))))"

section \<open>Configuration and metrics\<close>

definition get_config :: "env \<Rightarrow> json M" where
  "get_config e =
     (let base = [(''receipt_mode'', JStr (receipt_mode_value (receipt_mode (cfg e)))),
            (''receiptgate_endpoint'', str_opt (receiptgate_endpoint (cfg e))),
            (''instance_id'', JStr (instance_id (cfg e))),
            (''capabilities'', JList [JStr ''lease_based_execution'', JStr ''receipt_emission'']),
            (''version'', JStr ''0.1.0'')]
      in if receipt_mode (cfg e) = RECEIPTGATE_INTEGRATED then
           bind (get_circuit_stats e) (\<lambda>circuit. bind (get_buffer_stats e) (\<lambda>buffer.
           return (JDict (base @ [(''receiptgate_delivery'',
             JDict [(''circuit'', circuit), (''buffer'', buffer)])]))))
         else return (JDict base))"

definition queue_gauge :: "task_status \<Rightarrow> string" where
  "queue_gauge s = ''tasks.'' @ status_value s"

text \<open>The queue sizes, written to their gauges; the snapshot then holds them.\<close>

definition get_metrics_snapshot :: "uuid \<Rightarrow> (metrics_registry \<times> (string \<times> int) list) M" where
  "get_metrics_snapshot tn =
     bind (task_count_by_status tn) (\<lambda>counts.
     seq (bind (for_each (\<lambda>s. metric (set_gauge (queue_gauge s) (of_int (counts s))))
            (enum_class.enum :: task_status list)) (\<lambda>_. return ()))
     (bind (asks w_metrics) (\<lambda>m.
     return (m, map (\<lambda>s. (status_value s, counts s)) enum_class.enum))))"

section \<open>Lemmas\<close>

lemma keeps_queries [keeps_intros, simp]:
  "keeps I (get_task tn tid)" "keeps I (list_tasks e tn st ty cb n cur)"
  "keeps I (list_receipts e tn k pid since n)" "keeps I (list_receipts_ledger e tn task lease rty tst since n)"
  "keeps I (get_receipt tn rid)" "keeps I (list_receipts_by_parent tn parent m)"
  "keeps I (get_latest_terminator tn parent)" "keeps I (has_terminator tn parent)"
  "keeps I (list_open_obligations tn who since m)" "keeps (on_db P) (get_config e)"
  "keeps (on_db P) (get_metrics_snapshot tn)"
  by (auto simp: get_task_def list_tasks_def list_receipts_def list_receipts_ledger_def
      get_receipt_def list_receipts_by_parent_def get_latest_terminator_def has_terminator_def
      list_open_obligations_def get_config_def get_metrics_snapshot_def Let_def intro!: keeps_intros)

context side_frame
begin

lemma keeps_engine_bootstrap [keeps_intros]:
  "T tn \<Longrightarrow> keeps (on_db P) (engine_bootstrap e tn who since n)"
  by (auto simp: engine_bootstrap_def Let_def intro!: keeps_intros)

end

end
