(* ===== verification/Auth.thy ===== *)
theory Auth
  imports Store Principals
begin

text \<open>
  Authentication: \<open>auth/token.py\<close>, \<open>auth/middleware.py\<close>, \<open>auth/models.py\<close> and the
  dependencies of \<open>api/deps.py\<close>. JWT verification and bcrypt are fields of \<open>env\<close>; a claim
  or a request field is a JSON value, since the code takes it as it comes.
\<close>

datatype auth_type = DB_API_KEY | LEGACY_API_KEY | INSECURE_DEV | JWT

record auth_context =
  ac_user :: "user option"
  ac_type :: auth_type
  ac_internal :: bool
  ac_tenant :: json

section \<open>API keys\<close>

definition API_KEY_PREFIX :: string where "API_KEY_PREFIX = ''ag_''"

definition lower_char :: "char \<Rightarrow> char" where
  "lower_char c = (let n = (of_char c :: nat) in if 65 \<le> n \<and> n \<le> 90 then char_of (n + 32) else c)"

definition lower :: "string \<Rightarrow> string" where
  "lower s = map lower_char s"

definition find_header :: "string \<Rightarrow> (string \<times> string) list \<Rightarrow> string option" where
  "find_header name headers = map_option snd (find (\<lambda>h. lower (fst h) = name) headers)"

text \<open>\<open>s.split(' ', 1)\<close> into exactly two parts.\<close>

definition split_space :: "string \<Rightarrow> (string \<times> string) option" where
  "split_space s = (case dropWhile (\<lambda>c. c \<noteq> CHR '' '') s of
     [] \<Rightarrow> None | _ # rest \<Rightarrow> Some (takeWhile (\<lambda>c. c \<noteq> CHR '' '') s, rest))"

definition bearer_key :: "string option \<Rightarrow> string option" where
  "bearer_key auth_header = (if \<not> truthy_str auth_header then None
     else case split_space (the auth_header) of
       Some (scheme, key) \<Rightarrow> if lower scheme = ''bearer'' then Some key else None
     | None \<Rightarrow> None)"

definition request_key :: "(string \<times> string) list \<Rightarrow> string option" where
  "request_key headers =
     (let bearer = bearer_key (find_header ''authorization'' headers) in
      if truthy_str bearer then bearer else find_header ''x-api-key'' headers)"

definition key_is_valid :: "datetime \<Rightarrow> api_key_row \<Rightarrow> bool" where
  "key_is_valid now k \<longleftrightarrow> \<not> ak_is_revoked k \<and>
     (case ak_expires_at k of None \<Rightarrow> True | Some t \<Rightarrow> \<not> t < now)"

definition used_key :: "datetime \<Rightarrow> api_key_row \<Rightarrow> api_key_row" where
  "used_key now k = k\<lparr>ak_usage_count := ak_usage_count k + 1, ak_last_used := Some now\<rparr>"

definition set_api_keys :: "(api_key_row list \<Rightarrow> api_key_row list) \<Rightarrow> db \<Rightarrow> db" where
  "set_api_keys f d = d\<lparr>db_users := db_users d, db_api_keys := f (db_api_keys d)\<rparr>"

definition check_api_key :: "env \<Rightarrow> string \<Rightarrow> user option M" where
  "check_api_key e key =
     bind (one_or_none (\<lambda>d. filter (\<lambda>k. ak_prefix k = take 11 key) (db_api_keys d))) (\<lambda>found.
     case found of None \<Rightarrow> return None
     | Some k \<Rightarrow>
         if \<not> e_bcrypt e key (ak_hash k) then return None
         else
           bind (if ak_is_revoked k \<or> ak_expires_at k = None then return 0 else utc_now e) (\<lambda>now.
           if \<not> key_is_valid now k then return None
           else
             bind (utc_now e) (\<lambda>used_at.
             seq (write_db (set_api_keys (update_where (\<lambda>x. ak_id x = ak_id k) (used_key used_at))))
             (seq session_commit
               (one_or_none (\<lambda>d. filter (\<lambda>u. u_id u = ak_user k) (db_users d)))))))"

definition verify_request_api_key :: "env \<Rightarrow> (string \<times> string) list \<Rightarrow> user option M" where
  "verify_request_api_key e headers =
     (let key = request_key headers in
      if \<not> truthy_str key then return None
      else if \<not> starts_with (the key) API_KEY_PREFIX then return None
      else check_api_key e (the key))"

section \<open>Provisioning\<close>

definition generate_api_key :: "env \<Rightarrow> (string \<times> string \<times> string) M" where
  "generate_api_key e = (\<lambda>w.
     (let key = API_KEY_PREFIX @ e_token e (w_rand w)
      in (Inr (key, take 11 key, e_bcrypt_hash e (w_rand w) key), w\<lparr>w_rand := Suc (w_rand w)\<rparr>)))"

definition get_or_create_bootstrap_user :: "string \<Rightarrow> user M" where
  "get_or_create_bootstrap_user email =
     bind (one_or_none (\<lambda>d. filter (\<lambda>u. u_email u = email) (db_users d))) (\<lambda>found.
     case found of Some u \<Rightarrow> return u
     | None \<Rightarrow>
         bind uuid4 (\<lambda>i.
         (let u = \<lparr>u_id = i, u_email = email, u_is_active = True, u_is_admin = True\<rparr> in
          seq (write_db (\<lambda>d. d\<lparr>db_users := db_users d @ [u], db_api_keys := db_api_keys d\<rparr>))
            (seq session_commit (return u)))))"

definition create_api_key_for_user :: "env \<Rightarrow> user \<Rightarrow> (string \<times> api_key_row) M" where
  "create_api_key_for_user e u =
     bind (generate_api_key e) (\<lambda>(key, prefix, hash).
     bind uuid4 (\<lambda>i.
     bind (select (\<lambda>d. (\<exists>x \<in> set (db_users d). u_id x = u_id u) \<and>
             (\<forall>x \<in> set (db_api_keys d). ak_hash x \<noteq> hash \<and> ak_id x \<noteq> i))) (\<lambda>ok.
     (let k = \<lparr>ak_id = i, ak_user = u_id u, ak_prefix = prefix, ak_hash = hash, ak_expires_at = None,
               ak_is_revoked = False, ak_usage_count = 0, ak_last_used = None\<rparr> in
      seq (ensure ok IntegrityError)
        (seq (write_db (set_api_keys (\<lambda>ks. ks @ [k]))) (seq session_commit (return (key, k))))))))"

section \<open>The tenant and the token\<close>

definition resolve_tenant :: "settings \<Rightarrow> json \<Rightarrow> json \<Rightarrow> exn + json" where
  "resolve_tenant s from_credential claimed =
     (let resolved = json_or from_credential (JStr (default_tenant_id s)) in
      if truthy claimed \<and> claimed \<noteq> resolved
      then Inl (UnauthorizedError ''request claims another tenant than its credential'')
      else Inr resolved)"

definition looks_like_jwt :: "string \<Rightarrow> bool" where
  "looks_like_jwt token \<longleftrightarrow> length (filter (\<lambda>c. c = CHR ''.'') token) = 2"

definition insecure_dev :: "settings \<Rightarrow> bool" where
  "insecure_dev s \<longleftrightarrow> allow_insecure_dev s \<and> environment s = DEVELOPMENT"

definition jwt_context :: "settings \<Rightarrow> dict \<Rightarrow> json \<Rightarrow> json \<Rightarrow> exn + auth_context" where
  "jwt_context s claims tenant_id principal_id =
     (let subject = dict_get claims ''sub'';
          tenant_claim = json_or (dict_get claims ''tenant_id'') (dict_get claims ''tid'') in
      if truthy principal_id \<and> truthy subject \<and> subject \<noteq> principal_id
      then Inl (UnauthorizedError ''JWT subject does not match principal'')
      else case resolve_tenant s tenant_claim tenant_id of
        Inl ex \<Rightarrow> Inl ex
      | Inr tn \<Rightarrow> Inr \<lparr>ac_user = None, ac_type = JWT,
          ac_internal = (truthy (dict_get claims ''is_admin'') \<or> truthy (dict_get claims ''admin'')),
          ac_tenant = tn\<rparr>)"

definition verify_auth_token :: "env \<Rightarrow> string option \<Rightarrow> json \<Rightarrow> json \<Rightarrow> auth_context M" where
  "verify_auth_token e token tenant_id principal_id =
     (let s = cfg e; t = the token in
      if insecure_dev s then
        bind (lift_sum (resolve_tenant s JNull tenant_id)) (\<lambda>tn.
        return \<lparr>ac_user = None, ac_type = INSECURE_DEV, ac_internal = False, ac_tenant = tn\<rparr>)
      else if \<not> truthy_str token then raise (UnauthorizedError ''Missing authorization token'')
      else if looks_like_jwt t then
        bind (some_or_raise (e_jwt_key e) (UnauthorizedError ''JWT verification key not configured'')) (\<lambda>key.
        case e_jwt_decode e t key of
          Inl msg \<Rightarrow> raise (UnauthorizedError (''Invalid JWT: '' @ msg))
        | Inr claims \<Rightarrow> lift_sum (jwt_context s claims tenant_id principal_id))
      else if starts_with t API_KEY_PREFIX then
        bind (verify_request_api_key e [(''authorization'', ''Bearer '' @ t)]) (\<lambda>found.
        case found of
          Some u \<Rightarrow>
            if u_is_active u then
              bind (lift_sum (resolve_tenant s JNull tenant_id)) (\<lambda>tn.
              return \<lparr>ac_user = Some u, ac_type = DB_API_KEY, ac_internal = u_is_admin u, ac_tenant = tn\<rparr>)
            else raise (UnauthorizedError ''Invalid API key'')
        | None \<Rightarrow> raise (UnauthorizedError ''Invalid API key''))
      else if truthy_str (api_key s) \<and> api_key s = Some t then
        return \<lparr>ac_user = None, ac_type = LEGACY_API_KEY, ac_internal = False, ac_tenant = JStr []\<rparr>
      else raise (UnauthorizedError ''Invalid API key''))"

text \<open>\<open>UUID(x)\<close>.\<close>

definition py_uuid :: "json \<Rightarrow> exn + uuid" where
  "py_uuid j = (case j of
     JStr s \<Rightarrow> (case uuid_of_str s of Some u \<Rightarrow> Inr u | None \<Rightarrow> Inl (ValueError (Bad_uuid s)))
   | JNull \<Rightarrow> Inl (PyTypeError ''one of the hex, bytes, bytes_le, fields, or int arguments must be given'')
   | _ \<Rightarrow> Inl (AttributeError ''replace''))"

section \<open>HTTP dependencies (\<open>api/deps.py\<close>)\<close>

definition get_tenant_id :: "settings \<Rightarrow> string option \<Rightarrow> exn + uuid" where
  "get_tenant_id s header =
     (if truthy_str header then
        (case uuid_of_str (the header) of Some u \<Rightarrow> Inr u | None \<Rightarrow> Inl (HTTPException 400))
      else if insecure_dev s then Inr 0
      else Inl (HTTPException 401))"

definition header_key :: "string option \<Rightarrow> string option \<Rightarrow> string option" where
  "header_key authorization x_api_key =
     (if truthy_str authorization \<and> starts_with (the authorization) ''Bearer ''
      then Some (drop 7 (the authorization))
      else if truthy_str x_api_key then x_api_key else None)"

definition verify_api_key :: "env \<Rightarrow> string option \<Rightarrow> string option \<Rightarrow> auth_context M" where
  "verify_api_key e authorization x_api_key =
     (let s = cfg e; key = header_key authorization x_api_key;
          ctx = (\<lambda>u ty internal. \<lparr>ac_user = u, ac_type = ty, ac_internal = internal, ac_tenant = JStr []\<rparr>) in
      if insecure_dev s then return (ctx None INSECURE_DEV False)
      else if \<not> truthy_str key then raise (HTTPException 401)
      else if starts_with (the key) API_KEY_PREFIX then
        bind (verify_request_api_key e
          ((if truthy_str authorization then [(''authorization'', the authorization)] else []) @
           (if truthy_str x_api_key then [(''x-api-key'', the x_api_key)] else []))) (\<lambda>found.
        case found of
          Some u \<Rightarrow> if u_is_active u then return (ctx (Some u) DB_API_KEY (u_is_admin u))
                   else raise (HTTPException 403)
        | None \<Rightarrow> raise (HTTPException 401))
      else if truthy_str (api_key s) then
        (if api_key s = key then return (ctx None LEGACY_API_KEY False) else raise (HTTPException 401))
      else raise (HTTPException 503))"

definition validate_auth_config :: "settings \<Rightarrow> exn + unit" where
  "validate_auth_config s =
     (if allow_insecure_dev s \<and> environment s \<noteq> DEVELOPMENT
      then Inl (RuntimeError ''SECURITY ERROR: allow_insecure_dev=true is only permitted in development.'')
      else Inr ())"

section \<open>Lemmas\<close>

lemma resolve_tenant_Inr:
  "resolve_tenant s cred claimed = Inr tn \<Longrightarrow>
     tn = json_or cred (JStr (default_tenant_id s)) \<and> (truthy claimed \<longrightarrow> claimed = tn)"
  by (auto simp: resolve_tenant_def Let_def split: if_splits)

context session_frame
begin

lemma keeps_set_api_keys [keeps_intros]: "keeps (on_db P) (write_db (set_api_keys f))"
  unfolding set_api_keys_def by (rule keeps_auth_rows)

lemma keeps_check_api_key [keeps_intros]: "keeps (on_db P) (check_api_key e key)"
  by (auto simp: check_api_key_def intro!: keeps_intros)

lemma keeps_verify_request_api_key [keeps_intros]: "keeps (on_db P) (verify_request_api_key e hs)"
  by (auto simp: verify_request_api_key_def Let_def intro!: keeps_intros)

lemma keeps_verify_auth_token [keeps_intros]: "keeps (on_db P) (verify_auth_token e t tn pid)"
  by (auto simp: verify_auth_token_def Let_def split: sum.split intro!: keeps_intros)

end

text \<open>What a granted context is derived from: the fail-closed reading of the function.\<close>

definition credential_ok :: "env \<Rightarrow> db \<Rightarrow> string option \<Rightarrow> auth_context \<Rightarrow> bool" where
  "credential_ok e d token a \<longleftrightarrow> (case ac_type a of
     INSECURE_DEV \<Rightarrow> insecure_dev (cfg e) \<and> \<not> ac_internal a
   | JWT \<Rightarrow> (\<exists>t key claims. token = Some t \<and> e_jwt_key e = Some key \<and> e_jwt_decode e t key = Inr claims \<and>
        (ac_internal a \<longleftrightarrow> truthy (dict_get claims ''is_admin'') \<or> truthy (dict_get claims ''admin'')))
   | DB_API_KEY \<Rightarrow> (\<exists>t k u. token = Some t \<and> k \<in> set (db_api_keys d) \<and> e_bcrypt e t (ak_hash k) \<and>
        \<not> ak_is_revoked k \<and> ac_user a = Some u \<and> u_is_active u \<and> u_id u = ak_user k \<and>
        ac_internal a = u_is_admin u)
   | LEGACY_API_KEY \<Rightarrow> token \<noteq> None \<and> truthy_str (api_key (cfg e)) \<and> token = api_key (cfg e) \<and> \<not> ac_internal a)"

lemma wp_check_api_key:
  "wp (check_api_key e key)
     (\<lambda>r w'. case r of None \<Rightarrow> True | Some u \<Rightarrow>
        \<exists>k \<in> set (db_api_keys (w_db w)). e_bcrypt e key (ak_hash k) \<and> \<not> ak_is_revoked k \<and> u_id u = ak_user k)
     (\<lambda>_ _. True) w"
  by (auto simp: check_api_key_def wp_simps key_is_valid_def
      dest!: scalar_Some split: option.split sum.split)

lemma bearer_of_token: "bearer_key (Some (''Bearer '' @ t)) = Some t"
  by (simp add: bearer_key_def truthy_str_def split_space_def lower_def lower_char_def Let_def
      char_of_def of_char_def bit_0)

text \<open>Without the development bypass, every granted context rests on a checked credential.\<close>

lemma wp_verify_auth_token:
  "wp (verify_auth_token e token tn pid) (\<lambda>a _. credential_ok e (w_db w) token a) (\<lambda>_ _. True) w"
proof -
  have key: "request_key [(''authorization'', ''Bearer '' @ t)] = Some t" if "t \<noteq> []" for t
    using that bearer_of_token [of t]
    by (simp add: request_key_def find_header_def lower_def lower_char_def Let_def truthy_str_def
        char_of_def of_char_def bit_0)
  have api: "wp (verify_request_api_key e [(''authorization'', ''Bearer '' @ t)])
      (\<lambda>r w'. case r of None \<Rightarrow> True | Some u \<Rightarrow>
         \<exists>k \<in> set (db_api_keys (w_db w)). e_bcrypt e t (ak_hash k) \<and> \<not> ak_is_revoked k \<and> u_id u = ak_user k)
      (\<lambda>_ _. True) w" if "t \<noteq> []" for t
    using wp_check_api_key [of e t w] key [OF that] that
    by (simp add: verify_request_api_key_def Let_def wp_simps truthy_str_def)
  have grant: "wp (bind (verify_request_api_key e [(''authorization'', ''Bearer '' @ t)]) (\<lambda>found.
        case found of
          Some u \<Rightarrow>
            if u_is_active u then
              bind (lift_sum (resolve_tenant (cfg e) JNull tn)) (\<lambda>tn.
              return \<lparr>ac_user = Some u, ac_type = DB_API_KEY, ac_internal = u_is_admin u, ac_tenant = tn\<rparr>)
            else raise (UnauthorizedError ''Invalid API key'')
        | None \<Rightarrow> raise (UnauthorizedError ''Invalid API key'')))
      (\<lambda>a _. credential_ok e (w_db w) token a) (\<lambda>_ _. True) w"
    if "token = Some t" "t \<noteq> []" for t
    unfolding wp_bind
    by (rule wp_mono [OF api [OF that(2)]])
      (use that in \<open>auto simp: wp_simps credential_ok_def split: option.splits sum.split\<close>)
  show ?thesis
  proof (cases "truthy_str token")
    case True
    then obtain t where t: "token = Some t" "t \<noteq> []" by (auto simp: truthy_str_def split: option.splits)
    show ?thesis
      using grant [OF t] t
      by (auto simp: verify_auth_token_def Let_def wp_simps truthy_str_def credential_ok_def jwt_context_def
          split: option.split sum.split)
  qed (auto simp: verify_auth_token_def Let_def wp_simps credential_ok_def split: sum.split)
qed

end
