(* ===== verification/Mcp.thy ===== *)
theory Mcp
  imports EngineQueries Auth
begin

text \<open>
  \<open>src/asyncgate/mcp\<close>: the tool table, the dispatch of a tool call inside a session and the
  JSON-RPC entry point. Arguments are JSON. An argument is read where the handler passes it
  on, in the order of the source; a value that does not have the type the tool's schema
  declares is a \<open>TypeError\<close> there, where the source hands it to the engine, which fails at
  the first use of it.
\<close>

section \<open>The tool table\<close>

definition schema_prop :: "string \<Rightarrow> string \<Rightarrow> string \<Rightarrow> string \<times> json" where
  "schema_prop name ty description =
     (name, JDict [(''type'', JStr ty), (''description'', JStr description)])"

definition array_prop :: "string \<Rightarrow> string \<Rightarrow> string \<times> json" where
  "array_prop name description =
     (name, JDict [(''type'', JStr ''array''), (''items'', JDict [(''type'', JStr ''string'')]),
        (''description'', JStr description)])"

definition with_auth_schema :: "dict \<Rightarrow> dict" where
  "with_auth_schema schema =
     (let props = (case dict_get schema ''properties'' of JDict p \<Rightarrow> p | _ \<Rightarrow> []);
          props' = dict_set ''trace_id'' (snd (schema_prop [] ''string'' ''Optional trace ID for correlation''))
            (dict_set ''auth_token'' (snd (schema_prop [] ''string'' ''API key or JWT for authentication'')) props);
          required = (case dict_get schema ''required'' of JList xs \<Rightarrow> map (\<lambda>x. case x of JStr s \<Rightarrow> s | _ \<Rightarrow> []) xs | _ \<Rightarrow> [])
      in dict_set ''required'' (JList (map JStr (sort (remdups (''auth_token'' # required)))))
           (dict_set ''properties'' (JDict props') schema))"

definition tool :: "string \<Rightarrow> string \<Rightarrow> (string \<times> json) list \<Rightarrow> string list option \<Rightarrow> dict" where
  "tool name description props required =
     [(''name'', JStr name), (''description'', JStr description),
      (''inputSchema'', JDict (with_auth_schema
         ([(''type'', JStr ''object''), (''properties'', JDict props)] @
          (case required of None \<Rightarrow> [] | Some rs \<Rightarrow> [(''required'', JList (map JStr rs))]))))]"

text \<open>The list in its two sections, tasker tools and then taskee and system tools.\<close>

definition TASKER_TOOL_DEFS :: "dict list" where
  "TASKER_TOOL_DEFS = [
   tool ''asyncgate.bootstrap''
     ''Establish session identity and list open obligations''
     [schema_prop ''agent_id'' ''string'' ''Agent identifier'',
      schema_prop ''agent_instance_id'' ''string'' ''Optional session ID'',
      schema_prop ''agent_version'' ''string'' ''Agent version'',
      schema_prop ''since_receipt_id'' ''string'' ''Cursor for incremental fetch'',
      schema_prop ''max_items'' ''integer'' ''Max items to return'']
     (Some [''agent_id'']),
   tool ''asyncgate.create_task''
     ''Create a new async task''
     [schema_prop ''type'' ''string'' ''Task type'',
      schema_prop ''payload'' ''object'' ''Legacy inline payload (prefer payload_pointer)'',
      schema_prop ''payload_pointer'' ''string'' ''Pointer to task payload stored in DepotGate or external store'',
      schema_prop ''principal_ai'' ''string'' ''Principal AI that owns the obligation'',
      schema_prop ''requirements'' ''object'' ''Task requirements'',
      schema_prop ''expected_outcome_kind'' ''string'' ''Expected outcome kind'',
      schema_prop ''expected_artifact_mime'' ''string'' ''Expected artifact MIME'',
      schema_prop ''priority'' ''integer'' ''Priority (higher = urgent)'',
      schema_prop ''idempotency_key'' ''string'' ''Idempotency key'',
      schema_prop ''max_attempts'' ''integer'' ''Max retry attempts'',
      schema_prop ''retry_backoff_seconds'' ''integer'' ''Retry backoff'',
      schema_prop ''delay_seconds'' ''integer'' ''Delay before eligible'',
      schema_prop ''agent_id'' ''string'' ''Creating agent ID'']
     (Some [''type'', ''principal_ai'', ''agent_id'']),
   tool ''asyncgate.get_task''
     ''Get a task by ID including result if terminal''
     [schema_prop ''task_id'' ''string'' ''Task UUID'']
     (Some [''task_id'']),
   tool ''asyncgate.list_tasks''
     ''List tasks with optional filtering''
     [schema_prop ''status'' ''string'' ''Filter by status'',
      schema_prop ''type'' ''string'' ''Filter by type'',
      schema_prop ''limit'' ''integer'' ''Max results'',
      schema_prop ''cursor'' ''string'' ''Pagination cursor'']
     (Some []),
   tool ''asyncgate.cancel_task''
     ''Cancel a task''
     [schema_prop ''task_id'' ''string'' ''Task UUID'',
      schema_prop ''reason'' ''string'' ''Cancellation reason'',
      schema_prop ''agent_id'' ''string'' ''Agent ID'']
     (Some [''task_id'', ''agent_id'']),
   tool ''asyncgate.list_receipts''
     ''List receipts for a principal''
     [schema_prop ''to_kind'' ''string'' ''Recipient kind'',
      schema_prop ''to_id'' ''string'' ''Recipient ID'',
      schema_prop ''since_receipt_id'' ''string'' ''Cursor'',
      schema_prop ''limit'' ''integer'' ''Max results'']
     (Some [''to_kind'', ''to_id'']),
   tool ''asyncgate.list_receipts_ledger''
     ''List receipts with ledger filters''
     [schema_prop ''task_id'' ''string'' ''Filter by task UUID'',
      schema_prop ''lease_id'' ''string'' ''Filter by lease UUID'',
      schema_prop ''receipt_type'' ''string'' ''Filter by receipt type'',
      schema_prop ''task_status'' ''string'' ''Filter by task status'',
      schema_prop ''since_receipt_id'' ''string'' ''Cursor'',
      schema_prop ''limit'' ''integer'' ''Max results'']
     (Some []),
   tool ''asyncgate.ack_receipt''
     ''Acknowledge a receipt''
     [schema_prop ''receipt_id'' ''string'' ''Receipt UUID'',
      schema_prop ''agent_id'' ''string'' ''Agent ID'']
     (Some [''receipt_id'', ''agent_id'']),
   tool ''asyncgate.check_terminator''
     ''Check for termination evidence on a receipt''
     [schema_prop ''parent_receipt_id'' ''string'' ''Parent receipt UUID'']
     (Some [''parent_receipt_id''])
]"

definition TASKEE_TOOL_DEFS :: "dict list" where
  "TASKEE_TOOL_DEFS = [
   tool ''asyncgate.lease_next''
     ''Claim next available tasks matching capabilities''
     [schema_prop ''worker_id'' ''string'' ''Worker identifier'',
      array_prop ''capabilities'' ''Worker capabilities'',
      array_prop ''accept_types'' ''Task types to accept'',
      schema_prop ''max_tasks'' ''integer'' ''Max tasks to claim'',
      schema_prop ''lease_ttl_seconds'' ''integer'' ''Lease TTL'']
     (Some [''worker_id'']),
   tool ''asyncgate.renew_lease''
     ''Renew an active lease''
     [schema_prop ''worker_id'' ''string'' ''Worker ID'',
      schema_prop ''task_id'' ''string'' ''Task UUID'',
      schema_prop ''lease_id'' ''string'' ''Lease UUID'',
      schema_prop ''extend_by_seconds'' ''integer'' ''Extension duration'']
     (Some [''worker_id'', ''task_id'', ''lease_id'']),
   tool ''asyncgate.report_progress''
     ''Report task execution progress''
     [schema_prop ''worker_id'' ''string'' ''Worker ID'',
      schema_prop ''task_id'' ''string'' ''Task UUID'',
      schema_prop ''lease_id'' ''string'' ''Lease UUID'',
      schema_prop ''progress'' ''object'' ''Progress data'']
     (Some [''worker_id'', ''task_id'', ''lease_id'', ''progress'']),
   tool ''asyncgate.complete''
     ''Mark a task as successfully completed''
     [schema_prop ''worker_id'' ''string'' ''Worker ID'',
      schema_prop ''task_id'' ''string'' ''Task UUID'',
      schema_prop ''lease_id'' ''string'' ''Lease UUID'',
      schema_prop ''result'' ''object'' ''Task result'',
      schema_prop ''artifacts'' ''object'' ''Result artifacts'']
     (Some [''worker_id'', ''task_id'', ''lease_id'', ''result'']),
   tool ''asyncgate.fail''
     ''Mark a task as failed''
     [schema_prop ''worker_id'' ''string'' ''Worker ID'',
      schema_prop ''task_id'' ''string'' ''Task UUID'',
      schema_prop ''lease_id'' ''string'' ''Lease UUID'',
      schema_prop ''error'' ''object'' ''Error details'',
      schema_prop ''retryable'' ''boolean'' ''Whether to retry'']
     (Some [''worker_id'', ''task_id'', ''lease_id'', ''error'']),
   tool ''asyncgate.health''
     ''Health check / service info''
     []
     (None),
   tool ''asyncgate.get_config''
     ''Get server configuration''
     []
     (None)
]"

definition TOOL_DEFS :: "dict list" where
  "TOOL_DEFS = TASKER_TOOL_DEFS @ TASKEE_TOOL_DEFS"

lemmas TOOL_DEFS_simps = TOOL_DEFS_def TASKER_TOOL_DEFS_def TASKEE_TOOL_DEFS_def

section \<open>Reading arguments\<close>

definition extract_principal_id :: "dict \<Rightarrow> json" where
  "extract_principal_id args =
     (case filter truthy (map (dict_get args) [''agent_id'', ''worker_id'', ''principal_id'', ''to_id'']) of
        [] \<Rightarrow> JNull | v # _ \<Rightarrow> v)"

text \<open>\<open>arguments[k]\<close>, then \<open>arguments.get(k)\<close> at the types the schemas declare.\<close>

definition arg :: "dict \<Rightarrow> string \<Rightarrow> exn + json" where
  "arg args k = (case map_of args k of None \<Rightarrow> Inl (KeyError k) | Some j \<Rightarrow> Inr j)"

definition as_str :: "json \<Rightarrow> exn + string" where
  "as_str j = (case j of JStr s \<Rightarrow> Inr s | _ \<Rightarrow> Inl (PyTypeError ''str''))"

definition as_str_opt :: "json \<Rightarrow> exn + string option" where
  "as_str_opt j = (case j of JNull \<Rightarrow> Inr None | JStr s \<Rightarrow> Inr (Some s) | _ \<Rightarrow> Inl (PyTypeError ''str''))"

definition as_int_opt :: "json \<Rightarrow> exn + int option" where
  "as_int_opt j = (case j of JNull \<Rightarrow> Inr None | JInt i \<Rightarrow> Inr (Some i)
     | JBool b \<Rightarrow> Inr (Some (if b then 1 else 0)) | _ \<Rightarrow> Inl (PyTypeError ''int''))"

definition as_dict :: "json \<Rightarrow> exn + dict" where
  "as_dict j = (case j of JDict d \<Rightarrow> Inr d | _ \<Rightarrow> Inl (PyTypeError ''dict''))"

definition as_strs_opt :: "json \<Rightarrow> exn + string list option" where
  "as_strs_opt j = (case j of JNull \<Rightarrow> Inr None
     | _ \<Rightarrow> (case string_list j of None \<Rightarrow> Inl (PyTypeError ''list'') | Some xs \<Rightarrow> Inr (Some xs)))"

definition as_json_opt :: "json \<Rightarrow> json option" where
  "as_json_opt j = (if j = JNull then None else Some j)"

definition the_arg :: "(json \<Rightarrow> exn + 'a) \<Rightarrow> dict \<Rightarrow> string \<Rightarrow> 'a M" where
  "the_arg f args k = bind (lift_sum (arg args k)) (\<lambda>j. lift_sum (f j))"

definition get_arg :: "(json \<Rightarrow> exn + 'a) \<Rightarrow> dict \<Rightarrow> string \<Rightarrow> 'a M" where
  "get_arg f args k = lift_sum (f (dict_get args k))"

text \<open>\<open>UUID(arguments[k]) if arguments.get(k) else None\<close>.\<close>

definition opt_uuid :: "dict \<Rightarrow> string \<Rightarrow> uuid option M" where
  "opt_uuid args k = (if truthy (dict_get args k)
     then bind (lift_sum (py_uuid (dict_get args k))) (\<lambda>u. return (Some u)) else return None)"

text \<open>\<open>Principal(kind=AGENT, id=arguments['agent_id'])\<close>.\<close>

definition agent_principal :: "dict \<Rightarrow> principal M" where
  "agent_principal args = bind (lift_sum (arg args ''agent_id'')) (\<lambda>j.
     case j of JStr s \<Rightarrow> return (mk_principal AGENT s) | _ \<Rightarrow> raise ValidationError)"

section \<open>The tools\<close>

definition ok_json :: "(string \<times> json) list \<Rightarrow> json" where
  "ok_json more_fields = JDict ((''ok'', JBool True) # more_fields)"

definition tool_bootstrap :: "env \<Rightarrow> auth_context \<Rightarrow> dict \<Rightarrow> json M" where
  "tool_bootstrap e a args =
     bind (agent_principal args) (\<lambda>p0.
     bind (case dict_get args ''agent_instance_id'' of
             JNull \<Rightarrow> return p0
           | JStr s \<Rightarrow> return (p0\<lparr>p_instance := Some s\<rparr>)
           | _ \<Rightarrow> raise ValidationError) (\<lambda>p.
     bind (lift_sum (py_uuid (ac_tenant a))) (\<lambda>tn.
     bind (relationship_upsert e tn (p_kind p) (p_id p) (p_instance p)) (\<lambda>rel.
     bind (opt_uuid args ''since_receipt_id'') (\<lambda>since.
     bind (get_arg as_int_opt args ''max_items'') (\<lambda>n.
     bind (list_open_obligations tn p since (or_default n (default_bootstrap_max_items (cfg e)))) (\<lambda>(obs, cursor).
     return (JDict
       [(''server'', JDict [(''name'', JStr ''AsyncGate''), (''version'', JStr ''0.1.0''),
           (''instance_id'', JStr (instance_id (cfg e))),
           (''environment'', JStr (environment_value (environment (cfg e))))]),
        (''relationship'', relationship_json rel),
        (''open_obligations'', receipts_json obs),
        (''cursor'', uuid_opt cursor)]))))))))"

definition tool_create_task :: "env \<Rightarrow> auth_context \<Rightarrow> dict \<Rightarrow> json M" where
  "tool_create_task e a args =
     bind (agent_principal args) (\<lambda>creator.
     bind (lift_sum (py_uuid (ac_tenant a))) (\<lambda>tn.
     bind (the_arg as_str args ''type'') (\<lambda>ty.
     bind (lift_sum (as_dict (json_or (dict_get args ''payload'') (JDict [])))) (\<lambda>payload.
     bind (get_arg as_str_opt args ''payload_pointer'') (\<lambda>pointer.
     bind (the_arg as_str args ''principal_ai'') (\<lambda>ai.
     bind (get_arg as_str_opt args ''expected_outcome_kind'') (\<lambda>kind.
     bind (get_arg as_str_opt args ''expected_artifact_mime'') (\<lambda>mime.
     bind (get_arg as_int_opt args ''priority'') (\<lambda>priority.
     bind (get_arg as_str_opt args ''idempotency_key'') (\<lambda>idem.
     bind (get_arg as_int_opt args ''max_attempts'') (\<lambda>attempts.
     bind (get_arg as_int_opt args ''retry_backoff_seconds'') (\<lambda>backoff.
     bind (get_arg as_int_opt args ''delay_seconds'') (\<lambda>delay.
     bind (create_task e tn ty payload creator ai pointer (dict_get args ''requirements'') kind mime
             priority idem attempts backoff delay (ac_internal a)) (\<lambda>(tid, st).
     return (JDict [(''task_id'', uuid_json tid), (''status'', JStr (status_value st))])))))))))))))))"

definition tool_get_task :: "env \<Rightarrow> auth_context \<Rightarrow> dict \<Rightarrow> json M" where
  "tool_get_task e a args =
     bind (lift_sum (py_uuid (ac_tenant a))) (\<lambda>tn.
     bind (the_arg py_uuid args ''task_id'') (\<lambda>tid. get_task tn tid))"

definition tool_list_tasks :: "env \<Rightarrow> auth_context \<Rightarrow> dict \<Rightarrow> json M" where
  "tool_list_tasks e a args =
     bind (lift_sum (py_uuid (ac_tenant a))) (\<lambda>tn.
     bind (get_arg as_str_opt args ''status'') (\<lambda>st.
     bind (get_arg as_str_opt args ''type'') (\<lambda>ty.
     bind (get_arg as_int_opt args ''limit'') (\<lambda>n.
     bind (get_arg as_str_opt args ''cursor'') (\<lambda>cursor.
     list_tasks e tn st ty None n cursor)))))"

definition tool_cancel_task :: "env \<Rightarrow> auth_context \<Rightarrow> dict \<Rightarrow> json M" where
  "tool_cancel_task e a args =
     bind (agent_principal args) (\<lambda>p.
     bind (lift_sum (py_uuid (ac_tenant a))) (\<lambda>tn.
     bind (the_arg py_uuid args ''task_id'') (\<lambda>tid.
     bind (get_arg as_str_opt args ''reason'') (\<lambda>reason.
     bind (cancel_task e tn tid p reason (ac_internal a)) (\<lambda>(ok, st).
     return (JDict [(''ok'', JBool ok), (''status'', JStr (status_value st))]))))))"

definition tool_list_receipts :: "env \<Rightarrow> auth_context \<Rightarrow> dict \<Rightarrow> json M" where
  "tool_list_receipts e a args =
     bind (lift_sum (py_uuid (ac_tenant a))) (\<lambda>tn.
     bind (the_arg as_str args ''to_kind'') (\<lambda>k.
     bind (the_arg as_str args ''to_id'') (\<lambda>i.
     bind (opt_uuid args ''since_receipt_id'') (\<lambda>since.
     bind (get_arg as_int_opt args ''limit'') (\<lambda>n.
     list_receipts e tn k i since n)))))"

definition opt_enum :: "(string \<Rightarrow> 'a option) \<Rightarrow> json \<Rightarrow> exn + 'a option" where
  "opt_enum of_value j = (if \<not> truthy j then Inr None
     else case j of
       JStr s \<Rightarrow> (case of_value s of None \<Rightarrow> Inl (ValueError (Bad_enum s)) | Some x \<Rightarrow> Inr (Some x))
     | _ \<Rightarrow> Inl (ValueError (Bad_enum [])))"

definition tool_list_receipts_ledger :: "env \<Rightarrow> auth_context \<Rightarrow> dict \<Rightarrow> json M" where
  "tool_list_receipts_ledger e a args =
     bind (lift_sum (py_uuid (ac_tenant a))) (\<lambda>tn.
     bind (opt_uuid args ''task_id'') (\<lambda>task.
     bind (opt_uuid args ''lease_id'') (\<lambda>lease.
     bind (lift_sum (opt_enum receipt_type_of (dict_get args ''receipt_type''))) (\<lambda>ty.
     bind (lift_sum (opt_enum task_status_of (dict_get args ''task_status''))) (\<lambda>st.
     bind (opt_uuid args ''since_receipt_id'') (\<lambda>since.
     bind (get_arg as_int_opt args ''limit'') (\<lambda>n.
     list_receipts_ledger e tn task lease ty st since n)))))))"

definition tool_ack_receipt :: "env \<Rightarrow> auth_context \<Rightarrow> dict \<Rightarrow> json M" where
  "tool_ack_receipt e a args =
     bind (agent_principal args) (\<lambda>p.
     bind (lift_sum (py_uuid (ac_tenant a))) (\<lambda>tn.
     bind (the_arg py_uuid args ''receipt_id'') (\<lambda>rid.
     bind (ack_receipt e tn rid p) (\<lambda>_. return (ok_json [])))))"

definition tool_check_terminator :: "env \<Rightarrow> auth_context \<Rightarrow> dict \<Rightarrow> json M" where
  "tool_check_terminator e a args =
     bind (lift_sum (arg args ''parent_receipt_id'')) (\<lambda>parent.
     bind (lift_sum (py_uuid (ac_tenant a))) (\<lambda>tn.
     bind (lift_sum (py_uuid parent)) (\<lambda>rid.
     bind (has_terminator tn rid) (\<lambda>b.
     return (JDict [(''parent_receipt_id'', parent), (''has_terminator'', JBool b)])))))"

definition offer_json :: "uuid \<Rightarrow> offer \<Rightarrow> json" where
  "offer_json tn f = (let t = o_task f in JDict
     [(''tenant_id'', uuid_json (t_tenant t)), (''task_id'', uuid_json (t_id t)),
      (''lease_id'', uuid_json (o_lease f)), (''type'', JStr (t_type t)), (''payload'', JDict (t_payload t)),
      (''payload_pointer'', str_opt (t_payload_pointer t)), (''principal_ai'', JStr (t_principal_ai t)),
      (''caused_by_receipt_id'', JStr (o_caused_by f)), (''attempt'', JInt (t_attempt t)),
      (''expires_at'', time_json (o_expires_at f)),
      (''requirements'', JDict (dump_requirements (t_requirements t))),
      (''expected_outcome_kind'', str_opt (t_expected_outcome_kind t)),
      (''expected_artifact_mime'', str_opt (t_expected_artifact_mime t))])"

text \<open>\<open>arguments.get('max_tasks', 1)\<close>: a null is passed on, and \<open>min\<close> refuses it.\<close>

definition max_tasks_arg :: "dict \<Rightarrow> exn + int" where
  "max_tasks_arg args = (if \<not> has_key args ''max_tasks'' then Inr 1
     else case as_int_opt (dict_get args ''max_tasks'') of
       Inr (Some n) \<Rightarrow> Inr n | _ \<Rightarrow> Inl (PyTypeError ''min''))"

definition tool_lease_next :: "env \<Rightarrow> auth_context \<Rightarrow> dict \<Rightarrow> json M" where
  "tool_lease_next e a args =
     bind (lift_sum (py_uuid (ac_tenant a))) (\<lambda>tn.
     bind (the_arg as_str args ''worker_id'') (\<lambda>worker.
     bind (get_arg as_strs_opt args ''capabilities'') (\<lambda>caps.
     bind (get_arg as_strs_opt args ''accept_types'') (\<lambda>types.
     bind (lift_sum (max_tasks_arg args)) (\<lambda>n.
     bind (get_arg as_int_opt args ''lease_ttl_seconds'') (\<lambda>ttl.
     bind (lease_next e tn worker caps types n ttl) (\<lambda>offers.
     return (JDict [(''tasks'', JList (map (offer_json tn) offers))]))))))))"

definition lease_args :: "auth_context \<Rightarrow> dict \<Rightarrow> (uuid \<times> string \<times> uuid \<times> uuid) M" where
  "lease_args a args =
     bind (lift_sum (py_uuid (ac_tenant a))) (\<lambda>tn.
     bind (the_arg as_str args ''worker_id'') (\<lambda>worker.
     bind (the_arg py_uuid args ''task_id'') (\<lambda>tid.
     bind (the_arg py_uuid args ''lease_id'') (\<lambda>lid.
     return (tn, worker, tid, lid)))))"

definition tool_renew_lease :: "env \<Rightarrow> auth_context \<Rightarrow> dict \<Rightarrow> json M" where
  "tool_renew_lease e a args =
     bind (lease_args a args) (\<lambda>(tn, worker, tid, lid).
     bind (get_arg as_int_opt args ''extend_by_seconds'') (\<lambda>n.
     bind (renew_lease e tn worker tid lid n) (\<lambda>expires.
     return (ok_json [(''expires_at'', time_json expires)]))))"

definition tool_report_progress :: "env \<Rightarrow> auth_context \<Rightarrow> dict \<Rightarrow> json M" where
  "tool_report_progress e a args =
     bind (lease_args a args) (\<lambda>(tn, worker, tid, lid).
     bind (the_arg as_dict args ''progress'') (\<lambda>v.
     bind (report_progress e tn worker tid lid v) (\<lambda>_. return (ok_json []))))"

definition tool_complete :: "env \<Rightarrow> auth_context \<Rightarrow> dict \<Rightarrow> json M" where
  "tool_complete e a args =
     bind (lease_args a args) (\<lambda>(tn, worker, tid, lid).
     bind (the_arg as_dict args ''result'') (\<lambda>result.
     bind (complete e tn worker tid lid result (as_json_opt (dict_get args ''artifacts''))) (\<lambda>_.
     return (ok_json []))))"

definition tool_fail :: "env \<Rightarrow> auth_context \<Rightarrow> dict \<Rightarrow> json M" where
  "tool_fail e a args =
     bind (lease_args a args) (\<lambda>(tn, worker, tid, lid).
     bind (the_arg as_dict args ''error'') (\<lambda>err.
     bind (fail_task e tn worker tid lid err (truthy (dict_get args ''retryable''))) (\<lambda>(requeued_it, eligible).
     return (ok_json [(''requeued'', JBool requeued_it), (''next_eligible_at'', time_opt eligible)]))))"

definition tool_health :: "env \<Rightarrow> json M" where
  "tool_health e = return (JDict [(''status'', JStr ''healthy''), (''service'', JStr ''AsyncGate''),
     (''version'', JStr ''0.1.0''), (''instance_id'', JStr (instance_id (cfg e))),
     (''environment'', JStr (environment_value (environment (cfg e))))])"

section \<open>Dispatch\<close>

text \<open>The chain of \<open>elif\<close>s, as the table of its branches.\<close>

definition tools :: "env \<Rightarrow> (string \<times> (auth_context \<Rightarrow> dict \<Rightarrow> json M)) list" where
  "tools e = [(''asyncgate.bootstrap'', tool_bootstrap e), (''asyncgate.create_task'', tool_create_task e),
     (''asyncgate.get_task'', tool_get_task e), (''asyncgate.list_tasks'', tool_list_tasks e),
     (''asyncgate.cancel_task'', tool_cancel_task e), (''asyncgate.list_receipts'', tool_list_receipts e),
     (''asyncgate.list_receipts_ledger'', tool_list_receipts_ledger e),
     (''asyncgate.ack_receipt'', tool_ack_receipt e), (''asyncgate.check_terminator'', tool_check_terminator e),
     (''asyncgate.lease_next'', tool_lease_next e), (''asyncgate.renew_lease'', tool_renew_lease e),
     (''asyncgate.report_progress'', tool_report_progress e), (''asyncgate.complete'', tool_complete e),
     (''asyncgate.fail'', tool_fail e), (''asyncgate.health'', \<lambda>_ _. tool_health e),
     (''asyncgate.get_config'', \<lambda>_ _. get_config e)]"

definition call_tool :: "env \<Rightarrow> string \<Rightarrow> auth_context \<Rightarrow> dict \<Rightarrow> json M" where
  "call_tool e name a args = (case map_of (tools e) name of
     None \<Rightarrow> raise (ValueError (Unknown_tool name)) | Some f \<Rightarrow> f a args)"

definition without :: "string \<Rightarrow> dict \<Rightarrow> dict" where
  "without k d = filter (\<lambda>kv. fst kv \<noteq> k) d"

text \<open>A token that is not a text has none of the methods the check calls.\<close>

definition verify_token_arg :: "env \<Rightarrow> json \<Rightarrow> json \<Rightarrow> json \<Rightarrow> auth_context M" where
  "verify_token_arg e token tenant principal_arg = (case token of
     JStr t \<Rightarrow> verify_auth_token e (Some t) tenant principal_arg
   | _ \<Rightarrow> if truthy token \<and> \<not> insecure_dev (cfg e) then raise (AttributeError ''count'')
          else verify_auth_token e None tenant principal_arg)"

definition handle_tool :: "env \<Rightarrow> string \<Rightarrow> dict \<Rightarrow> json M" where
  "handle_tool e name arguments = with_session
     (let args = without ''trace_id'' (without ''auth_token'' arguments) in
      bind (lift_sum (as_str_opt (dict_get arguments ''trace_id''))) (\<lambda>trace.
      seq (set_trace_id trace)
      (bind (verify_token_arg e (dict_get arguments ''auth_token'') (dict_get args ''tenant_id'')
               (extract_principal_id args)) (\<lambda>a.
       call_tool e name a args))))"

section \<open>The JSON-RPC entry point\<close>

record mcp_request =
  mr_method :: string
  mr_params :: dict
  mr_id :: json

text \<open>An error's message: a text, or \<open>str(exc)\<close>, for which the exception stands.\<close>

datatype rpc_message = Message string | Str_of exn

datatype rpc_response = Rpc_result json json | Rpc_error json json rpc_message

definition rpc_code :: "env \<Rightarrow> exn \<Rightarrow> json" where
  "rpc_code e ex = (case error_code ex of Some c \<Rightarrow> JStr c
     | None \<Rightarrow> (case e_exn_code e ex of Some j \<Rightarrow> j | None \<Rightarrow> JStr ''ERROR''))"

definition inject_token :: "string option \<Rightarrow> string option \<Rightarrow> dict \<Rightarrow> dict" where
  "inject_token auth_header api_key_header args =
     (if has_key args ''auth_token'' then args
      else if truthy_str auth_header \<and> starts_with (lower (the auth_header)) ''bearer ''
      then (case split_space (the auth_header) of
          Some (_, token) \<Rightarrow> dict_set ''auth_token'' (JStr token) args | None \<Rightarrow> args)
      else if truthy_str api_key_header then dict_set ''auth_token'' (JStr (the api_key_header)) args
      else args)"

definition mcp_entry ::
    "env \<Rightarrow> string option \<Rightarrow> string option \<Rightarrow> mcp_request \<Rightarrow> rpc_response M" where
  "mcp_entry e auth_header api_key_header rq =
     (if mr_method rq = ''tools/list''
      then return (Rpc_result (mr_id rq) (JDict [(''tools'', JList (map JDict TOOL_DEFS))]))
      else if mr_method rq \<noteq> ''tools/call''
      then return (Rpc_error (mr_id rq) (JInt (-32601)) (Message (''Method not found: '' @ mr_method rq)))
      else
        (let tool_name = dict_get (mr_params rq) ''name'';
             arguments = json_or (dict_get (mr_params rq) ''arguments'') (JDict []) in
         if \<not> truthy tool_name then return (Rpc_error (mr_id rq) (JInt (-32602)) (Message ''Missing tool name''))
         else
           bind (lift_sum (as_dict arguments)) (\<lambda>args.
           try_except
             (bind (handle_tool e (py_str e tool_name) (inject_token auth_header api_key_header args)) (\<lambda>result.
              return (Rpc_result (mr_id rq) result)))
             (\<lambda>ex. return (Rpc_error (mr_id rq) (rpc_code e ex) (Str_of ex))))))"

section \<open>The trace middleware (\<open>middleware/trace.py\<close>)\<close>

text \<open>The response and its \<open>X-Trace-Id\<close> header.\<close>

definition trace_id_middleware :: "string option \<Rightarrow> 'a M \<Rightarrow> ('a \<times> string) M" where
  "trace_id_middleware header call_next =
     bind (if truthy_str header then seq (set_trace_id header) (return (the header))
           else ensure_trace_id) (\<lambda>trace.
     bind call_next (\<lambda>response. return (response, trace)))"

section \<open>Lemmas\<close>

text \<open>The call sets the trace id before it reads it: the one in force does not matter.\<close>

lemma handle_tool_trace:
  assumes "as_str_opt (dict_get args ''trace_id'') = Inr t"
  shows "handle_tool e name args (w\<lparr>w_trace := x\<rparr>) = handle_tool e name args w"
  using assms
  by (simp add: handle_tool_def with_session_def proc_defs session_rollback_def session_commit_def
      set_trace_id_def Let_def)

definition tool_name_of :: "dict \<Rightarrow> json" where
  "tool_name_of t = dict_get t ''name''"

lemma listed_tools_are_dispatched: "map tool_name_of TOOL_DEFS = map (JStr \<circ> fst) (tools e)"
  by (simp add: TOOL_DEFS_simps tool_name_of_def tool_def tools_def)

definition schema_requires :: "string \<Rightarrow> dict \<Rightarrow> bool" where
  "schema_requires k t = (case dict_get t ''inputSchema'' of
     JDict s \<Rightarrow> (case dict_get s ''required'' of JList xs \<Rightarrow> JStr k \<in> set xs | _ \<Rightarrow> False) | _ \<Rightarrow> False)"

lemma tool_requires_token: "schema_requires ''auth_token'' (tool n d ps rs)"
  by (auto simp: schema_requires_def tool_def with_auth_schema_def Let_def)

lemma tools_require_token: "t \<in> set TOOL_DEFS \<Longrightarrow> schema_requires ''auth_token'' t"
  by (auto simp: TOOL_DEFS_simps tool_requires_token)

lemma keeps_args [keeps_intros, simp]:
  "keeps I (the_arg f args k)" "keeps I (get_arg f args k)" "keeps I (opt_uuid args k)"
  "keeps I (agent_principal args)" "keeps I (lease_args a args)"
  by (auto simp: the_arg_def get_arg_def opt_uuid_def agent_principal_def lease_args_def
      split: json.split intro!: keeps_intros)

text \<open>The tenant a tool works for is the one its authentication context carries.\<close>

lemma keeps_tenant_bind:
  "(\<And>tn. py_uuid (ac_tenant a) = Inr tn \<Longrightarrow> keeps I (f tn)) \<Longrightarrow>
   keeps I (bind (lift_sum (py_uuid (ac_tenant a))) f)"
  by (auto simp: lift_sum_def keeps_wp wp_simps split: sum.split)

lemma keeps_lease_args_bind:
  assumes "\<And>tn wk tid lid. py_uuid (ac_tenant a) = Inr tn \<Longrightarrow> keeps I (f (tn, wk, tid, lid))"
  shows "keeps I (bind (lease_args a args) f)"
  unfolding lease_args_def bind_assoc return_bind
  by (intro keeps_tenant_bind keeps_bind keeps_args assms)

context store_frame
begin

lemma keeps_tools:
  assumes "\<And>tn. py_uuid (ac_tenant a) = Inr tn \<Longrightarrow> T tn"
  shows "keeps (on_db P) (call_tool e name a args)"
proof -
  have boot: "keeps (on_db P) (tool_bootstrap e a args)"
    by (auto simp: tool_bootstrap_def split: json.split intro!: keeps_intros keeps_tenant_bind keeps_lease_args_bind assms)
  have create: "keeps (on_db P) (tool_create_task e a args)"
    by (auto simp: tool_create_task_def intro!: keeps_intros keeps_tenant_bind keeps_lease_args_bind assms)
  have tasks: "keeps (on_db P) (tool_get_task e a args)" "keeps (on_db P) (tool_list_tasks e a args)"
    "keeps (on_db P) (tool_cancel_task e a args)"
    by (auto simp: tool_get_task_def tool_list_tasks_def tool_cancel_task_def intro!: keeps_intros keeps_tenant_bind keeps_lease_args_bind assms)
  have receipts: "keeps (on_db P) (tool_list_receipts e a args)"
    "keeps (on_db P) (tool_list_receipts_ledger e a args)" "keeps (on_db P) (tool_ack_receipt e a args)"
    "keeps (on_db P) (tool_check_terminator e a args)"
    by (auto simp: tool_list_receipts_def tool_list_receipts_ledger_def tool_ack_receipt_def
        tool_check_terminator_def intro!: keeps_intros keeps_tenant_bind keeps_lease_args_bind assms)
  have work: "keeps (on_db P) (tool_lease_next e a args)" "keeps (on_db P) (tool_renew_lease e a args)"
    "keeps (on_db P) (tool_report_progress e a args)" "keeps (on_db P) (tool_complete e a args)"
    "keeps (on_db P) (tool_fail e a args)" "keeps (on_db P) (tool_health e)"
    by (auto simp: tool_lease_next_def tool_renew_lease_def tool_report_progress_def tool_complete_def
        tool_fail_def tool_health_def intro!: keeps_intros keeps_tenant_bind keeps_lease_args_bind assms)
  show ?thesis
    using boot create tasks receipts work by (auto simp: call_tool_def tools_def)
qed

end

context service_frame
begin

lemma keeps_handle_tool [keeps_intros]:
  assumes "\<And>tn. T tn" shows "keeps (on_db P) (handle_tool e name args)"
  by (auto simp: handle_tool_def verify_token_arg_def Let_def split: json.split
      intro!: keeps_intros keeps_tools assms)

lemma keeps_mcp_entry [keeps_intros]:
  assumes "\<And>tn. T tn" shows "keeps (on_db P) (mcp_entry e h k rq)"
  by (auto simp: mcp_entry_def Let_def intro!: keeps_intros keeps_handle_tool assms)

end

end
