(* ===== verification/Reconcile.thy ===== *)
theory Reconcile
  imports EngineBase
begin

text \<open>
  \<open>src/asyncgate/engine/reconcile.py\<close>: the local leases of one worker brought in line with
  the custody ReceiptGate reports.
\<close>

record reconciliation_report =
  rep_worker :: string
  rep_held_by_ledger :: int
  rep_local_leases :: int
  rep_released_stale :: "string list"
  rep_settled_tasks :: "string list"
  rep_missing_locally :: "string list"

definition report_changed :: "reconciliation_report \<Rightarrow> bool" where
  "report_changed r \<longleftrightarrow> rep_released_stale r \<noteq> [] \<or> rep_settled_tasks r \<noteq> []"

text \<open>
  The set comprehension over the custody rows, as the list of its elements in the order of
  the rows. A row that is not an object has no \<open>get\<close>.
\<close>

fun owed_task_ids :: "env \<Rightarrow> json list \<Rightarrow> exn + string list" where
  "owed_task_ids e [] = Inr []"
| "owed_task_ids e (JDict row # rows) = (case owed_task_ids e rows of
     Inl x \<Rightarrow> Inl x
   | Inr ids \<Rightarrow> Inr (if truthy (dict_get row ''task_id'')
       then py_str e (dict_get row ''task_id'') # ids else ids))"
| "owed_task_ids e (_ # rows) = Inl (AttributeError ''get'')"

text \<open>One round of the loop: the texts it appends to \<open>released_stale\<close> and \<open>settled_tasks\<close>.\<close>

definition settle_lease :: "env \<Rightarrow> uuid \<Rightarrow> string list \<Rightarrow> lease \<Rightarrow> (string list \<times> string list) M" where
  "settle_lease e tn owed l =
     (if uuid_str (l_task l) \<in> set owed then return ([], [])
      else
        bind (lease_release (l_tenant l) (l_task l) (Some (l_id l))) (\<lambda>_.
        bind (task_get tn (l_task l)) (\<lambda>found.
        if (case found of None \<Rightarrow> False | Some t \<Rightarrow> \<not> is_terminal t)
        then bind (task_update_status e tn (l_task l) QUEUED None None) (\<lambda>_.
             return ([uuid_str (l_id l)], [uuid_str (l_task l)]))
        else return ([uuid_str (l_id l)], []))))"

definition missing_locally :: "string list \<Rightarrow> lease list \<Rightarrow> string list" where
  "missing_locally owed ls =
     sort (remdups (filter (\<lambda>t. t \<notin> set (map (\<lambda>l. uuid_str (l_task l)) ls)) owed))"

definition reconcile_worker :: "env \<Rightarrow> uuid \<Rightarrow> string \<Rightarrow> reconciliation_report M" where
  "reconcile_worker e tn worker =
     bind (list_custody e worker 200) (\<lambda>custody.
     bind (lift_sum (owed_task_ids e custody)) (\<lambda>owed.
     bind (lease_list_for_worker tn worker) (\<lambda>ls.
     bind (for_each (settle_lease e tn owed) ls) (\<lambda>rounds.
     return \<lparr>rep_worker = worker, rep_held_by_ledger = int (length custody),
       rep_local_leases = int (length ls), rep_released_stale = concat (map fst rounds),
       rep_settled_tasks = concat (map snd rounds), rep_missing_locally = missing_locally owed ls\<rparr>))))"

section \<open>Lemmas\<close>

lemma missing_locally_iff:
  "x \<in> set (missing_locally owed ls) \<longleftrightarrow> x \<in> set owed \<and> x \<notin> (\<lambda>l. uuid_str (l_task l)) ` set ls"
  by (auto simp: missing_locally_def)

lemma missing_locally_sorted: "sorted (missing_locally owed ls) \<and> distinct (missing_locally owed ls)"
  by (simp add: missing_locally_def)

text \<open>What a round may do to the database: the leases and the statuses, nothing else.\<close>

definition projection_only :: "db \<Rightarrow> db \<Rightarrow> bool" where
  "projection_only d d' \<longleftrightarrow> db_receipts d' = db_receipts d \<and> db_progress d' = db_progress d \<and>
     db_relationships d' = db_relationships d \<and> map t_frozen (db_tasks d') = map t_frozen (db_tasks d) \<and>
     set (db_leases d') \<subseteq> set (db_leases d)"

lemma projection_only_refl [simp]: "projection_only d d"
  by (simp add: projection_only_def)

lemma map_t_frozen_set_tasks [simp]:
  "keeps_frozen f \<Longrightarrow> map t_frozen (db_tasks (set_tasks tn tid f d)) = map t_frozen (db_tasks d)"
  by (simp add: set_tasks_def map_update_where keeps_frozen_def)

lemma keeps_settle_lease:
  "keeps (on_db (\<lambda>d c. projection_only d0 d \<and> c = c0)) (settle_lease e tn owed l)"
proof -
  have drop: "keeps (on_db (\<lambda>d c. projection_only d0 d \<and> c = c0)) (write_db (drop_leases a b i))" for a b i
    by (auto simp: keeps_wp wp_simps on_db_def projection_only_def drop_leases_def)
  have upd: "keeps (on_db (\<lambda>d c. projection_only d0 d \<and> c = c0))
      (update_task a b (with_status now s r st))" for a b now s r st
    by (auto simp: keeps_wp wp_simps on_db_def projection_only_def)
  show ?thesis
    by (auto simp: settle_lease_def lease_release_def task_update_status_def
        intro!: keeps_intros drop upd)
qed

lemma keeps_reconcile_projection:
  "keeps (on_db (\<lambda>d c. projection_only d0 d \<and> c = c0)) (reconcile_worker e tn wk)"
  by (auto simp: reconcile_worker_def intro!: keeps_intros keeps_settle_lease)

context store_frame
begin

lemma keeps_reconcile [keeps_intros]:
  assumes "\<And>x. T x" shows "keeps (on_db P) (reconcile_worker e tn wk)"
proof -
  have "keeps (on_db P) (settle_lease e tn owed l)" for owed l
    by (auto simp: settle_lease_def intro!: keeps_intros assms)
  then show ?thesis by (auto simp: reconcile_worker_def intro!: keeps_intros)
qed

end

end
