(* ===== verification/Ledger.thy ===== *)
theory Ledger
  imports Mcp Reconcile
begin

text \<open>
  Database predicates every operation of the service keeps, as interpretations of
  \<open>db_frame\<close>: the constraints of the schema, the well-formedness of the receipt ledger, the
  append-only ledger with the immutable parts of tasks, and the isolation of tenants.
\<close>

section \<open>The constraints of the schema\<close>

definition no_clash :: "('r \<Rightarrow> uuid \<times> 'k option) \<Rightarrow> 'r list \<Rightarrow> bool" where
  "no_clash f rs \<longleftrightarrow> distinct (filter (\<lambda>k. snd k \<noteq> None) (map f rs))"

definition schema_ok :: "db \<Rightarrow> bool" where
  "schema_ok d \<longleftrightarrow>
     distinct (map t_key (db_tasks d)) \<and> no_clash t_idem (db_tasks d) \<and>
     distinct (map l_id (db_leases d)) \<and> distinct (map l_key (db_leases d)) \<and>
     (\<forall>l \<in> set (db_leases d). has_task d (l_tenant l) (l_task l)) \<and>
     distinct (map r_key (db_receipts d)) \<and> no_clash r_idem (db_receipts d) \<and>
     distinct (map pr_key (db_progress d)) \<and>
     (\<forall>p \<in> set (db_progress d). has_task d (pr_tenant p) (pr_task p)) \<and>
     distinct (map rel_key (db_relationships d))"

lemma no_clash_snoc:
  "no_clash f (rs @ [r]) \<longleftrightarrow> no_clash f rs \<and> (\<forall>x \<in> set rs. \<not> clashes (f x) (f r))"
  by (cases "snd (f r)") (auto simp: no_clash_def clashes_def image_iff)

lemma no_clash_unique:
  "no_clash f rs \<Longrightarrow> x \<in> set rs \<Longrightarrow> y \<in> set rs \<Longrightarrow> f x = f y \<Longrightarrow> snd (f x) \<noteq> None \<Longrightarrow> x = y"
proof (induction rs rule: rev_induct)
  case (snoc r rs)
  then show ?case by (auto simp: no_clash_snoc clashes_def)
qed simp

lemma idem_unique:
  "schema_ok d \<Longrightarrow> x \<in> set (db_tasks d) \<Longrightarrow> y \<in> set (db_tasks d) \<Longrightarrow> t_idem x = t_idem y \<Longrightarrow>
   t_idempotency_key x \<noteq> None \<Longrightarrow> x = y"
  by (rule no_clash_unique [of t_idem]) (simp_all add: schema_ok_def, simp add: t_idem_def)

lemma keeps_frozen_sel:
  assumes "keeps_frozen f"
  shows "t_tenant (f t) = t_tenant t" "t_id (f t) = t_id t" "t_idempotency_key (f t) = t_idempotency_key t"
    "t_key (f t) = t_key t" "t_idem (f t) = t_idem t"
  using assms t_frozen_eqD [of "f t" t] by (simp_all add: keeps_frozen_def t_key_def t_idem_def)

lemma keeps_lease_frozen_sel:
  assumes "keeps_lease_frozen g"
  shows "l_tenant (g l) = l_tenant l" "l_id (g l) = l_id l" "l_key (g l) = l_key l"
  using assms l_frozen_eqD [of "g l" l] by (simp_all add: keeps_lease_frozen_def l_key_def)

lemma map_frozen:
  "keeps_frozen f \<Longrightarrow> map t_key (update_where P f ts) = map t_key ts"
  "keeps_frozen f \<Longrightarrow> map t_idem (update_where P f ts) = map t_idem ts"
  "keeps_lease_frozen g \<Longrightarrow> map l_id (update_where R g ls) = map l_id ls"
  "keeps_lease_frozen g \<Longrightarrow> map l_key (update_where R g ls) = map l_key ls"
  "keeps_rel_key h \<Longrightarrow> map rel_key (update_where S h rs) = map rel_key rs"
  by (auto intro!: map_update_where simp: keeps_frozen_sel keeps_lease_frozen_sel keeps_rel_key_def)

lemma has_task_keys: "has_task d tn tid \<longleftrightarrow> (tn, tid) \<in> set (map t_key (db_tasks d))"
  by (auto simp: has_task_def image_iff) metis

lemma lease_keys:
  "(\<forall>l \<in> set ls. P (l_tenant l) (l_task l)) \<longleftrightarrow> (\<forall>k \<in> set (map l_key ls). P (fst k) (snd k))"
  by (auto simp: l_key_def)

lemma progress_keys:
  "(\<forall>p \<in> set ps. P (pr_tenant p) (pr_task p)) \<longleftrightarrow> (\<forall>k \<in> set (map pr_key ps). P (fst k) (snd k))"
  by (auto simp: pr_key_def)

interpretation schema: db_frame schema_ok "\<lambda>_. True"
proof
  fix d assume ok: "schema_ok d"
  show "schema_ok (d\<lparr>db_tasks := db_tasks d @ [t]\<rparr>)" if "task_unique d t" for t
    using ok that by (auto simp: schema_ok_def task_unique_def no_clash_snoc has_task_def)
  show "schema_ok (set_tasks tn tid f d)" if "keeps_frozen f" for tn tid f
    using ok that
    by (simp add: schema_ok_def no_clash_def has_task_keys set_tasks_def map_frozen)
  show "schema_ok (d\<lparr>db_leases := db_leases d @ [l]\<rparr>)" if "lease_unique d l" for l
    using ok that by (auto simp: schema_ok_def lease_unique_def has_task_def)
  show "schema_ok (set_lease lid g d)" if "keeps_lease_frozen g" for lid g
    using ok that unfolding schema_ok_def lease_keys
    by (simp add: set_lease_def map_frozen has_task_def)
  show "schema_ok (drop_leases tn tid lid d)" for tn tid lid
    using ok by (auto simp: schema_ok_def drop_leases_def has_task_def distinct_map_delete_where)
  show "schema_ok (d\<lparr>db_receipts := db_receipts d @ [r]\<rparr>)" if "receipt_unique d r" for r
    using ok that by (auto simp: schema_ok_def receipt_unique_def no_clash_snoc has_task_def)
  show "schema_ok (set_delivered tn ids now d)" for tn ids now
  proof -
    have "map r_key (db_receipts (set_delivered tn ids now d)) = map r_key (db_receipts d)"
      "map r_idem (db_receipts (set_delivered tn ids now d)) = map r_idem (db_receipts d)"
      unfolding set_delivered_def
      by (simp_all add: r_key_def r_idem_def map_update_where)
    with ok show ?thesis by (simp add: schema_ok_def no_clash_def has_task_def)
  qed
  show "schema_ok (d\<lparr>db_progress := db_progress d @ [p]\<rparr>)" if "progress_unique d p" for p
    using ok that by (auto simp: schema_ok_def progress_unique_def has_task_def)
  show "schema_ok (set_progress tn tid v now d)" for tn tid v now
  proof -
    have "map pr_key (db_progress (set_progress tn tid v now d)) = map pr_key (db_progress d)"
      unfolding set_progress_def by (simp add: pr_key_def map_update_where)
    with ok show ?thesis unfolding schema_ok_def progress_keys by (simp add: has_task_def)
  qed
  show "schema_ok (d\<lparr>db_relationships := db_relationships d @ [r]\<rparr>)" if "relationship_unique d r" for r
    using ok that by (auto simp: schema_ok_def relationship_unique_def has_task_def)
  show "schema_ok (set_relationship tn k pid h d)" if "keeps_rel_key h" for tn k pid h
    using ok map_frozen(5) [OF that, of _ "db_relationships d"]
    by (simp add: schema_ok_def has_task_def) (simp add: set_relationship_def)
  show "schema_ok (d\<lparr>db_users := us, db_api_keys := ks\<rparr>)" for us ks
    using ok by (simp add: schema_ok_def has_task_def)
qed

section \<open>The receipt ledger\<close>

text \<open>A terminal receipt closes receipts that exist, and only a locatable completion closes one.\<close>

definition receipt_ok :: "db \<Rightarrow> receipt \<Rightarrow> bool" where
  "receipt_ok d r \<longleftrightarrow> length (r_parents r) \<le> 10 \<and>
     (is_terminal_type (r_type r) \<longrightarrow> (\<forall>p \<in> set (r_parents r). receipt_exists (r_tenant r) p d)) \<and>
     (r_type r = TASK_COMPLETED \<and> r_parents r \<noteq> [] \<longrightarrow> locatable (Some (r_body r)))"

definition ledger_ok :: "db \<Rightarrow> bool" where
  "ledger_ok d \<longleftrightarrow> (\<forall>r \<in> set (db_receipts d). receipt_ok d r)"

lemma receipt_exists_keys: "receipt_exists tn p d \<longleftrightarrow> (tn, p) \<in> r_key ` set (db_receipts d)"
  by (auto simp: receipt_exists_def image_iff) metis

lemma receipt_ok_keys:
  "r_key ` set (db_receipts d) \<subseteq> r_key ` set (db_receipts d') \<Longrightarrow> receipt_ok d r \<Longrightarrow> receipt_ok d' r"
  unfolding receipt_ok_def receipt_exists_keys by (meson subsetD)

lemma receipt_ok_same: "db_receipts d' = db_receipts d \<Longrightarrow> receipt_ok d' = receipt_ok d"
  by (auto simp: receipt_ok_def receipt_exists_def fun_eq_iff)

lemma ledger_ok_same: "db_receipts d' = db_receipts d \<Longrightarrow> ledger_ok d \<Longrightarrow> ledger_ok d'"
  using receipt_ok_same [of d' d] by (simp add: ledger_ok_def)

interpretation ledger: db_frame ledger_ok "\<lambda>_. True"
proof
  fix d assume ok: "ledger_ok d"
  show "ledger_ok (d\<lparr>db_receipts := db_receipts d @ [r]\<rparr>)" if "admissible d r" for r
  proof -
    let ?d = "d\<lparr>db_receipts := db_receipts d @ [r]\<rparr>"
    have "receipt_ok ?d x" if "receipt_ok d x" for x
      by (rule receipt_ok_keys [OF _ that]) auto
    moreover have "receipt_ok d r" using \<open>admissible d r\<close> by (simp add: admissible_def receipt_ok_def)
    ultimately show ?thesis using ok by (simp add: ledger_ok_def)
  qed
  show "ledger_ok (set_delivered tn ids now d)" for tn ids now
  proof -
    let ?d = "set_delivered tn ids now d" and ?f = "\<lambda>r. r\<lparr>r_delivered_at := Some now\<rparr>"
    have "map r_key (db_receipts ?d) = map r_key (db_receipts d)"
      by (simp add: set_delivered_def map_update_where r_key_def)
    then have "r_key ` set (db_receipts ?d) = r_key ` set (db_receipts d)" by (metis list.set_map)
    then have keys: "receipt_ok d x \<Longrightarrow> receipt_ok ?d x" for x
      by (rule receipt_ok_keys [OF equalityD2])
    have "receipt_ok ?d (?f x)" if "receipt_ok ?d x" for x
      using that by (simp add: receipt_ok_def)
    with keys ok show ?thesis
      by (auto simp: ledger_ok_def set_delivered_def set_update_where)
  qed
qed (auto intro: ledger_ok_same)

section \<open>What the past fixes\<close>

text \<open>
  Later databases extend an earlier one: its receipts stay, in place and unchanged but for
  the delivery mark, and its tasks keep everything but status, attempt, times and result.
\<close>

definition extends :: "db \<Rightarrow> db \<Rightarrow> bool" where
  "extends d0 d \<longleftrightarrow>
     (\<exists>rs. map r_frozen (db_receipts d) = map r_frozen (db_receipts d0) @ rs) \<and>
     (\<exists>ts. map t_frozen (db_tasks d) = map t_frozen (db_tasks d0) @ ts)"

lemma extends_refl [simp]: "extends d d"
  by (simp add: extends_def)

lemma extends_trans: "extends a b \<Longrightarrow> extends b c \<Longrightarrow> extends a c"
  by (auto simp: extends_def)

lemma extends_same:
  "extends d0 d \<Longrightarrow> db_receipts d' = db_receipts d \<Longrightarrow> db_tasks d' = db_tasks d \<Longrightarrow> extends d0 d'"
  by (simp add: extends_def)

lemma extends_receipt:
  "extends d0 d \<Longrightarrow> r \<in> set (db_receipts d0) \<Longrightarrow> \<exists>r' \<in> set (db_receipts d). r_frozen r' = r_frozen r"
proof -
  assume "extends d0 d" and r: "r \<in> set (db_receipts d0)"
  then obtain rs where "set (map r_frozen (db_receipts d)) = set (map r_frozen (db_receipts d0)) \<union> set rs"
    unfolding extends_def by (metis set_append)
  with r have "r_frozen r \<in> set (map r_frozen (db_receipts d))" by auto
  then show ?thesis by auto
qed

interpretation growth: db_frame "extends d0" "\<lambda>_. True" for d0
proof
  fix d assume ok: "extends d0 d"
  show "extends d0 (d\<lparr>db_tasks := db_tasks d @ [t]\<rparr>)" for t
    using ok by (auto simp: extends_def)
  show "extends d0 (set_tasks tn tid f d)" if "keeps_frozen f" for tn tid f
    using ok that by (simp add: extends_def)
  show "extends d0 (d\<lparr>db_receipts := db_receipts d @ [r]\<rparr>)" for r
    using ok by (auto simp: extends_def)
  show "extends d0 (set_delivered tn ids now d)" for tn ids now
  proof -
    have "map r_frozen (db_receipts (set_delivered tn ids now d)) = map r_frozen (db_receipts d)"
      by (simp add: set_delivered_def map_update_where r_frozen_def)
    with ok show ?thesis by (simp add: extends_def)
  qed
qed (auto intro: extends_same)

section \<open>Tenants\<close>

definition of_tenant :: "uuid \<Rightarrow> db \<Rightarrow> task list \<times> lease list \<times> receipt list \<times> progress list \<times> relationship list" where
  "of_tenant tn d = (filter (\<lambda>t. t_tenant t = tn) (db_tasks d),
     filter (\<lambda>l. l_tenant l = tn) (db_leases d), filter (\<lambda>r. r_tenant r = tn) (db_receipts d),
     filter (\<lambda>p. pr_tenant p = tn) (db_progress d), filter (\<lambda>r. rel_tenant r = tn) (db_relationships d))"

text \<open>The rows of every other tenant are those of \<open>d0\<close> (and lease identifiers are unique).\<close>

definition others_untouched :: "uuid \<Rightarrow> db \<Rightarrow> db \<Rightarrow> bool" where
  "others_untouched tn d0 d \<longleftrightarrow> distinct (map l_id (db_leases d)) \<and>
     (\<forall>x. x \<noteq> tn \<longrightarrow> of_tenant x d = of_tenant x d0)"

lemma others_refl [simp]: "distinct (map l_id (db_leases d)) \<Longrightarrow> others_untouched tn d d"
  by (simp add: others_untouched_def)

lemma others_same:
  "others_untouched tn d0 d \<Longrightarrow> distinct (map l_id (db_leases d')) \<Longrightarrow>
   (\<And>x. x \<noteq> tn \<Longrightarrow> of_tenant x d' = of_tenant x d) \<Longrightarrow> others_untouched tn d0 d'"
  by (simp add: others_untouched_def)

lemma filter_update_where_set:
  "(\<And>r. r \<in> set rs \<Longrightarrow> P r \<Longrightarrow> \<not> R r \<and> \<not> R (f r)) \<Longrightarrow> filter R (update_where P f rs) = filter R rs"
  by (induction rs) auto

lemma filter_delete_where_other:
  "(\<And>r. P r \<Longrightarrow> \<not> R r) \<Longrightarrow> filter R (delete_where P rs) = filter R rs"
  by (induction rs) (auto simp: delete_where_def)

interpretation isolation: db_frame "others_untouched tn d0" "\<lambda>x. x = tn" for tn d0
proof
  fix d assume ok: "others_untouched tn d0 d"
  note same = others_same [OF ok]
  have ids: "distinct (map l_id (db_leases d))" using ok by (simp add: others_untouched_def)
  show "others_untouched tn d0 (d\<lparr>db_tasks := db_tasks d @ [t]\<rparr>)" if "t_tenant t = tn" for t
    by (rule same) (use ids that in \<open>auto simp: of_tenant_def\<close>)
  show "others_untouched tn d0 (set_tasks tn' tid f d)" if "tn' = tn" "keeps_frozen f" for tn' tid f
    by (rule same) (use ids that in \<open>auto simp: of_tenant_def set_tasks_def
      task_at_def keeps_frozen_sel intro!: filter_update_where_other\<close>)
  show "others_untouched tn d0 (d\<lparr>db_leases := db_leases d @ [l]\<rparr>)"
    if "l_tenant l = tn" "lease_unique d l" for l
    by (rule same) (use ids that in \<open>auto simp: of_tenant_def lease_unique_def\<close>)
  show "others_untouched tn d0 (set_lease lid g d)"
    if tn: "tn' = tn" and ex: "\<exists>l \<in> set (db_leases d). l_tenant l = tn' \<and> l_id l = lid"
      and g: "keeps_lease_frozen g" for tn' lid g
  proof (rule same)
    show "distinct (map l_id (db_leases (set_lease lid g d)))"
      using ids g by (simp add: set_lease_def map_frozen)
    fix x assume x: "x \<noteq> tn"
    obtain l where l: "l \<in> set (db_leases d)" "l_tenant l = tn" "l_id l = lid" using tn ex by auto
    have "l_tenant y = tn" if "y \<in> set (db_leases d)" "l_id y = lid" for y
      using ids l that by (auto simp: distinct_map dest: inj_onD)
    then have "filter (\<lambda>l. l_tenant l = x) (update_where (\<lambda>l. l_id l = lid) g (db_leases d)) =
        filter (\<lambda>l. l_tenant l = x) (db_leases d)"
      using x g by (intro filter_update_where_set) (auto simp: keeps_lease_frozen_sel)
    then show "of_tenant x (set_lease lid g d) = of_tenant x d"
      by (simp add: of_tenant_def) (simp add: set_lease_def)
  qed
  show "others_untouched tn d0 (drop_leases tn' tid lid d)" if "tn' = tn" for tn' tid lid
    by (rule same) (use ids that in \<open>auto simp: of_tenant_def drop_leases_def
      lease_at_def distinct_map_delete_where intro!: filter_delete_where_other\<close>)
  show "others_untouched tn d0 (d\<lparr>db_receipts := db_receipts d @ [r]\<rparr>)" if "r_tenant r = tn" for r
    by (rule same) (use ids that in \<open>auto simp: of_tenant_def\<close>)
  show "others_untouched tn d0 (set_delivered tn' ids now d)" if "tn' = tn" for tn' ids now
    by (rule same) (use ids that in \<open>auto simp: of_tenant_def set_delivered_def
      intro!: filter_update_where_other\<close>)
  show "others_untouched tn d0 (d\<lparr>db_progress := db_progress d @ [p]\<rparr>)" if "pr_tenant p = tn" for p
    by (rule same) (use ids that in \<open>auto simp: of_tenant_def\<close>)
  show "others_untouched tn d0 (set_progress tn' tid v now d)" if "tn' = tn" for tn' tid v now
    by (rule same) (use ids that in \<open>auto simp: of_tenant_def set_progress_def
      intro!: filter_update_where_other\<close>)
  show "others_untouched tn d0 (d\<lparr>db_relationships := db_relationships d @ [r]\<rparr>)" if "rel_tenant r = tn" for r
    by (rule same) (use ids that in \<open>auto simp: of_tenant_def\<close>)
  show "others_untouched tn d0 (set_relationship tn' k pid h d)" if "tn' = tn" "keeps_rel_key h" for tn' k pid h
    by (rule same) (use ids that in \<open>auto simp: of_tenant_def set_relationship_def
      rel_at_def keeps_rel_key_def rel_key_def intro!: filter_update_where_other\<close>)
  show "others_untouched tn d0 (d\<lparr>db_users := us, db_api_keys := ks\<rparr>)" for us ks
    by (rule same) (use ids in \<open>auto simp: of_tenant_def\<close>)
qed

end
