(* ===== verification/Service.thy ===== *)
theory Service
  imports Ledger Outbox EngineQueries
begin

text \<open>
  The running service: the requests of the MCP endpoint, the sweeps of the background loop, the
  engine operations behind no tool (\<open>start_task\<close>, the old \<open>bootstrap\<close>), reconciliation, the
  replay worker and restarts, one after another from an empty database. Each session begins on
  what is committed, so the events of this list are the serial executions of the service.
\<close>

datatype event =
    Request "string option" "string option" mcp_request
  | Sweep
  | Start_task uuid string uuid uuid
  | Old_bootstrap uuid principal "uuid option" "int option"
  | Reconcile uuid string
  | Replay int
  | Restart

fun serve :: "env \<Rightarrow> event \<Rightarrow> world \<Rightarrow> world" where
  "serve e (Request h k rq) w = snd (mcp_entry e h k rq w)"
| "serve e Sweep w = snd (sweep_once e w)"
| "serve e (Start_task tn wk tid lid) w = snd (with_session (start_task e tn wk tid lid) w)"
| "serve e (Old_bootstrap tn who since n) w = snd (with_session (engine_bootstrap e tn who since n) w)"
| "serve e (Reconcile tn wk) w = snd (with_session (reconcile_worker e tn wk) w)"
| "serve e (Replay n) w = snd (replay_buffered_receipts e n w)"
| "serve e Restart w = restart w"

text \<open>The environment may change between events (a restart with other settings).\<close>

inductive reachable :: "world \<Rightarrow> bool" where
  reachable_init: "reachable initial_world"
| reachable_step: "reachable w \<Longrightarrow> reachable (serve e ev w)"

fun run :: "env \<Rightarrow> event list \<Rightarrow> world \<Rightarrow> world" where
  "run e [] w = w"
| "run e (ev # evs) w = run e evs (serve e ev w)"

lemma reachable_run: "reachable w \<Longrightarrow> reachable (run e evs w)"
  by (induction evs arbitrary: w) (auto intro: reachable_step)

lemma keeps_restart: "on_db P w \<Longrightarrow> on_db P (restart w)"
  by (simp add: restart_def)

context service_frame
begin

text \<open>What every statement keeps in every tenant, every event keeps.\<close>

lemma serve_keeps:
  assumes all: "\<And>tn. T tn" and ok: "on_db P w"
  shows "on_db P (serve e ev w)"
proof (cases ev)
  case (Request h k rq)
  then show ?thesis using keepsD [OF keeps_mcp_entry [OF all] ok] by simp
next
  case Sweep
  then show ?thesis using keepsD [OF keeps_sweep_once [OF all] ok] by simp
next
  case (Start_task tn wk tid lid)
  then show ?thesis
    using keepsD [OF keeps_session [OF keeps_start_task [OF all]] ok] by simp
next
  case (Old_bootstrap tn who since n)
  then show ?thesis
    using keepsD [OF keeps_session [OF keeps_engine_bootstrap [OF all]] ok] by simp
next
  case (Reconcile tn wk)
  then show ?thesis
    using keepsD [OF keeps_session [OF keeps_reconcile [OF all]] ok] by simp
next
  case (Replay n)
  then show ?thesis using keepsD [OF keeps_replay ok] by simp
next
  case Restart
  then show ?thesis using keeps_restart [OF ok] by simp
qed

lemma run_keeps: "(\<And>tn. T tn) \<Longrightarrow> on_db P w \<Longrightarrow> on_db P (run e evs w)"
  by (induction evs arbitrary: w) (auto intro: serve_keeps)

lemma reachable_keeps: "reachable w \<Longrightarrow> (\<And>tn. T tn) \<Longrightarrow> on_db P initial_world \<Longrightarrow> on_db P w"
  by (induction rule: reachable.induct) (auto intro: serve_keeps)

end

lemma initial_db [simp]: "w_db initial_world = empty_db" "w_committed initial_world = empty_db"
  by (simp_all add: initial_world_def)

lemma empty_tables [simp]:
  "db_tasks empty_db = []" "db_leases empty_db = []" "db_receipts empty_db = []"
  "db_progress empty_db = []" "db_relationships empty_db = []" "db_users empty_db = []"
  "db_api_keys empty_db = []"
  by (simp_all add: empty_db_def)

end
