(* ===== verification/Scheduler.thy ===== *)
theory Scheduler
  imports Service
begin

text \<open>
  The scheduler as a protocol per task. The cell of a key is its task row and its lease row;
  \<open>cell_step\<close> are the changes the operations make to a cell, and every event of the service
  moves every cell along them. From this the invariants of leasing follow, and the
  refinement of an abstract machine of four phases.
\<close>

section \<open>Cells\<close>

type_synonym cell = "task option \<times> lease option"

definition task_of :: "db \<Rightarrow> uuid \<times> uuid \<Rightarrow> task option" where
  "task_of d k = find (\<lambda>t. t_key t = k) (db_tasks d)"

definition lease_of :: "db \<Rightarrow> uuid \<times> uuid \<Rightarrow> lease option" where
  "lease_of d k = find (\<lambda>l. l_key l = k) (db_leases d)"

definition cell :: "db \<Rightarrow> uuid \<times> uuid \<Rightarrow> cell" where
  "cell d k = (task_of d k, lease_of d k)"

lemma find_Some_mem: "find P xs = Some x \<Longrightarrow> x \<in> set xs \<and> P x"
  by (induction xs) (auto split: if_splits)

lemma find_key: "distinct (map f xs) \<Longrightarrow> x \<in> set xs \<Longrightarrow> find (\<lambda>y. f y = f x) xs = Some x"
proof (induction xs)
  case (Cons a xs)
  then show ?case by (cases "a = x") auto
qed simp

lemma find_key_iff: "distinct (map f xs) \<Longrightarrow> find (\<lambda>y. f y = k) xs = Some x \<longleftrightarrow> x \<in> set xs \<and> f x = k"
  using find_key [of f xs x] find_Some_mem [of "\<lambda>y. f y = k" xs x] by auto

lemma find_append: "find P (xs @ ys) = (case find P xs of None \<Rightarrow> find P ys | Some x \<Rightarrow> Some x)"
  by (induction xs) auto

lemma find_update_where:
  "(\<And>x. x \<in> set xs \<Longrightarrow> P x = (f x = k)) \<Longrightarrow> (\<And>x. f (g x) = f x) \<Longrightarrow>
   find (\<lambda>y. f y = k') (update_where P g xs) =
     (if k' = k then map_option g (find (\<lambda>y. f y = k) xs) else find (\<lambda>y. f y = k') xs)"
  by (induction xs) auto

lemma find_delete_where:
  "(\<And>x. x \<in> set xs \<Longrightarrow> f x = k \<Longrightarrow> \<not> P x) \<Longrightarrow> find (\<lambda>y. f y = k) (delete_where P xs) = find (\<lambda>y. f y = k) xs"
  by (induction xs) (auto simp: delete_where_def)

lemma scalar_filter_find:
  "distinct (map f xs) \<Longrightarrow> (\<And>x. P x = (f x = k)) \<Longrightarrow>
   scalar_one_or_none e (filter P xs) = Inr (find (\<lambda>y. f y = k) xs)"
proof -
  assume d: "distinct (map f xs)" and P: "\<And>x. P x = (f x = k)"
  show ?thesis
  proof (cases "find (\<lambda>y. f y = k) xs")
    case None
    then have "filter P xs = []" by (simp add: P find_None_iff filter_empty_conv)
    with None show ?thesis by (simp add: scalar_one_or_none_def)
  next
    case (Some x)
    with d have x: "x \<in> set xs" "f x = k" by (simp_all add: find_key_iff)
    then have "scalar_one_or_none e (filter P xs) = Inr (Some x)"
      by (intro scalar_key_hit [OF d]) (simp_all add: P)
    with Some show ?thesis by simp
  qed
qed

lemma task_of_Some: "task_of d k = Some t \<Longrightarrow> t \<in> set (db_tasks d) \<and> t_key t = k"
  unfolding task_of_def by (drule find_Some_mem) simp

lemma lease_of_Some: "lease_of d k = Some l \<Longrightarrow> l \<in> set (db_leases d) \<and> l_key l = k"
  unfolding lease_of_def by (drule find_Some_mem) simp

lemma schema_keys:
  "schema_ok d \<Longrightarrow> distinct (map t_key (db_tasks d))" "schema_ok d \<Longrightarrow> distinct (map l_id (db_leases d))"
  "schema_ok d \<Longrightarrow> distinct (map l_key (db_leases d))"
  by (simp_all add: schema_ok_def)

lemma task_of_iff: "schema_ok d \<Longrightarrow> task_of d k = Some t \<longleftrightarrow> t \<in> set (db_tasks d) \<and> t_key t = k"
  by (simp add: task_of_def find_key_iff schema_keys)

lemma lease_of_iff: "schema_ok d \<Longrightarrow> lease_of d k = Some l \<longleftrightarrow> l \<in> set (db_leases d) \<and> l_key l = k"
  by (simp add: lease_of_def find_key_iff schema_keys)

lemma task_of_None: "task_of d k = None \<longleftrightarrow> (\<forall>t \<in> set (db_tasks d). t_key t \<noteq> k)"
  by (auto simp: task_of_def find_None_iff)

lemma lease_of_None: "lease_of d k = None \<longleftrightarrow> (\<forall>l \<in> set (db_leases d). l_key l \<noteq> k)"
  by (auto simp: lease_of_def find_None_iff)

subsection \<open>Statements on cells\<close>

lemma cell_same: "db_tasks d' = db_tasks d \<Longrightarrow> db_leases d' = db_leases d \<Longrightarrow> cell d' = cell d"
  by (simp add: cell_def task_of_def lease_of_def fun_eq_iff)

lemma task_of_set_tasks [simp]:
  "keeps_frozen f \<Longrightarrow> task_of (set_tasks tn tid f d) k =
     (if k = (tn, tid) then map_option f (task_of d k) else task_of d k)"
  using find_update_where [of "db_tasks d" "task_at tn tid" t_key "(tn, tid)" f k]
  by (auto simp: task_of_def set_tasks_def task_at_def t_key_def keeps_frozen_sel)

lemma lease_of_set_tasks [simp]: "lease_of (set_tasks tn tid f d) = lease_of d"
  by (simp add: lease_of_def fun_eq_iff)

lemma task_of_drop_leases [simp]: "task_of (drop_leases tn tid i d) = task_of d"
  by (simp add: task_of_def fun_eq_iff)

lemma task_of_set_lease [simp]: "task_of (set_lease lid g d) = task_of d"
  by (simp add: task_of_def fun_eq_iff)

lemma lease_of_drop_other [simp]: "k \<noteq> (tn, tid) \<Longrightarrow> lease_of (drop_leases tn tid i d) k = lease_of d k"
  by (auto simp: lease_of_def drop_leases_def lease_at_def l_key_def intro!: find_delete_where)

lemma lease_of_drop_all [simp]: "lease_of (drop_leases tn tid None d) (tn, tid) = None"
  by (auto simp: lease_of_None drop_leases_def lease_at_def l_key_def)

lemma lease_of_drop_id:
  "schema_ok d \<Longrightarrow> lease_of d (tn, tid) = Some l \<Longrightarrow> l_id l = i \<Longrightarrow>
   lease_of (drop_leases tn tid (Some i) d) (tn, tid) = None"
  by (auto simp: lease_of_None drop_leases_def lease_at_def l_key_def lease_of_iff)
    (metis l_key_def lease_of_iff option.inject)

lemma lease_of_set_lease:
  assumes ok: "schema_ok d" and l: "l \<in> set (db_leases d)" "l_id l = lid" and g: "keeps_lease_frozen g"
  shows "lease_of (set_lease lid g d) k = (if k = l_key l then Some (g l) else lease_of d k)"
proof -
  have key: "l_id x = lid \<longleftrightarrow> l_key x = l_key l" if "x \<in> set (db_leases d)" for x
    using that l schema_keys [OF ok] by (auto simp: distinct_map inj_on_def)
  have "lease_of d (l_key l) = Some l" using ok l by (simp add: lease_of_iff)
  then show ?thesis
    using find_update_where [of "db_leases d" "\<lambda>x. l_id x = lid" l_key "l_key l" g k]
      key keeps_lease_frozen_sel [OF g]
    by (simp add: lease_of_def set_lease_def)
qed

lemma task_of_insert:
  "task_of (d\<lparr>db_tasks := db_tasks d @ [t]\<rparr>) k =
     (case task_of d k of None \<Rightarrow> if k = t_key t then Some t else None | Some x \<Rightarrow> Some x)"
  by (simp add: task_of_def find_append split: option.split)

lemma lease_of_insert:
  "lease_of (d\<lparr>db_leases := db_leases d @ [l]\<rparr>) k =
     (case lease_of d k of None \<Rightarrow> if k = l_key l then Some l else None | Some x \<Rightarrow> Some x)"
  by (simp add: lease_of_def find_append split: option.split)

lemma insert_other [simp]:
  "task_of (d\<lparr>db_leases := ls\<rparr>) = task_of d" "lease_of (d\<lparr>db_tasks := ts\<rparr>) = lease_of d"
  by (simp_all add: task_of_def lease_of_def fun_eq_iff)

section \<open>Steps of a cell\<close>

definition result_for :: "task_status \<Rightarrow> task_result \<Rightarrow> bool" where
  "result_for s r \<longleftrightarrow> status_value s = outcome_value (tr_outcome r)"

text \<open>Creation, the grant of a lease, its renewal, the start, the five ways a lease ends.\<close>

inductive cell_step :: "cell \<Rightarrow> cell \<Rightarrow> bool" where
  Enqueue: "t_status t = QUEUED \<Longrightarrow> t_attempt t = 0 \<Longrightarrow> t_result t = None \<Longrightarrow>
    cell_step (None, None) (Some t, None)"
| Grant: "t_status t = QUEUED \<Longrightarrow> l_renewal_count l = 0 \<Longrightarrow>
    cell_step (Some t, None) (Some (t\<lparr>t_status := LEASED, t_updated_at := now\<rparr>), Some l)"
| Renew: "cell_step (x, Some l) (x, Some (renewed ex (l_renewal_count l + 1) l))"
| Start: "t_status t = LEASED \<Longrightarrow>
    cell_step (Some t, x) (Some (with_status now RUNNING None (Some st) t), x)"
| Finish: "in_flight (t_status t) \<Longrightarrow> s = SUCCEEDED \<or> s = FAILED \<Longrightarrow> result_for s r \<Longrightarrow>
    cell_step (Some t, Some l) (Some (with_status now s (Some r) None t), None)"
| Retry: "in_flight (t_status t) \<Longrightarrow> t_attempt t + 1 < t_max_attempts t \<Longrightarrow>
    cell_step (Some t, Some l) (Some (requeued now (t_attempt t + 1) el t), None)"
| Lapse: "in_flight (t_status t) \<Longrightarrow>
    cell_step (Some t, Some l) (Some (requeued now (t_attempt t) el t), None)"
| Settle: "in_flight (t_status t) \<Longrightarrow>
    cell_step (Some t, Some l) (Some (with_status now QUEUED None None t), None)"
| Cancel: "\<not> is_terminal t \<Longrightarrow> result_for CANCELED r \<Longrightarrow>
    cell_step (Some t, x) (Some (with_status now CANCELED (Some r) None t), None)"

inductive_cases cell_stepE: "cell_step c c'"
inductive_simps cell_step_simps: "cell_step (Some t, x) (Some t', y)"

fun cell_ok :: "cell \<Rightarrow> bool" where
  "cell_ok (None, x) = (x = None)"
| "cell_ok (Some t, x) = (in_flight (t_status t) = (x \<noteq> None) \<and>
     (case t_result t of None \<Rightarrow> \<not> is_terminal t | Some r \<Rightarrow> result_for (t_status t) r) \<and>
     0 \<le> t_attempt t \<and> (t_attempt t = 0 \<or> t_attempt t < t_max_attempts t))"

lemma result_for_simps [simp]:
  "result_for SUCCEEDED r \<longleftrightarrow> tr_outcome r = O_SUCCEEDED" "result_for FAILED r \<longleftrightarrow> tr_outcome r = O_FAILED"
  "result_for CANCELED r \<longleftrightarrow> tr_outcome r = O_CANCELED"
  "\<not> result_for QUEUED r" "\<not> result_for LEASED r" "\<not> result_for RUNNING r"
  by (cases "tr_outcome r"; simp add: result_for_def)+

lemma cell_ok_result:
  "cell_ok (Some t, x) \<Longrightarrow> is_terminal t \<longleftrightarrow> t_result t \<noteq> None"
  by (cases "t_status t") (auto simp: is_terminal_def split: option.splits)

lemma cell_step_ok: "cell_step c c' \<Longrightarrow> cell_ok c \<Longrightarrow> cell_ok c'"
proof (induction rule: cell_step.induct)
  case (Renew x ex l)
  then show ?case by (cases x) auto
qed (auto simp: is_terminal_def in_flight_def split: option.splits)

lemma cell_steps_ok: "cell_step\<^sup>*\<^sup>* c c' \<Longrightarrow> cell_ok c \<Longrightarrow> cell_ok c'"
  by (induction rule: rtranclp_induct) (auto intro: cell_step_ok)

section \<open>Databases that evolve by steps\<close>

definition cells_ok :: "db \<Rightarrow> bool" where
  "cells_ok d \<longleftrightarrow> (\<forall>k. cell_ok (cell d k))"

definition evolves :: "db \<Rightarrow> db \<Rightarrow> bool" where
  "evolves d0 d \<longleftrightarrow> schema_ok d \<and> cells_ok d \<and> (\<forall>k. cell_step\<^sup>*\<^sup>* (cell d0 k) (cell d k))"

lemma evolves_refl: "schema_ok d \<Longrightarrow> cells_ok d \<Longrightarrow> evolves d d"
  by (simp add: evolves_def)

lemma evolves_schema: "evolves d0 d \<Longrightarrow> schema_ok d"
  by (simp add: evolves_def)

lemma evolves_cell: "evolves d0 d \<Longrightarrow> cell_ok (task_of d k, lease_of d k)"
  unfolding evolves_def cells_ok_def cell_def by blast

lemma evolves_same:
  assumes "evolves d0 d" "schema_ok d'" "db_tasks d' = db_tasks d" "db_leases d' = db_leases d"
  shows "evolves d0 d'"
  using assms cell_same [of d' d] by (simp add: evolves_def cells_ok_def)

lemma evolves_step:
  assumes ev: "evolves d0 d" and ok: "schema_ok d'"
    and other: "\<And>k'. k' \<noteq> k \<Longrightarrow> cell d' k' = cell d k'"
    and step: "cell_step (cell d k) (cell d' k)"
  shows "evolves d0 d'"
proof -
  have "cell_ok (cell d' k') \<and> cell_step\<^sup>*\<^sup>* (cell d0 k') (cell d' k')" for k'
  proof (cases "k' = k")
    case True
    have "cell_ok (cell d k)" "cell_step\<^sup>*\<^sup>* (cell d0 k) (cell d k)"
      using ev unfolding evolves_def cells_ok_def by blast+
    with True step show ?thesis by (auto intro: cell_step_ok rtranclp.rtrancl_into_rtrancl)
  next
    case False
    with ev other show ?thesis unfolding evolves_def cells_ok_def by metis
  qed
  with ok show ?thesis unfolding evolves_def cells_ok_def by blast
qed

interpretation protocol: outer_frame "\<lambda>d c. evolves d0 d \<and> evolves d0 c" "\<lambda>_. True" for d0
proof
  fix d c assume ev: "evolves d0 d \<and> evolves d0 c"
  then have ok: "schema_ok d" by (simp add: evolves_def)
  note same = evolves_same [OF conjunct1 [OF ev]]
  show "evolves d0 (d\<lparr>db_receipts := db_receipts d @ [r]\<rparr>) \<and> evolves d0 c"
    if "receipt_unique d r" "admissible d r" for r
    using ev same [OF schema.ins_receipt [OF ok _ that]] by simp
  show "evolves d0 (set_delivered tn ids now d) \<and> evolves d0 c" for tn ids now
    using ev same [OF schema.deliver [OF ok]] by simp
  show "evolves d0 (d\<lparr>db_progress := db_progress d @ [p]\<rparr>) \<and> evolves d0 c"
    if "progress_unique d p" for p
    using ev same [OF schema.ins_progress [OF ok _ that]] by simp
  show "evolves d0 (set_progress tn tid v now d) \<and> evolves d0 c" for tn tid v now
    using ev same [OF schema.upd_progress [OF ok]] by simp
  show "evolves d0 (d\<lparr>db_relationships := db_relationships d @ [r]\<rparr>) \<and> evolves d0 c"
    if "relationship_unique d r" for r
    using ev same [OF schema.ins_rel [OF ok _ that]] by simp
  show "evolves d0 (set_relationship tn k pid h d) \<and> evolves d0 c" if "keeps_rel_key h" for tn k pid h
    using ev same [OF schema.upd_rel [OF ok _ that]] by simp
  show "evolves d0 (d\<lparr>db_users := us, db_api_keys := ks\<rparr>) \<and> evolves d0 c" for us ks
    using ev same [OF schema.auth_rows [OF ok]] by simp
qed auto

end
