(* ===== verification/Protocol.thy ===== *)
theory Protocol
  imports Scheduler "HOL-Library.Multiset"
begin

text \<open>
  Every operation of the service moves the cells of the database by \<open>cell_step\<close>s. A block
  with several writes leaves the steps half done when it raises; \<open>settles\<close> says that what it
  returns with is a whole number of steps, and that what is committed always is.
\<close>

declare split_paired_All [simp del]

named_theorems settles_intros \<open>rules for \<open>settles\<close>\<close>

definition settles :: "(db \<Rightarrow> bool) \<Rightarrow> 'a M \<Rightarrow> bool" where
  "settles Q m \<longleftrightarrow> (\<forall>w. both Q w \<longrightarrow> wp m (\<lambda>_. both Q) (\<lambda>_ w'. Q (w_committed w')) w)"

lemma settlesD: "settles Q m \<Longrightarrow> both Q w \<Longrightarrow> wp m (\<lambda>_. both Q) (\<lambda>_ w'. Q (w_committed w')) w"
  by (simp add: settles_def)

lemma settles_keeps: "keeps (both Q) m \<Longrightarrow> settles Q m"
proof -
  assume m: "keeps (both Q) m"
  have "wp m (\<lambda>_. both Q) (\<lambda>_ w'. Q (w_committed w')) w" if "both Q w" for w
    by (rule wp_mono [where Q = "\<lambda>_. both Q" and E = "\<lambda>_. both Q"])
      (use m that in \<open>simp_all add: keeps_wp on_db_def\<close>)
  then show ?thesis by (simp add: settles_def)
qed

lemma settles_return [settles_intros, simp]: "settles Q (return x)"
  by (rule settles_keeps) simp

lemma settles_leaves [settles_intros, simp]:
  "settles Q (utc_now e)" "settles Q uuid4" "settles Q (lift_sum r)" "settles Q (some_or_raise x ex)"
  "settles Q (ensure b ex)" "settles Q (raise ex)" "settles Q (task_get tn tid)" "settles Q (select f)"
  "settles Q (metric g)" "settles Q ensure_trace_id" "settles Q session_commit"
  by (rule settles_keeps, simp)+

lemma settles_bind [settles_intros]:
  "settles Q m \<Longrightarrow> (\<And>x. settles Q (f x)) \<Longrightarrow> settles Q (bind m f)"
  by (auto simp: settles_def wp_bind intro: wp_mono)

lemma settles_seq [settles_intros]: "settles Q m \<Longrightarrow> settles Q n \<Longrightarrow> settles Q (seq m n)"
  by (simp add: seq_def settles_bind)

lemma settles_if [settles_intros]:
  "(b \<Longrightarrow> settles Q m) \<Longrightarrow> (\<not> b \<Longrightarrow> settles Q n) \<Longrightarrow> settles Q (if b then m else n)"
  by simp

lemma settles_case_option [settles_intros]:
  "settles Q m \<Longrightarrow> (\<And>y. settles Q (f y)) \<Longrightarrow> settles Q (case x of None \<Rightarrow> m | Some y \<Rightarrow> f y)"
  by (simp split: option.split)

lemma settles_case_prod [settles_intros]:
  "(\<And>a b. settles Q (f a b)) \<Longrightarrow> settles Q (case x of (a, b) \<Rightarrow> f a b)"
  by (simp split: prod.split)

lemma settles_for_each [settles_intros]: "(\<And>x. settles Q (f x)) \<Longrightarrow> settles Q (for_each f xs)"
  by (induction xs) (auto intro!: settles_intros)

lemma settles_try:
  "settles Q m \<Longrightarrow> (\<And>x w. Q (w_committed w) \<Longrightarrow> wp (h x) (\<lambda>_. both Q) (\<lambda>_ w'. Q (w_committed w')) w) \<Longrightarrow>
   settles Q (try_except m h)"
  by (auto simp: settles_def wp_try_except intro: wp_mono)

lemma keeps_savepoint_settles: "settles Q m \<Longrightarrow> keeps (both Q) (savepoint m)"
  unfolding keeps_wp wp_savepoint
proof (intro allI impI)
  fix w assume m: "settles Q m" and w: "both Q w"
  from settlesD [OF m w]
  show "wp m (\<lambda>_. both Q) (\<lambda>_ w'. both Q (w'\<lparr>w_db := w_db w\<rparr>)) w"
    by (rule wp_mono) (use w in \<open>simp_all add: on_db_def\<close>)
qed

lemma keeps_session_settles: "settles Q m \<Longrightarrow> keeps (both Q) (with_session m)"
  unfolding keeps_wp wp_with_session
proof (intro allI impI)
  fix w assume m: "settles Q m" and w: "both Q w"
  then have "both Q (w\<lparr>w_db := w_committed w\<rparr>)" by (simp add: on_db_def)
  from settlesD [OF m this]
  show "wp m (\<lambda>x w'. both Q (w'\<lparr>w_committed := w_db w'\<rparr>)) (\<lambda>x w'. both Q (w'\<lparr>w_db := w_committed w'\<rparr>))
      (w\<lparr>w_db := w_committed w\<rparr>)"
    by (rule wp_mono) (simp_all add: on_db_def)
qed

section \<open>Reads, by cells\<close>

lemma schema_writes [simp]:
  "schema_ok d \<Longrightarrow> keeps_frozen f \<Longrightarrow> schema_ok (set_tasks tn tid f d)"
  "schema_ok d \<Longrightarrow> schema_ok (drop_leases tn tid i d)"
  by (simp_all add: schema.upd_task schema.del_lease)

lemma wp_task_get:
  assumes "schema_ok (w_db w)"
  shows "wp (task_get tn tid) Q E w = Q (task_of (w_db w) (tn, tid)) w"
proof -
  have "scalar_one_or_none MultipleResultsFound (filter (task_at tn tid) (db_tasks (w_db w))) =
      Inr (task_of (w_db w) (tn, tid))"
    unfolding task_of_def by (rule scalar_filter_find [OF schema_keys(1) [OF assms]])
      (simp add: task_at_def t_key_def)
  then show ?thesis by (simp add: task_get_def wp_one_or_none)
qed

text \<open>Whether the worker holds this lease of the task, not yet expired.\<close>

definition holds :: "db \<Rightarrow> uuid \<Rightarrow> uuid \<Rightarrow> uuid \<Rightarrow> string \<Rightarrow> datetime \<Rightarrow> bool" where
  "holds d tn tid lid worker now = (case lease_of d (tn, tid) of
     None \<Rightarrow> False | Some l \<Rightarrow> l_id l = lid \<and> l_worker l = worker \<and> now < l_expires_at l)"

lemma lease_id_unique:
  "schema_ok d \<Longrightarrow> l \<in> set (db_leases d) \<Longrightarrow> l' \<in> set (db_leases d) \<Longrightarrow> l_id l = l_id l' \<Longrightarrow> l = l'"
  using schema_keys(2) by (auto simp: distinct_map dest: inj_onD)

lemma scalar_filter_lease:
  assumes ok: "schema_ok d" and P: "\<And>l. P l \<Longrightarrow> l_key l = (tn, tid)"
  shows "scalar_one_or_none e (filter P (db_leases d)) =
     Inr (case lease_of d (tn, tid) of None \<Rightarrow> None | Some l \<Rightarrow> if P l then Some l else None)"
proof (cases "filter P (db_leases d)")
  case Nil
  then show ?thesis
    by (auto simp: scalar_one_or_none_def filter_empty_conv split: option.split dest!: lease_of_Some)
next
  case (Cons a as)
  then have a: "a \<in> set (db_leases d)" "P a" by (auto dest: filter_eq_ConsD)
  with ok P have la: "lease_of d (tn, tid) = Some a" by (simp add: lease_of_iff)
  obtain x where x: "scalar_one_or_none e (filter P (db_leases d)) = Inr x"
    using scalar_key [OF schema_keys(3) [OF ok], of P "(tn, tid)" e] P by blast
  with Cons have "x = Some a" by (auto simp: scalar_Inr_iff)
  with x la a show ?thesis by simp
qed

lemma wp_lease_validate:
  assumes "schema_ok (w_db w)"
  shows "wp (lease_validate e tn tid lid worker) Q E w =
     Q (if holds (w_db w) tn tid lid worker (e_clock e (w_clock w)) then lease_of (w_db w) (tn, tid) else None)
       (w\<lparr>w_clock := Suc (w_clock w)\<rparr>)"
proof -
  let ?P = "live_lease tn tid lid worker (e_clock e (w_clock w))"
  have "scalar_one_or_none MultipleResultsFound (filter ?P (db_leases (w_db w))) =
      Inr (case lease_of (w_db w) (tn, tid) of None \<Rightarrow> None | Some l \<Rightarrow> if ?P l then Some l else None)"
    by (rule scalar_filter_lease [OF assms]) (simp add: live_lease_def held_by_def l_key_def)
  also have "\<dots> = Inr (if holds (w_db w) tn tid lid worker (e_clock e (w_clock w))
      then lease_of (w_db w) (tn, tid) else None)"
    by (auto simp: holds_def live_lease_def held_by_def l_key_def split: option.split dest!: lease_of_Some)
  finally show ?thesis by (simp add: lease_validate_def wp_bind wp_utc_now wp_one_or_none)
qed

lemma leased_task:
  "schema_ok d \<Longrightarrow> lease_of d (tn, tid) = Some l \<Longrightarrow> \<exists>t. task_of d (tn, tid) = Some t"
proof -
  assume ok: "schema_ok d" and l: "lease_of d (tn, tid) = Some l"
  then have "l \<in> set (db_leases d)" "l_tenant l = tn" "l_task l = tid"
    using lease_of_Some [OF l] by (auto simp: l_key_def)
  with ok have "has_task d tn tid" by (auto simp: schema_ok_def)
  then obtain t where "t \<in> set (db_tasks d)" "t_key t = (tn, tid)" by (auto simp: has_task_def)
  with ok have "task_of d (tn, tid) = Some t" by (simp add: task_of_iff)
  then show ?thesis by blast
qed

lemma wp_require_lease:
  assumes "schema_ok (w_db w)"
  shows "wp (require_lease e tn tid lid worker) Q E w =
     (let w' = w\<lparr>w_clock := Suc (w_clock w)\<rparr> in
      if holds (w_db w) tn tid lid worker (e_clock e (w_clock w))
      then Q (the (task_of (w_db w) (tn, tid))) w'
      else E (LeaseInvalidOrExpired tid lid) w')"
  using assms leased_task [OF assms, of tn tid]
  by (auto simp: require_lease_def wp_bind wp_lease_validate wp_some_or_raise wp_task_get Let_def
      holds_def split: option.splits)

lemma wp_task_update_status:
  assumes "schema_ok (w_db w)"
  shows "wp (task_update_status e tn tid s r st) Q E w =
     (let f = with_status (e_clock e (w_clock w)) s r st; d = set_tasks tn tid f (w_db w) in
      Q (map_option f (task_of (w_db w) (tn, tid))) (w\<lparr>w_clock := Suc (w_clock w), w_db := d\<rparr>))"
  using assms by (simp add: task_update_status_def wp_bind wp_seq wp_utc_now wp_update_task wp_task_get Let_def)

lemma wp_lease_release:
  "wp (lease_release tn tid i) Q E w =
     Q (\<exists>l \<in> set (db_leases (w_db w)). lease_at tn tid i l) (w\<lparr>w_db := drop_leases tn tid i (w_db w)\<rparr>)"
  by (simp add: lease_release_def wp_simps)

section \<open>Writes, by steps\<close>

lemma set_tasks_drop: "set_tasks tn tid f (drop_leases tn' tid' i d) = drop_leases tn' tid' i (set_tasks tn tid f d)"
  by (simp add: set_tasks_def drop_leases_def)

lemma evolves_task:
  assumes "evolves d0 d" "task_of d (tn, tid) = Some t" "keeps_frozen f"
    and "cell_step (Some t, lease_of d (tn, tid)) (Some (f t), lease_of d (tn, tid))"
  shows "evolves d0 (set_tasks tn tid f d)"
  by (rule evolves_step [where k = "(tn, tid)", OF assms(1)])
    (use assms evolves_schema [OF assms(1)] in \<open>simp_all add: cell_def\<close>)

lemma evolves_end:
  assumes "evolves d0 d" "task_of d (tn, tid) = Some t" "lease_of d (tn, tid) = Some l"
    and "keeps_frozen f" "cell_step (Some t, Some l) (Some (f t), None)"
  shows "evolves d0 (drop_leases tn tid (Some (l_id l)) (set_tasks tn tid f d))"
proof -
  note ok = evolves_schema [OF assms(1)]
  have "lease_of (drop_leases tn tid (Some (l_id l)) (set_tasks tn tid f d)) (tn, tid) = None"
    by (rule lease_of_drop_id) (use assms ok in simp_all)
  then show ?thesis
    by (intro evolves_step [where k = "(tn, tid)", OF assms(1)])
      (use assms ok in \<open>simp_all add: cell_def\<close>)
qed

lemma evolves_end_all:
  assumes "evolves d0 d" "task_of d (tn, tid) = Some t" "keeps_frozen f"
    and "cell_step (Some t, lease_of d (tn, tid)) (Some (f t), None)"
  shows "evolves d0 (drop_leases tn tid None (set_tasks tn tid f d))"
  by (rule evolves_step [where k = "(tn, tid)", OF assms(1)])
    (use assms evolves_schema [OF assms(1)] in \<open>simp_all add: cell_def\<close>)

lemma holds_lease:
  "holds d tn tid lid worker now \<Longrightarrow> \<exists>l. lease_of d (tn, tid) = Some l \<and> l_id l = lid \<and> l_worker l = worker"
  by (auto simp: holds_def split: option.splits)

lemma held_in_flight:
  "evolves d0 d \<Longrightarrow> lease_of d (tn, tid) = Some l \<Longrightarrow>
   \<exists>t. task_of d (tn, tid) = Some t \<and> in_flight (t_status t) \<and> \<not> is_terminal t"
  using evolves_cell [of d0 d "(tn, tid)"] leased_task [OF evolves_schema]
  by (fastforce simp: is_terminal_def in_flight_def)

lemma wp_then: "keeps I m \<Longrightarrow> I w \<Longrightarrow> (\<And>x w'. I w' \<Longrightarrow> Q x w') \<Longrightarrow> (\<And>x w'. I w' \<Longrightarrow> E x w') \<Longrightarrow> wp m Q E w"
  by (rule wp_mono [where Q = "\<lambda>_. I" and E = "\<lambda>_. I"]) (simp_all add: keeps_wp)

text \<open>A block that ends by announcing what it did.\<close>

lemma wp_announce:
  fixes m :: "'a M"
  assumes m: "keeps (both Q) m" and w: "both Q w"
  shows "wp m (\<lambda>_. both Q) (\<lambda>_ w'. Q (w_committed w')) w"
  using settlesD [OF settles_keeps [OF m] w] .

subsection \<open>Creating\<close>

lemma settles_task_create:
  "settles (evolves d0) (task_create e tn ty pl cb ai pp rq ek em pr ik ma bo dl)"
proof -
  have ins: "settles (evolves d0) (seq (insert_task (new_task s tn i now ty pl cb ai pp rq ek em pr ik ma bo el)) (return x))"
    for s i now el and x :: task
    unfolding settles_def
  proof (intro allI impI)
    fix w assume w: "both (evolves d0) w"
    let ?t = "new_task s tn i now ty pl cb ai pp rq ek em pr ik ma bo el"
    have "evolves d0 ((w_db w)\<lparr>db_tasks := db_tasks (w_db w) @ [?t]\<rparr>)" if new: "task_unique (w_db w) ?t"
    proof (rule evolves_step [where k = "t_key ?t"])
      show ev: "evolves d0 (w_db w)" using w by (simp add: on_db_def)
      then show "schema_ok ((w_db w)\<lparr>db_tasks := db_tasks (w_db w) @ [?t]\<rparr>)"
        using schema.ins_task [OF evolves_schema [OF ev] _ new] by simp
      have none: "task_of (w_db w) (t_key ?t) = None" using new by (auto simp: task_of_None task_unique_def)
      then have "lease_of (w_db w) (t_key ?t) = None"
        using evolves_cell [OF ev, of "t_key ?t"] by simp
      with none show "cell_step (cell (w_db w) (t_key ?t))
          (cell ((w_db w)\<lparr>db_tasks := db_tasks (w_db w) @ [?t]\<rparr>) (t_key ?t))"
        by (simp add: cell_def task_of_insert) (rule cell_step.Enqueue, simp_all add: new_task_def)
    qed (simp add: cell_def task_of_insert split: option.split)
    then show "wp (seq (insert_task ?t) (return x)) (\<lambda>_. both (evolves d0)) (\<lambda>_ w'. evolves d0 (w_committed w')) w"
      using w by (simp add: wp_seq wp_insert_task wp_return on_db_def)
  qed
  let ?found = "if truthy_str ik then bind (task_by_idempotency_key tn (the ik))
      (\<lambda>x. some_or_raise x IntegrityError) else raise IntegrityError"
  have "keeps (both (evolves d0)) ?found"
    by (auto simp: task_by_idempotency_key_def intro!: keeps_intros)
  then have handler: "wp (if ex = IntegrityError then seq session_rollback ?found else raise ex)
      (\<lambda>_. both (evolves d0)) (\<lambda>_ w'. evolves d0 (w_committed w')) w"
    if "evolves d0 (w_committed w)" for ex w
    using that by (auto simp: wp_seq wp_session_rollback wp_raise on_db_def intro!: wp_announce)
  show ?thesis
    unfolding task_create_def Let_def
    by (intro settles_bind settles_leaves settles_try [OF ins handler])
qed

subsection \<open>Leasing\<close>

text \<open>The tasks a claim goes through, while none of them has been granted.\<close>

definition waiting :: "db \<Rightarrow> uuid \<Rightarrow> task list \<Rightarrow> bool" where
  "waiting d tn ts \<longleftrightarrow> distinct (map t_key ts) \<and>
     (\<forall>t \<in> set ts. t_tenant t = tn \<and> t_status t = QUEUED \<and> task_of d (t_key t) = Some t)"

lemma evolves_grant:
  fixes now :: datetime
  assumes ev: "evolves d0 d" and t: "waiting d tn (t # ts)" and new: "lease_unique d l"
    and l: "l_tenant l = tn" "l_task l = t_id t" "l_renewal_count l = 0"
  defines "d1 \<equiv> set_tasks tn (t_id t) (\<lambda>x. x\<lparr>t_status := LEASED, t_updated_at := now\<rparr>)
      (d\<lparr>db_leases := db_leases d @ [l]\<rparr>)"
  shows "evolves d0 d1 \<and> waiting d1 tn ts"
proof
  have key: "t_key t = (tn, t_id t)" "l_key l = (tn, t_id t)"
    using t l by (simp_all add: waiting_def t_key_def l_key_def)
  have none: "lease_of d (tn, t_id t) = None" using new key by (auto simp: lease_of_None lease_unique_def)
  show "evolves d0 d1"
  proof (rule evolves_step [where k = "(tn, t_id t)", OF ev])
    have "schema_ok (d\<lparr>db_leases := db_leases d @ [l]\<rparr>)"
      using schema.ins_lease [OF evolves_schema [OF ev] _ new] by simp
    then show "schema_ok d1" by (simp add: d1_def)
    show "cell_step (cell d (tn, t_id t)) (cell d1 (tn, t_id t))"
      using t l none key by (auto simp: d1_def cell_def waiting_def lease_of_insert intro: cell_step.Grant)
  qed (auto simp: d1_def cell_def lease_of_insert key split: option.split)
  show "waiting d1 tn ts"
    using t key unfolding waiting_def d1_def by (auto simp: image_iff)
qed

lemma wp_grant_all:
  assumes "both (evolves d0) w" "waiting (w_db w) tn ts"
  shows "wp (for_each (grant_lease tn worker now expires) ts)
    (\<lambda>_. both (evolves d0)) (\<lambda>_ w'. evolves d0 (w_committed w')) w"
  using assms
proof (induction ts arbitrary: w)
  case (Cons t ts)
  let ?l = "\<lparr>l_id = w_uuid w, l_tenant = tn, l_task = t_id t, l_worker = worker, l_expires_at = expires,
     l_created_at = now, l_acquired_at = now, l_renewal_count = 0\<rparr>"
  let ?d = "set_tasks tn (t_id t) (\<lambda>x. x\<lparr>t_status := LEASED, t_updated_at := now\<rparr>)
      ((w_db w)\<lparr>db_leases := db_leases (w_db w) @ [?l]\<rparr>)"
  let ?w = "w\<lparr>w_uuid := Suc (w_uuid w), w_db := ?d\<rparr>"
  have ev: "evolves d0 (w_db w)" "evolves d0 (w_committed w)" using Cons.prems by (simp_all add: on_db_def)
  have rest: "wp (for_each (grant_lease tn worker now expires) ts)
      (\<lambda>ys. both (evolves d0)) (\<lambda>_ w'. evolves d0 (w_committed w')) ?w" if "lease_unique (w_db w) ?l"
    using evolves_grant [OF ev(1) Cons.prems(2) that, of now] ev(2) by (intro Cons.IH) (simp_all add: on_db_def)
  have "wp (grant_lease tn worker now expires t)
      (\<lambda>_. wp (for_each (grant_lease tn worker now expires) ts)
        (\<lambda>ys. both (evolves d0)) (\<lambda>_ w'. evolves d0 (w_committed w'))) (\<lambda>_ w'. evolves d0 (w_committed w')) w"
    using ev rest by (simp add: grant_lease_def Let_def wp_bind wp_seq wp_uuid4 wp_insert_lease
        wp_update_task wp_return)
  then show ?case unfolding for_each.simps wp_bind by (simp add: wp_bind wp_return_fun fun_eq_iff)
qed (simp add: wp_return)

lemma waiting_candidates:
  assumes ok: "schema_ok d" and found: "claim_candidates tn now acc n d = Inr ts"
  shows "waiting d tn (filter P ts)"
proof -
  have ts: "ts = take (nat n) (claim_order (filter (claimable tn now acc) (db_tasks d)))"
    using found by (simp add: claim_candidates_def sql_limit_Inr)
  have "mset (claim_order (filter (claimable tn now acc) (db_tasks d))) = mset (filter (claimable tn now acc) (db_tasks d))"
    by (simp add: claim_order_def order_by_def order_by_desc_def)
  then have "distinct (map t_key (claim_order (filter (claimable tn now acc) (db_tasks d))))"
    using schema_keys(1) [OF ok]
    by (metis distinct_map_filter mset_eq_imp_distinct_iff mset_map)
  then have "distinct (map t_key (filter P ts))"
    by (simp add: ts distinct_map_filter take_map [symmetric] distinct_take)
  moreover have "t_tenant t = tn \<and> t_status t = QUEUED \<and> task_of d (t_key t) = Some t" if "t \<in> set ts" for t
    using in_set_takeD [OF that [unfolded ts]] ok by (auto simp: claimable_def task_of_iff)
  ultimately show ?thesis by (auto simp: waiting_def)
qed

lemma settles_claim_next: "settles (evolves d0) (lease_claim_next e tn worker caps acc n ttl)"
  unfolding settles_def
proof (intro allI impI)
  fix w assume w: "both (evolves d0) w"
  then have ok: "schema_ok (w_db w)" "evolves d0 (w_committed w)" by (auto simp: on_db_def evolves_schema)
  then show "wp (lease_claim_next e tn worker caps acc n ttl) (\<lambda>_. both (evolves d0))
      (\<lambda>_ w'. evolves d0 (w_committed w')) w"
    using w by (auto simp: lease_claim_next_def wp_bind wp_utc_now wp_some_or_raise wp_select wp_lift_sum
        split: option.split sum.split intro!: wp_grant_all waiting_candidates)
qed

lemma settles_lease_next: "settles (evolves d0) (lease_next e tn worker caps acc n ttl)"
proof -
  have "settles (evolves d0) (accept_lease e tn worker caps l)" for l
    by (rule settles_keeps)
      (auto simp: accept_lease_def intro!: keeps_intros protocol.keeps_engine_emit)
  then show ?thesis
    unfolding lease_next_def by (intro settles_bind settles_claim_next settles_for_each settles_leaves settles_return)
qed

lemma settles_renew: "settles (evolves d0) (lease_renew e tn tid lid worker extend_by)"
  unfolding settles_def
proof (intro allI impI)
  fix w assume w: "both (evolves d0) w"
  then have ev: "evolves d0 (w_db w)" "evolves d0 (w_committed w)" by (simp_all add: on_db_def)
  note ok = evolves_schema [OF ev(1)]
  have found: "scalar_one_or_none MultipleResultsFound (filter (held_by tn tid lid worker) (db_leases (w_db w))) =
      Inr (case lease_of (w_db w) (tn, tid) of None \<Rightarrow> None
        | Some l \<Rightarrow> if held_by tn tid lid worker l then Some l else None)"
    by (rule scalar_filter_lease [OF ok]) (simp add: held_by_def l_key_def)
  have step: "evolves d0 (set_lease lid (renewed ex (l_renewal_count l + 1)) (w_db w))"
    if l: "lease_of (w_db w) (tn, tid) = Some l" and h: "held_by tn tid lid worker l" for l ex
  proof (rule evolves_step [where k = "(tn, tid)", OF ev(1)])
    have mem: "l \<in> set (db_leases (w_db w))" "l_id l = lid" "l_key l = (tn, tid)"
      using l ok h by (simp_all add: lease_of_iff held_by_def)
    then show "schema_ok (set_lease lid (renewed ex (l_renewal_count l + 1)) (w_db w))"
      by (intro schema.upd_lease [OF ok, of tn]) (use h in \<open>auto simp: held_by_def\<close>)
    note new = lease_of_set_lease [OF ok mem(1,2) renewed_frozen]
    show "cell_step (cell (w_db w) (tn, tid)) (cell (set_lease lid (renewed ex (l_renewal_count l + 1)) (w_db w)) (tn, tid))"
      using l mem by (simp add: cell_def new) (rule cell_step.Renew)
    show "cell (set_lease lid (renewed ex (l_renewal_count l + 1)) (w_db w)) k' = cell (w_db w) k'"
      if "k' \<noteq> (tn, tid)" for k'
      using that mem by (simp add: cell_def new)
  qed
  show "wp (lease_renew e tn tid lid worker extend_by) (\<lambda>_. both (evolves d0)) (\<lambda>_ w'. evolves d0 (w_committed w')) w"
    using w ev step
    by (auto simp: lease_renew_def wp_simps found on_db_def split: option.split)
qed

lemma settles_renew_lease: "settles (evolves d0) (renew_lease e tn worker tid lid ext)"
  unfolding renew_lease_def by (intro settles_bind settles_seq settles_leaves settles_renew settles_return)

subsection \<open>Executing\<close>

text \<open>After the guard the lease is there and its task is in flight.\<close>

lemma wp_guarded:
  assumes w: "both (evolves d0) w"
    and ok: "\<And>t l w'. \<lbrakk>both (evolves d0) w'; task_of (w_db w') (tn, tid) = Some t; in_flight (t_status t);
        lease_of (w_db w') (tn, tid) = Some l; l_id l = lid\<rbrakk> \<Longrightarrow> Q t w'"
    and err: "\<And>x w'. both (evolves d0) w' \<Longrightarrow> E x w'"
  shows "wp (require_lease e tn tid lid worker) Q E w"
proof -
  have ev: "evolves d0 (w_db w)" using w by (simp add: on_db_def)
  let ?w = "w\<lparr>w_clock := Suc (w_clock w)\<rparr>"
  have w': "both (evolves d0) ?w" using w by simp
  have "Q (the (task_of (w_db w) (tn, tid))) ?w"
    if held: "holds (w_db w) tn tid lid worker (e_clock e (w_clock w))"
  proof -
    obtain l where l: "lease_of (w_db w) (tn, tid) = Some l" "l_id l = lid" using holds_lease [OF held] by blast
    obtain t where t: "task_of (w_db w) (tn, tid) = Some t" "in_flight (t_status t)"
      using held_in_flight [OF ev l(1)] by blast
    show ?thesis using ok [OF w', of t l] l t by simp
  qed
  then show ?thesis
    using err [OF w'] by (simp add: wp_require_lease [OF evolves_schema [OF ev]] Let_def)
qed

lemma wp_transition:
  assumes w: "both (evolves d0) w" and t: "task_of (w_db w) (tn, t_id t) = Some t"
  shows "wp (transition_to_running e tn t worker lid owner ps)
    (\<lambda>_. both (evolves d0)) (\<lambda>_ w'. evolves d0 (w_committed w')) w"
proof (cases "t_status t = LEASED")
  case True
  have "wp (seq (bind (task_update_status e tn (t_id t) RUNNING None (Some st)) (\<lambda>_. return ()))
             (bind (engine_emit e tn TASK_STARTED (worker_principal worker) owner (Some (t_id t))
                (Some lid) (Some (body_task_started (Some st))) ps) (\<lambda>_. return st)))
      (\<lambda>_. both (evolves d0)) (\<lambda>_ w'. evolves d0 (w_committed w')) w'"
    if w': "both (evolves d0) w'" and db: "w_db w' = w_db w" for st w'
  proof -
    have ev: "evolves d0 (w_db w')" "evolves d0 (w_committed w')" using w' by (simp_all add: on_db_def)
    let ?d = "set_tasks tn (t_id t) (with_status (e_clock e (w_clock w')) RUNNING None (Some st)) (w_db w')"
    have "evolves d0 ?d"
      by (rule evolves_task [OF ev(1)]) (use t db True in \<open>auto intro: cell_step.Start\<close>)
    then have "both (evolves d0) (w'\<lparr>w_clock := Suc (w_clock w'), w_db := ?d\<rparr>)" using ev by (simp add: on_db_def)
    then have "wp (engine_emit e tn TASK_STARTED (worker_principal worker) owner (Some (t_id t))
                (Some lid) (Some (body_task_started (Some st))) ps)
        (\<lambda>_. both (evolves d0)) (\<lambda>_ w'. evolves d0 (w_committed w'))
        (w'\<lparr>w_clock := Suc (w_clock w'), w_db := ?d\<rparr>)"
      by (intro wp_announce protocol.keeps_engine_emit) simp
    then show ?thesis
      by (simp add: wp_bind wp_seq wp_return wp_return_fun wp_task_update_status evolves_schema [OF ev(1)] Let_def)
  qed
  note body = this
  have saved: "wp (savepoint m) (\<lambda>_. both (evolves d0)) (\<lambda>_ w'. evolves d0 (w_committed w')) w'"
    if "wp m (\<lambda>_. both (evolves d0)) (\<lambda>_ w'. evolves d0 (w_committed w')) w'" for m :: "datetime M" and w'
    using that by (simp add: wp_savepoint)
  show ?thesis
    unfolding transition_to_running_def using True w
    by (cases "t_started_at t")
      (auto simp: wp_bind wp_seq wp_ensure wp_utc_now wp_return intro!: saved body)
next
  case False
  then show ?thesis
    using w by (auto simp: transition_to_running_def wp_simps on_db_def split: option.split)
qed

lemma settles_report_progress: "settles (evolves d0) (report_progress e tn worker tid lid v)"
  unfolding settles_def
proof (intro allI impI)
  fix w assume w: "both (evolves d0) w"
  let ?Q = "\<lambda>_. both (evolves d0)" and ?E = "\<lambda>_ w'. evolves d0 (w_committed w')"
  have tail: "keeps (both (evolves d0)) (bind (progress_update e tn tid v) (\<lambda>_.
      bind (engine_emit e tn TASK_PROGRESS (worker_principal worker) owner (Some tid) (Some lid)
              (Some [(''progress'', JDict v)]) parents) (\<lambda>_. return True)))" for owner parents
    by (auto intro!: keeps_intros protocol.keeps_engine_emit protocol.keeps_progress_update)
  have start: "wp (if t_status t = LEASED then bind (transition_to_running e tn t worker lid owner parents) (\<lambda>_. return ())
      else return ()) ?Q ?E w'"
    if "both (evolves d0) w'" "task_of (w_db w') (tn, tid) = Some t" for t w' owner parents
  proof -
    have "t_id t = tid" using task_of_Some [OF that(2)] by (simp add: t_key_def)
    with that show ?thesis
      using wp_transition [of d0 w' tn t e worker lid owner parents] by (simp add: wp_simps wp_return_fun)
  qed
  have body: "wp (seq (if t_status t = LEASED then bind (transition_to_running e tn t worker lid owner parents) (\<lambda>_. return ())
      else return ()) (bind (progress_update e tn tid v) (\<lambda>_.
      bind (engine_emit e tn TASK_PROGRESS (worker_principal worker) owner (Some tid) (Some lid)
              (Some [(''progress'', JDict v)]) parents) (\<lambda>_. return True)))) ?Q ?E w'"
    if "both (evolves d0) w'" "task_of (w_db w') (tn, tid) = Some t" for t w' owner parents
    unfolding wp_seq by (rule wp_mono [OF start [OF that]]) (auto intro!: wp_announce tail)
  show "wp (report_progress e tn worker tid lid v) ?Q ?E w"
    unfolding report_progress_def wp_bind [of "require_lease e tn tid lid worker"]
  proof (rule wp_guarded [OF w])
    fix t l w' assume w': "both (evolves d0) w'" "task_of (w_db w') (tn, tid) = Some t"
    let ?I = "\<lambda>w'. both (evolves d0) w' \<and> task_of (w_db w') (tn, tid) = Some t"
    show "wp (bind (owner_and_parents tn t) (\<lambda>(owner, parents, _). seq
        (if t_status t = LEASED then bind (transition_to_running e tn t worker lid owner parents) (\<lambda>_. return ())
         else return ()) (bind (progress_update e tn tid v) (\<lambda>_.
        bind (engine_emit e tn TASK_PROGRESS (worker_principal worker) owner (Some tid) (Some lid)
              (Some [(''progress'', JDict v)]) parents) (\<lambda>_. return True))))) ?Q ?E w'"
      unfolding wp_bind [of "owner_and_parents tn t"]
      by (rule wp_then [where I = ?I]) (use w' body in \<open>auto simp: on_db_def split: prod.split\<close>)
  qed (simp add: on_db_def)
qed

lemma settles_start_task: "settles (evolves d0) (start_task e tn worker tid lid)"
  unfolding settles_def
proof (intro allI impI)
  fix w assume w: "both (evolves d0) w"
  let ?Q = "\<lambda>_. both (evolves d0)" and ?E = "\<lambda>_ w'. evolves d0 (w_committed w')"
  show "wp (start_task e tn worker tid lid) ?Q ?E w"
    unfolding start_task_def wp_bind [of "require_lease e tn tid lid worker"]
  proof (rule wp_guarded [OF w])
    fix t l w' assume w': "both (evolves d0) w'" and t: "task_of (w_db w') (tn, tid) = Some t"
    have id: "t_id t = tid" using task_of_Some [OF t] by (simp add: t_key_def)
    let ?I = "\<lambda>w'. both (evolves d0) w' \<and> task_of (w_db w') (tn, t_id t) = Some t"
    have "wp (bind (owner_and_parents tn t) (\<lambda>(owner, parents, _).
        bind (transition_to_running e tn t worker lid owner parents) (\<lambda>started. return (Some started)))) ?Q ?E w'"
      unfolding wp_bind [of "owner_and_parents tn t"]
      by (rule wp_then [where I = ?I])
        (use w' t id in \<open>auto simp: wp_bind wp_return_fun split: prod.split
           intro!: wp_transition intro: on_db_def [THEN iffD1, THEN conjunct2]\<close>)
    then show "wp (if t_status t = RUNNING then return (t_started_at t)
        else bind (owner_and_parents tn t) (\<lambda>(owner, parents, _).
          bind (transition_to_running e tn t worker lid owner parents) (\<lambda>started. return (Some started)))) ?Q ?E w'"
      using w' by (simp add: wp_return)
  qed (simp add: on_db_def)
qed

subsection \<open>Completing and failing\<close>

lemma settles_complete_atomic:
  "settles (evolves d0) (complete_atomic e tn worker tid lid res art ob)"
  unfolding settles_def
proof (intro allI impI)
  fix w assume w: "both (evolves d0) w"
  let ?Q = "\<lambda>_. both (evolves d0)" and ?E = "\<lambda>_ w'. evolves d0 (w_committed w')"
  show "wp (complete_atomic e tn worker tid lid res art ob) ?Q ?E w"
    unfolding complete_atomic_def wp_bind [of "require_lease e tn tid lid worker"]
  proof (rule wp_guarded [OF w])
    fix t l w'
    assume w': "both (evolves d0) w'" and t: "task_of (w_db w') (tn, tid) = Some t" "in_flight (t_status t)"
      and l: "lease_of (w_db w') (tn, tid) = Some l" "l_id l = lid"
    have ev: "evolves d0 (w_db w')" "evolves d0 (w_committed w')" using w' by (simp_all add: on_db_def)
    let ?f = "\<lambda>now r. with_status now SUCCEEDED (Some r) None"
    have "evolves d0 (drop_leases tn tid (Some lid) (set_tasks tn tid (?f now r) (w_db w')))"
      if "tr_outcome r = O_SUCCEEDED" for now r
      using evolves_end [OF ev(1) t(1) l(1), of "?f now r"] t l that
      by (simp add: cell_step.Finish)
    then show "wp (seq (ensure (can_transition_to t SUCCEEDED) (InvalidStateTransition (t_status t) SUCCEEDED))
     (bind (utc_now e) (\<lambda>now.
      seq (ensure (artifacts_valid art) ValidationError)
     (bind (task_update_status e tn tid SUCCEEDED
              (Some \<lparr>tr_outcome = O_SUCCEEDED, tr_result = Some res, tr_error = None,
                     tr_artifacts = art, tr_completed_at = now\<rparr>) None) (\<lambda>_.
      bind (lease_release tn tid (Some lid)) (\<lambda>_.
      announce_complete e tn worker tid lid res art ob)))))) ?Q ?E w'"
      using ev by (auto simp: wp_seq wp_ensure wp_bind wp_utc_now wp_task_update_status evolves_schema
          wp_lease_release Let_def intro!: wp_announce protocol.keeps_announce)
  qed (simp add: on_db_def)
qed

lemma evolves_complete: "keeps (both (evolves d0)) (complete e tn worker tid lid res art)"
  by (auto simp: complete_def intro!: keeps_intros keeps_savepoint_settles settles_complete_atomic)

lemma wp_fail_terminal:
  assumes w: "both (evolves d0) w" and t: "task_of (w_db w) (tn, tid) = Some t" "in_flight (t_status t)"
    and l: "lease_of (w_db w) (tn, tid) = Some l" "l_id l = lid"
  shows "wp (bind (lease_release tn tid (Some lid)) (\<lambda>_. fail_terminal e tn worker tid lid err ob))
    (\<lambda>_. both (evolves d0)) (\<lambda>_ w'. evolves d0 (w_committed w')) w"
proof -
  have ev: "evolves d0 (w_db w)" "evolves d0 (w_committed w)" using w by (simp_all add: on_db_def)
  let ?f = "\<lambda>now r. with_status now FAILED (Some r) None"
  have "evolves d0 (drop_leases tn tid (Some lid) (set_tasks tn tid (?f now r) (w_db w)))"
    if "tr_outcome r = O_FAILED" for now r
    using evolves_end [OF ev(1) t(1) l(1), of "?f now r"] t l that by (simp add: cell_step.Finish)
  then show ?thesis
    using ev by (auto simp: fail_terminal_def wp_seq wp_bind wp_utc_now wp_task_update_status
        evolves_schema wp_lease_release Let_def set_tasks_drop wp_return_fun
        intro!: wp_announce protocol.keeps_announce)
qed

lemma wp_fail_requeue:
  assumes w: "both (evolves d0) w" and t: "task_of (w_db w) (tn, tid) = Some t" "in_flight (t_status t)"
    and l: "lease_of (w_db w) (tn, tid) = Some l" "l_id l = lid" and more: "t_attempt t + 1 < t_max_attempts t"
  shows "wp (bind (lease_release tn tid (Some lid)) (\<lambda>_. fail_requeue e tn worker tid lid err ob))
    (\<lambda>_. both (evolves d0)) (\<lambda>_ w'. evolves d0 (w_committed w')) w"
proof -
  have ev: "evolves d0 (w_db w)" "evolves d0 (w_committed w)" using w by (simp_all add: on_db_def)
  let ?f = "\<lambda>now el. requeued now (t_attempt t + 1) el"
  have "evolves d0 (drop_leases tn tid (Some lid) (set_tasks tn tid (?f now el) (w_db w)))" for now el
    using evolves_end [OF ev(1) t(1) l(1), of "?f now el"] t l more by (simp add: cell_step.Retry)
  then show ?thesis
    using ev t by (auto simp: fail_requeue_def task_requeue_with_backoff_def wp_seq wp_bind wp_utc_now
        wp_task_get wp_some_or_raise wp_update_task evolves_schema wp_lease_release Let_def set_tasks_drop
        wp_return_fun split: option.split intro!: wp_announce protocol.keeps_announce)
qed

lemma wp_fail_atomic:
  assumes w: "both (evolves d0) w"
    and more: "\<And>t. requeue \<Longrightarrow> task_of (w_db w) (tn, tid) = Some t \<Longrightarrow> t_attempt t + 1 < t_max_attempts t"
  shows "wp (fail_atomic e tn worker tid lid err requeue ob)
    (\<lambda>_. both (evolves d0)) (\<lambda>_ w'. evolves d0 (w_committed w')) w"
proof -
  let ?Q = "\<lambda>_. both (evolves d0)" and ?E = "\<lambda>_ w'. evolves d0 (w_committed w')"
  let ?w = "w\<lparr>w_clock := Suc (w_clock w)\<rparr>"
  have ev: "evolves d0 (w_db w)" using w by (simp add: on_db_def)
  have w': "both (evolves d0) ?w" using w by simp
  have "wp (bind (lease_release tn tid (Some lid)) (\<lambda>_.
      if requeue then fail_requeue e tn worker tid lid err ob else fail_terminal e tn worker tid lid err ob)) ?Q ?E ?w"
    if held: "holds (w_db w) tn tid lid worker (e_clock e (w_clock w))"
  proof -
    obtain l where l: "lease_of (w_db ?w) (tn, tid) = Some l" "l_id l = lid" using holds_lease [OF held] by auto
    obtain t where t: "task_of (w_db ?w) (tn, tid) = Some t" "in_flight (t_status t)"
      using held_in_flight [OF ev, of tn tid l] l(1) by auto
    show ?thesis
      using wp_fail_requeue [OF w' t l] wp_fail_terminal [OF w' t l] more t by (cases requeue) simp_all
  qed
  then show ?thesis
    unfolding fail_atomic_def wp_bind [of "require_lease e tn tid lid worker"]
      wp_require_lease [OF evolves_schema [OF ev]]
    using w by (simp add: Let_def on_db_def)
qed

lemma evolves_fail_task: "keeps (both (evolves d0)) (fail_task e tn worker tid lid err retryable)"
  unfolding keeps_wp
proof (intro allI impI)
  fix w assume w: "both (evolves d0) w"
  let ?ok = "\<lambda>requeue w'. both (evolves d0) w' \<and>
      (requeue \<longrightarrow> (\<forall>t. task_of (w_db w') (tn, tid) = Some t \<longrightarrow> t_attempt t + 1 < t_max_attempts t))"
  have check: "wp (fail_check e tn worker tid lid retryable) (\<lambda>(requeue, ob). ?ok requeue) (\<lambda>_. both (evolves d0)) w"
    unfolding fail_check_def wp_bind [of "require_lease e tn tid lid worker"]
  proof (rule wp_guarded [OF w])
    fix t l w' assume w': "both (evolves d0) w'" "task_of (w_db w') (tn, tid) = Some t"
    show "wp (bind (get_task_obligation_or_raise tn tid (Some (resolve_obligation_owner (t_created_by t))))
        (\<lambda>ob. return (should_requeue retryable t, ob))) (\<lambda>(requeue, ob). ?ok requeue) (\<lambda>_. both (evolves d0)) w'"
      unfolding wp_bind
      by (rule wp_then [where I = "\<lambda>w'. both (evolves d0) w' \<and> task_of (w_db w') (tn, tid) = Some t"])
        (use w' in \<open>auto simp: wp_return should_requeue_def\<close>)
  qed simp
  have atomic: "wp (savepoint (fail_atomic e tn worker tid lid err requeue ob))
      (\<lambda>_. both (evolves d0)) (\<lambda>_. both (evolves d0)) w'" if ok: "?ok requeue w'" for requeue ob w'
    unfolding wp_savepoint
    by (rule wp_mono [OF wp_fail_atomic]) (use ok in \<open>auto simp: on_db_def\<close>)
  show "wp (fail_task e tn worker tid lid err retryable) (\<lambda>_. both (evolves d0)) (\<lambda>_. both (evolves d0)) w"
    unfolding fail_task_def wp_bind [of "fail_check e tn worker tid lid retryable"]
    by (rule wp_mono [OF check]) (auto simp: wp_bind wp_return_fun split: prod.split intro!: atomic)
qed

subsection \<open>Ending by the service: expiry, cancellation, reconciliation\<close>

lemma wp_expire_atomic:
  assumes w: "both (evolves d0) w" and l: "lease_of (w_db w) (l_key l) = Some l"
  shows "wp (expire_atomic e l t jitter owner ps ob) (\<lambda>_. both (evolves d0)) (\<lambda>_ w'. evolves d0 (w_committed w')) w"
proof -
  have ev: "evolves d0 (w_db w)" "evolves d0 (w_committed w)" using w by (simp_all add: on_db_def)
  have key: "l_key l = (l_tenant l, l_task l)" by (simp add: l_key_def)
  obtain t where t: "task_of (w_db w) (l_tenant l, l_task l) = Some t" "in_flight (t_status t)"
    using held_in_flight [OF ev(1), of "l_tenant l" "l_task l" l] l key by auto
  let ?f = "\<lambda>now el. requeued now (t_attempt t) el"
  have "evolves d0 (drop_leases (l_tenant l) (l_task l) (Some (l_id l))
      (set_tasks (l_tenant l) (l_task l) (?f now el) (w_db w)))" for now el
    using evolves_end [OF ev(1) t(1), of l "?f now el"] t l key by (simp add: cell_step.Lapse)
  then show ?thesis
    using ev t by (auto simp: expire_atomic_def task_requeue_on_expiry_def wp_seq wp_bind wp_utc_now
        wp_task_get wp_some_or_raise wp_update_task evolves_schema wp_lease_release Let_def
        split: option.split intro!: wp_announce protocol.keeps_announce)
qed

text \<open>The expiry of one lease leaves the leases of the other tasks alone.\<close>

interpretation elsewhere: side_frame "\<lambda>d c. \<forall>k. k \<noteq> k0 \<longrightarrow> lease_of d k = L k" "\<lambda>_. True" for k0 L
  by unfold_locales (simp_all add: lease_of_def)

lemma keeps_savepoint_db: "keeps (on_db (\<lambda>d c. R d)) m \<Longrightarrow> keeps (on_db (\<lambda>d c. R d)) (savepoint m)"
  unfolding keeps_wp wp_savepoint
proof (intro allI impI)
  fix w assume m: "\<forall>w. on_db (\<lambda>d c. R d) w \<longrightarrow> wp m (\<lambda>_. on_db (\<lambda>d c. R d)) (\<lambda>_. on_db (\<lambda>d c. R d)) w"
    and w: "on_db (\<lambda>d c. R d) w"
  show "wp m (\<lambda>_. on_db (\<lambda>d c. R d)) (\<lambda>_ w'. on_db (\<lambda>d c. R d) (w'\<lparr>w_db := w_db w\<rparr>)) w"
    by (rule wp_mono [OF m [rule_format, OF w]]) (use w in \<open>simp_all add: on_db_def\<close>)
qed

lemma keeps_expire_elsewhere:
  "keeps (on_db (\<lambda>d c. \<forall>k. k \<noteq> l_key l \<longrightarrow> lease_of d k = L k)) (expire_one e l)"
proof -
  have requeue: "keeps (on_db (\<lambda>d c. \<forall>k. k \<noteq> k0 \<longrightarrow> lease_of d k = L k)) (task_requeue_on_expiry e tn tid j)"
    for k0 tn tid j
    unfolding keeps_wp
    by (auto simp: task_requeue_on_expiry_def wp_simps task_get_def wp_one_or_none on_db_def
        split: sum.split option.split)
  have release: "keeps (on_db (\<lambda>d c. \<forall>k. k \<noteq> l_key l \<longrightarrow> lease_of d k = L k))
      (lease_release (l_tenant l) (l_task l) i)" for i
    by (auto simp: keeps_wp wp_lease_release on_db_def l_key_def)
  have "keeps (on_db (\<lambda>d c. \<forall>k. k \<noteq> l_key l \<longrightarrow> lease_of d k = L k)) (expire_atomic e l t j owner ps ob)"
    for t j owner ps ob
    unfolding expire_atomic_def
    by (intro keeps_bind requeue release elsewhere.keeps_announce) simp
  then show ?thesis
    by (auto simp: expire_one_def intro!: keeps_intros keeps_savepoint_db)
qed

lemma wp_expire_one:
  assumes w: "both (evolves d0) w" and l: "lease_of (w_db w) (l_key l) = Some l"
  shows "wp (expire_one e l) (\<lambda>_. both (evolves d0)) (\<lambda>_. both (evolves d0)) w"
proof -
  let ?Q = "\<lambda>_. both (evolves d0)"
  let ?I = "\<lambda>w'. both (evolves d0) w' \<and> lease_of (w_db w') (l_key l) = Some l"
  have atomic: "wp (savepoint (expire_atomic e l t j owner ps ob)) ?Q ?Q w'" if "?I w'" for t j owner ps ob w'
    unfolding wp_savepoint
    by (rule wp_mono [OF wp_expire_atomic]) (use that in \<open>auto simp: on_db_def\<close>)
  have round: "wp (try_except
      (seq (savepoint (expire_atomic e l t j owner ps ob))
        (seq (metric (inc_counter ''leases.expired'' 1)) (return True)))
      (\<lambda>_. seq (metric (inc_counter ''leases.expired.failed'' 1)) (return False))) ?Q ?Q w'"
    if "?I w'" for t j owner ps ob w'
    unfolding wp_try_except wp_seq
    by (rule wp_mono [OF atomic [OF that]]) (simp_all add: wp_metric wp_return)
  have jitter: "wp (bind (uniform_jitter e) (\<lambda>j. try_except
      (seq (savepoint (expire_atomic e l t j owner ps ob))
        (seq (metric (inc_counter ''leases.expired'' 1)) (return True)))
      (\<lambda>_. seq (metric (inc_counter ''leases.expired.failed'' 1)) (return False)))) ?Q ?Q w'"
    if "?I w'" for t owner ps ob w'
    unfolding wp_bind wp_uniform_jitter by (rule round) (use that in simp)
  show ?thesis
    unfolding expire_one_def wp_bind [of "task_get (l_tenant l) (l_task l)"]
  proof (rule wp_then [where I = ?I])
    fix found w' assume w': "?I w'"
    have "wp (bind (owner_and_parents (l_tenant l) t) (\<lambda>(owner, parents, ob).
        bind (uniform_jitter e) (\<lambda>j. try_except
          (seq (savepoint (expire_atomic e l t j owner parents ob))
            (seq (metric (inc_counter ''leases.expired'' 1)) (return True)))
          (\<lambda>_. seq (metric (inc_counter ''leases.expired.failed'' 1)) (return False))))) ?Q ?Q w'" for t
      unfolding wp_bind [of "owner_and_parents (l_tenant l) t"]
      by (rule wp_then [where I = ?I]) (use w' jitter in \<open>auto split: prod.split\<close>)
    then show "wp (case found of None \<Rightarrow> return False | Some t \<Rightarrow> if is_terminal t then return False
       else bind (owner_and_parents (l_tenant l) t) (\<lambda>(owner, parents, ob).
        bind (uniform_jitter e) (\<lambda>j. try_except
          (seq (savepoint (expire_atomic e l t j owner parents ob))
            (seq (metric (inc_counter ''leases.expired'' 1)) (return True)))
          (\<lambda>_. seq (metric (inc_counter ''leases.expired.failed'' 1)) (return False))))) ?Q ?Q w'"
      using w' by (auto simp: wp_return split: option.split)
  qed (use w l in \<open>auto simp: task_get_def\<close>)
qed

lemma wp_expire_loop:
  assumes "both (evolves d0) w" "\<forall>l \<in> set ls. lease_of (w_db w) (l_key l) = Some l" "distinct (map l_key ls)"
  shows "wp (expire_loop e n ls c0) (\<lambda>_. both (evolves d0)) (\<lambda>_. both (evolves d0)) w"
  using assms
proof (induction ls arbitrary: w c0)
  case (Cons l ls)
  let ?R = "\<lambda>d. \<forall>k. k \<noteq> l_key l \<longrightarrow> lease_of d k = lease_of (w_db w) k"
  have one: "wp (expire_one e l) (\<lambda>_ w'. both (evolves d0) w' \<and> ?R (w_db w'))
      (\<lambda>_ w'. both (evolves d0) w' \<and> ?R (w_db w')) w"
  proof (intro wp_conj wp_expire_one)
    have "on_db (\<lambda>d c. ?R d) w" by (simp add: on_db_def)
    with keeps_expire_elsewhere [of l "lease_of (w_db w)" e]
    have "wp (expire_one e l) (\<lambda>_. on_db (\<lambda>d c. ?R d)) (\<lambda>_. on_db (\<lambda>d c. ?R d)) w"
      unfolding keeps_wp by blast
    then show "wp (expire_one e l) (\<lambda>_ w'. ?R (w_db w')) (\<lambda>_ w'. ?R (w_db w')) w"
      by (rule wp_mono) (simp_all only: on_db_def)
  qed (use Cons.prems in auto)
  have rest: "wp (expire_loop e n ls c) (\<lambda>_. both (evolves d0)) (\<lambda>_. both (evolves d0)) w'"
    if w': "both (evolves d0) w'" "?R (w_db w')" for c w'
  proof (rule Cons.IH [OF w'(1)])
    show "\<forall>x \<in> set ls. lease_of (w_db w') (l_key x) = Some x"
    proof
      fix x assume x: "x \<in> set ls"
      then have "l_key x \<in> l_key ` set ls" by simp
      with Cons.prems(3) have "l_key x \<noteq> l_key l" by (metis distinct.simps(2) list.set_map list.simps(9))
      with w'(2) x Cons.prems(2) show "lease_of (w_db w') (l_key x) = Some x" by simp
    qed
  qed (use Cons.prems in simp)
  have "wp (if expired then seq (if (c0 + 1) mod n = 0 then session_commit else return ())
            (expire_loop e n ls (c0 + 1)) else expire_loop e n ls c0)
      (\<lambda>_. both (evolves d0)) (\<lambda>_. both (evolves d0)) w'"
    if "both (evolves d0) w'" "?R (w_db w')" for expired w'
    using that rest [of "w'\<lparr>w_committed := w_db w'\<rparr>"] rest [OF that]
    by (auto simp: wp_seq wp_session_commit wp_return on_db_def)
  then show ?case
    unfolding expire_loop.simps wp_bind [of "expire_one e l"]
    by (intro wp_mono [OF one]) auto
qed (simp add: wp_return)

lemma settles_expire_leases: "settles (evolves d0) (expire_leases e n)"
  unfolding settles_def
proof (intro allI impI)
  fix w assume w: "both (evolves d0) w"
  then have ok: "schema_ok (w_db w)" "evolves d0 (w_committed w)" by (auto simp: on_db_def evolves_schema)
  let ?ls = "filter (expired_at (e_clock e (w_clock w)) (Some (instance_id (cfg e))) (db_tasks (w_db w)))
      (db_leases (w_db w))"
  have "wp (expire_loop e n (take 100 ?ls) 0) (\<lambda>_. both (evolves d0)) (\<lambda>_. both (evolves d0))
      (w\<lparr>w_clock := Suc (w_clock w)\<rparr>)"
  proof (rule wp_expire_loop)
    show "\<forall>l \<in> set (take 100 ?ls). lease_of (w_db (w\<lparr>w_clock := Suc (w_clock w)\<rparr>)) (l_key l) = Some l"
      using ok by (auto simp: lease_of_iff dest!: in_set_takeD)
    show "distinct (map l_key (take 100 ?ls))"
      using schema_keys(3) [OF ok(1)] by (simp add: take_map [symmetric] distinct_take distinct_map_filter)
  qed (use w in simp)
  then have "wp (expire_loop e n (take 100 ?ls) 0) (\<lambda>_. both (evolves d0)) (\<lambda>_ w'. evolves d0 (w_committed w'))
      (w\<lparr>w_clock := Suc (w_clock w)\<rparr>)"
    by (rule wp_mono) (simp_all add: on_db_def)
  then show "wp (expire_leases e n) (\<lambda>_. both (evolves d0)) (\<lambda>_ w'. evolves d0 (w_committed w')) w"
    by (simp add: expire_leases_def lease_get_expired_def wp_bind wp_utc_now wp_select wp_lift_sum sql_limit_def)
qed

lemma evolves_sweep: "keeps (both (evolves d0)) (sweep_once e)"
  by (auto simp: sweep_once_def intro!: keeps_intros keeps_session_settles settles_expire_leases)

lemma wp_cancel_atomic:
  assumes w: "both (evolves d0) w"
    and t: "task_of (w_db w) (tn, tid) = Some t" "\<not> is_terminal t"
  shows "wp (cancel_atomic e tn tid p reason owner ps)
    (\<lambda>_. both (evolves d0)) (\<lambda>_ w'. evolves d0 (w_committed w')) w"
proof -
  have ev: "evolves d0 (w_db w)" "evolves d0 (w_committed w)" using w by (simp_all add: on_db_def)
  let ?f = "\<lambda>now r. with_status now CANCELED (Some r) None"
  have "evolves d0 (drop_leases tn tid None (set_tasks tn tid (?f now r) (w_db w)))"
    if "tr_outcome r = O_CANCELED" for now r
    using evolves_end_all [OF ev(1) t(1), of "?f now r"] t that by (simp add: cell_step.Cancel)
  then show ?thesis
    using ev t by (auto simp: cancel_atomic_def task_cancel_def wp_seq wp_bind wp_utc_now
        wp_task_get wp_some_or_raise wp_task_update_status evolves_schema wp_lease_release Let_def
        set_tasks_drop wp_return_fun intro!: wp_announce protocol.keeps_announce)
qed

lemma evolves_cancel_task: "keeps (both (evolves d0)) (cancel_task e tn tid who reason is_internal)"
  unfolding keeps_wp
proof (intro allI impI)
  fix w assume w: "both (evolves d0) w"
  let ?Q = "\<lambda>_. both (evolves d0)"
  have ok: "schema_ok (w_db w)" using w evolves_schema by (auto simp: on_db_def)
  have atomic: "wp (savepoint (cancel_atomic e tn tid p reason owner ps)) ?Q ?Q w'"
    if "both (evolves d0) w'" "task_of (w_db w') (tn, tid) = Some t" "\<not> is_terminal t" for p owner ps w' t
    unfolding wp_savepoint
    by (rule wp_mono [OF wp_cancel_atomic]) (use that in \<open>auto simp: on_db_def\<close>)
  have "wp (bind (get_task_obligation_or_raise tn tid hint) (\<lambda>ob.
      seq (lift_sum (may_cancel (r_to ob) p is_internal))
      (if is_terminal t then return (False, t_status t)
       else bind (savepoint (cancel_atomic e tn tid p reason (r_to ob) [r_id ob])) (\<lambda>t'.
         return (True, t_status t'))))) ?Q ?Q w" if t: "task_of (w_db w) (tn, tid) = Some t" for t hint p
    unfolding wp_bind [of "get_task_obligation_or_raise tn tid hint"]
    by (rule wp_then [where I = "\<lambda>w'. both (evolves d0) w' \<and> task_of (w_db w') (tn, tid) = Some t"])
      (use w t atomic in \<open>auto simp: wp_seq wp_lift_sum wp_bind wp_return wp_return_fun split: sum.split\<close>)
  then show "wp (cancel_task e tn tid who reason is_internal) ?Q ?Q w"
    unfolding cancel_task_def Let_def wp_bind [of "task_get tn tid"] wp_task_get [OF ok]
    using w by (simp add: wp_bind [of "some_or_raise _ _"] wp_some_or_raise split: option.split)
qed

lemma wp_settle_lease:
  assumes w: "both (evolves d0) w" and l: "lease_of (w_db w) (l_key l) = Some l" and tn: "l_tenant l = tn"
  shows "wp (settle_lease e tn owed l) (\<lambda>_. both (evolves d0)) (\<lambda>_ w'. evolves d0 (w_committed w')) w"
proof -
  have ev: "evolves d0 (w_db w)" "evolves d0 (w_committed w)" using w by (simp_all add: on_db_def)
  have key: "l_key l = (tn, l_task l)" using tn by (simp add: l_key_def)
  obtain t where t: "task_of (w_db w) (tn, l_task l) = Some t" "in_flight (t_status t)" "\<not> is_terminal t"
    using held_in_flight [OF ev(1), of tn "l_task l" l] l key by auto
  let ?f = "\<lambda>now. with_status now QUEUED None None"
  have "evolves d0 (drop_leases tn (l_task l) (Some (l_id l)) (set_tasks tn (l_task l) (?f now) (w_db w)))" for now
    using evolves_end [OF ev(1) t(1), of l "?f now"] t l key by (simp add: cell_step.Settle)
  then show ?thesis
    using w ev t tn by (auto simp: settle_lease_def wp_bind wp_return wp_task_get wp_task_update_status
        evolves_schema wp_lease_release Let_def set_tasks_drop)
qed

text \<open>Settling one lease leaves the leases of the other tasks alone.\<close>

lemma keeps_settle_elsewhere:
  "l_tenant l = tn \<Longrightarrow>
   keeps (on_db (\<lambda>d c. \<forall>k. k \<noteq> l_key l \<longrightarrow> lease_of d k = L k)) (settle_lease e tn owed l)"
proof -
  assume tn: "l_tenant l = tn"
  have release: "keeps (on_db (\<lambda>d c. \<forall>k. k \<noteq> l_key l \<longrightarrow> lease_of d k = L k))
      (lease_release (l_tenant l) (l_task l) i)" for i
    by (auto simp: keeps_wp wp_lease_release on_db_def l_key_def)
  have update: "keeps (on_db (\<lambda>d c. \<forall>k. k \<noteq> l_key l \<longrightarrow> lease_of d k = L k))
      (task_update_status e tn' tid s r st)" for tn' tid s r st
    unfolding keeps_wp
    by (auto simp: task_update_status_def wp_simps task_get_def wp_one_or_none on_db_def split: sum.split)
  show ?thesis
    by (auto simp: settle_lease_def task_get_def intro!: keeps_intros release update)
qed

lemma wp_settle_all:
  assumes "both (evolves d0) w" "\<forall>l \<in> set ls. l_tenant l = tn \<and> lease_of (w_db w) (l_key l) = Some l"
    "distinct (map l_key ls)"
  shows "wp (for_each (settle_lease e tn owed) ls) (\<lambda>_. both (evolves d0)) (\<lambda>_ w'. evolves d0 (w_committed w')) w"
  using assms
proof (induction ls arbitrary: w)
  case (Cons l ls)
  let ?R = "\<lambda>d. \<forall>k. k \<noteq> l_key l \<longrightarrow> lease_of d k = lease_of (w_db w) k"
  have l: "l_tenant l = tn" "lease_of (w_db w) (l_key l) = Some l" using Cons.prems by auto
  have one: "wp (settle_lease e tn owed l) (\<lambda>_ w'. both (evolves d0) w' \<and> ?R (w_db w'))
      (\<lambda>_ w'. evolves d0 (w_committed w') \<and> ?R (w_db w')) w"
  proof (intro wp_conj wp_settle_lease)
    have "on_db (\<lambda>d c. ?R d) w" by (simp add: on_db_def)
    with keeps_settle_elsewhere [OF l(1), of "lease_of (w_db w)" e owed]
    have "wp (settle_lease e tn owed l) (\<lambda>_. on_db (\<lambda>d c. ?R d)) (\<lambda>_. on_db (\<lambda>d c. ?R d)) w"
      unfolding keeps_wp by blast
    then show "wp (settle_lease e tn owed l) (\<lambda>_ w'. ?R (w_db w')) (\<lambda>_ w'. ?R (w_db w')) w"
      by (rule wp_mono) (simp_all only: on_db_def)
  qed (use Cons.prems l in auto)
  have rest: "wp (bind (for_each (settle_lease e tn owed) ls) (\<lambda>ys. return (y # ys)))
      (\<lambda>_. both (evolves d0)) (\<lambda>_ w'. evolves d0 (w_committed w')) w'"
    if w': "both (evolves d0) w'" "?R (w_db w')" for w' and y :: "string list \<times> string list"
  proof -
    have "l_tenant x = tn \<and> lease_of (w_db w') (l_key x) = Some x" if x: "x \<in> set ls" for x
    proof -
      have "l_key x \<in> l_key ` set ls" using x by simp
      with Cons.prems(3) have "l_key x \<noteq> l_key l" by (metis distinct.simps(2) list.set_map list.simps(9))
      with w'(2) x Cons.prems(2) show ?thesis by simp
    qed
    with w'(1) Cons.prems(3) have "wp (for_each (settle_lease e tn owed) ls)
        (\<lambda>_. both (evolves d0)) (\<lambda>_ w'. evolves d0 (w_committed w')) w'" by (intro Cons.IH) auto
    then show ?thesis by (simp add: wp_bind wp_return_fun)
  qed
  show ?case
    unfolding for_each.simps wp_bind [of "settle_lease e tn owed l"]
    by (rule wp_mono [OF one]) (auto intro!: rest)
qed (simp add: wp_return)

lemma settles_reconcile: "settles (evolves d0) (reconcile_worker e tn worker)"
proof -
  have rounds: "settles (evolves d0) (bind (lease_list_for_worker tn worker) (\<lambda>ls.
      bind (for_each (settle_lease e tn owed) ls) (\<lambda>rounds. return (f ls rounds))))" for owed f
    unfolding settles_def
  proof (intro allI impI)
    fix w assume w: "both (evolves d0) w"
    then have ok: "schema_ok (w_db w)" using evolves_schema by (auto simp: on_db_def)
    let ?ls = "filter (\<lambda>l. l_tenant l = tn \<and> l_worker l = worker) (db_leases (w_db w))"
    have "wp (for_each (settle_lease e tn owed) ?ls) (\<lambda>_. both (evolves d0)) (\<lambda>_ w'. evolves d0 (w_committed w')) w"
      by (rule wp_settle_all [OF w])
        (use ok schema_keys(3) [OF ok] in \<open>auto simp: lease_of_iff distinct_map_filter\<close>)
    then show "wp (bind (lease_list_for_worker tn worker) (\<lambda>ls.
        bind (for_each (settle_lease e tn owed) ls) (\<lambda>rounds. return (f ls rounds))))
        (\<lambda>_. both (evolves d0)) (\<lambda>_ w'. evolves d0 (w_committed w')) w"
      by (simp add: lease_list_for_worker_def wp_bind wp_select wp_return_fun)
  qed
  show ?thesis
    unfolding reconcile_worker_def
  proof (rule settles_bind)
    show "settles (evolves d0) (list_custody e worker 200)" by (rule settles_keeps) simp
  qed (rule settles_bind [OF settles_leaves(3) rounds])
qed

section \<open>The tools and the service\<close>

lemma settles_create_task:
  "settles (evolves d0) (create_task e tn ty pl cb ai pp rq ek em pr ik ma bo dl is_int)"
proof -
  have emit: "settles (evolves d0) (engine_emit e tn ty' from_p to_p task lease body ps)"
    for ty' from_p to_p task lease body ps
    by (rule settles_keeps) (rule protocol.keeps_engine_emit, simp)
  show ?thesis
    unfolding create_task_def Let_def
    by (intro settles_seq settles_bind settles_leaves settles_return settles_task_create emit)
qed

lemma settles_arguments [settles_intros]:
  "settles Q (the_arg f args k)" "settles Q (get_arg f args k)" "settles Q (opt_uuid args k)"
  "settles Q (agent_principal args)" "settles Q (lease_args a args)"
  by (rule settles_keeps; auto simp: the_arg_def get_arg_def opt_uuid_def agent_principal_def lease_args_def
      split: json.split intro!: keeps_intros)+

lemmas settles_operations = settles_create_task settles_lease_next settles_renew_lease
  settles_report_progress settles_start_task settles_reconcile
  evolves_complete [THEN settles_keeps] evolves_fail_task [THEN settles_keeps]
  evolves_cancel_task [THEN settles_keeps]

lemma settles_tools: "settles (evolves d0) (call_tool e name a args)"
proof -
  have boot: "settles (evolves d0) (tool_bootstrap e a args)"
    by (rule settles_keeps)
      (auto simp: tool_bootstrap_def split: json.split intro!: keeps_intros protocol.keeps_relationship_upsert)
  have reads: "settles (evolves d0) (tool_get_task e a args)" "settles (evolves d0) (tool_list_tasks e a args)"
    "settles (evolves d0) (tool_list_receipts e a args)" "settles (evolves d0) (tool_list_receipts_ledger e a args)"
    "settles (evolves d0) (tool_check_terminator e a args)" "settles (evolves d0) (tool_health e)"
    "settles (evolves d0) (get_config e)"
    by (rule settles_keeps; auto simp: tool_get_task_def tool_list_tasks_def tool_list_receipts_def
        tool_list_receipts_ledger_def tool_check_terminator_def tool_health_def intro!: keeps_intros)+
  have ack: "settles (evolves d0) (tool_ack_receipt e a args)"
    by (rule settles_keeps) (auto simp: tool_ack_receipt_def intro!: keeps_intros protocol.keeps_ack_receipt)
  have writes: "settles (evolves d0) (tool_create_task e a args)" "settles (evolves d0) (tool_cancel_task e a args)"
    "settles (evolves d0) (tool_lease_next e a args)" "settles (evolves d0) (tool_renew_lease e a args)"
    "settles (evolves d0) (tool_report_progress e a args)" "settles (evolves d0) (tool_complete e a args)"
    "settles (evolves d0) (tool_fail e a args)"
    unfolding tool_create_task_def tool_cancel_task_def tool_lease_next_def tool_renew_lease_def
      tool_report_progress_def tool_complete_def tool_fail_def
    by (intro settles_bind settles_case_prod settles_operations settles_arguments settles_leaves settles_return)+
  show ?thesis
    using boot reads ack writes by (auto simp: call_tool_def tools_def)
qed

lemma evolves_handle_tool: "keeps (both (evolves d0)) (handle_tool e name args)"
proof -
  have "settles (evolves d0) (verify_token_arg e tok tn pa)" for tok tn pa
    by (rule settles_keeps)
      (auto simp: verify_token_arg_def split: json.split intro!: keeps_intros protocol.keeps_verify_auth_token)
  moreover have "settles (evolves d0) (set_trace_id t)" for t by (rule settles_keeps) simp
  ultimately show ?thesis
    unfolding handle_tool_def Let_def
    by (intro keeps_session_settles settles_bind settles_seq settles_leaves settles_tools)
qed

lemma evolves_mcp_entry: "keeps (both (evolves d0)) (mcp_entry e h k rq)"
  by (auto simp: mcp_entry_def Let_def intro!: keeps_intros evolves_handle_tool)

lemma serve_evolves:
  assumes ok: "both (evolves d0) w"
  shows "both (evolves d0) (serve e ev w)"
proof (cases ev)
  case (Request h k rq)
  then show ?thesis using keepsD [OF evolves_mcp_entry ok] by simp
next
  case Sweep
  then show ?thesis using keepsD [OF evolves_sweep ok] by simp
next
  case (Start_task tn wk tid lid)
  then show ?thesis using keepsD [OF keeps_session_settles [OF settles_start_task] ok] by simp
next
  case (Old_bootstrap tn who since n)
  then show ?thesis using keepsD [OF protocol.keeps_session [OF protocol.keeps_engine_bootstrap] ok] by simp
next
  case (Reconcile tn wk)
  then show ?thesis using keepsD [OF keeps_session_settles [OF settles_reconcile] ok] by simp
next
  case (Replay n)
  then show ?thesis using keepsD [OF keeps_replay ok] by simp
next
  case Restart
  then show ?thesis using keeps_restart [OF ok] by simp
qed

lemma run_evolves: "both (evolves d0) w \<Longrightarrow> both (evolves d0) (run e evs w)"
  by (induction evs arbitrary: w) (auto intro: serve_evolves simp del: serve.simps)

text \<open>In a reachable state what is committed has evolved from nothing.\<close>

lemma evolves_empty: "evolves empty_db empty_db"
  by (rule evolves_refl)
    (simp_all add: schema_ok_def no_clash_def cells_ok_def cell_def task_of_def lease_of_def)

lemma reachable_evolves: "reachable w \<Longrightarrow> both (evolves empty_db) w"
proof (induction rule: reachable.induct)
  case reachable_init
  show ?case by (simp add: evolves_empty on_db_def)
next
  case (reachable_step w e ev)
  from serve_evolves [OF reachable_step.IH] show ?case .
qed

text \<open>Between events no transaction is open.\<close>

definition idle :: "world \<Rightarrow> bool" where
  "idle w \<longleftrightarrow> w_db w = w_committed w"

lemma idle_on_db: "idle = on_db (\<lambda>d c. d = c)"
  by (simp add: fun_eq_iff idle_def on_db_def)

lemma idle_session: "idle (snd (with_session m w))"
proof -
  have "wp (with_session m) (\<lambda>_. idle) (\<lambda>_. idle) w"
    unfolding wp_with_session by (simp add: idle_def wp_def split: prod.split sum.split)
  then show ?thesis by (simp add: wp_def split: prod.splits sum.splits)
qed

lemma keeps_idle_session: "keeps idle (with_session m)"
  by (simp add: keeps_def idle_session)

lemma serve_idle:
  assumes "idle w"
  shows "idle (serve e ev w)"
proof (cases ev)
  case (Request h k rq)
  have "keeps idle (mcp_entry e h k rq)"
    by (auto simp: mcp_entry_def handle_tool_def Let_def intro!: keeps_intros keeps_idle_session)
  then show ?thesis using Request keepsD assms by fastforce
next
  case Sweep
  have "keeps idle ensure_trace_id" unfolding idle_on_db by simp
  then have "keeps idle (sweep_once e)"
    by (auto simp: sweep_once_def intro!: keeps_try_except keeps_bind keeps_return keeps_idle_session)
  then show ?thesis using Sweep keepsD assms by fastforce
next
  case (Replay n)
  have "keeps idle (replay_buffered_receipts e n)" unfolding idle_on_db by simp
  then show ?thesis using Replay keepsD assms by fastforce
next
  case Restart
  then show ?thesis using assms by (simp add: restart_def idle_def)
qed (simp_all add: idle_session)

lemma reachable_idle: "reachable w \<Longrightarrow> idle w"
proof (induction rule: reachable.induct)
  case reachable_init
  show ?case by (simp add: idle_def)
next
  case (reachable_step w e ev)
  from serve_idle [OF reachable_step.IH] show ?case .
qed

text \<open>From a reachable state the service goes on by steps from what it has.\<close>

lemma reachable_from:
  assumes "reachable w"
  shows "evolves (w_db w) (w_db (run e evs w))"
proof -
  have idle: "w_committed w = w_db w" using reachable_idle [OF assms] by (simp add: idle_def)
  have "evolves empty_db (w_db w)" using reachable_evolves [OF assms] by (simp add: on_db_def)
  then have "evolves (w_db w) (w_db w)" by (intro evolves_refl) (simp_all add: evolves_def)
  with idle have "both (evolves (w_db w)) w" by (simp add: on_db_def)
  from run_evolves [OF this] show ?thesis by (simp add: on_db_def)
qed

end
