(* ===== verification/Lifecycle.thy ===== *)
theory Lifecycle
  imports Protocol
begin

text \<open>
  The abstract specification of a task: absent, waiting, held by a worker, done. The cells of
  the database refine it step by step, and what the service promises of a task is read off it.
\<close>

section \<open>The abstract machine\<close>

text \<open>Attempts used; for a held task the lease, its worker and whether work has started.\<close>

datatype phase = Absent | Waiting int | Held int uuid string bool | Done task_status

fun phase_of :: "cell \<Rightarrow> phase" where
  "phase_of (None, x) = Absent"
| "phase_of (Some t, x) =
     (if is_terminal t then Done (t_status t)
      else case x of None \<Rightarrow> Waiting (t_attempt t)
        | Some l \<Rightarrow> Held (t_attempt t) (l_id l) (l_worker l) (t_status t = RUNNING))"

inductive phase_step :: "phase \<Rightarrow> phase \<Rightarrow> bool" where
  "phase_step Absent (Waiting 0)"
| "phase_step (Waiting n) (Held n i worker False)"
| "phase_step (Held n i worker False) (Held n i worker True)"
| "s = SUCCEEDED \<or> s = FAILED \<Longrightarrow> phase_step (Held n i worker b) (Done s)"
| "phase_step (Held n i worker b) (Waiting (n + 1))"
| "phase_step (Held n i worker b) (Waiting n)"
| "phase_step (Waiting n) (Done CANCELED)"
| "phase_step (Held n i worker b) (Done CANCELED)"

declare phase_step.intros [intro]

inductive_cases phase_stepE [elim]: "phase_step p p'"

text \<open>A step of a cell is a step of the machine, or (a renewal) none.\<close>

lemma cell_step_phase:
  "cell_step c c' \<Longrightarrow> cell_ok c \<Longrightarrow> phase_of c' = phase_of c \<or> phase_step (phase_of c) (phase_of c')"
proof (induction rule: cell_step.induct)
  case (Renew x ex l)
  then show ?case by (cases x) auto
next
  case (Finish t s r now l)
  then show ?case by (auto simp: is_terminal_def in_flight_def)
next
  case (Cancel t r now x)
  then show ?case by (cases x) (auto simp: is_terminal_def)
qed (auto simp: is_terminal_def in_flight_def split: option.splits)

lemma cell_steps_phase:
  "cell_step\<^sup>*\<^sup>* c c' \<Longrightarrow> cell_ok c \<Longrightarrow> phase_step\<^sup>*\<^sup>* (phase_of c) (phase_of c')"
proof (induction rule: rtranclp_induct)
  case (step y z)
  then have "cell_ok y" using cell_steps_ok by blast
  with step cell_step_phase [of y z] show ?case by (metis rtranclp.rtrancl_into_rtrancl)
qed simp

section \<open>What follows for the machine\<close>

lemma done_stays: "phase_step\<^sup>*\<^sup>* (Done s) p \<Longrightarrow> p = Done s"
  by (induction rule: rtranclp_induct) auto

fun attempts_used :: "phase \<Rightarrow> int option" where
  "attempts_used (Waiting n) = Some n"
| "attempts_used (Held n i worker b) = Some n"
| "attempts_used _ = None"

section \<open>What follows for the rows\<close>

text \<open>A finished task has no lease, and no step applies to it: its row never changes.\<close>

lemma terminal_cell_stuck: "cell_ok (Some t, x) \<Longrightarrow> is_terminal t \<Longrightarrow> \<not> cell_step (Some t, x) c'"
  by (auto simp: is_terminal_def in_flight_def elim!: cell_stepE split: option.splits)

lemma terminal_cell_stays:
  assumes "cell_step\<^sup>*\<^sup>* c c'" "c = (Some t, x)" "cell_ok c" "is_terminal t"
  shows "c' = c"
  using assms
proof (induction rule: rtranclp_induct)
  case (step y z)
  then show ?case using terminal_cell_stuck by metis
qed simp

lemma cell_step_transition:
  "cell_step (Some t, x) (Some t', y) \<Longrightarrow> cell_ok (Some t, x) \<Longrightarrow>
   t_status t' = t_status t \<or> can_transition_to t (t_status t')"
  by (erule cell_stepE; cases "t_status t"; auto simp: can_transition_to_def is_terminal_def)

text \<open>The identity of a task is fixed once it is there, and its attempts only grow.\<close>

lemma cell_step_task:
  "cell_step (Some t, x) c' \<Longrightarrow> \<exists>t'. fst c' = Some t' \<and> t_frozen t' = t_frozen t \<and> t_attempt t \<le> t_attempt t'"
  by (erule cell_stepE) (auto simp: t_frozen_def with_status_def requeued_def)

lemma cell_steps_task:
  assumes "cell_step\<^sup>*\<^sup>* c c'" "fst c = Some t"
  shows "\<exists>t'. fst c' = Some t' \<and> t_frozen t' = t_frozen t \<and> t_attempt t \<le> t_attempt t'"
  using assms
proof (induction rule: rtranclp_induct)
  case (step y z)
  then obtain t1 where "fst y = Some t1" "t_frozen t1 = t_frozen t" "t_attempt t \<le> t_attempt t1" by auto
  with step.hyps(2) cell_step_task [of t1 "snd y" z] show ?case by (metis order.trans prod.collapse)
qed auto

section \<open>What follows for runs\<close>

lemma reachable_cell:
  assumes "reachable w"
  shows "schema_ok (w_db w)" "cell_ok (cell (w_db w) k)"
proof -
  have ev: "evolves empty_db (w_db w)" using reachable_evolves [OF assms] by (simp add: on_db_def)
  show "schema_ok (w_db w)" using ev by (rule evolves_schema)
  show "cell_ok (cell (w_db w) k)" using evolves_cell [OF ev] by (simp add: cell_def)
qed

lemma reachable_run_cell:
  "reachable w \<Longrightarrow> cell_step\<^sup>*\<^sup>* (cell (w_db w) k) (cell (w_db (run e evs w)) k)"
  using reachable_from [of w e evs] by (simp add: evolves_def)

lemma terminal_not_in_flight: "is_terminal t \<Longrightarrow> \<not> in_flight (t_status t)"
  by (auto simp: is_terminal_def in_flight_def)

lemma leases_of_key:
  assumes "schema_ok d"
  shows "filter (\<lambda>l. l_tenant l = tn \<and> l_task l = tid) (db_leases d) =
     (case lease_of d (tn, tid) of None \<Rightarrow> [] | Some l \<Rightarrow> [l])"
proof -
  have key: "l_key l = (tn, tid) \<longleftrightarrow> l_tenant l = tn \<and> l_task l = tid" for l by (simp add: l_key_def)
  have "distinct (map f xs) \<Longrightarrow> filter (\<lambda>x. f x = k) xs = (case find (\<lambda>x. f x = k) xs of None \<Rightarrow> [] | Some x \<Rightarrow> [x])"
    for f :: "lease \<Rightarrow> uuid \<times> uuid" and xs k
    by (induction xs) (auto simp: filter_empty_conv image_iff split: option.split dest!: find_Some_mem)
  from this [OF schema_keys(3) [OF assms], of "(tn, tid)"] show ?thesis
    by (simp add: lease_of_def key)
qed

text \<open>The attempts of a task, and how many events of a run raise them.\<close>

definition attempt_of :: "db \<Rightarrow> uuid \<times> uuid \<Rightarrow> int" where
  "attempt_of d k = (case task_of d k of None \<Rightarrow> 0 | Some t \<Rightarrow> t_attempt t)"

fun retries :: "env \<Rightarrow> uuid \<times> uuid \<Rightarrow> event list \<Rightarrow> world \<Rightarrow> nat" where
  "retries e k [] w = 0"
| "retries e k (ev # evs) w =
     (if attempt_of (w_db w) k < attempt_of (w_db (serve e ev w)) k then 1 else 0) + retries e k evs (serve e ev w)"

lemma retries_count:
  assumes "reachable w" "task_of (w_db w) k = Some t"
  shows "\<exists>t'. task_of (w_db (run e evs w)) k = Some t' \<and> t_frozen t' = t_frozen t \<and>
     t_attempt t + int (retries e k evs w) \<le> t_attempt t'"
  using assms
proof (induction evs arbitrary: w t)
  case (Cons ev evs)
  obtain t1 where t1: "task_of (w_db (serve e ev w)) k = Some t1" "t_frozen t1 = t_frozen t" "t_attempt t \<le> t_attempt t1"
    using cell_steps_task [OF reachable_run_cell [OF Cons.prems(1), of k e "[ev]"]] Cons.prems(2)
    by (auto simp: cell_def simp del: serve.simps)
  obtain t' where "task_of (w_db (run e evs (serve e ev w))) k = Some t'" "t_frozen t' = t_frozen t1"
      "t_attempt t1 + int (retries e k evs (serve e ev w)) \<le> t_attempt t'"
    using Cons.IH [OF reachable_step [OF Cons.prems(1)] t1(1)] by blast
  with t1 Cons.prems(2) show ?case by (auto simp: attempt_of_def simp del: serve.simps)
qed simp

end
