(* ===== verification/Effects.thy ===== *)
theory Effects
  imports Lifecycle
begin

text \<open>
  What the operations do when they succeed, exactly, and that they do nothing to the database
  when they raise: functional specifications over the cells of the database, and the atomicity
  of a request.
\<close>

section \<open>A request that fails leaves nothing behind\<close>

text \<open>The tables but for users and API keys, whose usage marks are committed on their own.\<close>

definition core :: "db \<Rightarrow> db" where
  "core d = d\<lparr>db_users := [], db_api_keys := []\<rparr>"

text \<open>No tool commits: what is committed stays while it runs.\<close>

interpretation committed: store_frame "\<lambda>d c. core c = C" "\<lambda>_. True" for C
  by unfold_locales simp_all

interpretation credentials: session_frame "\<lambda>d c. core d = C \<and> core c = C" for C
  by unfold_locales (simp_all add: core_def)

lemma wp_handle_tool_error:
  assumes "core (w_committed w) = C"
  shows "wp (handle_tool e name args) (\<lambda>_ _. True) (\<lambda>_ w'. core (w_committed w') = C \<and> idle w') w"
proof -
  let ?I = "on_db (\<lambda>d c. core d = C \<and> core c = C)" and ?J = "on_db (\<lambda>d c. core c = C)"
  have verify: "keeps ?I (verify_token_arg e tok tn pa)" for tok tn pa
    by (auto simp: verify_token_arg_def split: json.split
        intro!: keeps_intros credentials.keeps_verify_auth_token)
  have call: "wp (call_tool e name a args') (\<lambda>_ _. True) (\<lambda>_. ?J) w'" if "?I w'" for a args' w'
    by (rule wp_then [OF committed.keeps_tools]) (use that in \<open>auto simp: on_db_def\<close>)
  have body: "wp (bind (verify_token_arg e tok tn pa) (\<lambda>a. call_tool e name a args')) (\<lambda>_ _. True) (\<lambda>_. ?J) w'"
    if "?I w'" for tok tn pa args' w'
    unfolding wp_bind
    by (rule wp_then [OF verify that call]) (simp_all add: on_db_def)
  have w: "?I (w\<lparr>w_db := w_committed w\<rparr>)" using assms by (simp add: on_db_def)
  show ?thesis
    unfolding handle_tool_def Let_def wp_with_session wp_bind [of "lift_sum r" for r] wp_lift_sum
      wp_seq wp_set_trace_id
    using w by (auto simp: idle_def on_db_def split: sum.split intro!: wp_mono [OF body])
qed

lemma wp_mcp_entry_error:
  assumes "core (w_committed w) = C" and "idle w"
  shows "wp (mcp_entry e h k rq)
     (\<lambda>r w'. case r of Rpc_result _ _ \<Rightarrow> True | _ \<Rightarrow> core (w_committed w') = C \<and> idle w')
     (\<lambda>_ w'. core (w_committed w') = C \<and> idle w') w"
  using assms(2)
  by (auto simp: mcp_entry_def Let_def wp_return wp_return_fun wp_bind wp_bind_fun wp_lift_sum wp_try_except assms(1)
      intro!: wp_mono [OF wp_handle_tool_error [OF assms(1)]] split: sum.split)

section \<open>One cell changes\<close>

text \<open>
  The cell of the key becomes \<open>c\<close>, every other cell is as it was, and the receipts of before
  are there, in place.
\<close>

definition ledger_grows :: "db \<Rightarrow> db \<Rightarrow> bool" where
  "ledger_grows d d' \<longleftrightarrow> (\<exists>rs. map r_frozen (db_receipts d') = map r_frozen (db_receipts d) @ rs)"

definition becomes :: "uuid \<times> uuid \<Rightarrow> cell \<Rightarrow> db \<Rightarrow> db \<Rightarrow> bool" where
  "becomes k c d d' \<longleftrightarrow> cell d' k = c \<and> (\<forall>k'. k' \<noteq> k \<longrightarrow> cell d' k' = cell d k') \<and> ledger_grows d d'"

text \<open>Announcing writes receipts, progress and relationships only.\<close>

definition announces :: "db \<Rightarrow> db \<Rightarrow> bool" where
  "announces d d' \<longleftrightarrow> db_tasks d' = db_tasks d \<and> db_leases d' = db_leases d \<and> ledger_grows d d'"

lemma ledger_grows_same: "db_receipts d' = db_receipts d \<Longrightarrow> ledger_grows d d'"
  by (simp add: ledger_grows_def)

interpretation announcing: side_frame "\<lambda>d c. announces d0 d" "\<lambda>_. True" for d0
proof
  fix d assume ok: "announces d0 d"
  show "announces d0 (d\<lparr>db_receipts := db_receipts d @ [r]\<rparr>)" for r
    using ok by (auto simp: announces_def ledger_grows_def)
  show "announces d0 (set_delivered tn ids now d)" for tn ids now
  proof -
    have "map r_frozen (db_receipts (set_delivered tn ids now d)) = map r_frozen (db_receipts d)"
      by (simp add: set_delivered_def map_update_where r_frozen_def)
    with ok show ?thesis by (simp add: announces_def ledger_grows_def)
  qed
qed (simp_all add: announces_def ledger_grows_def)

lemma becomes_announced:
  "announces d1 d' \<Longrightarrow> db_receipts d1 = db_receipts d \<Longrightarrow> cell d1 k = c \<Longrightarrow>
   (\<And>k'. k' \<noteq> k \<Longrightarrow> cell d1 k' = cell d k') \<Longrightarrow> becomes k c d d'"
  using cell_same [of d' d1] by (auto simp: becomes_def announces_def ledger_grows_def)

text \<open>A block that ends with an announcement: what it returns with, and nothing of its errors.\<close>

lemma wp_announcing:
  fixes m :: "'a M"
  assumes "keeps (on_db (\<lambda>d c. announces (w_db w) d)) m"
  shows "wp m (\<lambda>_ w'. announces (w_db w) (w_db w')) (\<lambda>_ _. True) w"
proof -
  have "announces (w_db w) (w_db w)" by (simp add: announces_def ledger_grows_def)
  then show ?thesis by (intro wp_then [OF assms]) (simp_all add: on_db_def)
qed

lemma wp_reads:
  assumes "keeps (\<lambda>w'. w' = w) m" and "\<And>x. Q x w" and "\<And>x. E x w"
  shows "wp m Q E w"
  by (rule wp_then [OF assms(1)]) (use assms in simp_all)

lemma wp_saved:
  "wp m Q (\<lambda>_ _. True) w \<Longrightarrow> wp (savepoint m) Q (\<lambda>_ w'. w_db w' = w_db w) w"
  by (auto simp: wp_savepoint elim!: wp_mono)

text \<open>The obligation that is found is an assignment of the task in the ledger.\<close>

definition assigned :: "db \<Rightarrow> uuid \<Rightarrow> uuid \<Rightarrow> receipt \<Rightarrow> bool" where
  "assigned d tn tid r \<longleftrightarrow> r \<in> set (db_receipts d) \<and> r_tenant r = tn \<and> r_task r = Some tid \<and> r_type r = TASK_ASSIGNED"

lemma wp_obligation:
  "wp (get_task_obligation_or_raise tn tid hint) (\<lambda>r w'. w' = w \<and> assigned (w_db w) tn tid r) (\<lambda>_ _. True) w"
proof -
  have found: "assigned (w_db w) tn tid r"
    if "first_of (order_by_desc r_created_at (filter (is_obligation_of tn tid p) (db_receipts (w_db w)))) = Some r" for p r
    using first_of_Some [OF that] by (simp add: is_obligation_of_def assigned_def)
  have "wp (get_task_obligation tn tid hint) (\<lambda>ob w'. w' = w \<and> (\<forall>r. ob = Some r \<longrightarrow> assigned (w_db w) tn tid r)) (\<lambda>_ _. True) w"
    using found by (simp add: get_task_obligation_def receipt_task_obligation_def wp_bind wp_select wp_return)
  then show ?thesis
    unfolding get_task_obligation_or_raise_def wp_bind
    by (rule wp_mono) (auto simp: wp_some_or_raise split: option.split)
qed

subsection \<open>Completing\<close>

definition success_of :: "dict \<Rightarrow> json option \<Rightarrow> datetime \<Rightarrow> task_result" where
  "success_of result artifacts now = \<lparr>tr_outcome = O_SUCCEEDED, tr_result = Some result, tr_error = None,
     tr_artifacts = artifacts, tr_completed_at = now\<rparr>"

text \<open>The worker holds the lease, and the cell of the task is finished with the result.\<close>

definition completed_by ::
    "env \<Rightarrow> nat \<Rightarrow> uuid \<Rightarrow> string \<Rightarrow> uuid \<Rightarrow> uuid \<Rightarrow> dict \<Rightarrow> json option \<Rightarrow> db \<Rightarrow> db \<Rightarrow> bool" where
  "completed_by e n tn worker tid lid result artifacts d d' \<longleftrightarrow>
     holds d tn tid lid worker (e_clock e n) \<and> artifacts_valid artifacts \<and>
     (\<exists>t. task_of d (tn, tid) = Some t \<and> can_transition_to t SUCCEEDED \<and>
        becomes (tn, tid) (Some (with_status (e_clock e (n + 2)) SUCCEEDED
          (Some (success_of result artifacts (e_clock e (n + 1)))) None t), None) d d')"

lemma wp_complete_atomic:
  assumes ok: "schema_ok (w_db w)"
  shows "wp (complete_atomic e tn worker tid lid result artifacts ob)
    (\<lambda>_ w'. completed_by e (w_clock w) tn worker tid lid result artifacts (w_db w) (w_db w'))
    (\<lambda>_ _. True) w"
proof -
  let ?n = "w_clock w" and ?d = "w_db w"
  let ?f = "with_status (e_clock e (?n + 2)) SUCCEEDED (Some (success_of result artifacts (e_clock e (?n + 1)))) None"
  let ?w = "w\<lparr>w_clock := Suc (Suc (Suc ?n)), w_db := drop_leases tn tid (Some lid) (set_tasks tn tid ?f ?d)\<rparr>"
  have "wp (announce_complete e tn worker tid lid result artifacts ob)
      (\<lambda>_ w'. completed_by e ?n tn worker tid lid result artifacts ?d (w_db w')) (\<lambda>_ _. True) ?w"
    if held: "holds ?d tn tid lid worker (e_clock e ?n)"
      and t: "task_of ?d (tn, tid) = Some t" "can_transition_to t SUCCEEDED" and valid: "artifacts_valid artifacts" for t
  proof (rule wp_mono [OF wp_announcing])
    fix x w' assume a: "announces (w_db ?w) (w_db w')"
    obtain l where l: "lease_of ?d (tn, tid) = Some l" "l_id l = lid" using holds_lease [OF held] by blast
    have "lease_of (w_db ?w) (tn, tid) = None"
      by (simp, rule lease_of_drop_id) (use ok l in simp_all)
    then have "becomes (tn, tid) (Some (?f t), None) ?d (w_db w')"
      using a t by (intro becomes_announced [OF a]) (simp_all add: cell_def)
    then show "completed_by e ?n tn worker tid lid result artifacts ?d (w_db w')"
      using held t valid by (auto simp: completed_by_def)
  qed (auto intro: announcing.keeps_announce)
  moreover have "\<exists>t. task_of ?d (tn, tid) = Some t" if "holds ?d tn tid lid worker (e_clock e ?n)"
    using holds_lease [OF that] leased_task [OF ok] by blast
  ultimately show ?thesis
    unfolding complete_atomic_def wp_bind [of "require_lease e tn tid lid worker"] wp_require_lease [OF ok]
    using ok by (auto simp: Let_def wp_seq wp_ensure wp_bind wp_utc_now wp_task_update_status
        wp_lease_release success_of_def)
qed

text \<open>The clock is read once by the check, so the block starts one reading later.\<close>

lemma wp_complete:
  assumes ok: "schema_ok (w_db w)"
  shows "wp (complete e tn worker tid lid result artifacts)
    (\<lambda>b w'. b \<and> completed_by e (Suc (w_clock w)) tn worker tid lid result artifacts (w_db w) (w_db w'))
    (\<lambda>_ w'. w_db w' = w_db w) w"
proof -
  let ?w = "w\<lparr>w_clock := Suc (w_clock w)\<rparr>"
  have check: "wp (complete_check e tn worker tid lid) (\<lambda>_ w'. w' = ?w) (\<lambda>_ w'. w_db w' = w_db w) w"
    unfolding complete_check_def wp_bind wp_require_lease [OF ok] Let_def
    by (auto simp: wp_seq wp_ensure intro!: wp_reads)
  have "wp (savepoint (complete_atomic e tn worker tid lid result artifacts ob))
      (\<lambda>_ w'. completed_by e (Suc (w_clock w)) tn worker tid lid result artifacts (w_db w) (w_db w'))
      (\<lambda>_ w'. w_db w' = w_db w) ?w" for ob
    using wp_saved [OF wp_complete_atomic [of ?w e tn worker tid lid result artifacts ob]] ok by simp
  then show ?thesis
    unfolding complete_def wp_bind
    by (intro wp_mono [OF check]) (simp_all add: wp_seq wp_return_fun)
qed

subsection \<open>Failing\<close>

definition failure_of :: "dict \<Rightarrow> datetime \<Rightarrow> task_result" where
  "failure_of err now = \<lparr>tr_outcome = O_FAILED, tr_result = None, tr_error = Some err,
     tr_artifacts = None, tr_completed_at = now\<rparr>"

text \<open>
  The worker holds the lease. A retryable failure with attempts left queues the task again,
  one attempt later and after the backoff; any other finishes it with the error.
\<close>

definition failed_by ::
    "env \<Rightarrow> nat \<Rightarrow> uuid \<Rightarrow> string \<Rightarrow> uuid \<Rightarrow> uuid \<Rightarrow> dict \<Rightarrow> bool \<Rightarrow> datetime option \<Rightarrow> db \<Rightarrow> db \<Rightarrow> bool" where
  "failed_by e n tn worker tid lid err requeue eligible d d' \<longleftrightarrow>
     holds d tn tid lid worker (e_clock e n) \<and>
     (\<exists>t. task_of d (tn, tid) = Some t \<and>
        (if requeue then
           eligible = add_us (e_clock e (n + 1))
             (backoff_us (t_retry_backoff t) (max_retry_backoff (cfg e)) (t_attempt t + 1)) \<and>
           (\<exists>el. eligible = Some el \<and>
             becomes (tn, tid) (Some (requeued (e_clock e (n + 1)) (t_attempt t + 1) el t), None) d d')
         else eligible = None \<and>
           becomes (tn, tid) (Some (with_status (e_clock e (n + 2)) FAILED
             (Some (failure_of err (e_clock e (n + 1)))) None t), None) d d'))"

lemma wp_fail_block:
  assumes ok: "schema_ok (w_db w)"
  shows "wp (fail_atomic e tn worker tid lid err requeue ob)
    (\<lambda>eligible w'. failed_by e (w_clock w) tn worker tid lid err requeue eligible (w_db w) (w_db w'))
    (\<lambda>_ _. True) w"
proof -
  let ?n = "w_clock w" and ?d = "w_db w"
  let ?Q = "\<lambda>eligible w'. failed_by e ?n tn worker tid lid err requeue eligible ?d (w_db w')"
  have ended: "wp m (\<lambda>_ w'. becomes (tn, tid) (Some (f t), None) ?d (w_db w')) (\<lambda>_ _. True)
      (w\<lparr>w_clock := c0, w_db := drop_leases tn tid (Some lid) (set_tasks tn tid f ?d)\<rparr>)"
    if held: "holds ?d tn tid lid worker (e_clock e ?n)" and t: "task_of ?d (tn, tid) = Some t"
      and m: "\<And>d0. keeps (on_db (\<lambda>d c. announces d0 d)) m" and f: "keeps_frozen f"
    for m :: "'a M" and t f c0
  proof (rule wp_mono [OF wp_announcing])
    fix x w' assume a: "announces (w_db (w\<lparr>w_clock := c0,
        w_db := drop_leases tn tid (Some lid) (set_tasks tn tid f ?d)\<rparr>)) (w_db w')"
    obtain l where l: "lease_of ?d (tn, tid) = Some l" "l_id l = lid" using holds_lease [OF held] by blast
    have "lease_of (drop_leases tn tid (Some lid) (set_tasks tn tid f ?d)) (tn, tid) = None"
      by (rule lease_of_drop_id) (use ok l f in simp_all)
    then show "becomes (tn, tid) (Some (f t), None) ?d (w_db w')"
      using t f by (intro becomes_announced [OF a]) (simp_all add: cell_def)
  qed (use m in auto)
  have "wp (bind (lease_release tn tid (Some lid)) (\<lambda>_.
      if requeue then fail_requeue e tn worker tid lid err ob else fail_terminal e tn worker tid lid err ob))
      ?Q (\<lambda>_ _. True) (w\<lparr>w_clock := Suc ?n\<rparr>)"
    if held: "holds ?d tn tid lid worker (e_clock e ?n)" and t: "task_of ?d (tn, tid) = Some t" for t
  proof (cases requeue)
    case True
    have "wp (announce_retry e tn worker tid lid err t' ob) (\<lambda>_ w'. ?Q (Some el) w') (\<lambda>_ _. True)
        (w\<lparr>w_clock := Suc (Suc ?n), w_db := drop_leases tn tid (Some lid)
          (set_tasks tn tid (requeued (e_clock e (Suc ?n)) (t_attempt t + 1) el) ?d)\<rparr>)"
      if "add_us (e_clock e (Suc ?n)) (backoff_us (t_retry_backoff t) (max_retry_backoff (cfg e)) (t_attempt t + 1)) = Some el"
      for el t'
      by (rule wp_mono [OF ended [OF held t]])
        (use that True held t in \<open>auto simp: failed_by_def intro: announcing.keeps_announce\<close>)
    with True ok t show ?thesis
      by (auto simp: wp_bind wp_lease_release fail_requeue_def task_requeue_with_backoff_def wp_task_get
          wp_utc_now wp_some_or_raise wp_seq wp_update_task Let_def set_tasks_drop wp_return_fun split: option.split)
  next
    case False
    have "wp (announce_failure e tn worker tid lid err ob) (\<lambda>_ w'. ?Q None w') (\<lambda>_ _. True)
        (w\<lparr>w_clock := Suc (Suc (Suc ?n)), w_db := drop_leases tn tid (Some lid) (set_tasks tn tid
          (with_status (e_clock e (Suc (Suc ?n))) FAILED (Some (failure_of err (e_clock e (Suc ?n)))) None) ?d)\<rparr>)"
      by (rule wp_mono [OF ended [OF held t]])
        (use False held t in \<open>auto simp: failed_by_def intro: announcing.keeps_announce\<close>)
    with False ok show ?thesis
      by (simp add: wp_bind wp_lease_release fail_terminal_def wp_task_update_status wp_utc_now wp_seq
          Let_def set_tasks_drop wp_return_fun failure_of_def)
  qed
  moreover have "\<exists>t. task_of ?d (tn, tid) = Some t" if "holds ?d tn tid lid worker (e_clock e ?n)"
    using holds_lease [OF that] leased_task [OF ok] by blast
  ultimately show ?thesis
    unfolding fail_atomic_def wp_bind [of "require_lease e tn tid lid worker"] wp_require_lease [OF ok]
    by (auto simp: Let_def)
qed

lemma wp_fail_task:
  assumes ok: "schema_ok (w_db w)"
  shows "wp (fail_task e tn worker tid lid err retryable)
    (\<lambda>(requeue, eligible) w'. (\<forall>t. task_of (w_db w) (tn, tid) = Some t \<longrightarrow> requeue = should_requeue retryable t) \<and>
       failed_by e (Suc (w_clock w)) tn worker tid lid err requeue eligible (w_db w) (w_db w'))
    (\<lambda>_ w'. w_db w' = w_db w) w"
proof -
  let ?w = "w\<lparr>w_clock := Suc (w_clock w)\<rparr>"
  have check: "wp (fail_check e tn worker tid lid retryable)
      (\<lambda>(requeue, ob) w'. w' = ?w \<and> requeue = should_requeue retryable (the (task_of (w_db w) (tn, tid))))
      (\<lambda>_ w'. w_db w' = w_db w) w"
    unfolding fail_check_def wp_bind wp_require_lease [OF ok] Let_def
    by (simp add: wp_return_fun, rule impI, rule wp_reads) simp_all
  have "wp (savepoint (fail_atomic e tn worker tid lid err requeue ob))
      (\<lambda>eligible w'. failed_by e (Suc (w_clock w)) tn worker tid lid err requeue eligible (w_db w) (w_db w'))
      (\<lambda>_ w'. w_db w' = w_db w) ?w" for requeue ob
    using wp_saved [OF wp_fail_block [of ?w e tn worker tid lid err requeue ob]] ok by simp
  then show ?thesis
    unfolding fail_task_def wp_bind
    by (intro wp_mono [OF check])
      (auto simp: wp_bind wp_return_fun split: prod.split elim!: wp_mono)
qed

subsection \<open>Ending by the service\<close>

lemma ended_announced:
  assumes ok: "schema_ok d" and t: "task_of d (tn, tid) = Some t" and f: "keeps_frozen f"
    and gone: "lease_of (drop_leases tn tid i d) (tn, tid) = None"
    and a: "announces (drop_leases tn tid i (set_tasks tn tid f d)) d'"
  shows "becomes (tn, tid) (Some (f t), None) d d'"
proof -
  have "lease_of (drop_leases tn tid i (set_tasks tn tid f d)) (tn, tid) = None"
    using gone by (simp add: lease_of_def drop_leases_def)
  then show ?thesis using t f by (intro becomes_announced [OF a]) (simp_all add: cell_def)
qed

text \<open>An expired lease returns its task to the queue with the attempts it had, after a jitter.\<close>

definition lapsed :: "lease \<Rightarrow> db \<Rightarrow> db \<Rightarrow> bool" where
  "lapsed l d d' \<longleftrightarrow> (\<exists>t now el. task_of d (l_key l) = Some t \<and>
     becomes (l_key l) (Some (requeued now (t_attempt t) el t), None) d d')"

lemma wp_expire_block:
  assumes ok: "schema_ok (w_db w)" and l: "lease_of (w_db w) (l_key l) = Some l"
  shows "wp (expire_atomic e l t jitter owner ps ob) (\<lambda>_ w'. lapsed l (w_db w) (w_db w')) (\<lambda>_ _. True) w"
proof -
  let ?d = "w_db w" and ?tn = "l_tenant l" and ?tid = "l_task l"
  have key: "l_key l = (?tn, ?tid)" by (simp add: l_key_def)
  obtain t0 where t0: "task_of ?d (?tn, ?tid) = Some t0" using leased_task [OF ok] l key by metis
  have gone: "lease_of (drop_leases ?tn ?tid (Some (l_id l)) ?d) (?tn, ?tid) = None"
    using lease_of_drop_id [OF ok _ refl] l key by metis
  have "wp (announce_expiry e l t owner ps ob) (\<lambda>_ w'. lapsed l ?d (w_db w')) (\<lambda>_ _. True)
      (w\<lparr>w_clock := c0, w_db := drop_leases ?tn ?tid (Some (l_id l))
        (set_tasks ?tn ?tid (requeued now (t_attempt t0) el) ?d)\<rparr>)" for c0 now el
    by (rule wp_mono [OF wp_announcing])
      (use t0 key in \<open>auto simp: lapsed_def intro: announcing.keeps_announce
         dest!: ended_announced [OF ok t0 requeued_frozen gone]\<close>)
  then show ?thesis
    using ok t0 by (auto simp: expire_atomic_def task_requeue_on_expiry_def wp_seq wp_bind wp_utc_now
        wp_task_get wp_some_or_raise wp_update_task wp_lease_release Let_def split: option.split)
qed

text \<open>One round of the sweep counts a lease that lapsed, and else changes nothing.\<close>

definition swept :: "lease \<Rightarrow> bool \<Rightarrow> db \<Rightarrow> db \<Rightarrow> bool" where
  "swept l counted d d' \<longleftrightarrow> (if counted then lapsed l d d' else d' = d)"

lemma swept_simps [simp]: "swept l True d d' = lapsed l d d'" "swept l False d d' = (d' = d)"
  by (simp_all add: swept_def)

lemma wp_expire_round:
  assumes ok: "schema_ok (w_db w)" and l: "lease_of (w_db w) (l_key l) = Some l"
  shows "wp (expire_one e l) (\<lambda>b w'. swept l b (w_db w) (w_db w')) (\<lambda>_ _. False) w"
proof -
  let ?Q = "\<lambda>b w'. swept l b (w_db w) (w_db w')"
  have round: "wp (try_except
      (seq (savepoint (expire_atomic e l t j owner ps ob))
        (seq (metric (inc_counter ''leases.expired'' 1)) (return True)))
      (\<lambda>_. seq (metric (inc_counter ''leases.expired.failed'' 1)) (return False))) ?Q (\<lambda>_ _. False) w'"
    if "w_db w' = w_db w" for t j owner ps ob w'
    unfolding wp_try_except wp_seq
    using wp_saved [OF wp_expire_block [of w' l e t j owner ps ob]] that ok l
    by (auto simp: wp_metric wp_return elim!: wp_mono)
  have "wp (bind (owner_and_parents (l_tenant l) t) (\<lambda>(owner, parents, ob).
      bind (uniform_jitter e) (\<lambda>j. try_except
        (seq (savepoint (expire_atomic e l t j owner parents ob))
          (seq (metric (inc_counter ''leases.expired'' 1)) (return True)))
        (\<lambda>_. seq (metric (inc_counter ''leases.expired.failed'' 1)) (return False))))) ?Q (\<lambda>_ _. False) w" for t
  proof -
    have "wp (owner_and_parents (l_tenant l) t) (\<lambda>_ w'. w' = w) (\<lambda>_ _. False) w"
      by (simp add: owner_and_parents_def get_task_obligation_def receipt_task_obligation_def wp_simps Let_def)
    then show ?thesis
      unfolding wp_bind [of "owner_and_parents (l_tenant l) t"]
      by (rule wp_mono) (auto simp: wp_bind wp_uniform_jitter split: prod.split intro!: round)
  qed
  then show ?thesis
    using ok by (auto simp: expire_one_def wp_bind [of "task_get (l_tenant l) (l_task l)"] wp_task_get
        wp_return split: option.split)
qed

subsection \<open>The sweep\<close>

text \<open>A cell that is as it was, or whose lease was among those given and lapsed.\<close>

definition spared :: "lease list \<Rightarrow> db \<Rightarrow> db \<Rightarrow> uuid \<times> uuid \<Rightarrow> bool" where
  "spared ls d d' k \<longleftrightarrow> cell d' k = cell d k \<or>
     (\<exists>l t now el. l \<in> set ls \<and> cell d k = (Some t, Some l) \<and>
        cell d' k = (Some (requeued now (t_attempt t) el t), None))"

lemma swept_other: "swept l b d d1 \<Longrightarrow> k \<noteq> l_key l \<Longrightarrow> cell d1 k = cell d k"
  unfolding swept_def lapsed_def becomes_def by metis

lemma swept_here:
  "swept l b d d1 \<Longrightarrow> lease_of d (l_key l) = Some l \<Longrightarrow> spared [l] d d1 (l_key l)"
  unfolding swept_def lapsed_def becomes_def spared_def
  by (cases b, (auto simp: cell_def; blast), simp)

lemma cell_lease: "cell d k = cell d' k \<Longrightarrow> lease_of d k = lease_of d' k"
  by (simp add: cell_def)

lemma spared_round:
  assumes l: "lease_of d (l_key l) = Some l" and one: "swept l b d d1" and new: "l_key l \<notin> l_key ` set ls"
    and ls: "\<forall>x \<in> set ls. lease_of d (l_key x) = Some x" and rest: "spared ls d1 d' k"
  shows "spared (l # ls) d d' k"
proof (cases "k = l_key l")
  case True
  have "x \<notin> set ls" if "cell d1 k = (Some t, Some x)" for t x
  proof
    assume x: "x \<in> set ls"
    have "lease_of d1 k = Some x" using that by (simp add: cell_def)
    moreover have "lease_of d1 k = None \<or> lease_of d1 k = Some l"
      using swept_here [OF one l] l True by (auto simp: spared_def cell_def)
    ultimately show False using x new by auto
  qed
  then have "cell d' k = cell d1 k" using rest unfolding spared_def by blast
  then show ?thesis using swept_here [OF one l] True by (auto simp: spared_def)
next
  case False
  then show ?thesis using rest swept_other [OF one False] by (auto simp: spared_def)
qed

lemma wp_expire_rounds:
  assumes "both schema_ok w" "\<forall>l \<in> set ls. lease_of (w_db w) (l_key l) = Some l" "distinct (map l_key ls)"
  shows "wp (expire_loop e n ls c0) (\<lambda>_ w'. \<forall>k. spared ls (w_db w) (w_db w') k) (\<lambda>_ _. False) w"
  using assms
proof (induction ls arbitrary: w c0)
  case (Cons l ls)
  have l: "lease_of (w_db w) (l_key l) = Some l" using Cons.prems(2) by simp
  have one: "wp (expire_one e l) (\<lambda>b w'. swept l b (w_db w) (w_db w') \<and> both schema_ok w') (\<lambda>_ w'. False \<and> both schema_ok w') w"
  proof (rule wp_conj [OF wp_expire_round [OF _ l]])
    show "wp (expire_one e l) (\<lambda>_. both schema_ok) (\<lambda>_. both schema_ok) w"
      using schema.whole.keeps_expire_one Cons.prems(1) unfolding keeps_wp by blast
  qed (use Cons.prems in \<open>simp add: on_db_def\<close>)
  have rest: "wp (expire_loop e n ls c) (\<lambda>_ w'. \<forall>k. spared (l # ls) (w_db w) (w_db w') k) (\<lambda>_ _. False) w'"
    if w': "both schema_ok w'" "swept l b (w_db w) (w_db w')" for b c w'
  proof (rule wp_mono [OF Cons.IH [OF w'(1)]])
    have other: "l_key x \<noteq> l_key l" if "x \<in> set ls" for x
      using Cons.prems(3) that by (metis distinct.simps(2) image_eqI list.set_map list.simps(9))
    have same: "lease_of (w_db w') k = lease_of (w_db w) k" if "k \<noteq> l_key l" for k
      by (rule cell_lease [OF swept_other [OF w'(2) that]])
    show "\<forall>x \<in> set ls. lease_of (w_db w') (l_key x) = Some x" using Cons.prems(2) other same by simp
    show "\<forall>k. spared (l # ls) (w_db w) (w_db w'') k" if "\<forall>k. spared ls (w_db w') (w_db w'') k" for w''
      using spared_round [OF l w'(2)] Cons.prems(2,3) that by simp
  qed (use Cons.prems in simp_all)
  have "wp (if expired then seq (if (c0 + 1) mod n = 0 then session_commit else return ())
            (expire_loop e n ls (c0 + 1)) else expire_loop e n ls c0)
      (\<lambda>_ w'. \<forall>k. spared (l # ls) (w_db w) (w_db w') k) (\<lambda>_ _. False) w'"
    if "both schema_ok w'" "swept l expired (w_db w) (w_db w')" for expired w'
    using that rest [of "w'\<lparr>w_committed := w_db w'\<rparr>"] rest [OF that]
    by (auto simp: wp_seq wp_session_commit wp_return on_db_def)
  then show ?case
    unfolding expire_loop.simps wp_bind [of "expire_one e l"]
    by (intro wp_mono [OF one]) auto
qed (auto simp: wp_return spared_def)

text \<open>A sweep never fails, and takes expired leases only.\<close>

definition sweep_spares :: "datetime \<Rightarrow> db \<Rightarrow> db \<Rightarrow> uuid \<times> uuid \<Rightarrow> bool" where
  "sweep_spares now d d' k \<longleftrightarrow> cell d' k = cell d k \<or>
     (\<exists>l t now' el. cell d k = (Some t, Some l) \<and> l_expires_at l < now \<and>
        cell d' k = (Some (requeued now' (t_attempt t) el t), None))"

lemma wp_sweep:
  assumes w: "both schema_ok w"
  shows "wp (expire_leases e n) (\<lambda>_ w'. \<forall>k. sweep_spares (e_clock e (w_clock w)) (w_db w) (w_db w') k) (\<lambda>_ _. False) w"
proof -
  have ok: "schema_ok (w_db w)" using w by (simp add: on_db_def)
  let ?now = "e_clock e (w_clock w)"
  let ?ls = "take 100 (filter (expired_at ?now (Some (instance_id (cfg e))) (db_tasks (w_db w))) (db_leases (w_db w)))"
  have "wp (expire_loop e n ?ls 0) (\<lambda>_ w'. \<forall>k. spared ?ls (w_db (w\<lparr>w_clock := Suc (w_clock w)\<rparr>)) (w_db w') k)
      (\<lambda>_ _. False) (w\<lparr>w_clock := Suc (w_clock w)\<rparr>)"
  proof (rule wp_expire_rounds)
    show "\<forall>l \<in> set ?ls. lease_of (w_db (w\<lparr>w_clock := Suc (w_clock w)\<rparr>)) (l_key l) = Some l"
      using ok by (auto simp: lease_of_iff dest!: in_set_takeD)
    show "distinct (map l_key ?ls)"
      using schema_keys(3) [OF ok] by (simp add: take_map [symmetric] distinct_take distinct_map_filter)
  qed (use w in simp)
  then have "wp (expire_loop e n ?ls 0) (\<lambda>_ w'. \<forall>k. spared ?ls (w_db w) (w_db w') k) (\<lambda>_ _. False)
      (w\<lparr>w_clock := Suc (w_clock w)\<rparr>)" by simp
  moreover have "sweep_spares ?now (w_db w) d' k" if "spared ?ls (w_db w) d' k" for d' k
  proof -
    have "l_expires_at l < ?now" if "l \<in> set ?ls" for l using in_set_takeD [OF that] by (simp add: expired_at_def)
    with that show ?thesis unfolding spared_def sweep_spares_def by blast
  qed
  ultimately have "wp (expire_loop e n ?ls 0) (\<lambda>_ w'. \<forall>k. sweep_spares ?now (w_db w) (w_db w') k) (\<lambda>_ _. False)
      (w\<lparr>w_clock := Suc (w_clock w)\<rparr>)" by (auto elim!: wp_mono)
  then show ?thesis
    by (simp add: expire_leases_def lease_get_expired_def wp_bind wp_utc_now wp_select wp_lift_sum sql_limit_def)
qed

subsection \<open>Canceling\<close>

definition canceled_with :: "string option \<Rightarrow> datetime \<Rightarrow> task_result" where
  "canceled_with reason now = \<lparr>tr_outcome = O_CANCELED, tr_result = None,
     tr_error = (if truthy_str reason then Some [(''reason'', JStr (the reason))] else None),
     tr_artifacts = None, tr_completed_at = now\<rparr>"

text \<open>
  The owner of the obligation decides who may cancel. A finished task is reported and left as
  it is; any other is canceled, whoever holds its lease.
\<close>

definition canceled_by ::
    "env \<Rightarrow> nat \<Rightarrow> uuid \<Rightarrow> uuid \<Rightarrow> string option \<Rightarrow> bool \<Rightarrow> task_status \<Rightarrow> db \<Rightarrow> db \<Rightarrow> bool" where
  "canceled_by e n tn tid reason changed status d d' \<longleftrightarrow> (\<exists>t. task_of d (tn, tid) = Some t \<and>
     changed = (\<not> is_terminal t) \<and>
     (if changed then status = CANCELED \<and>
        becomes (tn, tid) (Some (with_status (e_clock e (n + 1)) CANCELED
          (Some (canceled_with reason (e_clock e n))) None t), None) d d'
      else status = t_status t \<and> d' = d))"

lemma wp_cancel_block:
  assumes ok: "schema_ok (w_db w)" and t: "task_of (w_db w) (tn, tid) = Some t" "\<not> is_terminal t"
  shows "wp (cancel_atomic e tn tid p reason owner ps)
    (\<lambda>t' w'. canceled_by e (w_clock w) tn tid reason True (t_status t') (w_db w) (w_db w')) (\<lambda>_ _. True) w"
proof -
  let ?n = "w_clock w" and ?d = "w_db w"
  let ?f = "with_status (e_clock e (Suc ?n)) CANCELED (Some (canceled_with reason (e_clock e ?n))) None"
  have gone: "lease_of (drop_leases tn tid None ?d) (tn, tid) = None" by simp
  have "wp (announce_cancel e tn (?f t) p reason owner ps)
      (\<lambda>_ w'. canceled_by e ?n tn tid reason True (t_status (?f t)) ?d (w_db w')) (\<lambda>_ _. True)
      (w\<lparr>w_clock := Suc (Suc ?n), w_db := drop_leases tn tid None (set_tasks tn tid ?f ?d)\<rparr>)"
    by (rule wp_mono [OF wp_announcing])
      (use t in \<open>auto simp: canceled_by_def intro: announcing.keeps_announce
         dest!: ended_announced [OF ok t(1) with_status_frozen gone]\<close>)
  then show ?thesis
    using ok t by (simp add: cancel_atomic_def task_cancel_def wp_bind wp_seq wp_lease_release wp_task_get
        wp_utc_now wp_task_update_status wp_some_or_raise wp_return_fun Let_def set_tasks_drop canceled_with_def)
qed

lemma wp_cancel_task:
  assumes ok: "schema_ok (w_db w)"
  shows "wp (cancel_task e tn tid who reason is_internal)
    (\<lambda>(changed, status) w'. canceled_by e (w_clock w) tn tid reason changed status (w_db w) (w_db w'))
    (\<lambda>_ w'. w_db w' = w_db w) w"
proof -
  let ?Q = "\<lambda>(changed, status) w'. canceled_by e (w_clock w) tn tid reason changed status (w_db w) (w_db w')"
  let ?ob = "get_task_obligation_or_raise tn tid"
  have body: "wp (seq (lift_sum (may_cancel (r_to ob) (normalize_principal who) is_internal))
      (if is_terminal t then return (False, t_status t)
       else bind (savepoint (cancel_atomic e tn tid (normalize_principal who) reason (r_to ob) [r_id ob]))
         (\<lambda>t'. return (True, t_status t')))) ?Q (\<lambda>_ w'. w_db w' = w_db w) w"
    if t: "task_of (w_db w) (tn, tid) = Some t" for t ob
    using wp_saved [OF wp_cancel_block [OF ok t]] t
    by (auto simp: wp_seq wp_lift_sum wp_bind wp_return wp_return_fun canceled_by_def split: sum.split elim!: wp_mono)
  show ?thesis
  proof (cases "task_of (w_db w) (tn, tid)")
    case None
    then show ?thesis
      by (simp add: cancel_task_def Let_def wp_bind wp_task_get [OF ok] wp_some_or_raise)
  next
    case (Some t)
    have "wp (?ob hint) (\<lambda>ob. wp (seq (lift_sum (may_cancel (r_to ob) (normalize_principal who) is_internal))
      (if is_terminal t then return (False, t_status t)
       else bind (savepoint (cancel_atomic e tn tid (normalize_principal who) reason (r_to ob) [r_id ob]))
         (\<lambda>t'. return (True, t_status t')))) ?Q (\<lambda>_ w'. w_db w' = w_db w)) (\<lambda>_ w'. w_db w' = w_db w) w" for hint
      by (rule wp_reads) (simp_all only: body [OF Some] keeps_obligation_reads)
    with Some show ?thesis
      unfolding cancel_task_def Let_def wp_bind [of "task_get tn tid"] wp_task_get [OF ok]
        wp_bind [of "some_or_raise x y" for x y] wp_some_or_raise wp_bind [of "?ob hint" for hint]
      by simp
  qed
qed

section \<open>Leasing\<close>

subsection \<open>Claiming\<close>

text \<open>The lease \<open>l\<close> given for the task \<open>t\<close>, and the cell it leaves.\<close>

definition granted :: "string \<Rightarrow> datetime \<Rightarrow> datetime \<Rightarrow> db \<Rightarrow> task \<Rightarrow> lease \<Rightarrow> bool" where
  "granted worker now expires d' t l \<longleftrightarrow> l_key l = t_key t \<and> l_worker l = worker \<and>
     l_expires_at l = expires \<and> l_acquired_at l = now \<and> l_renewal_count l = 0 \<and>
     cell d' (t_key t) = (Some (t\<lparr>t_status := LEASED, t_updated_at := now\<rparr>), Some l)"

lemma wp_grants:
  assumes "schema_ok (w_db w)" "waiting (w_db w) tn ts" "\<forall>t \<in> set ts. lease_of (w_db w) (t_key t) = None"
  shows "wp (for_each (grant_lease tn worker now expires) ts)
    (\<lambda>ls w'. list_all2 (granted worker now expires (w_db w')) ts ls \<and>
       (\<forall>k. k \<notin> t_key ` set ts \<longrightarrow> cell (w_db w') k = cell (w_db w) k) \<and>
       db_receipts (w_db w') = db_receipts (w_db w)) (\<lambda>_ _. True) w"
  using assms
proof (induction ts arbitrary: w)
  case (Cons t ts)
  let ?l = "\<lparr>l_id = w_uuid w, l_tenant = tn, l_task = t_id t, l_worker = worker, l_expires_at = expires,
     l_created_at = now, l_acquired_at = now, l_renewal_count = 0\<rparr>"
  let ?f = "\<lambda>x. x\<lparr>t_status := LEASED, t_updated_at := now\<rparr>"
  let ?d = "set_tasks tn (t_id t) ?f ((w_db w)\<lparr>db_leases := db_leases (w_db w) @ [?l]\<rparr>)"
  let ?w = "w\<lparr>w_uuid := Suc (w_uuid w), w_db := ?d\<rparr>"
  let ?Q = "\<lambda>ts w ls w'. list_all2 (granted worker now expires (w_db w')) ts ls \<and>
      (\<forall>k. k \<notin> t_key ` set ts \<longrightarrow> cell (w_db w') k = cell (w_db w) k) \<and> db_receipts (w_db w') = db_receipts (w_db w)"
  have t: "t_tenant t = tn" "t_key t = (tn, t_id t)" "l_key ?l = (tn, t_id t)" "task_of (w_db w) (tn, t_id t) = Some t"
    "lease_of (w_db w) (tn, t_id t) = None"
    using Cons.prems by (auto simp: waiting_def t_key_def l_key_def)
  have new: "t_key t \<notin> t_key ` set ts" using Cons.prems(2) by (auto simp: waiting_def)
  have cells: "cell ?d (tn, t_id t) = (Some (?f t), Some ?l)"
    "k \<noteq> (tn, t_id t) \<Longrightarrow> cell ?d k = cell (w_db w) k" for k
    using t by (auto simp: cell_def lease_of_insert split: option.split)
  have rest: "wp (for_each (grant_lease tn worker now expires) ts)
      (\<lambda>ls w'. ?Q (t # ts) w (?l # ls) w') (\<lambda>_ _. True) ?w" if u: "lease_unique (w_db w) ?l"
  proof (rule wp_mono [OF Cons.IH])
    show "schema_ok (w_db ?w)" using schema.ins_lease [OF Cons.prems(1) _ u] by simp
    show "waiting (w_db ?w) tn ts"
      using Cons.prems(2) t new unfolding waiting_def by (auto simp: image_iff)
    show "\<forall>x \<in> set ts. lease_of (w_db ?w) (t_key x) = None"
      using Cons.prems(3) t new by (auto simp: lease_of_insert image_iff)
  next
    fix ls w' assume q: "?Q ts ?w ls w'"
    then have "cell (w_db w') (t_key t) = cell ?d (t_key t)" using new by simp
    then have "granted worker now expires (w_db w') t ?l" using t cells(1) by (simp add: granted_def)
    then show "?Q (t # ts) w (?l # ls) w'" using q t cells(2) by auto
  qed
  have "wp (grant_lease tn worker now expires t)
      (\<lambda>l. wp (for_each (grant_lease tn worker now expires) ts) (\<lambda>ls. ?Q (t # ts) w (l # ls)) (\<lambda>_ _. True))
      (\<lambda>_ _. True) w"
    using rest by (simp add: grant_lease_def Let_def wp_bind wp_seq wp_uuid4 wp_insert_lease wp_update_task wp_return)
  then show ?case
    unfolding for_each.simps by (simp add: wp_bind wp_bind_fun wp_return_fun)
qed (simp add: wp_return)

text \<open>
  A claim hands out, in the order of the queue, the first tasks that are queued, eligible, of
  an accepted type and within the worker's capabilities.
\<close>

definition offered :: "uuid \<Rightarrow> datetime \<Rightarrow> string list option \<Rightarrow> string list option \<Rightarrow> int \<Rightarrow> db \<Rightarrow> task list" where
  "offered tn now caps accept_types n d =
     filter (\<lambda>t. caps_match (capabilities (t_requirements t)) caps)
       (take (nat n) (claim_order (filter (claimable tn now accept_types) (db_tasks d))))"

lemma wp_claim_next:
  assumes ok: "schema_ok (w_db w)" "cells_ok (w_db w)"
  shows "wp (lease_claim_next e tn worker caps accept_types n ttl)
    (\<lambda>ls w'. let now = e_clock e (w_clock w);
         expires = now + min (or_default ttl (default_lease_ttl (cfg e))) (max_lease_ttl (cfg e)) * second;
         ts = offered tn now caps accept_types n (w_db w) in
       list_all2 (granted worker now expires (w_db w')) ts ls \<and>
       (\<forall>k. k \<notin> t_key ` set ts \<longrightarrow> cell (w_db w') k = cell (w_db w) k) \<and>
       db_receipts (w_db w') = db_receipts (w_db w)) (\<lambda>_ _. True) w"
proof -
  let ?now = "e_clock e (w_clock w)"
  let ?ts = "offered tn ?now caps accept_types n (w_db w)"
  let ?w = "w\<lparr>w_clock := Suc (w_clock w)\<rparr>"
  have "wp (for_each (grant_lease tn worker ?now ex) ?ts)
    (\<lambda>ls w'. list_all2 (granted worker ?now ex (w_db w')) ?ts ls \<and>
       (\<forall>k. k \<notin> t_key ` set ?ts \<longrightarrow> cell (w_db w') k = cell (w_db w) k) \<and>
       db_receipts (w_db w') = db_receipts (w_db w)) (\<lambda>_ _. True) ?w"
    if found: "claim_candidates tn ?now accept_types n (w_db w) = Inr ts" for ex ts
  proof (rule wp_mono [OF wp_grants])
    have ts: "?ts = filter (\<lambda>t. caps_match (capabilities (t_requirements t)) caps) ts"
      using found by (simp add: claim_candidates_def sql_limit_Inr offered_def)
    show wait: "waiting (w_db ?w) tn ?ts" using waiting_candidates [OF ok(1) found] ts by simp
    have "lease_of (w_db w) (t_key t) = None" if "t \<in> set ?ts" for t
    proof -
      have "task_of (w_db w) (t_key t) = Some t" "t_status t = QUEUED" using wait that by (auto simp: waiting_def)
      moreover have "cell_ok (cell (w_db w) (t_key t))" using ok(2) unfolding cells_ok_def by blast
      ultimately show ?thesis by (simp add: cell_def)
    qed
    then show "\<forall>t \<in> set ?ts. lease_of (w_db ?w) (t_key t) = None" by simp
  qed (use ok in simp_all)
  moreover have "filter (\<lambda>t. caps_match (capabilities (t_requirements t)) caps) ts = ?ts"
    if "claim_candidates tn ?now accept_types n (w_db w) = Inr ts" for ts
    using that by (simp add: claim_candidates_def sql_limit_Inr offered_def)
  ultimately show ?thesis
    by (auto simp: lease_claim_next_def wp_bind wp_utc_now wp_some_or_raise wp_select wp_lift_sum Let_def
        dest!: add_seconds_Some split: option.split sum.split)
qed

subsection \<open>Renewing\<close>

text \<open>
  The worker holds the lease, perhaps expired; both limits have room; the new expiry is the
  requested time from now, capped.
\<close>

definition renewed_by ::
    "env \<Rightarrow> datetime \<Rightarrow> uuid \<Rightarrow> string \<Rightarrow> uuid \<Rightarrow> uuid \<Rightarrow> int option \<Rightarrow> datetime \<Rightarrow> db \<Rightarrow> db \<Rightarrow> bool" where
  "renewed_by e now tn worker tid lid extend_by expires d d' \<longleftrightarrow>
     (\<exists>t l. cell d (tn, tid) = (Some t, Some l) \<and> in_flight (t_status t) \<and> l_id l = lid \<and> l_worker l = worker \<and>
        l_renewal_count l < max_lease_renewals (cfg e) \<and>
        trunc_seconds (now - l_acquired_at l) < max_lease_lifetime (cfg e) \<and>
        expires = now + min (or_default extend_by (default_lease_ttl (cfg e))) (max_lease_ttl (cfg e)) * second \<and>
        becomes (tn, tid) (Some t, Some (renewed expires (l_renewal_count l + 1) l)) d d')"

lemma wp_renew_lease:
  assumes ok: "schema_ok (w_db w)"
  shows "wp (renew_lease e tn worker tid lid extend_by)
    (\<lambda>expires w'. renewed_by e (e_clock e (w_clock w)) tn worker tid lid extend_by expires (w_db w) (w_db w'))
    (\<lambda>_ w'. w_db w' = w_db w) w"
proof -
  let ?d = "w_db w"
  have found: "scalar_one_or_none MultipleResultsFound (filter (held_by tn tid lid worker) (db_leases ?d)) =
      Inr (case lease_of ?d (tn, tid) of None \<Rightarrow> None | Some l \<Rightarrow> if held_by tn tid lid worker l then Some l else None)"
    by (rule scalar_filter_lease [OF ok]) (simp add: held_by_def l_key_def)
  have step: "becomes (tn, tid) (Some t, Some (renewed ex n l)) ?d (set_lease lid (renewed ex n) ?d)"
    if t: "task_of ?d (tn, tid) = Some t" and l: "lease_of ?d (tn, tid) = Some l" and h: "held_by tn tid lid worker l"
    for t l ex n
  proof -
    have mem: "l \<in> set (db_leases ?d)" "l_id l = lid" "l_key l = (tn, tid)"
      using l ok h by (simp_all add: lease_of_iff held_by_def)
    note new = lease_of_set_lease [OF ok mem(1,2) renewed_frozen]
    show ?thesis
      using t mem by (simp add: becomes_def cell_def new ledger_grows_same)
  qed
  show ?thesis
    using ok step
    by (auto simp: renew_lease_def lease_renew_def wp_bind wp_task_get wp_some_or_raise wp_seq wp_ensure
        wp_one_or_none found wp_utc_now wp_update_lease wp_return renewed_by_def cell_def held_by_def
        not_le dest!: add_seconds_Some split: option.split)
qed

section \<open>Working\<close>

text \<open>A start is recorded once: a task that runs keeps the time it started.\<close>

definition started_by :: "uuid \<Rightarrow> uuid \<Rightarrow> datetime \<Rightarrow> db \<Rightarrow> db \<Rightarrow> bool" where
  "started_by tn tid started d d' \<longleftrightarrow> (\<exists>t l now. cell d (tn, tid) = (Some t, Some l) \<and>
     t_status t = LEASED \<and> (t_started_at t = None \<or> t_started_at t = Some started) \<and>
     becomes (tn, tid) (Some (with_status now RUNNING None (Some started) t), Some l) d d')"

lemma wp_start_block:
  assumes ok: "schema_ok (w_db w)" and t: "task_of (w_db w) (tn, t_id t) = Some t" "t_status t = LEASED"
    and l: "lease_of (w_db w) (tn, t_id t) = Some l"
  shows "wp (transition_to_running e tn t worker lid owner ps)
    (\<lambda>started w'. started_by tn (t_id t) started (w_db w) (w_db w')) (\<lambda>_ w'. w_db w' = w_db w) w"
proof -
  let ?Q = "\<lambda>started w'. started_by tn (t_id t) started (w_db w) (w_db w')"
  have block: "wp (seq (bind (task_update_status e tn (t_id t) RUNNING None (Some st)) (\<lambda>_. return ()))
             (bind (engine_emit e tn TASK_STARTED (worker_principal worker) owner (Some (t_id t))
                (Some lid) (Some (body_task_started (Some st))) ps) (\<lambda>_. return st)))
      ?Q (\<lambda>_ _. True) w'"
    if w': "w_db w' = w_db w" and st: "t_started_at t = None \<or> t_started_at t = Some st" for st w'
  proof -
    let ?f = "with_status (e_clock e (w_clock w')) RUNNING None (Some st)"
    have "wp (engine_emit e tn TASK_STARTED (worker_principal worker) owner (Some (t_id t))
                (Some lid) (Some (body_task_started (Some st))) ps) (\<lambda>_ w''. ?Q st w'') (\<lambda>_ _. True)
        (w'\<lparr>w_clock := Suc (w_clock w'), w_db := set_tasks tn (t_id t) ?f (w_db w)\<rparr>)"
    proof (rule wp_mono [OF wp_announcing])
      fix x w'' assume a: "announces (w_db (w'\<lparr>w_clock := Suc (w_clock w'),
          w_db := set_tasks tn (t_id t) ?f (w_db w)\<rparr>)) (w_db w'')"
      have "becomes (tn, t_id t) (Some (?f t), Some l) (w_db w) (w_db w'')"
        using t l by (intro becomes_announced [OF a]) (simp_all add: cell_def)
      then show "?Q st w''" using t l st by (auto simp: started_by_def cell_def)
    qed (auto intro: announcing.keeps_engine_emit)
    then show ?thesis
      using ok w' by (simp add: wp_seq wp_bind wp_task_update_status wp_return wp_return_fun Let_def)
  qed
  show ?thesis
    unfolding transition_to_running_def using t
    by (cases "t_started_at t")
      (auto simp: wp_seq wp_ensure wp_bind wp_utc_now wp_return intro!: wp_saved [THEN wp_mono] block)
qed

text \<open>The guard, with what it establishes of the cell.\<close>

lemma wp_with_lease:
  assumes ok: "schema_ok (w_db w)"
    and yes: "\<And>t l. \<lbrakk>holds (w_db w) tn tid lid worker (e_clock e (w_clock w)); task_of (w_db w) (tn, tid) = Some t;
      t_id t = tid; lease_of (w_db w) (tn, tid) = Some l\<rbrakk> \<Longrightarrow> Q t (w\<lparr>w_clock := Suc (w_clock w)\<rparr>)"
    and no: "\<not> holds (w_db w) tn tid lid worker (e_clock e (w_clock w)) \<Longrightarrow>
      E (LeaseInvalidOrExpired tid lid) (w\<lparr>w_clock := Suc (w_clock w)\<rparr>)"
  shows "wp (require_lease e tn tid lid worker) Q E w"
proof -
  have "Q (the (task_of (w_db w) (tn, tid))) (w\<lparr>w_clock := Suc (w_clock w)\<rparr>)"
    if held: "holds (w_db w) tn tid lid worker (e_clock e (w_clock w))"
  proof -
    obtain l where l: "lease_of (w_db w) (tn, tid) = Some l" using holds_lease [OF held] by blast
    obtain t where t: "task_of (w_db w) (tn, tid) = Some t" using leased_task [OF ok l] by blast
    then have "t_id t = tid" using task_of_Some [OF t] by (simp add: t_key_def)
    with yes [OF held t _ l] t show ?thesis by simp
  qed
  with no show ?thesis unfolding wp_require_lease [OF ok] Let_def by simp
qed

text \<open>Without the lease nothing of the operation is reached.\<close>

definition stale :: "exn + 'a \<Rightarrow> uuid \<Rightarrow> uuid \<Rightarrow> world \<Rightarrow> world \<Rightarrow> bool" where
  "stale r tid lid w w' \<longleftrightarrow> r = Inl (LeaseInvalidOrExpired tid lid) \<and> w_db w' = w_db w"

lemma stale_bind:
  assumes "schema_ok (w_db w)" and "\<not> holds (w_db w) tn tid lid worker (e_clock e (w_clock w))"
    and "m = bind (require_lease e tn tid lid worker) f"
  shows "stale (fst (m w)) tid lid w (snd (m w))"
proof -
  have "wp m (\<lambda>_ _. False) (\<lambda>x w'. x = LeaseInvalidOrExpired tid lid \<and> w_db w' = w_db w) w"
    unfolding assms(3) wp_bind by (rule wp_with_lease) (use assms in auto)
  then show ?thesis by (auto simp: wp_def stale_def split: prod.splits sum.splits)
qed

lemma owner_reads: "wp (owner_and_parents tn t) (\<lambda>_ w'. w' = w) E w"
  by (simp add: owner_and_parents_def get_task_obligation_def receipt_task_obligation_def wp_simps Let_def)

lemma wp_start:
  assumes ok: "schema_ok (w_db w)" and t: "task_of (w_db w) (tn, t_id t) = Some t" "t_status t \<noteq> RUNNING"
    and l: "lease_of (w_db w) (tn, t_id t) = Some l"
  shows "wp (transition_to_running e tn t worker lid owner ps)
    (\<lambda>started w'. started_by tn (t_id t) started (w_db w) (w_db w')) (\<lambda>_ w'. w_db w' = w_db w) w"
  using wp_start_block [OF ok t(1) _ l] t(2)
  by (cases "t_status t = LEASED") (simp_all add: transition_to_running_def wp_seq wp_ensure)

text \<open>What \<open>start_task\<close> returns: the recorded start of a running task, or the one just recorded.\<close>

definition start_recorded :: "uuid \<Rightarrow> uuid \<Rightarrow> datetime option \<Rightarrow> db \<Rightarrow> db \<Rightarrow> bool" where
  "start_recorded tn tid started d d' \<longleftrightarrow> (\<exists>t. task_of d (tn, tid) = Some t \<and>
     (if t_status t = RUNNING then started = t_started_at t \<and> d' = d
      else \<exists>s. started = Some s \<and> started_by tn tid s d d'))"

lemma wp_start_task:
  assumes ok: "schema_ok (w_db w)"
  shows "wp (start_task e tn worker tid lid)
    (\<lambda>started w'. holds (w_db w) tn tid lid worker (e_clock e (w_clock w)) \<and>
       start_recorded tn tid started (w_db w) (w_db w'))
    (\<lambda>_ w'. w_db w' = w_db w) w"
proof -
  let ?Q = "\<lambda>started w'. holds (w_db w) tn tid lid worker (e_clock e (w_clock w)) \<and>
      start_recorded tn tid started (w_db w) (w_db w')"
  show ?thesis
    unfolding start_task_def wp_bind [of "require_lease e tn tid lid worker"]
  proof (rule wp_with_lease [OF ok])
    fix t l assume held: "holds (w_db w) tn tid lid worker (e_clock e (w_clock w))"
      and t: "task_of (w_db w) (tn, tid) = Some t" "t_id t = tid" and l: "lease_of (w_db w) (tn, tid) = Some l"
    let ?w = "w\<lparr>w_clock := Suc (w_clock w)\<rparr>"
    have "wp (transition_to_running e tn t worker lid owner ps) (\<lambda>s. ?Q (Some s)) (\<lambda>_ w'. w_db w' = w_db w) ?w"
      if "t_status t \<noteq> RUNNING" for owner ps
      by (rule wp_mono [OF wp_start]) (use ok t l held that in \<open>auto simp: start_recorded_def\<close>)
    then show "wp (if t_status t = RUNNING then return (t_started_at t)
        else bind (owner_and_parents tn t) (\<lambda>(owner, parents, _).
          bind (transition_to_running e tn t worker lid owner parents) (\<lambda>started. return (Some started))))
        ?Q (\<lambda>_ w'. w_db w' = w_db w) ?w"
      using held t
      by (auto simp: wp_return start_recorded_def wp_bind wp_return_fun split: prod.split
          intro!: wp_mono [OF owner_reads])
  qed simp
qed

section \<open>Creating\<close>

text \<open>
  A new task is queued under a new key, with no attempts and no lease; or the constraint on
  idempotency keys found the one created before, and the session starts over.
\<close>

definition created_as :: "uuid \<Rightarrow> string option \<Rightarrow> task \<Rightarrow> db \<Rightarrow> db \<Rightarrow> bool" where
  "created_as tn key t d d' \<longleftrightarrow> t_tenant t = tn \<and> t_idempotency_key t = key \<and> t_status t = QUEUED \<and>
     t_attempt t = 0 \<and> t_result t = None \<and> task_of d (t_key t) = None \<and> task_unique d t \<and>
     db_tasks d' = db_tasks d @ [t] \<and> db_leases d' = db_leases d \<and> ledger_grows d d'"

definition found_by_key :: "uuid \<Rightarrow> string option \<Rightarrow> task \<Rightarrow> db \<Rightarrow> bool" where
  "found_by_key tn key t c \<longleftrightarrow> truthy_str key \<and> t \<in> set (db_tasks c) \<and> t_tenant t = tn \<and>
     t_idempotency_key t = key"

lemma wp_task_create:
  "wp (task_create e tn ty pl cb ai pp rq ek em pr key ma bo dl)
     (\<lambda>t w'. created_as tn key t (w_db w) (w_db w') \<or>
        (found_by_key tn key t (w_committed w) \<and> w_db w' = w_committed w)) (\<lambda>_ _. True) w"
proof -
  have new: "created_as tn key (new_task s tn i now ty pl cb ai pp rq ek em pr key ma bo el) d
      (d\<lparr>db_tasks := db_tasks d @ [new_task s tn i now ty pl cb ai pp rq ek em pr key ma bo el]\<rparr>)"
    if "task_unique d (new_task s tn i now ty pl cb ai pp rq ek em pr key ma bo el)" for s i now el d
    using that by (auto simp: created_as_def task_of_None task_unique_def ledger_grows_same)
      (simp_all add: new_task_def)
  have found: "found_by_key tn key t c"
    if "scalar_one_or_none MultipleResultsFound
      (filter (\<lambda>t. t_tenant t = tn \<and> t_idempotency_key t = Some (the key)) (db_tasks c)) = Inr (Some t)"
      "truthy_str key" for c t
    using scalar_Some [OF that(1)] that(2) by (auto simp: found_by_key_def truthy_str_def split: option.splits)
  show ?thesis
    using found new
    by (simp add: task_create_def wp_bind wp_utc_now wp_uuid4 wp_lift_sum wp_try_except Let_def wp_seq
        wp_insert_task wp_return wp_raise wp_session_rollback task_by_idempotency_key_def wp_one_or_none
        wp_some_or_raise split: sum.split option.split)
qed

end
