(* ===== verification/Obligations.thy ===== *)
theory Obligations
  imports Effects
begin

text \<open>
  Receipts and the obligations they open and close: what \<open>ReceiptRepository.create\<close> stores,
  when it stores nothing, when its hash can confuse two receipts, and that the listing of open
  obligations is the one its specification describes.
\<close>

section \<open>What a creation stores\<close>

definition receipt_hash_for ::
    "env \<Rightarrow> receipt_type \<Rightarrow> principal \<Rightarrow> principal \<Rightarrow> uuid option \<Rightarrow> uuid option \<Rightarrow> uuid list option \<Rightarrow>
     dict option \<Rightarrow> string option \<Rightarrow> string" where
  "receipt_hash_for e ty from to task lease parents body given_hash =
     (if truthy_str given_hash then the given_hash
      else compute_receipt_hash e ty task from to lease body (parents_used ty body parents))"

text \<open>The receipt stored before under the hash; or the new row, with its anomaly if it was stripped.\<close>

definition stored_before :: "uuid \<Rightarrow> string \<Rightarrow> receipt \<Rightarrow> db \<Rightarrow> db \<Rightarrow> bool" where
  "stored_before tn h r d d' \<longleftrightarrow> d' = d \<and> r \<in> set (db_receipts d) \<and> r_tenant r = tn \<and> r_hash r = Some h"

definition anomaly_of :: "receipt \<Rightarrow> receipt \<Rightarrow> bool" where
  "anomaly_of r a \<longleftrightarrow> r_type a = SYSTEM_ANOMALY \<and> r_parents a = [r_id r] \<and> r_tenant a = r_tenant r \<and>
     r_from a = service_principal \<and> p_kind (r_to a) = p_kind (r_to r) \<and> p_id (r_to a) = p_id (r_to r)"

definition stored_now :: "receipt \<Rightarrow> bool \<Rightarrow> db \<Rightarrow> db \<Rightarrow> bool" where
  "stored_now r stripped d d' \<longleftrightarrow> receipt_unique d r \<and> receipt_fits r \<and>
     (if stripped then \<exists>a. anomaly_of r a \<and> d' = d\<lparr>db_receipts := db_receipts d @ [r, a]\<rparr>
      else d' = d\<lparr>db_receipts := db_receipts d @ [r]\<rparr>)"

lemma service_principal_mk [simp]: "mk_principal (p_kind service_principal) (p_id service_principal) = service_principal"
  by (simp add: service_principal_def)

lemma wp_anomaly:
  assumes "p_kind (r_to r) = p_kind to" "p_id (r_to r) = p_id to"
  shows "wp (emit_anomaly e (r_tenant r) (r_id r) to task parents body)
     (\<lambda>_ w'. \<exists>a. anomaly_of r a \<and> w_db w' = (w_db w)\<lparr>db_receipts := db_receipts (w_db w) @ [a]\<rparr>)
     (\<lambda>_ _. True) w"
proof -
  have "anomaly_of r (new_receipt s (r_tenant r) i SYSTEM_ANOMALY now service_principal to task None None
      [r_id r] b None)" for s i now b
    using assms by (simp add: anomaly_of_def) (simp add: new_receipt_def)
  then show ?thesis
    by (simp add: emit_anomaly_def Let_def wp_bind wp_get_trace_id wp_uuid4 wp_utc_now wp_insert_receipt) blast
qed

definition unseen :: "uuid \<Rightarrow> string \<Rightarrow> db \<Rightarrow> bool" where
  "unseen tn h d \<longleftrightarrow> (\<forall>x \<in> set (db_receipts d). r_tenant x = tn \<longrightarrow> r_hash x \<noteq> Some h)"

lemma wp_by_hash:
  "wp (if h \<noteq> [] then receipt_by_hash tn h else return None) Q E w =
     (if h = [] then Q None w
      else case scalar_one_or_none MultipleResultsFound
          (filter (\<lambda>r. r_tenant r = tn \<and> r_hash r = Some h) (db_receipts (w_db w)))
        of Inl x \<Rightarrow> E x w | Inr x \<Rightarrow> Q x w)"
  by (simp add: receipt_by_hash_def wp_one_or_none wp_return)

text \<open>The outcome of a creation that returns \<open>r\<close>, for the hash \<open>h\<close> and the row it would insert.\<close>

definition created_receipt :: "uuid \<Rightarrow> string \<Rightarrow> receipt \<Rightarrow> bool \<Rightarrow> receipt \<Rightarrow> db \<Rightarrow> db \<Rightarrow> bool" where
  "created_receipt tn h row stripped r d d' \<longleftrightarrow>
     (if h = [] \<or> unseen tn h d then r = row \<and> stored_now row stripped d d' else stored_before tn h r d d')"

lemma wp_store_row:
  assumes "r_tenant row = tn" "r_id row = rid" "p_kind (r_to row) = p_kind to" "p_id (r_to row) = p_id to"
    and d: "w_db w = d" "h = [] \<or> unseen tn h d"
  shows "wp (seq (insert_receipt row)
      (seq (if stripped then emit_anomaly e tn rid to task parents body else return ()) (return row)))
    (\<lambda>r w'. created_receipt tn h row stripped r d (w_db w')) (\<lambda>_ _. True) w"
proof -
  let ?w = "w\<lparr>w_db := d\<lparr>db_receipts := db_receipts d @ [row]\<rparr>\<rparr>"
  have "wp (emit_anomaly e tn rid to task parents body)
      (\<lambda>_ w'. created_receipt tn h row True row d (w_db w')) (\<lambda>_ _. True) ?w"
    if "receipt_fits row" "receipt_unique d row"
    using wp_anomaly [OF assms(3,4), of e task parents body ?w] assms that
    by (auto simp: created_receipt_def stored_now_def elim!: wp_mono)
  then show ?thesis
    using assms by (auto simp: wp_seq wp_insert_receipt wp_return wp_return_fun created_receipt_def stored_now_def)
qed

lemma wp_receipt_create:
  assumes hash: "hash = receipt_hash_for e ty from to task lease parents body given_hash"
  shows "wp (receipt_create e tn ty from to task lease schedule parents body given_hash)
    (\<lambda>r w'. check_size body parents = Inr () \<and> parents_ok tn ty parents (w_db w) \<and>
       created_receipt tn hash (new_receipt (cfg e) tn (w_uuid w) ty (e_clock e (w_clock w)) from to task lease
           schedule (list_of (parents_used ty body parents)) (dict_of body) (Some hash))
         (strips_parents ty body) r (w_db w) (w_db w'))
    (\<lambda>_ _. True) w"
proof -
  let ?w = "w\<lparr>w_clock := Suc (w_clock w), w_uuid := Suc (w_uuid w)\<rparr>"
  let ?row = "new_receipt (cfg e) tn (w_uuid w) ty (e_clock e (w_clock w)) from to task lease
           schedule (list_of (parents_used ty body parents)) (dict_of body) (Some hash)"
  have seen: "created_receipt tn hash ?row b r (w_db w) (w_db w)"
    if "hash \<noteq> []" "scalar_one_or_none MultipleResultsFound
      (filter (\<lambda>r. r_tenant r = tn \<and> r_hash r = Some hash) (db_receipts (w_db w))) = Inr (Some r)" for r b
    using scalar_Some [OF that(2)] that(1) by (auto simp: created_receipt_def stored_before_def unseen_def)
  have fresh: "unseen tn hash (w_db w)"
    if "scalar_one_or_none MultipleResultsFound
      (filter (\<lambda>r. r_tenant r = tn \<and> r_hash r = Some hash) (db_receipts (w_db w))) = Inr None"
    using scalar_None [OF that] by (auto simp: unseen_def)
  define anomaly where "anomaly = (if strips_parents ty body
    then emit_anomaly e tn (w_uuid w) to task parents body else return ())"
  have used: "(if truthy_str given_hash then the given_hash
      else compute_receipt_hash e ty task from to lease body (parents_used ty body parents)) = hash"
    by (simp add: hash receipt_hash_for_def)
  have store: "wp (seq (insert_receipt ?row) (seq anomaly (return ?row)))
      (\<lambda>r w'. created_receipt tn hash ?row (strips_parents ty body) r (w_db w) (w_db w')) (\<lambda>_ _. True) ?w"
    if "hash = [] \<or> unseen tn hash (w_db w)"
    unfolding anomaly_def by (rule wp_store_row) (use that in simp_all)
  have "wp (receipt_insert e tn (w_uuid w) (e_clock e (w_clock w)) ty from to task lease schedule parents body given_hash)
      (\<lambda>r w'. created_receipt tn hash ?row (strips_parents ty body) r (w_db w) (w_db w')) (\<lambda>_ _. True) ?w"
    unfolding receipt_insert_def Let_def used anomaly_def [symmetric] wp_bind wp_by_hash
    using seen fresh store by (auto simp: wp_return split: sum.split option.split)
  then show ?thesis
    by (auto simp: receipt_create_def wp_bind wp_utc_now wp_uuid4 wp_seq wp_lift_sum wp_check_parents
        split: sum.split elim!: wp_mono)
qed

section \<open>When two receipts have one hash\<close>

lemma map_of_sort_key: "distinct (map fst xs) \<Longrightarrow> map_of (sort_key fst xs) = map_of xs"
  by (rule map_of_eqI) (auto simp: map_of_eq_Some_iff distinct_map distinct_insort inj_on_def
      dest: map_of_SomeD)

lemma map_of_map_prod: "map_of (map (map_prod id f) d) k = map_option f (map_of d k)"
  by (induction d) auto

definition sorted_dict :: "dict \<Rightarrow> json" where
  "sorted_dict d = sort_keys (JDict d)"

lemma canonical_inject: "dumps_canonical (JDict a) = dumps_canonical (JDict b) \<longleftrightarrow> sorted_dict a = sorted_dict b"
  by (simp add: dumps_canonical_def dumps_compact_inject sorted_dict_def)

lemma sorted_dict_get:
  assumes "sorted_dict a = sorted_dict b" "distinct (map fst a)" "distinct (map fst b)"
  shows "sort_keys (dict_get a k) = sort_keys (dict_get b k)"
proof -
  have eq: "map_of (sort_key fst (map (map_prod id sort_keys) a)) = map_of (sort_key fst (map (map_prod id sort_keys) b))"
    using assms(1) by (simp add: sorted_dict_def)
  have key: "map_of (sort_key fst (map (map_prod id sort_keys) d)) k = map_option sort_keys (map_of d k)"
    if "distinct (map fst d)" for d
  proof -
    have "map_of (sort_key fst (map (map_prod id sort_keys) d)) = map_of (map (map_prod id sort_keys) d)"
      by (rule map_of_sort_key) (use that in \<open>simp add: o_def\<close>)
    then show ?thesis by (simp only: map_of_map_prod)
  qed
  have "map_option sort_keys (map_of a k) = map_option sort_keys (map_of b k)"
    using fun_cong [OF eq, of k] key [OF assms(2)] key [OF assms(3)] by simp
  then show ?thesis by (cases "map_of a k"; cases "map_of b k") (simp_all add: dict_get_def)
qed

text \<open>Two bodies the digest does not tell apart: both empty, or equal up to the order of keys.\<close>

definition same_body :: "dict option \<Rightarrow> dict option \<Rightarrow> bool" where
  "same_body b b' \<longleftrightarrow> truthy_list b = truthy_list b' \<and>
     (truthy_list b \<longrightarrow> sorted_dict (dict_of b) = sorted_dict (dict_of b'))"

definition sha_collision :: "env \<Rightarrow> bool" where
  "sha_collision e \<longleftrightarrow> (\<exists>s s'. s \<noteq> s' \<and> e_sha256 e s = e_sha256 e s')"

lemma sha_eq: "e_sha256 e s = e_sha256 e s' \<Longrightarrow> s = s' \<or> sha_collision e"
  by (auto simp: sha_collision_def)

lemma body_digest_eq: "body_digest e b = body_digest e b' \<Longrightarrow> same_body b b' \<or> sha_collision e"
  by (auto simp: body_digest_def same_body_def canonical_inject dest!: sha_eq split: if_splits)

lemma sort_keys_leaf [simp]:
  "sort_keys (uuid_opt u) = uuid_opt u" "sort_keys (body_digest e b) = body_digest e b"
  by (simp_all add: uuid_opt_def body_digest_def split: option.split)

lemma hash_input_keys: "distinct (map fst (hash_input e ty task from to lease body parents))"
  by (simp add: hash_input_def)

lemma receipt_hash_cases:
  assumes "compute_receipt_hash e ty task from to lease body ps = compute_receipt_hash e ty' task' from' to' lease' body' ps'"
  shows "sha_collision e \<or> (ty = ty' \<and> uuid_opt task = uuid_opt task' \<and> uuid_opt lease = uuid_opt lease' \<and>
    p_kind from = p_kind from' \<and> p_id from = p_id from' \<and> p_kind to = p_kind to' \<and> p_id to = p_id to' \<and>
    sort (map uuid_str (list_of ps)) = sort (map uuid_str (list_of ps')) \<and> same_body body body')"
proof (cases "sha_collision e")
  case False
  let ?a = "hash_input e ty task from to lease body ps"
  let ?b = "hash_input e ty' task' from' to' lease' body' ps'"
  have "sorted_dict ?a = sorted_dict ?b"
    using assms sha_eq False unfolding compute_receipt_hash_def by (metis canonical_inject)
  then have field: "sort_keys (dict_get ?a k) = sort_keys (dict_get ?b k)" for k
    by (rule sorted_dict_get [OF _ hash_input_keys hash_input_keys])
  have texts: "map JStr xs = map JStr ys \<longleftrightarrow> xs = ys" for xs ys
    by (simp add: inj_map_eq_map inj_def)
  have "body_digest e body = body_digest e body'"
    using field [of "''body_hash''"] by (simp add: hash_input_def)
  then have "same_body body body'" using body_digest_eq False by blast
  then show ?thesis
    using field [of "''receipt_type''"] field [of "''task_id''"] field [of "''from_kind''"] field [of "''from_id''"]
      field [of "''to_kind''"] field [of "''to_id''"] field [of "''lease_id''"] field [of "''parents''"]
    by (simp add: hash_input_def o_def texts)
qed simp

section \<open>The open obligations of a principal\<close>

definition unterminated :: "uuid \<Rightarrow> db \<Rightarrow> receipt \<Rightarrow> bool" where
  "unterminated tn d r \<longleftrightarrow> \<not> (\<exists>x \<in> set (db_receipts d). terminates tn (r_id r) x)"

definition candidates :: "uuid \<Rightarrow> principal_kind \<Rightarrow> string \<Rightarrow> datetime option \<Rightarrow> db \<Rightarrow> receipt list" where
  "candidates tn k pid c d = order_by r_created_at (filter (is_candidate tn k pid c) (db_receipts d))"

text \<open>
  The page: the unterminated ones among the first candidates, oldest first. When there is no
  cursor to go on with, they are all there are.
\<close>

definition obligations_page :: "uuid \<Rightarrow> int \<Rightarrow> receipt list \<Rightarrow> db \<Rightarrow> receipt list \<Rightarrow> uuid option \<Rightarrow> bool" where
  "obligations_page tn n cands d rs cursor \<longleftrightarrow>
     rs = take (nat n) (filter (unterminated tn d) (take (nat (candidate_limit n)) cands)) \<and>
     (cursor = None \<longrightarrow> rs = filter (unterminated tn d) cands)"

lemma obligations_page_full:
  assumes n: "0 < n" and f: "fetched = take (nat (candidate_limit n + 1)) cands"
  defines "longer \<equiv> candidate_limit n < int (length fetched)"
  defines "rows \<equiv> (if longer then take (nat (candidate_limit n)) fetched else fetched)"
  shows "rows = take (nat (candidate_limit n)) cands" "\<not> longer \<Longrightarrow> rows = cands"
    "fetched \<noteq> [] \<Longrightarrow> rows \<noteq> []"
proof -
  have L: "0 < candidate_limit n" using n by (simp add: candidate_limit_def)
  then have s: "nat (candidate_limit n + 1) = Suc (nat (candidate_limit n))" by simp
  show whole: "\<not> longer \<Longrightarrow> rows = cands"
    using L by (auto simp: rows_def longer_def f s min_def split: if_splits)
  show "rows = take (nat (candidate_limit n)) cands"
    using L by (auto simp: rows_def longer_def f s min_def split: if_splits)
  show "fetched \<noteq> [] \<Longrightarrow> rows \<noteq> []" using L by (auto simp: rows_def)
qed

lemma wp_open_obligations:
  assumes n: "0 < n" and c: "wp (cursor_time tn since) (\<lambda>c w'. w' = w \<and> C c) E w"
  shows "wp (receipt_list_open_obligations tn k pid since n)
    (\<lambda>(rs, cursor) w'. w' = w \<and> (\<exists>c. C c \<and> obligations_page tn n (candidates tn k pid c (w_db w)) (w_db w) rs cursor))
    E w"
proof -
  let ?L = "candidate_limit n"
  have page: "wp (if fetched = [] then return ([], None)
      else (let longer = (?L < int (length fetched)); rows = (if longer then take (nat ?L) fetched else fetched)
        in bind (select (terminated_ids tn (map r_id rows))) (\<lambda>settled.
          (let opened = collect_open n settled [] rows in
           if n \<le> int (length opened) then
             (if opened = [] then raise IndexError
              else return (take (nat n) opened, Some (r_id (last opened))))
           else return (take (nat n) opened, if longer \<and> rows \<noteq> [] then Some (r_id (last rows)) else None)))))
      (\<lambda>(rs, cursor) w'. w' = w \<and> obligations_page tn n cands (w_db w) rs cursor) E w"
    if f: "fetched = take (nat (?L + 1)) cands" for fetched cands
  proof (cases "fetched = []")
    case True
    moreover have "0 < ?L" using n by (simp add: candidate_limit_def)
    ultimately have "cands = []" using f by (auto simp: nat_add_distrib)
    with True show ?thesis by (simp add: wp_return obligations_page_def)
  next
    case False
    define longer where "longer = (?L < int (length fetched))"
    define rows where "rows = (if longer then take (nat ?L) fetched else fetched)"
    note full = obligations_page_full [OF n f, folded longer_def, folded rows_def]
    let ?settled = "terminated_ids tn (map r_id rows) (w_db w)"
    have opened: "collect_open n ?settled [] rows = take (nat n) (filter (unterminated tn (w_db w)) rows)"
      using n by (subst collect_open_eq)
        (auto simp: terminated_ids_iff unterminated_def intro!: arg_cong [where f = "take (nat n)"] filter_cong)
    have all: "take (nat n) (filter (unterminated tn (w_db w)) rows) = filter (unterminated tn (w_db w)) rows"
      if "int (length (take (nat n) (filter (unterminated tn (w_db w)) rows))) < n"
      using that by simp
    show ?thesis
      unfolding Let_def longer_def [symmetric] rows_def [symmetric] wp_if wp_bind wp_select opened
      using False n full all by (auto simp: wp_return wp_raise obligations_page_def not_le)
  qed
  have query: "wp (bind (select (\<lambda>d. sql_limit (?L + 1) (order_by r_created_at (filter (is_candidate tn k pid c)
              (db_receipts d))))) (\<lambda>q. bind (lift_sum q) (\<lambda>fetched.
      if fetched = [] then return ([], None)
      else (let longer = (?L < int (length fetched)); rows = (if longer then take (nat ?L) fetched else fetched)
        in bind (select (terminated_ids tn (map r_id rows))) (\<lambda>settled.
          (let opened = collect_open n settled [] rows in
           if n \<le> int (length opened) then
             (if opened = [] then raise IndexError
              else return (take (nat n) opened, Some (r_id (last opened))))
           else return (take (nat n) opened, if longer \<and> rows \<noteq> [] then Some (r_id (last rows)) else None)))))))
      (\<lambda>(rs, cursor) w'. w' = w \<and> (\<exists>c. C c \<and> obligations_page tn n (candidates tn k pid c (w_db w)) (w_db w) rs cursor))
      E w" if "C c" for c
  proof (cases "sql_limit (?L + 1) (order_by r_created_at (filter (is_candidate tn k pid c) (db_receipts (w_db w))))")
    case (Inr fetched)
    then have "fetched = take (nat (?L + 1)) (candidates tn k pid c (w_db w))"
      by (simp add: sql_limit_Inr candidates_def)
    from page [OF this] show ?thesis
      unfolding wp_bind [of "select f" for f] wp_select Inr wp_bind [of "lift_sum r" for r] wp_lift_sum sum.case
      by (rule wp_mono) (use \<open>C c\<close> in auto)
  qed (use n in \<open>simp add: sql_limit_def candidate_limit_def split: if_splits\<close>)
  show ?thesis
    unfolding receipt_list_open_obligations_def
    by (simp add: get_obligation_types_eq wp_bind [of "cursor_time tn since"], rule wp_mono [OF c])
      (use query in auto)
qed

end
