(* ===== verification/Custody.thy ===== *)
theory Custody
  imports Effects
begin

text \<open>
  What the service has queued for the ledger and what it has done itself. An operation that
  returns has queued no receipt; one that queued a receipt stops there and raises
  \<open>ReceiptNotYetCommitted\<close>, so that its transaction is rolled back: no local transition rests
  on a receipt the ledger has not seen. \<open>at_rest\<close>: the outbox and its file are as they
  were; \<open>one_queued\<close>: one receipt was pushed and the file written.
\<close>

section \<open>Outbox and file\<close>

definition at_rest :: "env \<Rightarrow> world \<Rightarrow> world \<Rightarrow> bool" where
  "at_rest e w0 w \<longleftrightarrow> outbox e w = outbox e w0 \<and> w_disk w = w_disk w0"

definition one_queued :: "env \<Rightarrow> world \<Rightarrow> world \<Rightarrow> bool" where
  "one_queued e w0 w \<longleftrightarrow> (\<exists>c item. rg_buffered c = outbox e w0 \<and>
     outbox e w = rg_buffered (push_item (max_items e) item c) \<and>
     w_disk w = Some (dump_buffer (outbox e w)))"

lemma at_rest_refl [simp]: "at_rest e w w"
  by (simp add: at_rest_def)

lemma at_rest_trans: "at_rest e w0 w \<Longrightarrow> at_rest e w w' \<Longrightarrow> at_rest e w0 w'"
  by (simp add: at_rest_def)

lemma one_queued_start: "at_rest e w0 w \<Longrightarrow> one_queued e w w' \<Longrightarrow> one_queued e w0 w'"
  by (auto simp: at_rest_def one_queued_def)

lemma outbox_sel [simp]:
  "outbox e (w\<lparr>w_clock := n\<rparr>) = outbox e w" "outbox e (w\<lparr>w_uuid := n\<rparr>) = outbox e w"
  "outbox e (w\<lparr>w_perf := n\<rparr>) = outbox e w" "outbox e (w\<lparr>w_rand := n\<rparr>) = outbox e w"
  "outbox e (w\<lparr>w_trace := t\<rparr>) = outbox e w" "outbox e (w\<lparr>w_metrics := m\<rparr>) = outbox e w"
  "outbox e (w\<lparr>w_db := d\<rparr>) = outbox e w" "outbox e (w\<lparr>w_committed := d\<rparr>) = outbox e w"
  by (simp_all add: outbox_def client_at_def split: option.split)

lemma at_rest_simps [simp]:
  "at_rest e w0 (w\<lparr>w_clock := n\<rparr>) = at_rest e w0 w" "at_rest e w0 (w\<lparr>w_uuid := n\<rparr>) = at_rest e w0 w"
  "at_rest e w0 (w\<lparr>w_perf := n\<rparr>) = at_rest e w0 w" "at_rest e w0 (w\<lparr>w_rand := n\<rparr>) = at_rest e w0 w"
  "at_rest e w0 (w\<lparr>w_trace := t\<rparr>) = at_rest e w0 w" "at_rest e w0 (w\<lparr>w_metrics := m\<rparr>) = at_rest e w0 w"
  "at_rest e w0 (w\<lparr>w_db := d\<rparr>) = at_rest e w0 w" "at_rest e w0 (w\<lparr>w_committed := d\<rparr>) = at_rest e w0 w"
  by (simp_all add: at_rest_def)

lemma one_queued_simps [simp]:
  "one_queued e w0 (w\<lparr>w_db := d\<rparr>) = one_queued e w0 w" "one_queued e w0 (w\<lparr>w_committed := d\<rparr>) = one_queued e w0 w"
  by (simp_all add: one_queued_def)

section \<open>The database is not the ledger's\<close>

text \<open>What works on the database only keeps the outbox at rest.\<close>

lemma rest_basic [keeps_intros, simp]:
  "keeps (at_rest e w0) (utc_now e')" "keeps (at_rest e w0) uuid4" "keeps (at_rest e w0) (perf_counter e')"
  "keeps (at_rest e w0) (uniform_jitter e')" "keeps (at_rest e w0) (set_trace_id t)"
  "keeps (at_rest e w0) (metric f)" "keeps (at_rest e w0) (write_db g)"
  "keeps (at_rest e w0) session_commit" "keeps (at_rest e w0) session_rollback"
  by (simp_all add: keeps_wp wp_simps)

lemma rest_trace [keeps_intros, simp]: "keeps (at_rest e w0) ensure_trace_id"
  by (auto simp: ensure_trace_id_def intro!: keeps_intros)

lemma rest_savepoint [keeps_intros]: "keeps (at_rest e w0) m \<Longrightarrow> keeps (at_rest e w0) (savepoint m)"
  by (auto simp: keeps_wp wp_simps elim!: wp_mono)

lemma rest_session [keeps_intros]: "keeps (at_rest e w0) m \<Longrightarrow> keeps (at_rest e w0) (with_session m)"
  by (auto simp: with_session_def intro!: keeps_intros)

lemma rest_statements [keeps_intros, simp]:
  "keeps (at_rest e w0) (insert_task t)" "keeps (at_rest e w0) (insert_lease l)"
  "keeps (at_rest e w0) (insert_receipt r)" "keeps (at_rest e w0) (insert_progress p)"
  "keeps (at_rest e w0) (insert_relationship rel)" "keeps (at_rest e w0) (update_task tn tid f)"
  "keeps (at_rest e w0) (update_lease lid f')"
  by (auto simp: insert_defs update_task_def update_lease_def intro!: keeps_intros)

lemma rest_tasks [keeps_intros, simp]:
  "keeps (at_rest e w0) (task_create e' tn ty pl cb ai pp rq ek em pr ik ma bo dl)"
  "keeps (at_rest e w0) (task_update_status e' tn tid s r st)" "keeps (at_rest e w0) (task_cancel e' tn tid reason)"
  "keeps (at_rest e w0) (task_requeue_with_backoff e' tn tid inc)"
  "keeps (at_rest e w0) (task_requeue_on_expiry e' tn tid jitter)"
  by (auto simp: task_create_def task_update_status_def task_cancel_def task_requeue_with_backoff_def
      task_requeue_on_expiry_def Let_def intro!: keeps_intros)

lemma rest_leases [keeps_intros, simp]:
  "keeps (at_rest e w0) (lease_claim_next e' tn wk caps acc n ttl)"
  "keeps (at_rest e w0) (lease_validate e' tn tid lid wk)" "keeps (at_rest e w0) (lease_get_expired e' n i)"
  "keeps (at_rest e w0) (lease_renew e' tn tid lid wk ext)" "keeps (at_rest e w0) (lease_release tn tid lid_opt)"
  by (auto simp: lease_claim_next_def grant_lease_def lease_validate_def lease_get_expired_def lease_renew_def
      lease_release_def Let_def intro!: keeps_intros)

lemma rest_receipts [keeps_intros, simp]:
  "keeps (at_rest e w0) (receipt_create e' tn ty from to task lease sch ps body h)"
  "keeps (at_rest e w0) (receipt_mark_delivered e' tn ids)"
  by (auto simp: receipt_create_def receipt_insert_def emit_anomaly_def receipt_mark_delivered_def Let_def
      intro!: keeps_intros)

lemma rest_misc [keeps_intros, simp]:
  "keeps (at_rest e w0) (progress_update e' tn tid v)" "keeps (at_rest e w0) (relationship_upsert e' tn k pid inst)"
  "keeps (at_rest e w0) (require_lease e' tn tid lid wk)"
  "keeps (at_rest e w0) (complete_check e' tn wk tid lid)" "keeps (at_rest e w0) (fail_check e' tn wk tid lid rt)"
  by (auto simp: progress_update_def relationship_upsert_def require_lease_def complete_check_def fail_check_def
      Let_def intro!: keeps_intros)

section \<open>Accountable operations\<close>

text \<open>How an operation may raise: at rest, or with one receipt queued and the error that says so.\<close>

abbreviation stopped :: "env \<Rightarrow> world \<Rightarrow> exn \<Rightarrow> world \<Rightarrow> bool" where
  "stopped e w ex w' \<equiv>
     at_rest e w w' \<or> (\<exists>ty tid b. ex = ReceiptNotYetCommitted ty tid b) \<and> one_queued e w w'"

definition accountable :: "env \<Rightarrow> 'a M \<Rightarrow> bool" where
  "accountable e m \<longleftrightarrow> (\<forall>w. wp m (\<lambda>_. at_rest e w) (stopped e w) w)"

named_theorems accountable_intros \<open>introduction rules for operations that queue only to raise\<close>

lemma accountableD: "accountable e m \<Longrightarrow> wp m (\<lambda>_. at_rest e w) (stopped e w) w"
  by (simp add: accountable_def)

lemma accountable_keeps: assumes "\<And>w0. keeps (at_rest e w0) m" shows "accountable e m"
  unfolding accountable_def
proof
  show "wp m (\<lambda>_. at_rest e w) (stopped e w) w" for w
    using assms [of w] by (auto simp: keeps_wp elim!: wp_mono dest!: spec [of _ w])
qed

lemma accountable_pure [accountable_intros, simp]:
  "accountable e (return x)" "accountable e (raise ex)" "accountable e (lift_sum r)" "accountable e (ensure b ex)"
  "accountable e (some_or_raise y ex)"
  by (simp_all add: accountable_keeps)

lemma accountable_bind [accountable_intros]:
  assumes "accountable e m" and "\<And>x. accountable e (f x)" shows "accountable e (bind m f)"
  unfolding accountable_def wp_bind
proof
  fix w
  show "wp m (\<lambda>x. wp (f x) (\<lambda>_. at_rest e w) (stopped e w)) (stopped e w) w"
  proof (rule wp_mono [OF accountableD [OF assms(1)]])
    show "wp (f x) (\<lambda>_. at_rest e w) (stopped e w) w'" if "at_rest e w w'" for x w'
      by (rule wp_mono [OF accountableD [OF assms(2)]])
        (use that in \<open>auto intro: at_rest_trans one_queued_start\<close>)
  qed
qed

lemma accountable_seq [accountable_intros]: "accountable e m \<Longrightarrow> accountable e n \<Longrightarrow> accountable e (seq m n)"
  by (simp add: seq_def accountable_bind)

lemma accountable_savepoint [accountable_intros]: "accountable e m \<Longrightarrow> accountable e (savepoint m)"
  by (auto simp: accountable_def wp_simps elim: wp_mono)

lemma accountable_session [accountable_intros]: "accountable e m \<Longrightarrow> accountable e (with_session m)"
  unfolding accountable_def wp_with_session
proof
  fix w :: world assume m: "\<forall>w. wp m (\<lambda>_. at_rest e w) (stopped e w) w"
  let ?v = "w\<lparr>w_db := w_committed w\<rparr>"
  have v: "at_rest e w ?v" by simp
  show "wp m (\<lambda>x w'. at_rest e w (w'\<lparr>w_committed := w_db w'\<rparr>))
      (\<lambda>x w'. stopped e w x (w'\<lparr>w_db := w_committed w'\<rparr>)) ?v"
    by (rule wp_mono [OF m [rule_format]])
      (auto intro: at_rest_trans [OF v] one_queued_start [OF v])
qed

lemma accountable_if [accountable_intros]:
  "(b \<Longrightarrow> accountable e m) \<Longrightarrow> (\<not> b \<Longrightarrow> accountable e n) \<Longrightarrow> accountable e (if b then m else n)"
  by simp

lemma accountable_case_option [accountable_intros]:
  "(x = None \<Longrightarrow> accountable e m) \<Longrightarrow> (\<And>y. x = Some y \<Longrightarrow> accountable e (f y)) \<Longrightarrow>
   accountable e (case x of None \<Rightarrow> m | Some y \<Rightarrow> f y)"
  by (simp split: option.split)

lemma accountable_case_prod [accountable_intros]:
  "(\<And>a b. x = (a, b) \<Longrightarrow> accountable e (f a b)) \<Longrightarrow> accountable e (case x of (a, b) \<Rightarrow> f a b)"
  by (simp split: prod.split)

lemma accountable_for_each [accountable_intros]: "(\<And>x. accountable e (f x)) \<Longrightarrow> accountable e (for_each f xs)"
  by (induction xs) (auto intro!: accountable_intros)

section \<open>Emission\<close>

lemma wp_forward_receipt:
  assumes "truthy_str (receiptgate_endpoint (cfg e))"
  shows "wp (forward_receipt e tn tid r)
     (\<lambda>x w'. at_rest e w w' \<or> (\<exists>u n. x = Some (buffered_outcome u n)) \<and> one_queued e w w')
     (\<lambda>_. at_rest e w) w"
proof -
  let ?Q = "\<lambda>x w'. at_rest e w w' \<or> (\<exists>u n. x = Some (buffered_outcome u n)) \<and> one_queued e w w'"
  let ?E = "\<lambda>x. wp (if x = ReceiptUnbufferable then raise x else return None) ?Q (\<lambda>_. at_rest e w)"
  have emit: "wp (emit_receipt e p) (\<lambda>x. ?Q (Some x)) ?E w" for p
    by (rule wp_mono [OF wp_emit_receipt [OF assms]])
      (auto simp: wp_simps emission_ends_def ledger_answered_def not_queued_def queued_def at_rest_def one_queued_def)
  have "wp (bind (lift_sum s) (\<lambda>p. bind (emit_receipt e p) (\<lambda>x. return (Some x)))) ?Q ?E w" for s
    using emit by (auto simp: wp_bind wp_lift_sum wp_return_fun wp_raise split: sum.split)
  then show ?thesis
    unfolding forward_receipt_def wp_try_except wp_bind [of "case t of None \<Rightarrow> m | Some y \<Rightarrow> f y" for t m f]
    by (auto simp: wp_simps task_get_def split: option.split sum.split)
qed

lemma accountable_engine_emit [accountable_intros]: "accountable e (engine_emit e tn ty from to task lease body ps)"
proof -
  have fwd: "accountable e (bind (forward_receipt e tn task r) (\<lambda>outcome.
      seq (lift_sum (check_committed e ty task outcome)) (return r)))"
    if "forwards e ty" for r
    unfolding accountable_def wp_bind
  proof
    fix w
    show "wp (forward_receipt e tn task r) (\<lambda>x. wp (seq (lift_sum (check_committed e ty task x)) (return r))
        (\<lambda>_. at_rest e w) (stopped e w)) (stopped e w) w"
      by (rule wp_mono [OF wp_forward_receipt])
        (use that in \<open>auto simp: forwards_def wp_simps check_committed_def buffered_outcome_def dict_get_def
           split: sum.split\<close>)
  qed
  show ?thesis
    unfolding engine_emit_def by (intro fwd accountable_intros) (simp_all add: accountable_keeps)
qed

section \<open>The operations\<close>

lemma accountable_announce [accountable_intros]:
  "accountable e (emit_result_ready e tn t owner ps)" "accountable e (announce_cancel e tn t p reason owner' ps')"
  "accountable e (announce_complete e tn wk tid lid res art ob)" "accountable e (announce_failure e tn wk tid lid err ob)"
  "accountable e (announce_retry e tn wk tid lid err t ob)"
  by (auto simp: emit_result_ready_def announce_cancel_def announce_complete_def announce_failure_def
      announce_retry_def accountable_keeps intro!: accountable_intros)

lemma accountable_running [accountable_intros]: "accountable e (transition_to_running e tn t wk lid owner ps)"
  by (auto simp: transition_to_running_def accountable_keeps intro!: accountable_intros)

lemma accountable_tasker [accountable_intros]:
  "accountable e (create_task e tn ty pl cb ai pp rq ek em pr ik ma bo dl is_int)"
  "accountable e (cancel_task e tn tid p reason is_int)" "accountable e (ack_receipt e tn rid p')"
  by (auto simp: create_task_def cancel_task_def cancel_atomic_def ack_receipt_def Let_def accountable_keeps
      intro!: accountable_intros)

lemma accountable_worker [accountable_intros]:
  "accountable e (lease_next e tn wk caps acc n ttl)" "accountable e (renew_lease e tn wk tid lid ext)"
  "accountable e (report_progress e tn wk tid lid v)" "accountable e (start_task e tn wk tid lid)"
  by (auto simp: lease_next_def accept_lease_def renew_lease_def report_progress_def start_task_def accountable_keeps
      intro!: accountable_intros)

lemma accountable_ends [accountable_intros]:
  "accountable e (complete e tn wk tid lid res art)" "accountable e (fail_task e tn wk tid lid err rt)"
  by (auto simp: complete_def complete_atomic_def fail_task_def fail_atomic_def fail_requeue_def
      fail_terminal_def accountable_keeps intro!: accountable_intros)

section \<open>Requests\<close>

lemma rest_queries [keeps_intros, simp]:
  "keeps (at_rest e w0) (get_task tn tid)" "keeps (at_rest e w0) (list_tasks e' tn st ty cb n cur)"
  "keeps (at_rest e w0) (list_receipts e' tn k i since n)"
  "keeps (at_rest e w0) (list_receipts_ledger e' tn task lease rty tst since n)"
  "keeps (at_rest e w0) (has_terminator tn rid)" "keeps (at_rest e w0) (list_open_obligations tn p since m)"
  by (auto simp: get_task_def list_tasks_def list_receipts_def list_receipts_ledger_def has_terminator_def
      list_open_obligations_def Let_def intro!: keeps_intros)

lemma rest_config [keeps_intros, simp]: "keeps (at_rest e w0) (get_config e)"
proof -
  have "keeps (at_rest e w0) (get_receiptgate_client e)"
    by (simp add: keeps_wp wp_simps at_rest_def outbox_def client_at_def)
  then show ?thesis
    by (auto simp: get_config_def get_circuit_stats_def get_buffer_stats_def Let_def intro!: keeps_intros)
qed

lemma accountable_tools: "accountable e (call_tool e name a args)"
proof -
  have boot: "accountable e (tool_bootstrap e a args)"
    by (auto simp: tool_bootstrap_def accountable_keeps split: json.split intro!: accountable_intros)
  have tasks: "accountable e (tool_create_task e a args)" "accountable e (tool_get_task e a args)"
    "accountable e (tool_list_tasks e a args)" "accountable e (tool_cancel_task e a args)"
    by (auto simp: tool_create_task_def tool_get_task_def tool_list_tasks_def tool_cancel_task_def accountable_keeps
        intro!: accountable_intros)
  have receipts: "accountable e (tool_list_receipts e a args)" "accountable e (tool_list_receipts_ledger e a args)"
    "accountable e (tool_ack_receipt e a args)" "accountable e (tool_check_terminator e a args)"
    by (auto simp: tool_list_receipts_def tool_list_receipts_ledger_def tool_ack_receipt_def
        tool_check_terminator_def accountable_keeps intro!: accountable_intros)
  have work: "accountable e (tool_lease_next e a args)" "accountable e (tool_renew_lease e a args)"
    "accountable e (tool_report_progress e a args)" "accountable e (tool_complete e a args)"
    "accountable e (tool_fail e a args)" "accountable e (tool_health e)" "accountable e (get_config e)"
    by (auto simp: tool_lease_next_def tool_renew_lease_def tool_report_progress_def tool_complete_def
        tool_fail_def tool_health_def accountable_keeps intro!: accountable_intros)
  show ?thesis
    using boot tasks receipts work by (auto simp: call_tool_def tools_def)
qed

lemma rest_auth [keeps_intros, simp]: "keeps (at_rest e w0) (verify_token_arg e' tok tn pa)"
proof -
  have "keeps (at_rest e w0) (check_api_key e' key)" for key
    by (auto simp: check_api_key_def intro!: keeps_intros)
  then have "keeps (at_rest e w0) (verify_auth_token e' t tn' pid)" for t tn' pid
    by (auto simp: verify_auth_token_def verify_request_api_key_def Let_def split: sum.split intro!: keeps_intros)
  then show ?thesis
    by (auto simp: verify_token_arg_def split: json.split intro!: keeps_intros)
qed

lemma accountable_handle_tool: "accountable e (handle_tool e name args)"
  unfolding handle_tool_def Let_def by (intro accountable_intros accountable_tools) (simp_all add: accountable_keeps)

text \<open>A request, whole: its tables are rolled back when it has queued.\<close>

definition rolled_back :: "env \<Rightarrow> world \<Rightarrow> world \<Rightarrow> bool" where
  "rolled_back e w w' \<longleftrightarrow> one_queued e w w' \<and> core (w_db w') = core (w_db w) \<and> w_committed w' = w_db w'"

lemma wp_mcp_entry_custody:
  assumes "idle w"
  shows "wp (mcp_entry e h k rq)
     (\<lambda>r w'. at_rest e w w' \<or> (\<exists>ty tid b. let ex = ReceiptNotYetCommitted ty tid b
        in r = Rpc_error (mr_id rq) (rpc_code e ex) (Str_of ex)) \<and> rolled_back e w w')
     (\<lambda>_. at_rest e w) w"
proof -
  have c: "core (w_committed w) = core (w_db w)" using assms by (simp add: idle_def)
  show ?thesis
    by (auto simp: mcp_entry_def Let_def wp_return wp_return_fun wp_bind wp_bind_fun wp_lift_sum wp_try_except
        rolled_back_def idle_def split: sum.split
        intro!: wp_mono [OF wp_conj [OF accountableD [OF accountable_handle_tool] wp_handle_tool_error [OF c]]])
qed

end
