(* ===== verification/RateLimit.thy ===== *)
theory RateLimit
  imports World Principals
begin

text \<open>
  \<open>src/asyncgate/middleware/rate_limit.py\<close>: the in-memory sliding window and the limiter
  over it. \<open>time.time()\<close> is an argument, a rational number of seconds. The backend's
  interface is the locale \<open>rate_backend\<close>; the limiter's guarantee is proved from its laws.
\<close>

section \<open>The in-memory backend\<close>

type_synonym windows = "string \<rightharpoonup> rat list"

text \<open>\<open>int(x)\<close> of a float.\<close>

definition py_trunc :: "rat \<Rightarrow> int" where
  "py_trunc x = (if 0 \<le> x then \<lfloor>x\<rfloor> else - \<lfloor>- x\<rfloor>)"

text \<open>The \<open>defaultdict(list)\<close>.\<close>

definition window_of :: "windows \<Rightarrow> string \<Rightarrow> rat list" where
  "window_of ws key = (case ws key of None \<Rightarrow> [] | Some ts \<Rightarrow> ts)"

definition in_window :: "rat \<Rightarrow> int \<Rightarrow> rat list \<Rightarrow> rat list" where
  "in_window now window_seconds ts = filter (\<lambda>t. now - of_int window_seconds < t) ts"

text \<open>The answer is (allowed, remaining, reset time).\<close>

definition memory_check ::
    "rat \<Rightarrow> string \<Rightarrow> int \<Rightarrow> int \<Rightarrow> windows \<Rightarrow> (bool \<times> int \<times> int) \<times> windows" where
  "memory_check now key max_calls window_seconds ws =
     (let ts = in_window now window_seconds (window_of ws key);
          current_calls = int (length ts);
          allowed = (current_calls < max_calls);
          remaining = max 0 (max_calls - current_calls - (if allowed then 1 else 0));
          reset_time = (case ts of
              oldest # _ \<Rightarrow> py_trunc (oldest + of_int window_seconds)
            | [] \<Rightarrow> py_trunc (now + of_int window_seconds))
      in ((allowed, remaining, reset_time),
          ws(key \<mapsto> (if allowed then ts @ [now] else ts))))"

definition memory_reset :: "string \<Rightarrow> windows \<Rightarrow> windows" where
  "memory_reset key ws = ws(key := None)"

section \<open>The limiter\<close>

record rate_rule =
  rr_calls :: int
  rr_window :: int
  rr_prefix :: string

record limiter =
  lm_rules :: "string \<rightharpoonup> rate_rule"
  lm_default :: rate_rule
  lm_windows :: windows

text \<open>What the limiter reads of a request.\<close>

record http_request =
  rq_path :: string
  rq_authorization :: "string option"
  rq_x_api_key :: "string option"
  rq_tenant_query :: "string option"
  rq_x_tenant :: "string option"
  rq_client_host :: "string option"

text \<open>The constructor with the in-memory backend; the Redis one needs its URL.\<close>

definition new_limiter :: "settings \<Rightarrow> exn + limiter option" where
  "new_limiter s =
     (if rate_limit_backend s = ''redis'' then
        (if truthy_str (redis_url s) then Inr None else Inl (ValueError (Bad_config ''redis_url'')))
      else Inr (Some \<lparr>lm_rules = Map.empty,
        lm_default = \<lparr>rr_calls = rate_limit_default_calls s, rr_window = rate_limit_default_window s,
                      rr_prefix = []\<rparr>, lm_windows = Map.empty\<rparr>))"

definition configure_endpoint :: "string \<Rightarrow> rate_rule \<Rightarrow> limiter \<Rightarrow> limiter" where
  "configure_endpoint path rule l = l\<lparr>lm_rules := (lm_rules l)(path \<mapsto> rule)\<rparr>"

definition rule_for :: "limiter \<Rightarrow> string \<Rightarrow> rate_rule" where
  "rule_for l path = (case lm_rules l path of None \<Rightarrow> lm_default l | Some r \<Rightarrow> r)"

definition client_ip :: "http_request \<Rightarrow> string" where
  "client_ip rq = (case rq_client_host rq of None \<Rightarrow> ''unknown'' | Some h \<Rightarrow> h)"

definition presented_key :: "http_request \<Rightarrow> string option" where
  "presented_key rq =
     (if truthy_str (rq_authorization rq) \<and> starts_with (the (rq_authorization rq)) ''Bearer ''
      then Some (drop 7 (the (rq_authorization rq)))
      else if truthy_str (rq_x_api_key rq) then rq_x_api_key rq else None)"

definition rate_key :: "env \<Rightarrow> rate_rule \<Rightarrow> http_request \<Rightarrow> string option \<Rightarrow> string" where
  "rate_key e rule rq key_override =
     (if truthy_str key_override then the key_override
      else if \<not> allow_insecure_dev (cfg e) then
        (if truthy_str (presented_key rq)
         then rr_prefix rule @ ''auth:'' @ take 16 (e_sha256 e (the (presented_key rq)))
         else rr_prefix rule @ ''ip:'' @ client_ip rq)
      else
        (let tenant = (if truthy_str (rq_tenant_query rq) then rq_tenant_query rq else rq_x_tenant rq)
         in if truthy_str tenant then rr_prefix rule @ ''tenant:'' @ the tenant
            else rr_prefix rule @ ''ip:'' @ client_ip rq))"

text \<open>
  What \<open>check_request\<close> does: nothing, the request's state (remaining, reset), or the 429
  with its headers (Retry-After, limit, reset). \<open>later\<close> is the second reading of the clock.
\<close>

datatype verdict = Not_limited | Passed int int | Too_many_requests int int int

definition check_request ::
    "env \<Rightarrow> rat \<Rightarrow> rat \<Rightarrow> http_request \<Rightarrow> string option \<Rightarrow> limiter \<Rightarrow> verdict \<times> limiter" where
  "check_request e now later rq key_override l =
     (if \<not> rate_limit_active (cfg e) then (Not_limited, l)
      else
        (let rule = rule_for l (rq_path rq);
             key = rate_key e rule rq key_override;
             ((allowed, remaining, reset_time), ws) =
               memory_check now key (rr_calls rule) (rr_window rule) (lm_windows l)
         in (if allowed then Passed remaining reset_time
             else Too_many_requests (reset_time - py_trunc later) (rr_calls rule) reset_time,
             l\<lparr>lm_windows := ws\<rparr>)))"

section \<open>The interface\<close>

text \<open>The requests of one key under one rule, at these times: the times of those let through.\<close>

type_synonym 's backend_check = "rat \<Rightarrow> string \<Rightarrow> int \<Rightarrow> int \<Rightarrow> 's \<Rightarrow> (bool \<times> int \<times> int) \<times> 's"

primrec admitted :: "'s backend_check \<Rightarrow> string \<Rightarrow> int \<Rightarrow> int \<Rightarrow> rat list \<Rightarrow> 's \<Rightarrow> rat list" where
  "admitted chk key n win [] s = []"
| "admitted chk key n win (t # ts) s =
     (let ((ok, _, _), s') = chk t key n win s in
      if ok then t # admitted chk key n win ts s' else admitted chk key n win ts s')"

definition calls_between :: "rat \<Rightarrow> rat \<Rightarrow> rat list \<Rightarrow> rat list" where
  "calls_between a b ts = filter (\<lambda>t. a < t \<and> t \<le> b) ts"

lemma length_filter_le_pred:
  "(\<And>x. x \<in> set xs \<Longrightarrow> P x \<Longrightarrow> Q x) \<Longrightarrow> length (filter P xs) \<le> length (filter Q xs)"
  by (induction xs) (auto intro: le_SucI)

locale rate_backend =
  fixes chk :: "'s backend_check" and calls :: "'s \<Rightarrow> string \<Rightarrow> rat list"
  assumes decision: "fst (fst (chk now key n win s)) \<longleftrightarrow> int (length (in_window now win (calls s key))) < n"
    and recorded: "calls (snd (chk now key n win s)) key =
      in_window now win (calls s key) @ (if fst (fst (chk now key n win s)) then [now] else [])"
    and separate: "key' \<noteq> key \<Longrightarrow> calls (snd (chk now key n win s)) key' = calls s key'"
begin

text \<open>
  \<open>past\<close> is what was let through before; the recorded calls are those of them a window
  ending at \<open>t\<close> or later can still contain.
\<close>

definition remembers :: "string \<Rightarrow> int \<Rightarrow> rat \<Rightarrow> rat list \<Rightarrow> 's \<Rightarrow> bool" where
  "remembers key win t past s \<longleftrightarrow> in_window t win (calls s key) = in_window t win past"

lemma in_window_twice: "t \<le> u \<Longrightarrow> in_window u win (in_window t win xs) = in_window u win xs"
  by (induction xs) (auto simp: in_window_def)

lemma remembers_step:
  assumes "remembers key win t past s" and "t \<le> u" and "0 < win"
  shows "remembers key win u (if fst (fst (chk u key n win s)) then past @ [u] else past)
    (snd (chk u key n win s))"
proof -
  have "in_window u win (calls s key) = in_window u win past"
    using assms(1,2) in_window_twice unfolding remembers_def by metis
  with \<open>0 < win\<close> show ?thesis
    by (auto simp: remembers_def recorded in_window_twice) (simp_all add: in_window_def)
qed

text \<open>Every window that ends at a request let through holds at most \<open>n\<close> of them.\<close>

lemma window_at_admission:
  assumes "remembers key win t past s" and "t \<le> u" and "fst (fst (chk u key n win s))"
  shows "int (length (calls_between (u - of_int win) u (past @ [u]))) \<le> n"
proof -
  have "in_window u win (calls s key) = in_window u win past"
    using assms(1,2) in_window_twice unfolding remembers_def by metis
  then have "int (length (in_window u win past)) < n" using assms(3) decision by metis
  moreover have "length (calls_between (u - of_int win) u past) \<le> length (in_window u win past)"
    unfolding calls_between_def in_window_def by (induction past) auto
  ultimately show ?thesis by (simp add: calls_between_def split: if_splits)
qed

definition windows_hold :: "int \<Rightarrow> int \<Rightarrow> rat list \<Rightarrow> bool" where
  "windows_hold n win ts \<longleftrightarrow> (\<forall>i < length ts.
     int (length (calls_between (ts ! i - of_int win) (ts ! i) (take (Suc i) ts))) \<le> n)"

lemma windows_hold_snoc:
  "windows_hold n win (ts @ [t]) \<longleftrightarrow>
     windows_hold n win ts \<and> int (length (calls_between (t - of_int win) t (ts @ [t]))) \<le> n"
  by (auto simp: windows_hold_def nth_append less_Suc_eq)

lemma admitted_windows:
  assumes "windows_hold n win past" and "remembers key win t past s" and "0 < win"
    and "sorted (t # ts)"
  shows "windows_hold n win (past @ admitted chk key n win ts s)"
  using assms
proof (induction ts arbitrary: past t s)
  case (Cons u us)
  have "t \<le> u" "sorted (u # us)" using Cons.prems(4) by auto
  show ?case
  proof (cases "fst (fst (chk u key n win s))")
    case True
    have "windows_hold n win (past @ [u])"
      using Cons.prems(1) window_at_admission [OF Cons.prems(2) \<open>t \<le> u\<close> True]
      by (simp add: windows_hold_snoc)
    with Cons.IH [of "past @ [u]" u] remembers_step [OF Cons.prems(2) \<open>t \<le> u\<close> \<open>0 < win\<close>, of n] True
      \<open>sorted (u # us)\<close> Cons.prems(3)
    show ?thesis by (auto simp: Let_def split: prod.split)
  next
    case False
    with Cons.IH [of past u] remembers_step [OF Cons.prems(2) \<open>t \<le> u\<close> \<open>0 < win\<close>, of n]
      \<open>sorted (u # us)\<close> Cons.prems
    show ?thesis by (auto simp: Let_def split: prod.split)
  qed
qed simp

lemma sorted_admitted: "sorted ts \<Longrightarrow> sorted (admitted chk key n win ts s) \<and>
    set (admitted chk key n win ts s) \<subseteq> set ts"
proof (induction ts arbitrary: s)
  case (Cons t ts)
  have "sorted (admitted chk key n win ts s') \<and> set (admitted chk key n win ts s') \<subseteq> set ts" for s'
    using Cons by simp
  from this [of "snd (chk t key n win s)"] Cons.prems show ?case
    by (auto simp: Let_def split: prod.split)
qed simp

text \<open>
  Any interval \<open>(a, a + win]\<close> lies within the window that ends at the last call let
  through in it.
\<close>

lemma any_window:
  assumes hold: "windows_hold n win ts" and "sorted ts" and "0 \<le> n"
  shows "int (length (calls_between a (a + of_int win) ts)) \<le> n"
proof (cases "calls_between a (a + of_int win) ts = []")
  case False
  define J where "J = {j. j < length ts \<and> a < ts ! j \<and> ts ! j \<le> a + of_int win}"
  have "finite J" "J \<noteq> {}"
    using False by (auto simp: J_def calls_between_def filter_empty_conv in_set_conv_nth)
  define i where "i = Max J"
  have i: "i \<in> J" "\<And>j. j \<in> J \<Longrightarrow> j \<le> i"
    using \<open>finite J\<close> \<open>J \<noteq> {}\<close> by (auto simp: i_def)
  have "\<not> (a < t \<and> t \<le> a + of_int win)" if tail: "t \<in> set (drop (Suc i) ts)" for t
  proof
    assume t: "a < t \<and> t \<le> a + of_int win"
    obtain k where k: "k < length (drop (Suc i) ts)" "drop (Suc i) ts ! k = t"
      using tail unfolding in_set_conv_nth by blast
    then have "t = ts ! (Suc i + k)" "Suc i + k < length ts" using i(1) by (simp_all add: J_def)
    with t have "Suc i + k \<in> J" by (simp add: J_def)
    then show False using i(2) by fastforce
  qed
  then have "calls_between a (a + of_int win) (drop (Suc i) ts) = []"
    by (simp add: calls_between_def filter_empty_conv)
  then have "calls_between a (a + of_int win) ts = calls_between a (a + of_int win) (take (Suc i) ts)"
    by (metis append_Nil2 append_take_drop_id calls_between_def filter_append)
  moreover have "ts ! i - of_int win \<le> a" using i(1) by (simp add: J_def algebra_simps)
  moreover have "\<forall>t \<in> set (take (Suc i) ts). t \<le> ts ! i"
    using \<open>sorted ts\<close> i(1) by (auto simp: in_set_conv_nth J_def intro!: sorted_nth_mono)
  ultimately have "length (calls_between a (a + of_int win) ts)
      \<le> length (calls_between (ts ! i - of_int win) (ts ! i) (take (Suc i) ts))"
    unfolding calls_between_def
    by (auto intro!: length_filter_le_pred)
  with hold i(1) show ?thesis by (fastforce simp: windows_hold_def J_def)
qed (use \<open>0 \<le> n\<close> in simp)

lemma sliding_window:
  assumes "calls s key = []" and "0 < win" and "0 \<le> n" and "sorted ts"
  shows "int (length (calls_between a (a + of_int win) (admitted chk key n win ts s))) \<le> n"
proof (cases ts)
  case (Cons t us)
  have "windows_hold n win ([] @ admitted chk key n win ts s)"
    by (rule admitted_windows [where t = t]) (use assms Cons in \<open>auto simp: windows_hold_def remembers_def in_window_def\<close>)
  with any_window sorted_admitted [OF \<open>sorted ts\<close>] \<open>0 \<le> n\<close> show ?thesis by simp
qed (use assms in \<open>simp add: calls_between_def\<close>)

end

interpretation memory: rate_backend memory_check window_of
  by unfold_locales (auto simp: memory_check_def window_of_def Let_def)

section \<open>The Redis backend\<close>

text \<open>The commands the backend sends, on the state of the server; \<open>shown\<close> is \<open>str\<close> of a time.\<close>

record 's redis =
  zremrangebyscore :: "string \<Rightarrow> rat \<Rightarrow> rat \<Rightarrow> 's \<Rightarrow> 's"
  zcard :: "string \<Rightarrow> 's \<Rightarrow> int"
  zadd :: "string \<Rightarrow> string \<Rightarrow> rat \<Rightarrow> 's \<Rightarrow> 's"
  expire :: "string \<Rightarrow> int \<Rightarrow> 's \<Rightarrow> 's"
  zrange_first :: "string \<Rightarrow> 's \<Rightarrow> (string \<times> rat) list"
  zrem :: "string \<Rightarrow> string \<Rightarrow> 's \<Rightarrow> 's"
  redis_delete :: "string \<Rightarrow> 's \<Rightarrow> 's"

definition redis_key :: "string \<Rightarrow> string" where
  "redis_key key = ''ratelimit:'' @ key"

definition redis_check ::
    "'s redis \<Rightarrow> (rat \<Rightarrow> string) \<Rightarrow> rat \<Rightarrow> string \<Rightarrow> int \<Rightarrow> int \<Rightarrow> 's \<Rightarrow> (bool \<times> int \<times> int) \<times> 's" where
  "redis_check r shown now key max_calls window_seconds s =
     (let k = redis_key key;
          s1 = zremrangebyscore r k 0 (now - of_int window_seconds) s;
          current_calls = zcard r k s1;
          s2 = expire r k window_seconds (zadd r k (shown now) now s1);
          allowed = (current_calls < max_calls);
          remaining = max 0 (max_calls - current_calls - (if allowed then 1 else 0));
          reset_time = (case zrange_first r k s2 of
              (_, oldest) # _ \<Rightarrow> py_trunc (oldest + of_int window_seconds)
            | [] \<Rightarrow> py_trunc (now + of_int window_seconds))
      in ((allowed, remaining, reset_time), if allowed then s2 else zrem r k (shown now) s2))"

definition redis_reset :: "'s redis \<Rightarrow> string \<Rightarrow> 's \<Rightarrow> 's" where
  "redis_reset r key = redis_delete r (redis_key key)"

text \<open>What Redis documents of these commands; \<open>view\<close> is a sorted set, its members by ascending score.\<close>

definition sorted_set_laws :: "'s redis \<Rightarrow> ('s \<Rightarrow> string \<Rightarrow> (string \<times> rat) list) \<Rightarrow> bool" where
  "sorted_set_laws r view \<longleftrightarrow>
     (\<forall>s k a b. view (zremrangebyscore r k a b s) k = filter (\<lambda>(m, x). \<not> (a \<le> x \<and> x \<le> b)) (view s k)) \<and>
     (\<forall>s k. zcard r k s = int (length (view s k))) \<and>
     (\<forall>s k m t. m \<notin> fst ` set (view s k) \<longrightarrow> (\<forall>x \<in> snd ` set (view s k). x < t) \<longrightarrow>
        view (zadd r k m t s) k = view s k @ [(m, t)]) \<and>
     (\<forall>s k n. view (expire r k n s) k = view s k) \<and>
     (\<forall>s k. zrange_first r k s = take 1 (view s k)) \<and>
     (\<forall>s k m. view (zrem r k m s) k = filter (\<lambda>(m', x). m' \<noteq> m) (view s k))"

text \<open>
  For a request later than those recorded whose time has a text of its own, the two backends
  answer the same and record the same: the Redis backend refines the window in memory.
\<close>

lemma redis_refines_memory:
  assumes laws: "sorted_set_laws r view"
    and same: "view s (redis_key key) = map (\<lambda>t. (shown t, t)) (window_of ws key)"
    and fresh: "shown now \<notin> shown ` set (window_of ws key)"
    and later: "\<And>t. t \<in> set (window_of ws key) \<Longrightarrow> 0 \<le> t \<and> t < now"
  shows "fst (redis_check r shown now key n win s) = fst (memory_check now key n win ws) \<and>
     view (snd (redis_check r shown now key n win s)) (redis_key key) =
       map (\<lambda>t. (shown t, t)) (window_of (snd (memory_check now key n win ws)) key)"
proof -
  let ?k = "redis_key key" and ?ts = "in_window now win (window_of ws key)"
  let ?s1 = "zremrangebyscore r ?k 0 (now - of_int win) s"
  let ?s2 = "expire r ?k win (zadd r ?k (shown now) now ?s1)"
  have s1: "view ?s1 ?k = map (\<lambda>t. (shown t, t)) ?ts"
    using laws later unfolding sorted_set_laws_def same [symmetric]
    by (auto simp: same in_window_def filter_map o_def not_le dest: later intro!: arg_cong [where f = "map _"] filter_cong)
  have sub: "set ?ts \<subseteq> set (window_of ws key)" by (auto simp: in_window_def)
  have s2: "view ?s2 ?k = map (\<lambda>t. (shown t, t)) (?ts @ [now])"
  proof -
    have "shown now \<notin> fst ` set (view ?s1 ?k)" "\<forall>x \<in> snd ` set (view ?s1 ?k). x < now"
      using s1 fresh later sub by auto
    then show ?thesis using laws s1 by (simp add: sorted_set_laws_def)
  qed
  have removed: "view (zrem r ?k (shown now) ?s2) ?k = map (\<lambda>t. (shown t, t)) ?ts"
  proof -
    have "filter (\<lambda>t. shown t \<noteq> shown now) ?ts = ?ts" unfolding filter_id_conv using fresh sub by (metis imageI subsetD)
    then show ?thesis using laws s2 by (simp add: sorted_set_laws_def filter_map o_def)
  qed
  have calls: "zcard r ?k ?s1 = int (length ?ts)" "zrange_first r ?k ?s2 = take 1 (map (\<lambda>t. (shown t, t)) (?ts @ [now]))"
    using laws s1 s2 by (simp_all add: sorted_set_laws_def)
  show ?thesis using s2 removed calls
    by (auto simp: redis_check_def memory_check_def Let_def window_of_def [of "_(_ \<mapsto> _)"] split: list.split)
qed

section \<open>Properties\<close>

text \<open>C34: the in-memory limiter is a sliding window: of requests with one key under one rule, at any times in
  order, it lets at most the rule's number through in every interval of the rule's length.\<close>

theorem rate_limit_window:
  assumes "0 < win" and "0 \<le> n" and "sorted ts"
  shows "int (length (calls_between a (a + of_int win) (admitted memory_check key n win ts Map.empty))) \<le> n"
  by (rule memory.sliding_window) (use assms in \<open>simp_all add: window_of_def\<close>)

theorem rate_limit_window_witness:
  "int (length (calls_between 0 60 (admitted memory_check ''ip:a'' 2 60 [1, 2, 3, 61] Map.empty))) \<le> 2 \<and>
   admitted memory_check ''ip:a'' 2 60 [1, 2, 3, 61] Map.empty = [1, 2, 61]"
  using rate_limit_window [of 60 2 "[1, 2, 3, 61]" 0 "''ip:a''"]
  by (simp add: memory_check_def window_of_def in_window_def Let_def)

end
