(* ===== verification/Instance.thy ===== *)
theory Instance
  imports Config
begin

text \<open>
  \<open>src/asyncgate/instance.py\<close>: which instance identifier a process gets, and which ones a
  deployment refuses. The process environment, the host name (None when the lookup fails)
  and the drawn UUID are arguments; every path draws at most one.
\<close>

definition last_segment :: "string \<Rightarrow> string" where
  "last_segment s = rev (takeWhile (\<lambda>c. c \<noteq> CHR ''/'') (rev s))"

definition detect_instance_id :: "(string \<Rightarrow> string option) \<Rightarrow> string option \<Rightarrow> uuid \<Rightarrow> string" where
  "detect_instance_id environ hostname u =
     (let var = (\<lambda>k. case environ k of None \<Rightarrow> [] | Some v \<Rightarrow> v) in
      if var ''FLY_ALLOC_ID'' \<noteq> [] then var ''FLY_ALLOC_ID''
      else if var ''HOSTNAME'' \<noteq> [] \<and> CHR ''-'' \<in> set (var ''HOSTNAME'') then var ''HOSTNAME''
      else if var ''ECS_CONTAINER_METADATA_URI_V4'' \<noteq> []
      then ''ecs-'' @ take 12 (last_segment (var ''ECS_CONTAINER_METADATA_URI_V4''))
      else if var ''K_REVISION'' \<noteq> [] then var ''K_REVISION'' @ ''-'' @ take 8 (uuid_str u)
      else if var ''ASYNCGATE_INSTANCE_ID'' \<noteq> [] \<and> var ''ASYNCGATE_INSTANCE_ID'' \<noteq> ''asyncgate-1''
      then var ''ASYNCGATE_INSTANCE_ID''
      else case hostname of
        Some h \<Rightarrow> h @ ''-'' @ take 8 (uuid_str u)
      | None \<Rightarrow> ''asyncgate-'' @ uuid_str u)"

definition unsafe_patterns :: "string list" where
  "unsafe_patterns = [''asyncgate-1'', ''localhost'', ''127.0.0.1'']"

definition validate_instance_uniqueness :: "string \<Rightarrow> string \<Rightarrow> exn + unit" where
  "validate_instance_uniqueness inst env =
     (if env \<in> {''staging'', ''production''} \<and>
         list_ex (\<lambda>p. inst = p \<or> starts_with inst p) unsafe_patterns
      then Inl (RuntimeError ''INSTANCE ID CONFLICT RISK'') else Inr ())"

lemma validate_instance_Inr:
  "validate_instance_uniqueness inst env = Inr () \<Longrightarrow> env \<in> {''staging'', ''production''} \<Longrightarrow>
     inst \<noteq> ''asyncgate-1'' \<and> \<not> starts_with inst ''localhost''"
  by (auto simp: validate_instance_uniqueness_def unsafe_patterns_def split: if_splits)

end
