(* ===== verification/Background.thy ===== *)
theory Background
  imports Service
begin

text \<open>
  The two background tasks of the process: the lease sweep of \<open>src/asyncgate/tasks/sweep.py\<close>
  and the replay worker of the ReceiptGate client
  (\<open>src/asyncgate/integrations/memorygate_client.py\<close>). Both are the same loop, which looks at
  its stop event before each round and waits, in between, for the event or a timeout. The event
  is a function of the number of rounds done, what the rest of the process does while the loop
  waits is a function on the world; a loop whose event is never set does not return.
\<close>

section \<open>The loop\<close>

partial_function (option) polling_loop ::
    "(nat \<Rightarrow> bool) \<Rightarrow> (nat \<Rightarrow> 's \<Rightarrow> 's) \<Rightarrow> nat \<Rightarrow> 's \<Rightarrow> 's option" where
  "polling_loop is_set one_round n s =
     (if is_set n then Some s else polling_loop is_set one_round (Suc n) (one_round n s))"

definition first_set :: "(nat \<Rightarrow> bool) \<Rightarrow> nat \<Rightarrow> nat \<Rightarrow> bool" where
  "first_set is_set n k \<longleftrightarrow> n \<le> k \<and> is_set k \<and> list_all (\<lambda>i. \<not> is_set i) [n..<k]"

lemma first_set_here [simp]: "is_set n \<Longrightarrow> first_set is_set n k \<longleftrightarrow> k = n"
  by (auto simp: first_set_def list_all_iff)

lemma first_set_later:
  assumes "\<not> is_set n" shows "first_set is_set n k \<longleftrightarrow> first_set is_set (Suc n) k"
proof (cases "n < k")
  case True
  then show ?thesis using assms by (simp add: first_set_def upt_conv_Cons)
next
  case False
  then show ?thesis using assms by (cases "n = k") (auto simp: first_set_def)
qed

lemma polling_loop_first:
  "first_set is_set n k \<Longrightarrow> polling_loop is_set f n s = Some (fold f [n..<k] s)"
proof (induction "k - n" arbitrary: n s)
  case 0
  then have "k = n" by (simp add: first_set_def)
  with 0 show ?case by (simp add: first_set_def polling_loop.simps)
next
  case (Suc d)
  then have "n < k" "\<not> is_set n" by (auto simp: first_set_def list_all_iff)
  then show ?case using Suc by (simp add: polling_loop.simps [of is_set f n] first_set_later upt_conv_Cons)
qed

lemma polling_loop_returns:
  assumes "polling_loop is_set f n s = Some s'"
  shows "\<exists>k. first_set is_set n k"
proof (rule polling_loop.raw_induct [where P = "\<lambda>is_set f n s s'. \<exists>k. first_set is_set n k", OF _ assms])
  fix loop :: "(nat \<Rightarrow> bool) \<Rightarrow> (nat \<Rightarrow> 'a \<Rightarrow> 'a) \<Rightarrow> nat \<Rightarrow> 'a \<Rightarrow> 'a option" and is_set f n s s'
  assume ih: "\<And>is_set f n s s'. loop is_set f n s = Some s' \<Longrightarrow> \<exists>k. first_set is_set n k"
    and eq: "(if is_set n then Some s else loop is_set f (Suc n) (f n s)) = Some s'"
  show "\<exists>k. first_set is_set n k"
    using eq ih [of is_set f "Suc n" "f n s" s'] by (cases "is_set n") (auto simp: first_set_later)
qed

text \<open>The loop returns exactly when its event is set at last, after the rounds before that.\<close>

lemma polling_loop_iff:
  "polling_loop is_set f n s = Some s' \<longleftrightarrow> (\<exists>k. first_set is_set n k \<and> s' = fold f [n..<k] s)"
  using polling_loop_first polling_loop_returns by (metis option.inject)

section \<open>The lease sweep (\<open>tasks/sweep.py\<close>)\<close>

text \<open>
  The waits asked for, in seconds, and the world: \<open>random.uniform(0.8, 1.2)\<close> is \<open>factor\<close>,
  and \<open>others\<close> what happens during a wait.
\<close>

definition sweep_round ::
    "env \<Rightarrow> (nat \<Rightarrow> rat) \<Rightarrow> (nat \<Rightarrow> world \<Rightarrow> world) \<Rightarrow> nat \<Rightarrow> rat list \<times> world \<Rightarrow> rat list \<times> world" where
  "sweep_round e factor others n s = (case s of (waits, w) \<Rightarrow>
     (waits @ [of_int (lease_sweep_interval (cfg e)) * factor n], others n (snd (sweep_once e w))))"

definition lease_sweep_loop ::
    "env \<Rightarrow> (nat \<Rightarrow> bool) \<Rightarrow> (nat \<Rightarrow> rat) \<Rightarrow> (nat \<Rightarrow> world \<Rightarrow> world) \<Rightarrow> world \<Rightarrow> (rat list \<times> world) option" where
  "lease_sweep_loop e is_set factor others w = polling_loop is_set (sweep_round e factor others) 0 ([], w)"

text \<open>\<open>_sweep_task\<close> and \<open>_shutdown_event\<close>; how a task that was awaited ended.\<close>

datatype task_end = Finished | Cancelled

record sweep_module =
  sm_task :: bool
  sm_event :: "bool option"

definition start_lease_sweep :: "sweep_module \<Rightarrow> sweep_module" where
  "start_lease_sweep m = m\<lparr>sm_event := Some False, sm_task := True\<rparr>"

text \<open>The event is set, then the task has ten seconds to finish; \<open>in_time\<close> says whether it does.\<close>

definition stop_lease_sweep :: "bool \<Rightarrow> sweep_module \<Rightarrow> (bool option \<times> task_end option) \<times> sweep_module" where
  "stop_lease_sweep in_time m =
     ((map_option (\<lambda>_. True) (sm_event m),
       if sm_task m then Some (if in_time then Finished else Cancelled) else None),
      m\<lparr>sm_task := False, sm_event := None\<rparr>)"

section \<open>The replay worker (\<open>ReceiptGateClient\<close>)\<close>

text \<open>A round replays at most fifty receipts; an error that escapes is noted.\<close>

definition replay_round :: "env \<Rightarrow> (nat \<Rightarrow> world \<Rightarrow> world) \<Rightarrow> nat \<Rightarrow> int list \<times> world \<Rightarrow> int list \<times> world" where
  "replay_round e others n s = (case s of (waits, w) \<Rightarrow>
     (waits @ [max 1 (emission_retry_interval (cfg e))],
      others n (snd (try_except (bind (replay_buffered_receipts e 50) (\<lambda>_. return ()))
        (\<lambda>ex. update_client e (\<lambda>c. c\<lparr>rg_last_error := Some (exn_str ex)\<rparr>)) w))))"

definition replay_loop ::
    "env \<Rightarrow> (nat \<Rightarrow> bool) \<Rightarrow> (nat \<Rightarrow> world \<Rightarrow> world) \<Rightarrow> world \<Rightarrow> (int list \<times> world) option" where
  "replay_loop e is_set others w = polling_loop is_set (replay_round e others) 0 ([], w)"

text \<open>\<open>_replay_task\<close>, with whether it is done, and \<open>_stop_replay_event\<close>.\<close>

datatype replay_task = Replaying | Replayed

record replay_module =
  rm_task :: "replay_task option"
  rm_stop :: bool

text \<open>Without a running event loop nothing is started.\<close>

definition start_replay_worker :: "bool \<Rightarrow> replay_module \<Rightarrow> replay_module" where
  "start_replay_worker has_loop m =
     (if rm_task m = Some Replaying then m
      else if has_loop then m\<lparr>rm_stop := False, rm_task := Some Replaying\<rparr> else m)"

definition close_client :: "bool \<Rightarrow> replay_module \<Rightarrow> task_end option \<times> replay_module" where
  "close_client in_time m =
     (if rm_task m = Some Replaying then Some (if in_time then Finished else Cancelled) else None,
      m\<lparr>rm_stop := True, rm_task := None\<rparr>)"

definition worker_running :: "replay_module \<Rightarrow> bool" where
  "worker_running m \<longleftrightarrow> rm_task m = Some Replaying"

section \<open>Lemmas\<close>

lemma fold_sweep_round:
  "fold (sweep_round e factor others) ns (waits, w) =
     (waits @ map (\<lambda>n. of_int (lease_sweep_interval (cfg e)) * factor n) ns,
      fold (\<lambda>n w. others n (serve e Sweep w)) ns w)"
  by (induction ns arbitrary: waits w) (simp_all add: sweep_round_def)

lemma run_append: "run e (evs @ evs') w = run e evs' (run e evs w)"
  by (induction evs arbitrary: w) auto

text \<open>When the rest of the process is a run of the service, so is the process with its sweeps.\<close>

lemma fold_sweep_run:
  "fold (\<lambda>n w. run e (between n) (serve e Sweep w)) ns w = run e (concat (map (\<lambda>n. Sweep # between n) ns)) w"
  by (induction ns arbitrary: w) (simp_all add: run_append del: serve.simps)

lemma waits_within:
  assumes "\<And>n. 4 / 5 \<le> factor n \<and> factor n \<le> 6 / 5" "0 \<le> b" "x \<in> set (map (\<lambda>n. of_int b * factor n) ns)"
  shows "of_int b * (4 / 5) \<le> x \<and> x \<le> of_int b * (6 / (5 :: rat))"
proof -
  obtain n where "x = of_int b * factor n" using assms(3) by auto
  moreover have "(0 :: rat) \<le> of_int b" using assms(2) by simp
  ultimately show ?thesis using assms(1) [of n] by (auto intro!: mult_left_mono simp del: times_divide_eq_right)
qed

text \<open>A module that was started and stopped is as before the start, and can be started again.\<close>

lemma sweep_restart: "snd (stop_lease_sweep t (start_lease_sweep m)) = \<lparr>sm_task = False, sm_event = None\<rparr>"
  by (simp add: stop_lease_sweep_def start_lease_sweep_def)

lemma close_stops: "\<not> worker_running (snd (close_client t m)) \<and> rm_stop (snd (close_client t m))"
  by (simp add: worker_running_def close_client_def)

lemma start_once: "start_replay_worker b (start_replay_worker b m) = start_replay_worker b m"
  by (simp add: start_replay_worker_def)

text \<open>The sweep loop returns exactly when its stop event is set at last: then it has swept once for each round
  before, asked before the next for a wait within a fifth of the configured interval, and left the world
  a run of the service with these sweeps between whatever events came in during the waits; while the
  event is never set it never returns.\<close>

lemma sweep_loop_stops:
  assumes "\<And>n. 4 / 5 \<le> factor n \<and> factor n \<le> 6 / 5" and "0 \<le> lease_sweep_interval (cfg e)"
  shows "(\<forall>k. first_set is_set 0 k \<longrightarrow>
       (\<exists>waits. lease_sweep_loop e is_set factor (\<lambda>n. run e (between n)) w =
          Some (waits, run e (concat (map (\<lambda>n. Sweep # between n) [0..<k])) w) \<and> length waits = k \<and>
          (\<forall>x \<in> set waits. of_int (lease_sweep_interval (cfg e)) * (4 / 5) \<le> x \<and>
             x \<le> of_int (lease_sweep_interval (cfg e)) * (6 / 5)))) \<and>
     ((\<forall>n. \<not> is_set n) \<longrightarrow> lease_sweep_loop e is_set factor (\<lambda>n. run e (between n)) w = None)"
proof (intro conjI allI impI)
  fix k assume k: "first_set is_set 0 k"
  let ?waits = "map (\<lambda>n. of_int (lease_sweep_interval (cfg e)) * factor n) [0..<k]"
  have "lease_sweep_loop e is_set factor (\<lambda>n. run e (between n)) w =
      Some (?waits, run e (concat (map (\<lambda>n. Sweep # between n) [0..<k])) w)"
    unfolding lease_sweep_loop_def polling_loop_first [OF k] fold_sweep_round fold_sweep_run by simp
  moreover have "\<forall>x \<in> set ?waits. of_int (lease_sweep_interval (cfg e)) * (4 / 5) \<le> x \<and>
      x \<le> of_int (lease_sweep_interval (cfg e)) * (6 / 5)"
    using waits_within [where factor = factor, OF assms] by blast
  ultimately show "\<exists>waits. lease_sweep_loop e is_set factor (\<lambda>n. run e (between n)) w =
      Some (waits, run e (concat (map (\<lambda>n. Sweep # between n) [0..<k])) w) \<and> length waits = k \<and>
      (\<forall>x \<in> set waits. of_int (lease_sweep_interval (cfg e)) * (4 / 5) \<le> x \<and>
         x \<le> of_int (lease_sweep_interval (cfg e)) * (6 / 5))"
    by (intro exI [of _ ?waits]) simp
next
  assume "\<forall>n. \<not> is_set n"
  then show "lease_sweep_loop e is_set factor (\<lambda>n. run e (between n)) w = None"
    using polling_loop_returns [of is_set "sweep_round e factor (\<lambda>n. run e (between n))" 0 "([], w)"]
    by (cases "lease_sweep_loop e is_set factor (\<lambda>n. run e (between n)) w") (auto simp: lease_sweep_loop_def first_set_def)
qed

end
