(* ===== verification/Startup.thy ===== *)
theory Startup
  imports Instance Auth Background
begin

text \<open>
  \<open>src/asyncgate/main.py\<close> with \<open>integrations/metagate_client.py\<close> and the query metrics of
  \<open>db/base.py\<close>: the start of the process up to the point where it serves, and its end. The shared
  MetaGate client lies outside the repository; what it offers is a record of functions. The
  database's answer to \<open>create_all\<close> is a parameter.
\<close>

section \<open>The shared MetaGate client (\<open>integrations/metagate_client.py\<close>)\<close>

record 'r metagate =
  mg_bootstrap :: "settings \<Rightarrow> (string \<times> string) list \<Rightarrow> exn + settings \<times> 'r option"
  mg_succeeded :: "'r \<Rightarrow> bool"
  mg_acknowledge :: "settings \<Rightarrow> 'r \<Rightarrow> exn + bool"

text \<open>\<open>Path.parents\<close>, nearest first; a path is the list of its parts.\<close>

definition path_parents :: "string list \<Rightarrow> string list list" where
  "path_parents p = map (\<lambda>n. take n p) (rev [0..<length p])"

definition SHARED_RELPATH :: "string list" where
  "SHARED_RELPATH = [''LegiVellum'', ''shared'', ''legivellum'', ''metagate_bootstrap.py'']"

text \<open>\<open>load\<close> is None where the module has no loader, or raises while it is executed.\<close>

fun load_from :: "(string list \<Rightarrow> bool) \<Rightarrow> (string list \<Rightarrow> 'm option) \<Rightarrow> string list list \<Rightarrow> 'm option" where
  "load_from is_file load [] = None"
| "load_from is_file load (p # ps) =
     (if is_file (p @ SHARED_RELPATH) then load (p @ SHARED_RELPATH) else load_from is_file load ps)"

definition load_shared_bootstrap :: "(string list \<Rightarrow> bool) \<Rightarrow> (string list \<Rightarrow> 'm option) \<Rightarrow> string list \<Rightarrow> 'm option" where
  "load_shared_bootstrap is_file load file = load_from is_file load (path_parents file)"

definition BOOTSTRAP_BINDINGS :: "'m option \<Rightarrow> (string \<times> string) list" where
  "BOOTSTRAP_BINDINGS shared = (case shared of None \<Rightarrow> [] | Some _ \<Rightarrow> [(''receiptgate'', ''receiptgate_endpoint'')])"

text \<open>The settings object may be changed by the call.\<close>

definition bootstrap_from_metagate :: "'r metagate option \<Rightarrow> settings \<Rightarrow> exn + settings \<times> 'r option" where
  "bootstrap_from_metagate shared s = (case shared of None \<Rightarrow> Inr (s, None)
     | Some m \<Rightarrow> mg_bootstrap m s (BOOTSTRAP_BINDINGS shared))"

definition acknowledge_startup :: "'r metagate option \<Rightarrow> settings \<Rightarrow> 'r option \<Rightarrow> exn + bool" where
  "acknowledge_startup shared s result = (case (shared, result) of
     (Some m, Some r) \<Rightarrow> mg_acknowledge m s r | _ \<Rightarrow> Inr False)"

section \<open>The start and the end of the process (\<open>main.py\<close>)\<close>

definition own_instance_id :: "(string \<Rightarrow> string option) \<Rightarrow> string option \<Rightarrow> uuid \<Rightarrow> settings \<Rightarrow> settings" where
  "own_instance_id environ hostname u s =
     (if instance_id s = ''asyncgate-1'' then s\<lparr>instance_id := detect_instance_id environ hostname u\<rparr> else s)"

text \<open>The two calls to MetaGate, the second only after a bootstrap that succeeded.\<close>

definition resolve_peers :: "'r metagate option \<Rightarrow> settings \<Rightarrow> exn + settings" where
  "resolve_peers shared s = (case bootstrap_from_metagate shared s of Inl ex \<Rightarrow> Inl ex
     | Inr (s', result) \<Rightarrow>
         (if (case (shared, result) of (Some m, Some r) \<Rightarrow> mg_succeeded m r | _ \<Rightarrow> False)
          then (case acknowledge_startup shared s' result of Inl ex \<Rightarrow> Inl ex | Inr _ \<Rightarrow> Inr s')
          else Inr s'))"

text \<open>The settings the service runs with and its sweep task, or the error the start ends in.\<close>

definition lifespan_start ::
    "(string \<Rightarrow> string option) \<Rightarrow> string option \<Rightarrow> uuid \<Rightarrow> 'r metagate option \<Rightarrow> exn option \<Rightarrow> settings \<Rightarrow>
     exn + settings \<times> sweep_module" where
  "lifespan_start environ hostname u shared init_db s =
     (let s1 = own_instance_id environ hostname u s in
      case validate_instance_uniqueness (instance_id s1) (environment_value (environment s1)) of
        Inl ex \<Rightarrow> Inl ex
      | Inr _ \<Rightarrow> (case resolve_peers shared s1 of
          Inl ex \<Rightarrow> Inl ex
        | Inr s2 \<Rightarrow> (case validate_auth_config s2 of
            Inl ex \<Rightarrow> Inl ex
          | Inr _ \<Rightarrow> (case init_db of Some ex \<Rightarrow> Inl ex
              | None \<Rightarrow> Inr (s2, start_lease_sweep \<lparr>sm_task = False, sm_event = None\<rparr>)))))"

text \<open>The sweep is stopped first, then the client, if there is one, closed and forgotten.\<close>

definition lifespan_stop ::
    "bool \<Rightarrow> bool \<Rightarrow> sweep_module \<Rightarrow> replay_module option \<Rightarrow> (task_end option \<times> task_end option) \<times> sweep_module \<times> replay_module option" where
  "lifespan_stop sweep_in_time replay_in_time sweep client =
     (let ((_, swept), sweep') = stop_lease_sweep sweep_in_time sweep;
          replayed = (case client of None \<Rightarrow> None | Some m \<Rightarrow> fst (close_client replay_in_time m))
      in ((swept, replayed), sweep', None))"

section \<open>Query metrics (\<open>db/base.py\<close>)\<close>

text \<open>\<open>conn.info['query_start_time']\<close> of a connection.\<close>

definition before_cursor_execute :: "env \<Rightarrow> rat option \<Rightarrow> rat option M" where
  "before_cursor_execute e info = bind (perf_counter e) (\<lambda>t. return (Some t))"

definition after_cursor_execute :: "env \<Rightarrow> rat option \<Rightarrow> rat option M" where
  "after_cursor_execute e info = (case info of None \<Rightarrow> return None
     | Some start_time \<Rightarrow> bind (perf_counter e) (\<lambda>t.
         seq (metric (inc_counter ''db.query.count'' 1))
           (seq (metric (observe ''db.query.duration_ms'' ((t - start_time) * 1000))) (return None))))"

section \<open>Lemmas\<close>

text \<open>The first parent that has the file decides; that it cannot be loaded is not held against the start.\<close>

lemma load_from_first:
  "load_from is_file load ps = (case find (\<lambda>p. is_file (p @ SHARED_RELPATH)) ps of
     None \<Rightarrow> None | Some p \<Rightarrow> load (p @ SHARED_RELPATH))"
  by (induction ps) auto

lemma resolve_peers_absent: "resolve_peers None s = Inr s"
  by (simp add: resolve_peers_def bootstrap_from_metagate_def)

text \<open>A service that starts has no bypass of authentication outside development, whatever MetaGate set.\<close>

lemma started_secure:
  "lifespan_start environ hostname u shared init_db s = Inr (s', m) \<Longrightarrow> allow_insecure_dev s' \<Longrightarrow>
     environment s' = DEVELOPMENT \<and> insecure_dev s'"
  by (auto simp: lifespan_start_def Let_def validate_auth_config_def insecure_dev_def split: sum.splits option.splits if_splits)

text \<open>And in staging and production its identifier is none of those shared by default.\<close>

definition keeps_identity :: "'r metagate option \<Rightarrow> bool" where
  "keeps_identity shared \<longleftrightarrow> (\<forall>s s' r. bootstrap_from_metagate shared s = Inr (s', r) \<longrightarrow> instance_id s' = instance_id s)"

lemma resolve_peers_identity:
  "keeps_identity shared \<Longrightarrow> resolve_peers shared s = Inr s' \<Longrightarrow> instance_id s' = instance_id s"
  by (auto simp: keeps_identity_def resolve_peers_def split: sum.splits prod.splits if_splits)

lemma started_identified:
  assumes "lifespan_start environ hostname u shared init_db s = Inr (s', m)"
    and "environment s \<in> {STAGING, PRODUCTION}" and "keeps_identity shared"
  shows "\<not> list_ex (\<lambda>p. starts_with (instance_id s') p) unsafe_patterns"
  using assms by (auto simp: lifespan_start_def Let_def validate_instance_uniqueness_def own_instance_id_def list_ex_iff
      dest!: resolve_peers_identity split: sum.splits option.splits if_splits)

text \<open>It has a sweep task with a fresh event; after the end of the process neither task is left.\<close>

lemma started_sweeping:
  "lifespan_start environ hostname u shared init_db s = Inr (s', m) \<Longrightarrow> sm_task m \<and> sm_event m = Some False"
  by (auto simp: lifespan_start_def Let_def start_lease_sweep_def split: sum.splits option.splits)

lemma stopped_idle:
  "lifespan_stop a b sweep client = (ends, sweep', client') \<Longrightarrow> \<not> sm_task sweep' \<and> sm_event sweep' = None \<and> client' = None"
  by (auto simp: lifespan_stop_def stop_lease_sweep_def Let_def)

text \<open>A statement is counted once, when it ends; what ends without having begun is not.\<close>

lemma wp_query_metrics:
  "wp (bind (before_cursor_execute e info) (after_cursor_execute e))
     (\<lambda>info' w'. info' = None \<and> w_metrics w' = observe ''db.query.duration_ms''
        ((e_perf e (Suc (w_perf w)) - e_perf e (w_perf w)) * 1000) (inc_counter ''db.query.count'' 1 (w_metrics w)))
     (\<lambda>_ _. False) w"
  by (simp add: before_cursor_execute_def after_cursor_execute_def wp_simps)

lemma query_not_begun: "after_cursor_execute e None w = (Inr None, w)"
  by (simp add: after_cursor_execute_def return_def)

end
