(* ===== verification/Scenario.thy ===== *)
theory Scenario
  imports Service
begin

text \<open>
  A run of the service in a concrete environment, computed by rewriting: alice creates a task,
  bob leases it, and then completes it, fails it, or lets the lease expire. The states of the
  run are the inputs at which the theorems with hypotheses are instantiated.
\<close>

section \<open>Computing\<close>

text \<open>
  The procedures as equations of a procedure applied to its world. Their argument procedures
  are left alone until their own world is known (the \<open>weak\<close> congruences).
\<close>

lemmas applied_code =
  return_def [THEN fun_cong] raise_def [THEN fun_cong] bind_def [THEN fun_cong]
  seq_def [THEN fun_cong] asks_def [THEN fun_cong] modify_def [THEN fun_cong]
  try_except_def [THEN fun_cong] lift_sum_def [THEN fun_cong] ensure_def [THEN fun_cong]
  some_or_raise_def [THEN fun_cong] utc_now_def [THEN fun_cong] perf_counter_def [THEN fun_cong]
  uniform_jitter_def [THEN fun_cong] http_post_def [THEN fun_cong] uuid4_def [THEN fun_cong]
  get_trace_id_def [THEN fun_cong] set_trace_id_def [THEN fun_cong] ensure_trace_id_def [THEN fun_cong]
  metric_def [THEN fun_cong] select_def [THEN fun_cong] write_db_def [THEN fun_cong]
  savepoint_def [THEN fun_cong] session_commit_def [THEN fun_cong] session_rollback_def [THEN fun_cong]
  with_session_def [THEN fun_cong] insert_task_def [THEN fun_cong] insert_lease_def [THEN fun_cong]
  insert_receipt_def [THEN fun_cong] insert_progress_def [THEN fun_cong] insert_relationship_def [THEN fun_cong]
  update_task_def [THEN fun_cong] update_lease_def [THEN fun_cong] one_or_none_def [THEN fun_cong]
  task_get_def [THEN fun_cong] task_by_idempotency_key_def [THEN fun_cong] task_get_many_def [THEN fun_cong]
  task_list_def [THEN fun_cong] task_count_by_status_def [THEN fun_cong] task_create_def [THEN fun_cong]
  task_update_status_def [THEN fun_cong] task_cancel_def [THEN fun_cong] task_requeue_with_backoff_def [THEN fun_cong]
  task_requeue_on_expiry_def [THEN fun_cong] grant_lease_def [THEN fun_cong] lease_claim_next_def [THEN fun_cong]
  lease_get_def [THEN fun_cong] lease_validate_def [THEN fun_cong] lease_list_for_worker_def [THEN fun_cong]
  lease_get_expired_def [THEN fun_cong] lease_renew_def [THEN fun_cong] lease_release_def [THEN fun_cong]
  check_parents_def [THEN fun_cong] receipt_by_hash_def [THEN fun_cong] emit_anomaly_def [THEN fun_cong]
  receipt_insert_def [THEN fun_cong] receipt_create_def [THEN fun_cong] cursor_time_def [THEN fun_cong]
  receipt_list_def [THEN fun_cong] receipt_list_filtered_def [THEN fun_cong] receipt_mark_delivered_def [THEN fun_cong]
  receipt_undelivered_for_task_def [THEN fun_cong] receipt_undelivered_by_type_def [THEN fun_cong] receipt_get_by_id_def [THEN fun_cong]
  receipt_task_obligation_def [THEN fun_cong] receipt_get_by_parent_def [THEN fun_cong] receipt_has_terminator_def [THEN fun_cong]
  receipt_get_terminators_def [THEN fun_cong] receipt_latest_terminator_def [THEN fun_cong] receipt_list_open_obligations_def [THEN fun_cong]
  progress_find_def [THEN fun_cong] progress_update_def [THEN fun_cong] relationship_upsert_def [THEN fun_cong]
  get_receiptgate_client_def [THEN fun_cong] set_client_def [THEN fun_cong] update_client_def [THEN fun_cong]
  shutdown_receiptgate_client_def [THEN fun_cong] record_success_def [THEN fun_cong] record_failure_def [THEN fun_cong]
  read_if_opened_def [THEN fun_cong] cb_proceed_def [THEN fun_cong] cb_call_def [THEN fun_cong]
  emit_to_receiptgate_def [THEN fun_cong] list_custody_def [THEN fun_cong] persist_buffer_def [THEN fun_cong]
  buffer_receipt_def [THEN fun_cong] fallback_to_buffer_def [THEN fun_cong] emit_with_circuit_def [THEN fun_cong]
  emit_receipt_def [THEN fun_cong] remove_buffer_item_def [THEN fun_cong] schedule_retry_def [THEN fun_cong]
  note_replay_failure_def [THEN fun_cong] replay_one_def [THEN fun_cong] replay_buffered_receipts_def [THEN fun_cong]
  get_circuit_stats_def [THEN fun_cong] get_buffer_stats_def [THEN fun_cong] reset_circuit_def [THEN fun_cong]
  get_task_obligation_def [THEN fun_cong] get_task_owner_def [THEN fun_cong] get_task_obligation_or_raise_def [THEN fun_cong]
  owner_and_parents_def [THEN fun_cong] forward_receipt_def [THEN fun_cong] engine_emit_def [THEN fun_cong]
  emit_result_ready_def [THEN fun_cong] emit_escalation_def [THEN fun_cong] transition_to_running_def [THEN fun_cong]
  create_task_def [THEN fun_cong] announce_cancel_def [THEN fun_cong] cancel_atomic_def [THEN fun_cong]
  cancel_task_def [THEN fun_cong] ack_receipt_def [THEN fun_cong] accept_lease_def [THEN fun_cong]
  lease_next_def [THEN fun_cong] renew_lease_def [THEN fun_cong] require_lease_def [THEN fun_cong]
  report_progress_def [THEN fun_cong] start_task_def [THEN fun_cong] complete_check_def [THEN fun_cong]
  announce_complete_def [THEN fun_cong] complete_atomic_def [THEN fun_cong] complete_def [THEN fun_cong]
  fail_check_def [THEN fun_cong] announce_retry_def [THEN fun_cong] fail_requeue_def [THEN fun_cong]
  announce_failure_def [THEN fun_cong] fail_terminal_def [THEN fun_cong] fail_atomic_def [THEN fun_cong]
  fail_task_def [THEN fun_cong] announce_expiry_def [THEN fun_cong] expire_atomic_def [THEN fun_cong]
  expire_one_def [THEN fun_cong] expire_leases_def [THEN fun_cong] sweep_once_def [THEN fun_cong]
  get_task_def [THEN fun_cong] list_tasks_def [THEN fun_cong] list_receipts_def [THEN fun_cong]
  list_receipts_ledger_def [THEN fun_cong] get_receipt_def [THEN fun_cong] list_receipts_by_parent_def [THEN fun_cong]
  get_latest_terminator_def [THEN fun_cong] has_terminator_def [THEN fun_cong] list_open_obligations_def [THEN fun_cong]
  engine_bootstrap_def [THEN fun_cong] get_config_def [THEN fun_cong] get_metrics_snapshot_def [THEN fun_cong]
  check_api_key_def [THEN fun_cong] verify_request_api_key_def [THEN fun_cong] generate_api_key_def [THEN fun_cong]
  get_or_create_bootstrap_user_def [THEN fun_cong] create_api_key_for_user_def [THEN fun_cong] verify_auth_token_def [THEN fun_cong]
  verify_api_key_def [THEN fun_cong] settle_lease_def [THEN fun_cong] reconcile_worker_def [THEN fun_cong]
  the_arg_def [THEN fun_cong] get_arg_def [THEN fun_cong] opt_uuid_def [THEN fun_cong]
  agent_principal_def [THEN fun_cong] tool_bootstrap_def [THEN fun_cong] tool_create_task_def [THEN fun_cong]
  tool_get_task_def [THEN fun_cong] tool_list_tasks_def [THEN fun_cong] tool_cancel_task_def [THEN fun_cong]
  tool_list_receipts_def [THEN fun_cong] tool_list_receipts_ledger_def [THEN fun_cong] tool_ack_receipt_def [THEN fun_cong]
  tool_check_terminator_def [THEN fun_cong] tool_lease_next_def [THEN fun_cong] lease_args_def [THEN fun_cong]
  tool_renew_lease_def [THEN fun_cong] tool_report_progress_def [THEN fun_cong] tool_complete_def [THEN fun_cong]
  tool_fail_def [THEN fun_cong] tool_health_def [THEN fun_cong] call_tool_def [THEN fun_cong]
  verify_token_arg_def [THEN fun_cong] handle_tool_def [THEN fun_cong] mcp_entry_def [THEN fun_cong]
  trace_id_middleware_def [THEN fun_cong]


lemma bind_weak: "w = w' \<Longrightarrow> bind m f w = bind m f w'" by simp
lemma seq_weak: "w = w' \<Longrightarrow> seq m n w = seq m n w'" by simp
lemma try_weak: "w = w' \<Longrightarrow> try_except m h w = try_except m h w'" by simp
lemma savepoint_weak: "w = w' \<Longrightarrow> savepoint m w = savepoint m w'" by simp
lemma session_weak: "w = w' \<Longrightarrow> with_session m w = with_session m w'" by simp
lemma for_each_weak: "w = w' \<Longrightarrow> xs = xs' \<Longrightarrow> for_each f xs w = for_each f xs' w'" by simp

lemmas weak = bind_weak seq_weak try_weak savepoint_weak session_weak for_each_weak

section \<open>The environment\<close>

definition demo_settings :: settings where
  "demo_settings = default_settings\<lparr>allow_insecure_dev := True\<rparr>"

text \<open>A clock that ticks every second, and a digest chosen for each call.\<close>

definition demo :: "string \<Rightarrow> env" where
  "demo h = \<lparr>e_settings = demo_settings,
     e_clock = (\<lambda>n. 63000000000000000 + int n * second), e_perf = (\<lambda>n. of_nat n), e_jitter = (\<lambda>n. 0),
     e_post = (\<lambda>n p. Http_ok []), e_repr = (\<lambda>j. ''?''), e_sha256 = (\<lambda>s. h),
     e_canonical = Some, e_derive_ulid = (\<lambda>k s. k @ s), e_may_buffer = (\<lambda>p. False),
     e_buffer_path = ''buffer.json'', e_worker_running = False, e_jwt_key = None,
     e_jwt_decode = (\<lambda>t k. Inl ''no''), e_bcrypt = (\<lambda>k h. k = h), e_token = (\<lambda>n. ''token''),
     e_bcrypt_hash = (\<lambda>n k. k), e_exn_code = (\<lambda>x. None)\<rparr>"

lemma demo_sel [simp]:
  "e_settings (demo h) = demo_settings" "e_clock (demo h) n = 63000000000000000 + int n * second"
  "e_jitter (demo h) n = 0" "e_post (demo h) n p = Http_ok []" "e_sha256 (demo h) s = h"
  "e_may_buffer (demo h) s = False" "e_jwt_key (demo h) = None" "e_perf (demo h) n = of_nat n" "e_canonical (demo h) = Some"
  by (simp_all add: demo_def)

lemma demo_settings_sel [simp]:
  "environment demo_settings = DEVELOPMENT" "instance_id demo_settings = ''asyncgate-1''"
  "receipt_mode demo_settings = STANDALONE" "receiptgate_endpoint demo_settings = None"
  "default_tenant_id demo_settings = ''00000000-0000-0000-0000-000000000000''"
  "default_lease_ttl demo_settings = 120" "max_lease_ttl demo_settings = 1800"
  "max_lease_renewals demo_settings = 10" "max_lease_lifetime demo_settings = 7200"
  "default_max_attempts demo_settings = 2" "default_retry_backoff demo_settings = 15"
  "max_retry_backoff demo_settings = 900" "default_priority demo_settings = 0"
  "escalation_enabled demo_settings = False" "allow_insecure_dev demo_settings"
  "insecure_dev demo_settings" "api_key demo_settings = None"
  by (simp_all add: demo_settings_def default_settings_def insecure_dev_def)

lemma uuid_text [simp]: "u < 2 ^ 128 \<Longrightarrow> uuid_of_str (uuid_str u) = Some u"
  by (rule uuid_roundtrip)

lemma demo_tenant [simp]: "uuid_of_str ''00000000-0000-0000-0000-000000000000'' = Some 0"
  by code_simp

section \<open>Sizes\<close>

primrec text_bound :: "json \<Rightarrow> nat" where
  "text_bound JNull = 4"
| "text_bound (JBool b) = 5"
| "text_bound (JInt i) = length (int_str i)"
| "text_bound (JStr s) = 6 * length s + 2"
| "text_bound (JList xs) = 2 + sum_list (map Suc (map text_bound xs))"
| "text_bound (JDict d) = 2 + sum_list (map (\<lambda>(k, n). 6 * length k + n + 4) (map (map_prod id text_bound) d))"

lemma length_quote: "length (quote s) \<le> 6 * length s + 2"
proof -
  have "length (escape_char c) \<le> 6" for c by (simp add: escape_char_def Let_def)
  then have "length (concat (map escape_char s)) \<le> 6 * length s"
    by (induction s) (auto intro: add_mono order_trans)
  then show ?thesis by (simp add: quote_def)
qed

lemma length_join: "length sep \<le> 1 \<Longrightarrow> length (join sep xs) \<le> sum_list (map (Suc \<circ> length) xs)"
  by (induction sep xs rule: join.induct) auto

lemma length_dumps: "length (dumps_compact j) \<le> text_bound j"
proof (induction j)
  case (JStr s)
  then show ?case using length_quote by (simp add: dumps_compact_def)
next
  case (JList xs)
  have "length (join '','' (map (dumps '','' '':'') xs)) \<le> sum_list (map (Suc \<circ> length) (map (dumps '','' '':'') xs))"
    by (rule length_join) simp
  also have "\<dots> \<le> sum_list (map Suc (map text_bound xs))"
    using JList by (simp add: dumps_compact_def o_def sum_list_mono)
  finally show ?case unfolding dumps_compact_def dumps.simps text_bound.simps by simp
next
  case (JDict d)
  let ?kv = "map (json_key '':'') (map (map_prod id (dumps '','' '':'')) d)"
  have "length (join '','' ?kv) \<le> sum_list (map (Suc \<circ> length) ?kv)"
    by (rule length_join) simp
  also have "\<dots> = sum_list (map (\<lambda>(k, j). Suc (length (quote k) + Suc (length (dumps_compact j)))) d)"
    by (simp add: o_def json_key_def dumps_compact_def case_prod_unfold)
  also have "\<dots> \<le> sum_list (map (\<lambda>(k, j). 6 * length k + text_bound j + 4) d)"
  proof (rule sum_list_mono)
    fix x assume x: "x \<in> set d"
    obtain k j where kj: "x = (k, j)" by (cases x)
    have "length (dumps_compact j) \<le> text_bound j" using JDict x kj by (auto simp: snds.simps)
    then show "(\<lambda>(k, j). Suc (length (quote k) + Suc (length (dumps_compact j)))) x
        \<le> (\<lambda>(k, j). 6 * length k + text_bound j + 4) x"
      using length_quote [of k] kj by simp
  qed
  finally show ?case unfolding dumps_compact_def dumps.simps text_bound.simps
    by (simp add: o_def map_prod_def case_prod_unfold)
qed (simp_all add: dumps_compact_def)

text \<open>Under 64 KiB by the bound, at most ten parents and a hundred artifacts: within the limits.\<close>

lemma check_size_small:
  "text_bound (JDict (dict_of body)) \<le> 65536 \<Longrightarrow> length (list_of ps) \<le> 10 \<Longrightarrow> artifact_count body \<le> 100 \<Longrightarrow>
   check_size body ps = Inr ()"
  using length_dumps [of "JDict (dict_of body)"]
  by (auto simp: check_size_def MAX_RECEIPT_BODY_BYTES_def MAX_RECEIPT_PARENTS_def
      MAX_RECEIPT_ARTIFACTS_def body_size_def)


lemma length_uuid_str [simp]: "length (uuid_str u) = 36" by (simp add: uuid_str_def Let_def)

lemma uuid_str_not_Nil [simp]: "uuid_str u \<noteq> []"
  using length_uuid_str [of u] by (metis list.size(3) zero_neq_numeral)

text \<open>What the operations compute on values.\<close>

lemmas valued = Let_def delayed_def new_task_def or_default_def task_fits_def varchar_def varchar_opt_def
  int4_def task_unique_def resolve_principal_ai_def or_str_def mk_principal_def t_key_def t_idem_def
  truthy_str_def truthy_list_def truthy_def json_or_def dict_of_def list_of_def dict_set_def
  normalize_principal_def requirements_of_def traced_body_def check_size_small is_terminal_type_iff
  service_principal_def resolve_obligation_owner_def is_internal_principal_id_def is_system_def
  normalize_external_def starts_with_def SERVICE_PRINCIPAL_ID_def SYSTEM_PRINCIPAL_ID_def
  strips_parents_def parents_used_def locatable_def body_task_assigned_def dump_requirements_def
  compute_receipt_hash_def receipt_fits_def receipt_unique_def forwards_def new_receipt_def
  scalar_one_or_none_def artifact_count_def clashes_def r_key_def r_idem_def

section \<open>The run\<close>

abbreviation demo_start :: datetime where "demo_start \<equiv> 63000000000000000"

definition alice :: principal where "alice = mk_principal AGENT ''alice''"
definition bob :: principal where "bob = mk_principal WORKER ''bob''"

definition tool_request :: "string \<Rightarrow> dict \<Rightarrow> event" where
  "tool_request name args = Request None None \<lparr>mr_method = ''tools/call'',
     mr_params = [(''name'', JStr name), (''arguments'', JDict args)], mr_id = JInt 1\<rparr>"

lemmas request_values = tool_request_def py_str_def inject_token_def has_key_def as_dict_def without_def
  as_str_opt_def dict_get_def verify_token_arg_def verify_auth_token_def resolve_tenant_def py_uuid_def
  call_tool_def tools_def arg_def as_str_def as_int_opt_def as_strs_opt_def max_tasks_arg_def as_json_opt_def

lemmas query_values = claim_candidates_def sql_limit_def claim_order_def order_by_def order_by_desc_def
  claimable_def caps_match_def lease_fits_def lease_unique_def has_task_def task_at_def l_key_def
  set_tasks_def drop_leases_def lease_at_def delete_where_def is_obligation_of_def receipt_exists_def
  principal_id_variants_def normalize_principal_id_def first_of_def live_lease_def held_by_def expired_at_def

lemmas time_values = add_seconds_def add_us_def second_def in_range_def max_ordinal_def us_per_day_def

lemmas work_values = artifacts_valid_def is_dict_def worker_principal_def can_transition_to_def is_terminal_def with_status_def requeued_def
  should_requeue_def backoff_us_def body_task_accepted_def body_task_completed_def
  body_task_result_ready_def body_lease_expired_def retry_body_def json_opt_def dict_opt_def str_opt_def

lemmas served = applied_code request_values query_values time_values work_values valued

text \<open>Every receipt leaves one count and one latency of a second in the metrics.\<close>

definition emitted :: "metrics_registry \<Rightarrow> metrics_registry" where
  "emitted m = observe ''receipts.emit_latency_ms'' 1000 (inc_counter ''receipts.emitted.count'' 1 m)"

subsection \<open>alice creates a task\<close>

definition ask_create :: event where
  "ask_create = tool_request ''asyncgate.create_task''
     [(''agent_id'', JStr ''alice''), (''type'', JStr ''echo''), (''principal_ai'', JStr ''ai'')]"

definition demo_task :: task where
  "demo_task = new_task demo_settings 0 0 demo_start ''echo'' [] alice (Some ''ai'') None None None None 0
     None None None None"

definition demo_assigned :: receipt where
  "demo_assigned = new_receipt demo_settings 0 2 TASK_ASSIGNED 63000000001000000 service_principal alice
     (Some 0) None None []
     (body_task_assigned ''Execute task type: echo'' (Some (dump_requirements \<lparr>capabilities = [], tags = []\<rparr>)) @
        [(''trace_id'', JStr (uuid_str 1))]) (Some ''a'')"

definition db_created :: db where
  "db_created = empty_db\<lparr>db_tasks := [demo_task], db_receipts := [demo_assigned]\<rparr>"

definition after_create :: world where
  "after_create = initial_world\<lparr>w_db := db_created, w_committed := db_created, w_clock := 2, w_perf := 2,
     w_uuid := 3, w_trace := Some (uuid_str 1), w_metrics := emitted empty_metrics\<rparr>"

lemma serve_create: "serve (demo ''a'') ask_create initial_world = after_create"
  by (simp add: served ask_create_def initial_world_def after_create_def db_created_def demo_task_def
      demo_assigned_def alice_def emitted_def numeral_2_eq_2 numeral_3_eq_3 cong: weak)

lemma alice_sel [simp]: "p_kind alice = AGENT" "p_id alice = ''alice''"
  by (simp_all add: alice_def)

lemma demo_task_sel [simp]:
  "t_tenant demo_task = 0" "t_id demo_task = 0" "t_type demo_task = ''echo''" "t_status demo_task = QUEUED"
  "t_attempt demo_task = 0" "t_max_attempts demo_task = 2" "t_created_by demo_task = alice"
  "t_retry_backoff demo_task = 15" "t_result demo_task = None" "t_started_at demo_task = None"
  "t_next_eligible_at demo_task = None" "t_requirements demo_task = \<lparr>capabilities = [], tags = []\<rparr>"
  "t_instance demo_task = Some ''asyncgate-1''" "t_created_at demo_task = demo_start" "t_priority demo_task = 0"
  by (simp_all add: demo_task_def new_task_def or_default_def)

lemma demo_assigned_sel [simp]:
  "r_tenant demo_assigned = 0" "r_id demo_assigned = 2" "r_type demo_assigned = TASK_ASSIGNED"
  "r_to demo_assigned = alice" "r_task demo_assigned = Some 0" "r_parents demo_assigned = []"
  "r_hash demo_assigned = Some ''a''" "r_created_at demo_assigned = 63000000001000000"
  by (simp_all add: demo_assigned_def new_receipt_def alice_def)

subsection \<open>bob leases it\<close>

definition ask_lease :: event where
  "ask_lease = tool_request ''asyncgate.lease_next'' [(''worker_id'', JStr ''bob'')]"

definition demo_leased :: task where
  "demo_leased = demo_task\<lparr>t_status := LEASED, t_updated_at := 63000000002000000\<rparr>"

definition demo_lease :: lease where
  "demo_lease = \<lparr>l_id = 3, l_tenant = 0, l_task = 0, l_worker = ''bob'', l_expires_at = 63000000122000000,
     l_created_at = 63000000002000000, l_acquired_at = 63000000002000000, l_renewal_count = 0\<rparr>"

definition demo_accepted :: receipt where
  "demo_accepted = new_receipt demo_settings 0 5 TASK_ACCEPTED 63000000003000000 bob alice (Some 0) (Some 3)
     None [2] (body_task_accepted [] @ [(''trace_id'', JStr (uuid_str 4))]) (Some ''b'')"

definition db_leased :: db where
  "db_leased = empty_db\<lparr>db_tasks := [demo_leased], db_leases := [demo_lease],
     db_receipts := [demo_assigned, demo_accepted]\<rparr>"

definition after_lease :: world where
  "after_lease = initial_world\<lparr>w_db := db_leased, w_committed := db_leased, w_clock := 4, w_perf := 4,
     w_uuid := 6, w_trace := Some (uuid_str 4), w_metrics := emitted (emitted empty_metrics)\<rparr>"

lemma serve_lease: "serve (demo ''b'') ask_lease after_create = after_lease"
  by (simp add: served ask_lease_def after_create_def db_created_def initial_world_def after_lease_def
      db_leased_def demo_leased_def demo_lease_def demo_accepted_def bob_def emitted_def cong: weak)

lemma demo_leased_sel [simp]:
  "t_tenant demo_leased = 0" "t_id demo_leased = 0" "t_type demo_leased = ''echo''" "t_status demo_leased = LEASED"
  "t_attempt demo_leased = 0" "t_max_attempts demo_leased = 2" "t_created_by demo_leased = alice"
  "t_retry_backoff demo_leased = 15" "t_result demo_leased = None" "t_started_at demo_leased = None"
  "t_next_eligible_at demo_leased = None" "t_requirements demo_leased = \<lparr>capabilities = [], tags = []\<rparr>"
  "t_instance demo_leased = Some ''asyncgate-1''" "t_created_at demo_leased = demo_start"
  "t_priority demo_leased = 0"
  by (simp_all add: demo_leased_def)

lemma demo_lease_sel [simp]:
  "l_id demo_lease = 3" "l_tenant demo_lease = 0" "l_task demo_lease = 0" "l_worker demo_lease = ''bob''"
  "l_expires_at demo_lease = 63000000122000000" "l_acquired_at demo_lease = 63000000002000000"
  "l_renewal_count demo_lease = 0"
  by (simp_all add: demo_lease_def)

lemma demo_accepted_sel [simp]:
  "r_tenant demo_accepted = 0" "r_id demo_accepted = 5" "r_type demo_accepted = TASK_ACCEPTED"
  "r_to demo_accepted = alice" "r_task demo_accepted = Some 0" "r_parents demo_accepted = [2]"
  "r_hash demo_accepted = Some ''b''" "r_created_at demo_accepted = 63000000003000000"
  by (simp_all add: demo_accepted_def new_receipt_def alice_def)

lemma leased_start [simp]:
  "w_db after_lease = db_leased" "w_committed after_lease = db_leased" "w_clock after_lease = 4"
  "w_db after_create = db_created" "w_clock after_create = 2"
  by (simp_all add: after_lease_def after_create_def)

lemmas leased_state = after_lease_def db_leased_def initial_world_def

subsection \<open>and completes it, fails it, or lets it expire\<close>

definition lease_ids :: dict where
  "lease_ids = [(''worker_id'', JStr ''bob''), (''task_id'', JStr (uuid_str 0)), (''lease_id'', JStr (uuid_str 3))]"

definition ask_complete :: event where
  "ask_complete = tool_request ''asyncgate.complete''
     (lease_ids @ [(''result'', JDict [(''answer'', JStr ''yes'')]), (''artifacts'', JList [JDict [(''uri'', JStr ''s3://a'')]])])"

definition ask_fail :: event where
  "ask_fail = tool_request ''asyncgate.fail''
     (lease_ids @ [(''error'', JDict [(''code'', JStr ''E1'')]), (''retryable'', JBool True)])"

text \<open>The same service ten minutes later.\<close>

definition demo_later :: "string \<Rightarrow> env" where
  "demo_later h = (demo h)\<lparr>e_clock := (\<lambda>n. 63000000600000000 + int n * second)\<rparr>"

lemma demo_later_sel [simp]:
  "e_settings (demo_later h) = demo_settings" "e_clock (demo_later h) n = 63000000600000000 + int n * second"
  "e_jitter (demo_later h) n = 0" "e_sha256 (demo_later h) s = h" "e_perf (demo_later h) n = of_nat n"
  by (simp_all add: demo_later_def)

lemma demo_texts [simp]:
  "length (int_str 0) = 1" "length (int_str 1) = 1" "length (int_str 2) = 1"
  "length (isoformat 63000000021000000) = 25" "length (isoformat 63000000006000000) = 25" "length (isoformat 63000000005000000) = 25"
  by code_simp+

definition demo_done :: task where
  "demo_done = demo_leased\<lparr>t_status := SUCCEEDED, t_updated_at := 63000000007000000,
     t_result := Some \<lparr>tr_outcome = O_SUCCEEDED, tr_result = Some [(''answer'', JStr ''yes'')], tr_error = None,
       tr_artifacts = Some (JList [JDict [(''uri'', JStr ''s3://a'')]]), tr_completed_at = 63000000006000000\<rparr>, t_started_at := None\<rparr>"

definition demo_retry :: task where
  "demo_retry = requeued 63000000006000000 1 63000000021000000 demo_leased"

definition demo_lapsed :: task where
  "demo_lapsed = requeued 63000000605000000 0 63000000605000000 demo_leased"

definition after_complete :: world where
  "after_complete = serve (demo ''c'') ask_complete after_lease"

lemma complete_cells:
  "db_tasks (w_db after_complete) = [demo_done]" "db_leases (w_db after_complete) = []"
  by (simp_all add: served ask_complete_def lease_ids_def leased_state after_complete_def demo_done_def cong: weak)

lemma fail_cells:
  "db_tasks (w_db (serve (demo ''d'') ask_fail after_lease)) = [demo_retry]"
  "db_leases (w_db (serve (demo ''d'') ask_fail after_lease)) = []"
  by (simp_all add: served ask_fail_def lease_ids_def leased_state demo_retry_def cong: weak)

lemma sweep_cells:
  "db_tasks (w_db (serve (demo_later ''e'') Sweep after_lease)) = [demo_lapsed]"
  "db_leases (w_db (serve (demo_later ''e'') Sweep after_lease)) = []"
  by (simp_all add: served leased_state demo_lapsed_def cong: weak)

lemma reachable_demo [intro, simp]:
  "reachable after_create" "reachable after_lease" "reachable after_complete"
proof -
  show c: "reachable after_create" using reachable_step [OF reachable_init] serve_create by metis
  show l: "reachable after_lease" using reachable_step [OF c] serve_lease by metis
  show "reachable after_complete" unfolding after_complete_def by (rule reachable_step [OF l])
qed

lemma schema_demo [simp]: "schema_ok db_leased" "schema_ok db_created"
proof -
  have "both schema_ok w" if "reachable w" for w
    by (rule schema.whole.reachable_keeps [OF that]) (simp_all add: on_db_def schema_ok_def no_clash_def)
  from this [of after_lease] this [of after_create] show "schema_ok db_leased" "schema_ok db_created"
    by (simp_all add: on_db_def)
qed

subsection \<open>The ledger out of reach\<close>

text \<open>The service of another deployment: it is to ask a ledger, which does not answer.\<close>

definition demo_offline :: env where
  "demo_offline = (demo ''c'')\<lparr>e_settings := demo_settings\<lparr>receipt_mode := RECEIPTGATE_INTEGRATED,
       receiptgate_endpoint := Some ''http://ledger'', breaker_enabled := False\<rparr>,
     e_post := (\<lambda>n p. Http_exn ''down''), e_may_buffer := (\<lambda>t. t \<noteq> ''ACCEPT'')\<rparr>"

lemma demo_offline_sel [simp]:
  "e_settings demo_offline = demo_settings\<lparr>receipt_mode := RECEIPTGATE_INTEGRATED,
     receiptgate_endpoint := Some ''http://ledger'', breaker_enabled := False\<rparr>"
  "e_clock demo_offline n = 63000000000000000 + int n * second" "e_jitter demo_offline n = 0"
  "e_post demo_offline n p = Http_exn ''down''" "e_sha256 demo_offline s = ''c''"
  "e_may_buffer demo_offline s = (s \<noteq> ''ACCEPT'')" "e_perf demo_offline n = of_nat n" "e_canonical demo_offline = Some"
  by (simp_all add: demo_offline_def)

lemma offline_insecure [simp]:
  "insecure_dev (demo_settings\<lparr>receipt_mode := m, receiptgate_endpoint := ep, breaker_enabled := b\<rparr>)"
  by (simp add: demo_settings_def default_settings_def insecure_dev_def)

lemma payload_phase_entry [simp]:
  "map_of (memorygate_payload e r t) ''phase'' = Some (JStr (fst (derive_phase_and_status r t)))"
  by (simp add: memorygate_payload_def Let_def)

lemma offline_client [simp]:
  "new_client demo_offline None = \<lparr>rg_breaker = None, rg_buffered = [], rg_dropped = 0, rg_replayed_ok = 0,
     rg_replayed_failed = 0, rg_last_error = None\<rparr>"
  by (simp add: new_client_def load_buffer_def raw_items_def take_last_def)

lemma offline_push [simp]:
  "rg_buffered c = [] \<Longrightarrow> push_item (max_items demo_offline) item c = c\<lparr>rg_buffered := [item]\<rparr>"
  by (simp add: push_item_def max_items_def demo_settings_def default_settings_def)

lemmas forwarded = eligible_types_def to_memorygate_receipt_def phase_may_buffer_def TRANSITION_FOR_PHASE_def
  phase_of_type refusal_of_def check_committed_def buffered_outcome_def

end
