(* ===== verification/Worker.thy ===== *)
theory Worker
  imports EngineBase "HOL-Library.Sublist"
begin

text \<open>
  The command executor (\<open>workers/command_executor/worker.py\<close>), the reference client of the
  lease protocol: it polls for a task, runs its command, writes the output to a file and reports
  the result. The shell's word splitting (\<open>shlex\<close>) and the paths of \<open>pathlib\<close> are
  modelled; the service it talks to, the processes it starts and the links of the file system
  are parameters. \<open>log\<close> prints and is left out.
\<close>

section \<open>Word splitting (\<open>shlex.split\<close>)\<close>

text \<open>The states of the reader: between words, in a word, in quotes, after a backslash (and where it returns to).\<close>

datatype lex_state = Between | In_word | In_quote char | After_escape lex_state

definition lex_space :: "char \<Rightarrow> bool" where
  "lex_space c \<longleftrightarrow> c \<in> {CHR '' '', CHR 0x09, CHR 0x0D, CHR 0x0A}"

definition lex_quote :: "char \<Rightarrow> bool" where
  "lex_quote c \<longleftrightarrow> c = CHR 0x22 \<or> c = CHR 0x27"

definition backslash :: char where "backslash = CHR 0x5C"

definition cons_word :: "string \<Rightarrow> string + string list \<Rightarrow> string + string list" where
  "cons_word x r = (case r of Inl m \<Rightarrow> Inl m | Inr ws \<Rightarrow> Inr (x # ws))"

text \<open>The text of a word is collected in \<open>tok\<close>; within double quotes a backslash is kept unless a quote or a backslash follows.\<close>

fun lex :: "lex_state \<Rightarrow> string \<Rightarrow> string \<Rightarrow> string + string list" where
  "lex Between tok [] = Inr []"
| "lex Between tok (c # s) =
     (if lex_space c then lex Between [] s
      else if c = backslash then lex (After_escape In_word) [] s
      else if lex_quote c then lex (In_quote c) [] s
      else lex In_word [c] s)"
| "lex In_word tok [] = Inr [tok]"
| "lex In_word tok (c # s) =
     (if lex_space c then cons_word tok (lex Between [] s)
      else if lex_quote c then lex (In_quote c) tok s
      else if c = backslash then lex (After_escape In_word) tok s
      else lex In_word (tok @ [c]) s)"
| "lex (In_quote q) tok [] = Inl ''No closing quotation''"
| "lex (In_quote q) tok (c # s) =
     (if c = q then lex In_word tok s
      else if c = backslash \<and> q = CHR 0x22 then lex (After_escape (In_quote q)) tok s
      else lex (In_quote q) (tok @ [c]) s)"
| "lex (After_escape st) tok [] = Inl ''No escaped character''"
| "lex (After_escape st) tok (c # s) =
     lex st (tok @ (if st \<noteq> In_word \<and> c \<noteq> backslash \<and> st \<noteq> In_quote c then [backslash] else []) @ [c]) s"

definition shlex_split :: "string \<Rightarrow> string + string list" where
  "shlex_split s = lex Between [] s"

section \<open>Paths\<close>

text \<open>A path under the root, as its components.\<close>

type_synonym path = "string list"

fun split_slash :: "string \<Rightarrow> string \<Rightarrow> string list" where
  "split_slash acc [] = [acc]"
| "split_slash acc (c # s) = (if c = CHR ''/'' then acc # split_slash [] s else split_slash (acc @ [c]) s)"

definition path_parts :: "string \<Rightarrow> path" where
  "path_parts s = filter (\<lambda>x. x \<noteq> [] \<and> x \<noteq> ''.'') (split_slash [] s)"

definition path_str :: "path \<Rightarrow> string" where
  "path_str p = ''/'' @ join ''/'' p"

section \<open>The worker and its surroundings\<close>

datatype worker_exn =
    Timeout_expired
  | Value_error string
  | Os_error string
  | Http_error string
  | Mcp_error json
  | No_attribute json string
  | No_item json
  | Not_a_path json

datatype command = Shell_text string | Arguments "string list"

datatype run_outcome = Completed int string string | Timed_out | Run_failed string

record worker =
  wk_mcp_url :: string
  wk_headers :: "(string \<times> string) list"
  wk_id :: string
  wk_poll_interval :: int
  wk_capabilities :: "string list"
  wk_allow_shell :: bool
  wk_allowed :: "string list"
  wk_base :: path
  wk_tenant :: string

text \<open>
  What the worker calls: the service, which has a state of its own; \<open>Path.resolve\<close> on an absolute path,
  which follows links; \<open>subprocess.run\<close>; the clock; an error of the file system when a
  file is written; the text of an exception raised by a value of the wrong type.
\<close>

record 's surroundings =
  sr_post :: "(string \<times> string) list \<Rightarrow> dict \<Rightarrow> 's \<Rightarrow> http_reply \<times> 's"
  sr_cwd :: path
  sr_resolve :: "path \<Rightarrow> string + path"
  sr_run :: "nat \<Rightarrow> bool \<Rightarrow> command \<Rightarrow> run_outcome"
  sr_clock :: "nat \<Rightarrow> datetime"
  sr_file_error :: "path \<Rightarrow> string option"
  sr_text :: "worker_exn \<Rightarrow> string"

text \<open>The service, the requests sent, the processes started, the files written and the time slept.\<close>

record 's worker_world =
  ww_service :: 's
  ww_posts :: "dict list"
  ww_runs :: "(bool \<times> command) list"
  ww_clock :: nat
  ww_files :: "path \<Rightarrow> json option"
  ww_slept :: int
  ww_closed :: bool

type_synonym ('s, 'a) W = "('s worker_world, worker_exn, 'a) proc"

definition rstrip_slash :: "string \<Rightarrow> string" where
  "rstrip_slash s = rev (dropWhile (\<lambda>c. c = CHR ''/'') (rev s))"

text \<open>\<open>Path(x).resolve()\<close>, of a relative path under the directory given.\<close>

definition resolve_under :: "'s surroundings \<Rightarrow> path \<Rightarrow> string \<Rightarrow> string + path" where
  "resolve_under e base s = sr_resolve e (if starts_with s ''/'' then path_parts s else base @ path_parts s)"

text \<open>The constructor; \<open>mkdir\<close> creates the base directory or finds it.\<close>

definition new_worker ::
    "'s surroundings \<Rightarrow> string \<Rightarrow> string \<Rightarrow> string \<Rightarrow> int \<Rightarrow> bool \<Rightarrow> string list option \<Rightarrow> string \<Rightarrow> string \<Rightarrow> string + worker" where
  "new_worker e url key worker_id interval shell allowed base tenant =
     (case resolve_under e (sr_cwd e) base of
       Inl m \<Rightarrow> Inl m
     | Inr b \<Rightarrow>
         (case sr_file_error e b of
            Some m \<Rightarrow> Inl m
          | None \<Rightarrow> Inr \<lparr>wk_mcp_url = rstrip_slash url @ ''/mcp'',
              wk_headers = [(''Authorization'', ''Bearer '' @ key), (''Content-Type'', ''application/json'')],
              wk_id = worker_id, wk_poll_interval = interval, wk_capabilities = [''command.execute''],
              wk_allow_shell = shell, wk_allowed = filter (\<lambda>c. c \<noteq> []) (list_of allowed), wk_base = b,
              wk_tenant = tenant\<rparr>))"

section \<open>Calls to the service\<close>

definition mcp_payload :: "string \<Rightarrow> dict \<Rightarrow> dict" where
  "mcp_payload tool arguments = [(''jsonrpc'', JStr ''2.0''), (''id'', JStr tool), (''method'', JStr ''tools/call''),
     (''params'', JDict [(''name'', JStr tool), (''arguments'', JDict arguments)])]"

definition post :: "'s surroundings \<Rightarrow> worker \<Rightarrow> dict \<Rightarrow> ('s, http_reply) W" where
  "post e wk payload = (\<lambda>w. case sr_post e (wk_headers wk) payload (ww_service w) of
     (r, s) \<Rightarrow> (Inr r, w\<lparr>ww_service := s, ww_posts := ww_posts w @ [payload]\<rparr>))"

definition mcp_call :: "'s surroundings \<Rightarrow> worker \<Rightarrow> string \<Rightarrow> dict \<Rightarrow> ('s, json) W" where
  "mcp_call e wk tool arguments = bind (post e wk (mcp_payload tool arguments)) (\<lambda>r. case r of
     Http_exn m \<Rightarrow> raise (Http_error m)
   | Http_ok data \<Rightarrow>
       if truthy (dict_get data ''error'') then raise (Mcp_error (dict_get data ''error''))
       else return (get_or data ''result'' (JDict [])))"

text \<open>What \<open>x.get\<close> and \<open>x[0]\<close> need of a value.\<close>

definition as_mapping :: "json \<Rightarrow> worker_exn + dict" where
  "as_mapping j = (case j of JDict d \<Rightarrow> Inr d | _ \<Rightarrow> Inl (No_attribute j ''get''))"

definition first_item :: "json \<Rightarrow> worker_exn + json" where
  "first_item j = (case j of JList (x # _) \<Rightarrow> Inr x | JStr (c # _) \<Rightarrow> Inr (JStr [c]) | _ \<Rightarrow> Inl (No_item j))"

definition poll_arguments :: "worker \<Rightarrow> dict" where
  "poll_arguments wk = [(''worker_id'', JStr (wk_id wk)), (''capabilities'', JList (map JStr (wk_capabilities wk))),
     (''max_tasks'', JInt 1), (''tenant_id'', JStr (wk_tenant wk))]"

definition poll_for_task :: "'s surroundings \<Rightarrow> worker \<Rightarrow> ('s, dict option) W" where
  "poll_for_task e wk = try_except
     (bind (mcp_call e wk ''asyncgate.lease_next'' (poll_arguments wk)) (\<lambda>result.
      bind (lift_sum (as_mapping result)) (\<lambda>data.
      let tasks = get_or data ''tasks'' (JList []) in
      if \<not> truthy tasks then return None
      else bind (lift_sum (first_item tasks)) (\<lambda>task. bind (lift_sum (as_mapping task)) (\<lambda>t. return (Some t))))))
     (\<lambda>_. return None)"

section \<open>Executing a command\<close>

definition normalize_command :: "worker \<Rightarrow> json \<Rightarrow> worker_exn + command" where
  "normalize_command wk cmd =
     (if \<not> truthy cmd then Inl (Value_error ''Command is empty'')
      else case cmd of
        JStr s \<Rightarrow>
          (if strip s = [] then Inl (Value_error ''Command is empty'')
           else if wk_allow_shell wk then Inr (Shell_text s)
           else if wk_allowed wk = []
           then Inl (Value_error ''No allowed commands configured. Use --allowed-command or --allow-shell.'')
           else case shlex_split s of
             Inl m \<Rightarrow> Inl (Value_error m)
           | Inr [] \<Rightarrow> Inl (Value_error ''Command is empty after parsing'')
           | Inr (a # as) \<Rightarrow>
               (if a \<notin> set (wk_allowed wk) then Inl (Value_error (''Command not allowed: '' @ a))
                else Inr (Arguments (a # as))))
      | _ \<Rightarrow> Inl (No_attribute cmd ''strip''))"

definition resolve_output_path :: "'s surroundings \<Rightarrow> worker \<Rightarrow> json \<Rightarrow> worker_exn + path" where
  "resolve_output_path e wk output_path = (case output_path of
     JStr s \<Rightarrow>
       (case resolve_under e (wk_base wk) s of
          Inl m \<Rightarrow> Inl (Os_error m)
        | Inr p \<Rightarrow> if prefix (wk_base wk) p then Inr p
            else Inl (Value_error ''output_path must be within the configured output base directory''))
   | _ \<Rightarrow> Inl (Not_a_path output_path))"

definition run_process :: "'s surroundings \<Rightarrow> bool \<Rightarrow> command \<Rightarrow> ('s, int \<times> string \<times> string) W" where
  "run_process e shell cmd = (\<lambda>w.
     (case sr_run e (length (ww_runs w)) shell cmd of
        Completed code out err \<Rightarrow> Inr (code, out, err)
      | Timed_out \<Rightarrow> Inl Timeout_expired
      | Run_failed m \<Rightarrow> Inl (Os_error m),
      w\<lparr>ww_runs := ww_runs w @ [(shell, cmd)]\<rparr>))"

definition worker_now :: "'s surroundings \<Rightarrow> ('s, datetime) W" where
  "worker_now e = (\<lambda>w. (Inr (sr_clock e (ww_clock w)), w\<lparr>ww_clock := Suc (ww_clock w)\<rparr>))"

text \<open>\<open>datetime.utcnow().isoformat()\<close>: without an offset.\<close>

definition naive_isoformat :: "datetime \<Rightarrow> string" where
  "naive_isoformat t = take (length (isoformat t) - 6) (isoformat t)"

text \<open>The parent directories, the file and its contents, which are the JSON text of the value.\<close>

definition write_file :: "'s surroundings \<Rightarrow> path \<Rightarrow> json \<Rightarrow> ('s, unit) W" where
  "write_file e p j = (case sr_file_error e p of
     Some m \<Rightarrow> raise (Os_error m)
   | None \<Rightarrow> modify (\<lambda>w. w\<lparr>ww_files := (ww_files w)(p \<mapsto> j)\<rparr>))"

definition output_data :: "json \<Rightarrow> int \<Rightarrow> string \<Rightarrow> string \<Rightarrow> datetime \<Rightarrow> json" where
  "output_data cmd code out err t = JDict [(''command'', cmd), (''exit_code'', JInt code), (''stdout'', JStr out),
     (''stderr'', JStr err), (''executed_at'', JStr (naive_isoformat t))]"

definition success_result :: "path \<Rightarrow> int \<Rightarrow> dict" where
  "success_result p code = [(''success'', JBool True), (''output_path'', JStr (path_str p)), (''exit_code'', JInt code)]"

definition failure_result :: "string \<Rightarrow> dict" where
  "failure_result m = [(''success'', JBool False), (''error'', JStr m)]"

text \<open>\<open>str(e)\<close>; the texts of the library's own type errors are a parameter.\<close>

definition exn_text :: "'s surroundings \<Rightarrow> worker_exn \<Rightarrow> string" where
  "exn_text e x = (case x of Value_error m \<Rightarrow> m | Os_error m \<Rightarrow> m
     | Timeout_expired \<Rightarrow> ''Command execution timed out after 300 seconds'' | _ \<Rightarrow> sr_text e x)"

definition execute_command :: "'s surroundings \<Rightarrow> worker \<Rightarrow> json \<Rightarrow> json \<Rightarrow> ('s, dict) W" where
  "execute_command e wk cmd output_path = try_except
     (bind (lift_sum (normalize_command wk cmd)) (\<lambda>c.
      bind (run_process e (wk_allow_shell wk) c) (\<lambda>(code, out, err).
      bind (worker_now e) (\<lambda>t.
      bind (lift_sum (resolve_output_path e wk output_path)) (\<lambda>p.
      seq (write_file e p (output_data cmd code out err t))
          (return (success_result p code)))))))
     (\<lambda>x. return (failure_result (exn_text e x)))"

section \<open>Reports\<close>

definition completion_arguments :: "worker \<Rightarrow> json \<Rightarrow> json \<Rightarrow> dict \<Rightarrow> string \<times> dict" where
  "completion_arguments wk task_id lease_id res =
     (let ids = [(''worker_id'', JStr (wk_id wk)), (''task_id'', task_id), (''lease_id'', lease_id)] in
      if truthy (dict_get res ''success'')
      then (''asyncgate.complete'', ids @
        [(''result'', JDict [(''exit_code'', dict_get res ''exit_code''), (''output_path'', dict_get res ''output_path'')]),
         (''artifacts'', JDict [(''output_path'', dict_get res ''output_path''), (''content_type'', JStr ''application/json''),
            (''description'', JStr ''Command execution output'')]),
         (''tenant_id'', JStr (wk_tenant wk))])
      else (''asyncgate.fail'', ids @
        [(''error'', JDict [(''message'', dict_get res ''error'')]), (''retryable'', JBool False),
         (''tenant_id'', JStr (wk_tenant wk))]))"

definition report_completion :: "'s surroundings \<Rightarrow> worker \<Rightarrow> json \<Rightarrow> json \<Rightarrow> dict \<Rightarrow> ('s, unit) W" where
  "report_completion e wk task_id lease_id res = try_except
     (case completion_arguments wk task_id lease_id res of
        (tool, arguments) \<Rightarrow> bind (mcp_call e wk tool arguments) (\<lambda>_. return ()))
     (\<lambda>_. return ())"

definition running_arguments :: "worker \<Rightarrow> json \<Rightarrow> json \<Rightarrow> dict" where
  "running_arguments wk task_id lease_id =
     [(''worker_id'', JStr (wk_id wk)), (''task_id'', task_id), (''lease_id'', lease_id),
      (''progress'', JDict [(''status'', JStr ''running'')]), (''tenant_id'', JStr (wk_tenant wk))]"

definition report_running :: "'s surroundings \<Rightarrow> worker \<Rightarrow> json \<Rightarrow> json \<Rightarrow> ('s, unit) W" where
  "report_running e wk task_id lease_id = try_except
     (bind (mcp_call e wk ''asyncgate.report_progress'' (running_arguments wk task_id lease_id)) (\<lambda>_. return ()))
     (\<lambda>_. return ())"

section \<open>The loop\<close>

definition process_task :: "'s surroundings \<Rightarrow> worker \<Rightarrow> dict \<Rightarrow> ('s, unit) W" where
  "process_task e wk task = try_except
     (let task_id = dict_get task ''task_id''; lease_id = dict_get task ''lease_id'' in
      bind (lift_sum (as_mapping (get_or task ''payload'' (JDict [])))) (\<lambda>payload.
      let cmd = dict_get payload ''command''; output_path = dict_get payload ''output_path'' in
      if \<not> truthy task_id \<or> \<not> truthy lease_id then return ()
      else if \<not> truthy cmd \<or> \<not> truthy output_path then return ()
      else seq (report_running e wk task_id lease_id)
             (bind (execute_command e wk cmd output_path) (\<lambda>res.
              report_completion e wk task_id lease_id res))))
     (\<lambda>_. return ())"

definition sleep :: "int \<Rightarrow> ('s, unit) W" where
  "sleep n = modify (\<lambda>w. w\<lparr>ww_slept := ww_slept w + n\<rparr>)"

definition worker_round :: "'s surroundings \<Rightarrow> worker \<Rightarrow> ('s, unit) W" where
  "worker_round e wk = try_except
     (bind (poll_for_task e wk) (\<lambda>task. case task of
        Some t \<Rightarrow> if t \<noteq> [] then process_task e wk t else sleep (wk_poll_interval wk)
      | None \<Rightarrow> sleep (wk_poll_interval wk)))
     (\<lambda>_. sleep (wk_poll_interval wk))"

primrec rounds :: "nat \<Rightarrow> 's surroundings \<Rightarrow> worker \<Rightarrow> ('s, unit) W" where
  "rounds 0 e wk = return ()"
| "rounds (Suc n) e wk = seq (worker_round e wk) (rounds n e wk)"

text \<open>The loop ends only when it is interrupted, here after \<open>n\<close> rounds, and then closes its client.\<close>

definition worker_run :: "nat \<Rightarrow> 's surroundings \<Rightarrow> worker \<Rightarrow> ('s, unit) W" where
  "worker_run n e wk = seq (rounds n e wk) (modify (\<lambda>w. w\<lparr>ww_closed := True\<rparr>))"

text \<open>\<open>main\<close>: the options with their defaults.\<close>

record options =
  op_url :: string
  op_key :: string
  op_worker_id :: string
  op_interval :: int
  op_shell :: bool
  op_allowed :: "string list"
  op_base :: string
  op_tenant :: string

definition default_options :: "string \<Rightarrow> string \<Rightarrow> string \<Rightarrow> options" where
  "default_options url key hex = \<lparr>op_url = url, op_key = key, op_worker_id = ''command-executor-'' @ take 8 hex,
     op_interval = 1, op_shell = False, op_allowed = [], op_base = ''./outputs'', op_tenant = ''default''\<rparr>"

definition worker_of :: "'s surroundings \<Rightarrow> options \<Rightarrow> string + worker" where
  "worker_of e a = new_worker e (op_url a) (op_key a) (op_worker_id a) (op_interval a) (op_shell a)
     (Some (op_allowed a)) (op_base a) (op_tenant a)"

definition started :: "'s \<Rightarrow> 's worker_world" where
  "started s = \<lparr>ww_service = s, ww_posts = [], ww_runs = [], ww_clock = 0, ww_files = Map.empty, ww_slept = 0,
     ww_closed = False\<rparr>"

section \<open>Lemmas\<close>

lemma wp_post [wp_simps]:
  "wp (post e wk p) Q E w = (case sr_post e (wk_headers wk) p (ww_service w) of
     (r, s) \<Rightarrow> Q r (w\<lparr>ww_service := s, ww_posts := ww_posts w @ [p]\<rparr>))"
  by (simp add: wp_def post_def split: prod.split)

lemma wp_run_process [wp_simps]:
  "wp (run_process e sh c) Q E w = (let w' = w\<lparr>ww_runs := ww_runs w @ [(sh, c)]\<rparr> in
     case sr_run e (length (ww_runs w)) sh c of
       Completed code out err \<Rightarrow> Q (code, out, err) w' | Timed_out \<Rightarrow> E Timeout_expired w' | Run_failed m \<Rightarrow> E (Os_error m) w')"
  by (simp add: wp_def run_process_def Let_def split: run_outcome.split)

lemma wp_worker_now [wp_simps]: "wp (worker_now e) Q E w = Q (sr_clock e (ww_clock w)) (w\<lparr>ww_clock := Suc (ww_clock w)\<rparr>)"
  by (simp add: wp_def worker_now_def)

lemma wp_sleep [wp_simps]: "wp (sleep n) Q E w = Q () (w\<lparr>ww_slept := ww_slept w + n\<rparr>)"
  by (simp add: sleep_def wp_simps)

subsection \<open>What the worker may do\<close>

definition run_allowed :: "worker \<Rightarrow> bool \<times> command \<Rightarrow> bool" where
  "run_allowed wk r \<longleftrightarrow> (case r of
     (shell, Shell_text s) \<Rightarrow> shell \<and> wk_allow_shell wk
   | (shell, Arguments as) \<Rightarrow> \<not> shell \<and> as \<noteq> [] \<and> hd as \<in> set (wk_allowed wk))"

definition confined :: "worker \<Rightarrow> 's worker_world \<Rightarrow> bool" where
  "confined wk w \<longleftrightarrow> list_all (run_allowed wk) (ww_runs w) \<and> dom (ww_files w) \<subseteq> {p. prefix (wk_base wk) p}"

lemma confined_updates [simp]:
  "confined wk (w\<lparr>ww_service := s, ww_posts := ps\<rparr>) = confined wk w"
  "confined wk (w\<lparr>ww_clock := n\<rparr>) = confined wk w" "confined wk (w\<lparr>ww_slept := k\<rparr>) = confined wk w"
  "confined wk (w\<lparr>ww_closed := b\<rparr>) = confined wk w"
  "confined wk (w\<lparr>ww_runs := ww_runs w @ [r]\<rparr>) \<longleftrightarrow> confined wk w \<and> run_allowed wk r"
  by (auto simp: confined_def)

lemma normalized_allowed:
  "normalize_command wk j = Inr c \<Longrightarrow> run_allowed wk (wk_allow_shell wk, c)"
  by (auto simp: normalize_command_def run_allowed_def split: if_splits json.splits sum.splits list.splits)

lemma resolved_inside: "resolve_output_path e wk j = Inr p \<Longrightarrow> prefix (wk_base wk) p"
  by (auto simp: resolve_output_path_def split: if_splits json.splits sum.splits)

lemma keeps_mcp_call [keeps_intros]: "keeps (confined wk) (mcp_call e wk tool as)"
  by (simp add: keeps_wp mcp_call_def wp_simps split: http_reply.split prod.split)

lemma keeps_execute [keeps_intros]: "keeps (confined wk) (execute_command e wk cmd out)"
proof -
  have "wp (execute_command e wk cmd out) (\<lambda>_. confined wk) (\<lambda>_. confined wk) w" if "confined wk w" for w
    unfolding execute_command_def using that
    by (auto simp: wp_simps write_file_def Let_def normalized_allowed confined_def [of _ "_\<lparr>ww_files := _\<rparr>"]
        dest!: resolved_inside split: sum.split run_outcome.split option.split) (auto simp: confined_def normalized_allowed)
  then show ?thesis by (simp add: keeps_wp)
qed

lemma keeps_sleep [keeps_intros]: "keeps (confined wk) (sleep n)"
  by (simp add: keeps_wp wp_simps)

lemma keeps_round: "keeps (confined wk) (worker_round e wk)"
  by (auto simp: worker_round_def poll_for_task_def process_task_def report_running_def report_completion_def Let_def
      intro!: keeps_intros split: option.split)

lemma keeps_rounds: "keeps (confined wk) (rounds n e wk)"
  by (induction n) (auto intro: keeps_intros keeps_round)

subsection \<open>One task\<close>

text \<open>How a command ended: its output is in the file and the result names both, or nothing was written.\<close>

definition executed :: "'s surroundings \<Rightarrow> worker \<Rightarrow> json \<Rightarrow> json \<Rightarrow> 's worker_world \<Rightarrow> dict \<Rightarrow> 's worker_world \<Rightarrow> bool" where
  "executed e wk cmd out w res w' \<longleftrightarrow>
     (\<exists>c p code std err t. normalize_command wk cmd = Inr c \<and> resolve_output_path e wk out = Inr p \<and>
        sr_run e (length (ww_runs w)) (wk_allow_shell wk) c = Completed code std err \<and> res = success_result p code \<and>
        ww_runs w' = ww_runs w @ [(wk_allow_shell wk, c)] \<and>
        ww_files w' = (ww_files w)(p \<mapsto> output_data cmd code std err t)) \<or>
     (\<exists>m. res = failure_result m \<and> ww_files w' = ww_files w \<and>
        (ww_runs w' = ww_runs w \<or> (\<exists>c. normalize_command wk cmd = Inr c \<and> ww_runs w' = ww_runs w @ [(wk_allow_shell wk, c)])))"

lemma wp_execute:
  "wp (execute_command e wk cmd out) (\<lambda>res w'. executed e wk cmd out w res w' \<and> ww_posts w' = ww_posts w) (\<lambda>_ _. False) w"
proof (cases "normalize_command wk cmd")
  case (Inl x)
  then show ?thesis by (auto simp: execute_command_def wp_simps executed_def)
next
  case (Inr c)
  show ?thesis
  proof (cases "sr_run e (length (ww_runs w)) (wk_allow_shell wk) c")
    case ran: (Completed code std err)
    show ?thesis
      by (cases "resolve_output_path e wk out")
        (auto simp: execute_command_def wp_simps Let_def Inr ran executed_def write_file_def split: option.split)
  qed (auto simp: execute_command_def wp_simps Let_def Inr executed_def)
qed

definition sent_report :: "worker \<Rightarrow> json \<Rightarrow> json \<Rightarrow> dict \<Rightarrow> dict" where
  "sent_report wk task_id lease_id res = (case completion_arguments wk task_id lease_id res of (tool, as) \<Rightarrow> mcp_payload tool as)"

definition posted :: "dict \<Rightarrow> 's worker_world \<Rightarrow> 's worker_world \<Rightarrow> bool" where
  "posted r w w' \<longleftrightarrow> ww_posts w' = ww_posts w @ [r] \<and> ww_runs w' = ww_runs w \<and> ww_files w' = ww_files w"

lemma wp_mcp_call: "wp (mcp_call e wk tool as) (\<lambda>_. posted (mcp_payload tool as) w) (\<lambda>_. posted (mcp_payload tool as) w) w"
  by (simp add: mcp_call_def wp_simps posted_def split: http_reply.split prod.split)

lemma wp_quiet_call:
  "wp (try_except (bind (mcp_call e wk tool as) (\<lambda>_. return ())) (\<lambda>_. return ())) (\<lambda>_. posted (mcp_payload tool as) w) (\<lambda>_ _. False) w"
  unfolding wp_try_except wp_bind by (rule wp_mono [OF wp_mcp_call]) (simp_all add: wp_return)

lemma wp_report_running:
  "wp (report_running e wk tid lid)
     (\<lambda>_. posted (mcp_payload ''asyncgate.report_progress'' (running_arguments wk tid lid)) w) (\<lambda>_ _. False) w"
  unfolding report_running_def by (rule wp_quiet_call)

lemma wp_report_completion:
  "wp (report_completion e wk tid lid res) (\<lambda>_. posted (sent_report wk tid lid res) w) (\<lambda>_ _. False) w"
  by (cases "completion_arguments wk tid lid res") (simp add: report_completion_def sent_report_def wp_quiet_call)

definition well_formed :: "dict \<Rightarrow> dict \<Rightarrow> bool" where
  "well_formed task payload \<longleftrightarrow> get_or task ''payload'' (JDict []) = JDict payload \<and>
     truthy (dict_get task ''task_id'') \<and> truthy (dict_get task ''lease_id'') \<and>
     truthy (dict_get payload ''command'') \<and> truthy (dict_get payload ''output_path'')"

lemma executed_posted:
  "executed e wk c x w res w1 \<and> ww_posts w1 = ww_posts w \<Longrightarrow> posted r w1 w2 \<Longrightarrow>
   executed e wk c x w res w2 \<and> ww_posts w2 = ww_posts w @ [r]"
  by (simp add: executed_def posted_def)

lemma posted_executed:
  "posted r w w1 \<Longrightarrow> executed e wk c x w1 res w2 \<and> ww_posts w2 = ww_posts w1 @ [r'] \<Longrightarrow>
   executed e wk c x w res w2 \<and> ww_posts w2 = ww_posts w @ [r, r']"
  by (simp add: executed_def posted_def)

lemma wp_process:
  assumes "well_formed task payload"
  shows "wp (process_task e wk task)
     (\<lambda>_ w'. \<exists>res. executed e wk (dict_get payload ''command'') (dict_get payload ''output_path'') w res w' \<and>
        ww_posts w' = ww_posts w @
          [mcp_payload ''asyncgate.report_progress'' (running_arguments wk (dict_get task ''task_id'') (dict_get task ''lease_id'')),
           sent_report wk (dict_get task ''task_id'') (dict_get task ''lease_id'') res]) (\<lambda>_ _. False) w"
proof -
  let ?cmd = "dict_get payload ''command''" and ?out = "dict_get payload ''output_path''"
  let ?tid = "dict_get task ''task_id''" and ?lid = "dict_get task ''lease_id''"
  have "process_task e wk task = try_except (seq (report_running e wk ?tid ?lid)
      (bind (execute_command e wk ?cmd ?out) (\<lambda>res. report_completion e wk ?tid ?lid res))) (\<lambda>_. return ())"
    using assms by (simp add: process_task_def well_formed_def as_mapping_def Let_def lift_sum_def bind_def return_def)
  moreover have "wp (bind (execute_command e wk ?cmd ?out) (\<lambda>res. report_completion e wk ?tid ?lid res))
      (\<lambda>_ w'. \<exists>res. executed e wk ?cmd ?out w1 res w' \<and> ww_posts w' = ww_posts w1 @ [sent_report wk ?tid ?lid res])
      (\<lambda>_ _. False) w1" for w1
    unfolding wp_bind
    by (rule wp_mono [OF wp_execute], rule wp_mono [OF wp_report_completion])
      (rule exI, erule (1) executed_posted, simp_all)
  ultimately show ?thesis
    by (simp add: wp_try_except wp_seq) (rule wp_mono [OF wp_report_running], rule wp_mono, assumption,
        erule exE, rule exI, erule (1) posted_executed, simp_all)
qed

lemma malformed_ignored:
  assumes "\<nexists>payload. well_formed task payload"
  shows "process_task e wk task w = (Inr (), w)"
  using assms by (cases "get_or task ''payload'' (JDict [])")
    (auto simp: process_task_def well_formed_def as_mapping_def Let_def proc_defs lift_sum_def)

subsection \<open>The service it talks to\<close>

text \<open>A service that keeps a property of its state with every request keeps it through a run of the worker.\<close>

locale service_contract =
  fixes e :: "'s surroundings" and I :: "'s \<Rightarrow> bool"
  assumes answer: "I s \<Longrightarrow> I (snd (sr_post e hs p s))"
begin

abbreviation fine :: "'s worker_world \<Rightarrow> bool" where
  "fine w \<equiv> I (ww_service w)"

lemma keeps_call [keeps_intros]: "keeps fine (mcp_call e wk tool as)"
  using answer by (auto simp: keeps_wp mcp_call_def wp_simps split: http_reply.split prod.split) (metis snd_conv)+

lemma keeps_execute_service [keeps_intros]: "keeps fine (execute_command e wk cmd out)"
  by (auto simp: keeps_wp execute_command_def wp_simps write_file_def Let_def split: sum.split run_outcome.split option.split)

lemma keeps_rounds_service: "keeps fine (rounds n e wk)"
proof (induction n)
  case (Suc n)
  have "keeps fine (worker_round e wk)"
    by (auto simp: worker_round_def poll_for_task_def process_task_def report_running_def report_completion_def
        sleep_def Let_def intro!: keeps_intros keeps_modify split: option.split)
  with Suc show ?case by (auto intro: keeps_intros)
qed simp

lemma run_keeps: "I (ww_service w) \<Longrightarrow> I (ww_service (snd (worker_run n e wk w)))"
  by (rule keepsD [where I = fine]) (auto simp: worker_run_def intro!: keeps_intros keeps_rounds_service keeps_modify)

end

text \<open>A service that answers every poll with an error: the worker starts nothing and sleeps between its polls.\<close>

locale refused_polls =
  fixes e :: "'s surroundings" and I :: "'s \<Rightarrow> bool" and wk :: worker
  assumes refused: "I s \<Longrightarrow>
    sr_post e (wk_headers wk) (mcp_payload ''asyncgate.lease_next'' (poll_arguments wk)) s = (r, s') \<Longrightarrow>
    I s' \<and> (\<forall>d. r = Http_ok d \<longrightarrow> truthy (dict_get d ''error''))"
begin

lemma poll_nothing:
  assumes "I (ww_service w)"
  shows "\<exists>w'. poll_for_task e wk w = (Inr None, w') \<and> I (ww_service w') \<and> ww_runs w' = ww_runs w \<and>
     ww_files w' = ww_files w \<and> ww_slept w' = ww_slept w"
  using refused [OF assms]
  by (auto simp: poll_for_task_def mcp_call_def proc_defs post_def split: prod.split http_reply.split)

lemma idle_rounds:
  "I (ww_service w) \<Longrightarrow> \<exists>w'. rounds n e wk w = (Inr (), w') \<and> I (ww_service w') \<and> ww_runs w' = ww_runs w \<and> ww_files w' = ww_files w \<and>
     ww_slept w' = ww_slept w + int n * wk_poll_interval wk"
proof (induction n arbitrary: w)
  case (Suc n)
  from poll_nothing [OF Suc.prems] obtain w1 where w1: "poll_for_task e wk w = (Inr None, w1)" "I (ww_service w1)" "ww_runs w1 = ww_runs w"
    "ww_files w1 = ww_files w" "ww_slept w1 = ww_slept w" by blast
  then have "worker_round e wk w = (Inr (), w1\<lparr>ww_slept := ww_slept w1 + wk_poll_interval wk\<rparr>)"
    by (simp add: worker_round_def sleep_def proc_defs)
  with Suc.IH [of "w1\<lparr>ww_slept := ww_slept w1 + wk_poll_interval wk\<rparr>"] w1 show ?case
    by (auto simp: seq_def bind_def algebra_simps)
qed (simp add: return_def)

end

subsection \<open>Quoting\<close>

text \<open>A word in single quotes, those inside it written as a closing quote, a quoted quote and an opening one.\<close>

definition quote_char :: "char \<Rightarrow> string" where
  "quote_char c = (if c = CHR 0x27 then [CHR 0x27, CHR 0x22, CHR 0x27, CHR 0x22, CHR 0x27] else [c])"

definition shell_quote :: "string \<Rightarrow> string" where
  "shell_quote w = CHR 0x27 # concat (map quote_char w) @ [CHR 0x27]"

lemma lex_quoted: "lex (In_quote (CHR 0x27)) tok (concat (map quote_char w) @ CHR 0x27 # s) = lex In_word (tok @ w) s"
  by (induction w arbitrary: tok) (simp_all add: quote_char_def lex_space_def lex_quote_def backslash_def)

lemma lex_shell_quote: "lex Between tok (shell_quote w @ s) = lex In_word w s"
  using lex_quoted [of "[]" w s] by (simp add: shell_quote_def lex_space_def lex_quote_def backslash_def)

lemma split_quoted: "shlex_split (join '' '' (map shell_quote ws)) = Inr ws"
proof (induction ws)
  case (Cons w ws)
  show ?case
  proof (cases ws)
    case Nil
    then show ?thesis using lex_shell_quote [of "[]" w "[]"] by (simp add: shlex_split_def)
  next
    case Cons
    with \<open>shlex_split (join '' '' (map shell_quote ws)) = Inr ws\<close> show ?thesis
      by (simp add: shlex_split_def lex_shell_quote lex_space_def cons_word_def)
  qed
qed (simp add: shlex_split_def)

lemma strip_not_Nil: "\<not> is_space c \<Longrightarrow> strip (c # s) \<noteq> []"
  by (simp add: strip_def dropWhile_eq_Nil_conv)

definition accepted_payload :: "dict \<Rightarrow> dict option" where
  "accepted_payload task = (case get_or task ''payload'' (JDict []) of
     JDict p \<Rightarrow> if truthy (dict_get task ''task_id'') \<and> truthy (dict_get task ''lease_id'') \<and>
         truthy (dict_get p ''command'') \<and> truthy (dict_get p ''output_path'') then Some p else None
   | _ \<Rightarrow> None)"

section \<open>Properties\<close>

text \<open>C35: whatever the service sends, and however long the worker runs, without shell mode it only starts
  programs on its allow list, with the words the command splits into, never a shell; and it writes no
  file outside its base directory, links followed.\<close>

theorem worker_confined:
  "list_all (run_allowed wk) (ww_runs (snd (worker_run n e wk (started s)))) \<and>
   dom (ww_files (snd (worker_run n e wk (started s)))) \<subseteq> {p. prefix (wk_base wk) p}"
proof -
  have "keeps (confined wk) (worker_run n e wk)"
    unfolding worker_run_def by (intro keeps_intros keeps_rounds) (simp add: keeps_wp wp_simps)
  from keepsD [OF this, of "started s"] show ?thesis by (simp add: confined_def started_def)
qed


text \<open>Every list of arguments whose first word is allowed can be asked for: quoted word by word and joined
  with spaces, it is split into exactly these words, quotes, backslashes and empty words included.\<close>

lemma arguments_roundtrip:
  assumes "a \<in> set (wk_allowed wk)" and "\<not> wk_allow_shell wk"
  shows "normalize_command wk (JStr (join '' '' (map shell_quote (a # as)))) = Inr (Arguments (a # as))"
proof -
  obtain s where "join '' '' (map shell_quote (a # as)) = CHR 0x27 # s" by (cases as) (auto simp: shell_quote_def)
  moreover have "\<not> is_space (CHR 0x27)" by (simp add: is_space_def)
  ultimately have "strip (join '' '' (map shell_quote (a # as))) \<noteq> []" "truthy (JStr (join '' '' (map shell_quote (a # as))))"
    using strip_not_Nil by (simp_all add: truthy_def)
  with assms show ?thesis using split_quoted [of "a # as"] by (auto simp: normalize_command_def)
qed

end
