(* ===== verification/WorkerGate.thy ===== *)
theory WorkerGate
  imports Effects Scenario Worker
begin

text \<open>
  The worker against the service: its requests are those of the JSON-RPC endpoint, so a run of
  the worker is a run of the service, and what the service answers is what the worker acts on.
  The middlewares in front of the endpoint are left out.
\<close>

section \<open>The endpoint as the worker sees it (\<open>mcp/http.py\<close>)\<close>

text \<open>The body as \<open>MCPRequest\<close>; what does not fit is answered with 422.\<close>

definition request_of :: "dict \<Rightarrow> mcp_request option" where
  "request_of body = (case (dict_get body ''method'', get_or body ''params'' (JDict []), get_or body ''jsonrpc'' (JStr ''2.0'')) of
     (JStr m, JDict p, JStr _) \<Rightarrow> Some \<lparr>mr_method = m, mr_params = p, mr_id = dict_get body ''id''\<rparr>
   | _ \<Rightarrow> None)"

text \<open>The envelope of a response; \<open>shown\<close> is the text of an exception.\<close>

definition rpc_body :: "(exn \<Rightarrow> string) \<Rightarrow> rpc_response \<Rightarrow> dict" where
  "rpc_body shown r = (case r of
     Rpc_result i result \<Rightarrow> [(''jsonrpc'', JStr ''2.0''), (''id'', i), (''result'', result)]
   | Rpc_error i code m \<Rightarrow> [(''jsonrpc'', JStr ''2.0''), (''id'', i),
       (''error'', JDict [(''code'', code), (''message'', JStr (case m of Message s \<Rightarrow> s | Str_of x \<Rightarrow> shown x))])])"

definition gate_post ::
    "env \<Rightarrow> (exn \<Rightarrow> string) \<Rightarrow> (string \<times> string) list \<Rightarrow> dict \<Rightarrow> world \<Rightarrow> http_reply \<times> world" where
  "gate_post e shown hs body w = (case request_of body of
     None \<Rightarrow> (Http_exn ''422'', w)
   | Some rq \<Rightarrow> (case mcp_entry e (map_of hs ''Authorization'') (map_of hs ''X-API-Key'') rq w of
         (Inr r, w') \<Rightarrow> (Http_ok (rpc_body shown r), w')
       | (Inl x, w') \<Rightarrow> (Http_exn ''500'', w')))"

abbreviation hosted :: "env \<Rightarrow> (exn \<Rightarrow> string) \<Rightarrow> world surroundings \<Rightarrow> world surroundings" where
  "hosted e shown sr \<equiv> sr\<lparr>sr_post := gate_post e shown\<rparr>"

section \<open>Runs of the worker are runs of the service\<close>

lemma gate_serves: "reachable w \<Longrightarrow> reachable (snd (gate_post e shown hs body w))"
  using reachable_step [of w e "Request (map_of hs ''Authorization'') (map_of hs ''X-API-Key'') (the (request_of body))"]
  by (auto simp: gate_post_def split: option.split prod.split sum.split)

interpretation served: service_contract "hosted e shown sr" reachable for e shown sr
  by unfold_locales (simp add: gate_serves)

lemma worker_reachable:
  "reachable s \<Longrightarrow> reachable (ww_service (snd (worker_run n (hosted e shown sr) wk (started s))))"
  by (rule served.run_keeps) (simp add: started_def)

section \<open>The default tenant\<close>

text \<open>No credential gives a context whose tenant is the identifier claimed, when that is not a UUID.\<close>

lemma wp_tenant:
  assumes "tn \<noteq> []"
  shows "wp (verify_auth_token e token (JStr tn) pa) (\<lambda>a _. ac_tenant a \<in> {JStr tn, JStr []}) (\<lambda>_ _. True) w"
proof -
  define ok where "ok = (\<lambda>(a :: auth_context) (_ :: world). ac_tenant a \<in> {JStr tn, JStr []})"
  have claimed: "t = JStr tn" if "resolve_tenant s c (JStr tn) = Inr t" for s c t
    using resolve_tenant_Inr [OF that] assms by (simp add: truthy_def)
  have grant: "wp (bind (lift_sum (resolve_tenant s c (JStr tn))) (\<lambda>t. return (ctx t))) ok (\<lambda>_ _. True) v"
    if "\<And>t. ac_tenant (ctx t) = t" for s c ctx v
    using claimed by (cases "resolve_tenant s c (JStr tn)") (auto simp: wp_bind wp_lift_sum wp_return that ok_def)
  have any: "wp m (\<lambda>_ _. True) (\<lambda>_ _. True) v" for m :: "'a M" and v
    by (simp add: wp_def split: prod.split sum.split)
  have jwt: "wp (lift_sum (jwt_context s claims (JStr tn) pa)) ok (\<lambda>_ _. True) v" for s claims v
    by (auto simp: ok_def wp_lift_sum jwt_context_def Let_def dest: claimed split: sum.split if_splits)
  have keyed: "wp (bind (verify_request_api_key e hs) f) ok (\<lambda>_ _. True) v" if "\<And>x v. wp (f x) ok (\<lambda>_ _. True) v" for hs f v
    unfolding wp_bind by (rule wp_mono [OF any]) (rule that, simp)
  have legacy: "ok a v" if "ac_tenant a = JStr []" for a v using that by (simp add: ok_def)
  have "wp (verify_auth_token e token (JStr tn) pa) ok (\<lambda>_ _. True) w"
    by (auto simp: verify_auth_token_def Let_def wp_if wp_raise wp_return wp_bind [of "some_or_raise _ _"] wp_some_or_raise
        legacy intro!: jwt grant keyed split: sum.split option.split)
  then show ?thesis by (simp add: ok_def)
qed

lemma dict_get_without: "k \<noteq> x \<Longrightarrow> dict_get (without x d) k = dict_get d k"
  by (induction d) (auto simp: without_def)

lemma dict_get_injected: "k \<noteq> ''auth_token'' \<Longrightarrow> dict_get (inject_token h x d) k = dict_get d k"
  by (auto simp: inject_token_def split: option.split)

lemma py_uuid_bad: "uuid_of_str tn = None \<Longrightarrow> j \<in> {JStr tn, JStr []} \<Longrightarrow> \<exists>x. py_uuid j = Inl x"
  by (auto simp: py_uuid_def)

text \<open>A poll for a tenant that is no UUID is refused whatever the credential.\<close>

lemma wp_refused_poll:
  assumes "uuid_of_str tn = None" "tn \<noteq> []" "dict_get args ''tenant_id'' = JStr tn"
  shows "wp (handle_tool e ''asyncgate.lease_next'' args) (\<lambda>_ _. False) (\<lambda>_ _. True) w"
proof -
  have call: "wp (call_tool e ''asyncgate.lease_next'' a as) (\<lambda>_ _. False) (\<lambda>_ _. True) v"
    if "ac_tenant a \<in> {JStr tn, JStr []}" for a as v
    using py_uuid_bad [OF assms(1) that]
    by (auto simp: call_tool_def tools_def tool_lease_next_def wp_bind wp_lift_sum)
  have body: "wp (bind (verify_token_arg e token (JStr tn) pa) (\<lambda>a. call_tool e ''asyncgate.lease_next'' a as))
      (\<lambda>_ _. False) (\<lambda>_ _. True) v" for token pa as v
  proof -
    have "wp (verify_auth_token e t (JStr tn) pa) (\<lambda>a. wp (call_tool e ''asyncgate.lease_next'' a as) (\<lambda>_ _. False) (\<lambda>_ _. True))
        (\<lambda>_ _. True) v" for t
      by (rule wp_mono [OF wp_tenant [OF assms(2)]]) (rule call, assumption, simp)
    then show ?thesis unfolding wp_bind by (simp add: verify_token_arg_def wp_if wp_raise split: json.split)
  qed
  show ?thesis
    by (auto simp: handle_tool_def wp_with_session Let_def wp_bind [of "lift_sum _"] wp_lift_sum wp_seq wp_set_trace_id
        dict_get_without assms(3) body split: sum.split)
qed

text \<open>So a worker with the default tenant is answered with an error each time, and the tables stay as they are.\<close>

definition settled_at :: "db \<Rightarrow> world \<Rightarrow> bool" where
  "settled_at C w \<longleftrightarrow> core (w_committed w) = C \<and> idle w"

definition for_tenant :: "string \<Rightarrow> worker \<Rightarrow> worker" where
  "for_tenant tn wk = wk\<lparr>wk_tenant := tn\<rparr>"

lemma refused_gate:
  assumes "uuid_of_str tn = None" "tn \<noteq> []" "settled_at C w"
    and "gate_post e shown hs (mcp_payload ''asyncgate.lease_next'' (poll_arguments (for_tenant tn wk))) w = (r, w')"
  shows "settled_at C w' \<and> (\<forall>d. r = Http_ok d \<longrightarrow> truthy (dict_get d ''error''))"
proof -
  let ?args = "poll_arguments (for_tenant tn wk)" and ?P = "settled_at C"
  have req: "request_of (mcp_payload ''asyncgate.lease_next'' ?args) = Some \<lparr>mr_method = ''tools/call'',
      mr_params = [(''name'', JStr ''asyncgate.lease_next''), (''arguments'', JDict ?args)], mr_id = JStr ''asyncgate.lease_next''\<rparr>"
    by (simp add: request_of_def mcp_payload_def get_or_def)
  have tool: "wp (handle_tool e ''asyncgate.lease_next'' (inject_token h k ?args)) (\<lambda>_ _. False) (\<lambda>_. ?P) w" for h k
  proof (rule wp_mono [OF wp_conj [OF wp_refused_poll [OF assms(1,2)] wp_handle_tool_error]])
    show "dict_get (inject_token h k ?args) ''tenant_id'' = JStr tn"
      by (simp add: dict_get_injected poll_arguments_def for_tenant_def)
    show "core (w_committed w) = C" using assms(3) by (simp add: settled_at_def)
  qed (simp_all add: settled_at_def)
  have nonempty: "?args \<noteq> []" by (simp add: poll_arguments_def)
  have "wp (mcp_entry e h k \<lparr>mr_method = ''tools/call'', mr_params = [(''name'', JStr ''asyncgate.lease_next''),
      (''arguments'', JDict ?args)], mr_id = JStr ''asyncgate.lease_next''\<rparr>)
      (\<lambda>r w'. (\<exists>i c m. r = Rpc_error i c m) \<and> ?P w') (\<lambda>_. ?P) w" for h k
    by (simp add: mcp_entry_def Let_def json_or_def truthy_def nonempty as_dict_def py_str_def wp_bind wp_lift_sum wp_try_except)
      (rule wp_mono [OF tool], simp_all add: wp_return)
  from this [of "map_of hs ''Authorization''" "map_of hs ''X-API-Key''"] show ?thesis
    using assms(4) by (auto simp: gate_post_def req wp_def rpc_body_def truthy_def split: prod.splits sum.splits)
qed

interpretation default_tenant: refused_polls "hosted e shown sr" "settled_at C" "for_tenant ''default'' wk" for e shown sr C wk
proof unfold_locales
  fix s r s'
  have bad: "uuid_of_str ''default'' = None" by code_simp
  show "settled_at C s \<Longrightarrow> sr_post (hosted e shown sr) (wk_headers (for_tenant ''default'' wk))
      (mcp_payload ''asyncgate.lease_next'' (poll_arguments (for_tenant ''default'' wk))) s = (r, s') \<Longrightarrow>
      settled_at C s' \<and> (\<forall>d. r = Http_ok d \<longrightarrow> truthy (dict_get d ''error''))"
    using refused_gate [OF bad] by simp
qed

text \<open>Surroundings without links, whose programs print nothing.\<close>

definition quiet :: "world surroundings" where
  "quiet = \<lparr>sr_post = (\<lambda>_ _ w. (Http_exn [], w)), sr_cwd = [''srv''], sr_resolve = Inr, sr_run = (\<lambda>_ _ _. Completed 0 [] []),
     sr_clock = (\<lambda>_. 0), sr_file_error = (\<lambda>_. None), sr_text = (\<lambda>_. [])\<rparr>"

section \<open>Properties\<close>

text \<open>C37: with its default tenant the worker never works: against a service in any reachable state, whatever its
  credential, each of its polls is refused, it starts no process, writes no file, sleeps through every
  round, and no task is leased to it.\<close>

theorem default_tenant_idles:
  assumes "worker_of (hosted e shown sr) a = Inr wk" and "op_tenant a = ''default''" and "reachable s"
  shows "let w = snd (worker_run n (hosted e shown sr) wk (started s)) in
     ww_runs w = [] \<and> ww_files w = Map.empty \<and> ww_slept w = int n * op_interval a \<and> core (w_db (ww_service w)) = core (w_db s)"
proof -
  have wk: "wk = for_tenant ''default'' wk" "wk_poll_interval wk = op_interval a"
    using assms(1,2) by (auto simp: worker_of_def new_worker_def for_tenant_def split: sum.splits option.splits)
  have "settled_at (core (w_db s)) (ww_service (started s))"
    using reachable_idle [OF assms(3)] by (simp add: settled_at_def idle_def started_def)
  from default_tenant.idle_rounds [OF this, of n e shown sr wk] wk show ?thesis
    by (auto simp: worker_run_def seq_def bind_def modify_def Let_def started_def settled_at_def idle_def)
qed

theorem default_tenant_idles_witness:
  "\<exists>wk. worker_of (hosted (demo ''a'') (\<lambda>_. []) quiet) (default_options ''http://gate'' ''key'' ''0123456789'') = Inr wk \<and>
     ww_runs (snd (worker_run 3 (hosted (demo ''a'') (\<lambda>_. []) quiet) wk (started after_create))) = []"
proof -
  have "\<exists>wk. worker_of (hosted (demo ''a'') (\<lambda>_. []) quiet) (default_options ''http://gate'' ''key'' ''0123456789'') = Inr wk"
    by (simp add: worker_of_def new_worker_def resolve_under_def quiet_def)
  then show ?thesis using default_tenant_idles [of "demo ''a''" "\<lambda>_. []" quiet _ _ after_create 3]
    by (fastforce simp: default_options_def Let_def)
qed

end
