(* ===== verification/Migrations.thy ===== *)
theory Migrations
  imports Models
begin

text \<open>
  The database schema twice: as the tables declare it (\<open>db/tables.py\<close>, \<open>auth/models.py\<close>,
  what \<open>init_db\<close> creates) and as the migrations build it (\<open>alembic/versions\<close>). A schema
  is data here, a migration a list of operations on it; the defaults of columns and the
  method and names of indexes that the database invents are left out.
\<close>

section \<open>Schemas\<close>

datatype column_type =
    Uuid_type
  | Varchar "nat option"
  | Text_type
  | Integer_type
  | Boolean_type
  | Timestamp bool
  | Jsonb
  | Enum_type string "string list"

record column =
  c_name :: string
  c_type :: column_type
  c_nullable :: bool
  c_key :: bool

text \<open>A foreign key: its columns, the table and columns it refers to, all with \<open>ON DELETE CASCADE\<close>.\<close>

record table =
  tb_name :: string
  tb_columns :: "column list"
  tb_uniques :: "string list list"
  tb_foreign :: "(string list \<times> string \<times> string list) list"

record index =
  ix_name :: string
  ix_table :: string
  ix_columns :: "string list"
  ix_unique :: bool
  ix_where :: "string option"

record schema =
  sc_types :: "(string \<times> string list) list"
  sc_tables :: "table list"
  sc_indexes :: "index list"

definition empty_schema :: schema where
  "empty_schema = \<lparr>sc_types = [], sc_tables = [], sc_indexes = []\<rparr>"

definition key_col :: "string \<Rightarrow> column_type \<Rightarrow> column" where
  "key_col n t = \<lparr>c_name = n, c_type = t, c_nullable = False, c_key = True\<rparr>"

definition req_col :: "string \<Rightarrow> column_type \<Rightarrow> column" where
  "req_col n t = \<lparr>c_name = n, c_type = t, c_nullable = False, c_key = False\<rparr>"

definition opt_col :: "string \<Rightarrow> column_type \<Rightarrow> column" where
  "opt_col n t = \<lparr>c_name = n, c_type = t, c_nullable = True, c_key = False\<rparr>"

definition plain_index :: "string \<Rightarrow> string \<Rightarrow> string list \<Rightarrow> index" where
  "plain_index n t cs = \<lparr>ix_name = n, ix_table = t, ix_columns = cs, ix_unique = False, ix_where = None\<rparr>"

abbreviation varchar :: "nat \<Rightarrow> column_type" where "varchar n \<equiv> Varchar (Some n)"
abbreviation timestamptz :: column_type where "timestamptz \<equiv> Timestamp True"

section \<open>Operations\<close>

datatype migration_op =
    Create_table table
  | Create_index index
  | Drop_index string
  | Drop_table string
  | Add_column string column
  | Drop_column string string
  | Add_value "string list" string
  | Drop_type string
  | Backfill string

definition enum_types :: "column list \<Rightarrow> (string \<times> string list) list" where
  "enum_types cs = concat (map (\<lambda>c. case c_type c of Enum_type n ls \<Rightarrow> [(n, ls)] | _ \<Rightarrow> []) cs)"

text \<open>A type is created when a table first uses it.\<close>

fun add_types :: "(string \<times> string list) list \<Rightarrow> (string \<times> string list) list \<Rightarrow> (string \<times> string list) list" where
  "add_types old [] = old"
| "add_types old (t # ts) = add_types (if fst t \<in> set (map fst old) then old else old @ [t]) ts"

text \<open>\<open>_find_enum_type\<close>: the type that has all the labels, the first by name.\<close>

definition find_enum_type :: "(string \<times> string list) list \<Rightarrow> string list \<Rightarrow> string option" where
  "find_enum_type ts labels = (case sort (map fst (filter (\<lambda>t. list_all (\<lambda>l. l \<in> set (snd t)) labels) ts)) of
     [] \<Rightarrow> None | n # _ \<Rightarrow> Some n)"

definition has_table :: "schema \<Rightarrow> string \<Rightarrow> bool" where
  "has_table s n = list_ex (\<lambda>t. tb_name t = n) (sc_tables s)"

definition has_column :: "schema \<Rightarrow> string \<Rightarrow> string \<Rightarrow> bool" where
  "has_column s n c = list_ex (\<lambda>t. tb_name t = n \<and> list_ex (\<lambda>x. c_name x = c) (tb_columns t)) (sc_tables s)"

definition on_table :: "string \<Rightarrow> (table \<Rightarrow> table) \<Rightarrow> schema \<Rightarrow> schema" where
  "on_table n f s = s\<lparr>sc_tables := map (\<lambda>t. if tb_name t = n then f t else t) (sc_tables s)\<rparr>"

text \<open>None: the database refuses (what is created exists, what is changed does not, a table is still referred to).\<close>

fun apply_op :: "migration_op \<Rightarrow> schema \<Rightarrow> schema option" where
  "apply_op (Create_table t) s =
     (if has_table s (tb_name t) \<or> \<not> list_all (\<lambda>(_, r, cs). list_all (has_column s r) cs) (tb_foreign t) then None
      else Some (s\<lparr>sc_types := add_types (sc_types s) (enum_types (tb_columns t)), sc_tables := sc_tables s @ [t]\<rparr>))"
| "apply_op (Create_index i) s =
     (if list_ex (\<lambda>j. ix_name j = ix_name i) (sc_indexes s) \<or> \<not> list_all (has_column s (ix_table i)) (ix_columns i) then None
      else Some (s\<lparr>sc_indexes := sc_indexes s @ [i]\<rparr>))"
| "apply_op (Drop_index n) s =
     (if list_ex (\<lambda>j. ix_name j = n) (sc_indexes s)
      then Some (s\<lparr>sc_indexes := filter (\<lambda>j. ix_name j \<noteq> n) (sc_indexes s)\<rparr>) else None)"
| "apply_op (Drop_table n) s =
     (if \<not> has_table s n \<or> list_ex (\<lambda>t. list_ex (\<lambda>(_, r, _). r = n) (tb_foreign t)) (sc_tables s) then None
      else Some (s\<lparr>sc_tables := filter (\<lambda>t. tb_name t \<noteq> n) (sc_tables s),
        sc_indexes := filter (\<lambda>j. ix_table j \<noteq> n) (sc_indexes s)\<rparr>))"
| "apply_op (Add_column n c) s =
     (if \<not> has_table s n \<or> has_column s n (c_name c) then None
      else Some (on_table n (\<lambda>t. t\<lparr>tb_columns := tb_columns t @ [c]\<rparr>) s))"
| "apply_op (Drop_column n c) s =
     (if has_column s n c
      then Some (on_table n (\<lambda>t. t\<lparr>tb_columns := filter (\<lambda>x. c_name x \<noteq> c) (tb_columns t)\<rparr>) s) else None)"
| "apply_op (Add_value labels l) s = (case find_enum_type (sc_types s) labels of
     None \<Rightarrow> Some s
   | Some n \<Rightarrow> Some (s\<lparr>sc_types := map (\<lambda>t. if fst t = n \<and> l \<notin> set (snd t) then (fst t, snd t @ [l]) else t) (sc_types s)\<rparr>))"
| "apply_op (Drop_type n) s = Some (s\<lparr>sc_types := filter (\<lambda>t. fst t \<noteq> n) (sc_types s)\<rparr>)"
| "apply_op (Backfill c) s = (if has_column s ''tasks'' c then Some s else None)"

fun apply_ops :: "migration_op list \<Rightarrow> schema \<Rightarrow> schema option" where
  "apply_ops [] s = Some s"
| "apply_ops (m # ms) s = (case apply_op m s of None \<Rightarrow> None | Some s' \<Rightarrow> apply_ops ms s')"

section \<open>The migrations\<close>

subsection \<open>0001\<close>

definition principalkind_0001 :: column_type where
  "principalkind_0001 = Enum_type ''principalkind'' [''agent'', ''worker'', ''service'', ''system'', ''human'']"

definition taskstatus_0001 :: column_type where
  "taskstatus_0001 = Enum_type ''taskstatus'' [''queued'', ''leased'', ''succeeded'', ''failed'', ''canceled'']"

definition receipttype_0001 :: column_type where
  "receipttype_0001 = Enum_type ''receipttype'' [''task.assigned'', ''task.accepted'', ''task.completed'', ''task.failed'',
     ''task.canceled'', ''task.retry_scheduled'', ''task.result_ready'', ''task.progress'', ''lease.expired'',
     ''receipt.acknowledged'', ''system.anomaly'']"

definition auth_users_0001 :: "migration_op list" where
  "auth_users_0001 =
    [Create_table \<lparr>tb_name = ''auth_users'', tb_columns =
       [key_col ''id'' Uuid_type, req_col ''email'' (varchar 255), opt_col ''name'' (varchar 255), opt_col ''oauth_provider'' (varchar 255),
        opt_col ''oauth_subject'' (varchar 255), req_col ''is_active'' Boolean_type, req_col ''is_admin'' Boolean_type,
        req_col ''created_at'' timestamptz, req_col ''last_login'' timestamptz, opt_col ''updated_at'' timestamptz, req_col ''metadata'' Jsonb],
       tb_uniques = [[''email'']], tb_foreign = []\<rparr>,
     Create_index \<lparr>ix_name = ''idx_auth_oauth_provider_subject'', ix_table = ''auth_users'',
       ix_columns = [''oauth_provider'', ''oauth_subject''], ix_unique = True, ix_where = Some ''oauth_provider IS NOT NULL''\<rparr>]"

definition auth_api_keys_0001 :: "migration_op list" where
  "auth_api_keys_0001 =
    [Create_table \<lparr>tb_name = ''auth_api_keys'', tb_columns =
       [key_col ''id'' Uuid_type, req_col ''user_id'' Uuid_type, req_col ''key_prefix'' (varchar 64), req_col ''key_hash'' (varchar 255),
        req_col ''name'' (varchar 255), req_col ''scopes'' Jsonb, req_col ''created_at'' timestamptz, opt_col ''last_used'' timestamptz,
        req_col ''usage_count'' Integer_type, opt_col ''expires_at'' timestamptz, req_col ''is_revoked'' Boolean_type],
       tb_uniques = [[''key_hash'']], tb_foreign = [([''user_id''], ''auth_users'', [''id''])]\<rparr>,
     Create_index (plain_index ''idx_auth_api_keys_user'' ''auth_api_keys'' [''user_id'']),
     Create_index (plain_index ''idx_auth_api_keys_prefix'' ''auth_api_keys'' [''key_prefix''])]"

definition tasks_0001 :: "migration_op list" where
  "tasks_0001 =
    [Create_table \<lparr>tb_name = ''tasks'', tb_columns =
       [key_col ''tenant_id'' Uuid_type, key_col ''task_id'' Uuid_type, req_col ''type'' (varchar 255), req_col ''payload'' Jsonb,
        req_col ''created_by_kind'' principalkind_0001, req_col ''created_by_id'' (varchar 255),
        opt_col ''created_by_instance_id'' (varchar 255), req_col ''requirements'' Jsonb, req_col ''priority'' Integer_type,
        req_col ''status'' taskstatus_0001, req_col ''attempt'' Integer_type, req_col ''max_attempts'' Integer_type,
        req_col ''retry_backoff_seconds'' Integer_type, opt_col ''idempotency_key'' (varchar 255), req_col ''created_at'' timestamptz,
        req_col ''updated_at'' timestamptz, opt_col ''next_eligible_at'' timestamptz, opt_col ''result_outcome'' (varchar 50),
        opt_col ''result_data'' Jsonb, opt_col ''result_error'' Jsonb, opt_col ''result_artifacts'' Jsonb,
        opt_col ''completed_at'' timestamptz, opt_col ''asyncgate_instance'' (varchar 255)],
       tb_uniques = [[''tenant_id'', ''idempotency_key'']], tb_foreign = []\<rparr>,
     Create_index (plain_index ''idx_tasks_type'' ''tasks'' [''type'']),
     Create_index (plain_index ''idx_tasks_leasable'' ''tasks''
       [''tenant_id'', ''status'', ''next_eligible_at'', ''priority'', ''created_at'']),
     Create_index (plain_index ''idx_tasks_tenant_status'' ''tasks'' [''tenant_id'', ''status'', ''created_at'']),
     Create_index (plain_index ''idx_tasks_instance'' ''tasks'' [''asyncgate_instance''])]"

definition leases_0001 :: "migration_op list" where
  "leases_0001 =
    [Create_table \<lparr>tb_name = ''leases'', tb_columns =
       [key_col ''lease_id'' Uuid_type, req_col ''tenant_id'' Uuid_type, req_col ''task_id'' Uuid_type, req_col ''worker_id'' (varchar 255),
        req_col ''expires_at'' timestamptz, req_col ''created_at'' timestamptz, req_col ''acquired_at'' timestamptz,
        req_col ''renewal_count'' Integer_type],
       tb_uniques = [[''tenant_id'', ''task_id'']],
       tb_foreign = [([''tenant_id'', ''task_id''], ''tasks'', [''tenant_id'', ''task_id''])]\<rparr>,
     Create_index (plain_index ''idx_leases_expires'' ''leases'' [''expires_at'']),
     Create_index (plain_index ''idx_leases_worker'' ''leases'' [''tenant_id'', ''worker_id''])]"

definition receipts_0001 :: "migration_op list" where
  "receipts_0001 =
    [Create_table \<lparr>tb_name = ''receipts'', tb_columns =
       [key_col ''tenant_id'' Uuid_type, key_col ''receipt_id'' Uuid_type, req_col ''receipt_type'' receipttype_0001,
        req_col ''created_at'' timestamptz, req_col ''from_kind'' principalkind_0001, req_col ''from_id'' (varchar 255),
        req_col ''to_kind'' principalkind_0001, req_col ''to_id'' (varchar 255), opt_col ''task_id'' Uuid_type, opt_col ''lease_id'' Uuid_type,
        opt_col ''schedule_id'' (varchar 255), req_col ''parents'' Jsonb, req_col ''body'' Jsonb, opt_col ''hash'' (varchar 64),
        opt_col ''asyncgate_instance'' (varchar 255), opt_col ''delivered_at'' timestamptz],
       tb_uniques = [[''tenant_id'', ''hash'']], tb_foreign = []\<rparr>,
     Create_index (plain_index ''idx_receipts_to'' ''receipts'' [''tenant_id'', ''to_kind'', ''to_id'', ''created_at'']),
     Create_index (plain_index ''idx_receipts_task'' ''receipts'' [''tenant_id'', ''task_id'', ''created_at'']),
     Create_index (plain_index ''idx_receipts_hash'' ''receipts'' [''tenant_id'', ''hash'']),
     Create_index (plain_index ''idx_receipts_parents_gin'' ''receipts'' [''parents''])]"

definition others_0001 :: "migration_op list" where
  "others_0001 =
    [Create_table \<lparr>tb_name = ''progress'', tb_columns =
       [key_col ''tenant_id'' Uuid_type, key_col ''task_id'' Uuid_type, req_col ''progress'' Jsonb, req_col ''updated_at'' timestamptz],
       tb_uniques = [], tb_foreign = [([''tenant_id'', ''task_id''], ''tasks'', [''tenant_id'', ''task_id''])]\<rparr>,
     Create_table \<lparr>tb_name = ''audit_events'', tb_columns =
       [key_col ''tenant_id'' Uuid_type, key_col ''event_id'' Uuid_type, req_col ''task_id'' Uuid_type, req_col ''event_type'' (varchar 100),
        req_col ''payload'' Jsonb, req_col ''created_at'' timestamptz], tb_uniques = [], tb_foreign = []\<rparr>,
     Create_index (plain_index ''idx_audit_task'' ''audit_events'' [''tenant_id'', ''task_id'', ''created_at'']),
     Create_index (plain_index ''idx_audit_type'' ''audit_events'' [''tenant_id'', ''event_type'', ''created_at'']),
     Create_table \<lparr>tb_name = ''relationships'', tb_columns =
       [key_col ''tenant_id'' Uuid_type, key_col ''principal_kind'' principalkind_0001, key_col ''principal_id'' (varchar 255),
        opt_col ''principal_instance_id'' (varchar 255), req_col ''first_seen_at'' timestamptz, req_col ''last_seen_at'' timestamptz,
        req_col ''sessions_count'' Integer_type], tb_uniques = [], tb_foreign = []\<rparr>,
     Create_index (plain_index ''idx_relationships_last_seen'' ''relationships'' [''tenant_id'', ''last_seen_at''])]"

definition upgrade_0001 :: "migration_op list" where
  "upgrade_0001 = auth_users_0001 @ auth_api_keys_0001 @ tasks_0001 @ leases_0001 @ receipts_0001 @ others_0001"

definition downgrade_0001 :: "migration_op list" where
  "downgrade_0001 =
    [Drop_index ''idx_relationships_last_seen'', Drop_table ''relationships'',
     Drop_index ''idx_audit_type'', Drop_index ''idx_audit_task'', Drop_table ''audit_events'',
     Drop_table ''progress'',
     Drop_index ''idx_receipts_parents_gin'', Drop_index ''idx_receipts_hash'', Drop_index ''idx_receipts_task'',
     Drop_index ''idx_receipts_to'', Drop_table ''receipts'',
     Drop_index ''idx_leases_worker'', Drop_index ''idx_leases_expires'', Drop_table ''leases'',
     Drop_index ''idx_tasks_instance'', Drop_index ''idx_tasks_tenant_status'', Drop_index ''idx_tasks_leasable'',
     Drop_index ''idx_tasks_type'', Drop_table ''tasks'',
     Drop_index ''idx_auth_api_keys_prefix'', Drop_index ''idx_auth_api_keys_user'', Drop_table ''auth_api_keys'',
     Drop_index ''idx_auth_oauth_provider_subject'', Drop_table ''auth_users'',
     Drop_type ''receipttype'', Drop_type ''taskstatus'', Drop_type ''principalkind'']"

subsection \<open>0002 and 0003\<close>

definition upgrade_0002 :: "migration_op list" where
  "upgrade_0002 =
    [Add_value [''queued'', ''leased'', ''succeeded'', ''failed'', ''canceled''] ''running'',
     Add_value [''task.assigned'', ''task.accepted'', ''task.completed''] ''task.started'',
     Add_value [''task.assigned'', ''task.accepted'', ''task.completed''] ''task.escalated'',
     Add_column ''tasks'' (opt_col ''expected_outcome_kind'' (varchar 50)),
     Add_column ''tasks'' (opt_col ''expected_artifact_mime'' (varchar 255)),
     Add_column ''tasks'' (opt_col ''started_at'' timestamptz),
     Create_index (plain_index ''idx_tasks_running'' ''tasks'' [''tenant_id'', ''status'', ''started_at'']),
     Create_index (plain_index ''idx_receipts_lease'' ''receipts'' [''tenant_id'', ''lease_id'', ''created_at'']),
     Create_index (plain_index ''idx_receipts_type'' ''receipts'' [''tenant_id'', ''receipt_type'', ''created_at''])]"

definition downgrade_0002 :: "migration_op list" where
  "downgrade_0002 =
    [Drop_index ''idx_receipts_type'', Drop_index ''idx_receipts_lease'', Drop_index ''idx_tasks_running'',
     Drop_column ''tasks'' ''started_at'', Drop_column ''tasks'' ''expected_artifact_mime'',
     Drop_column ''tasks'' ''expected_outcome_kind'']"

definition upgrade_0003 :: "migration_op list" where
  "upgrade_0003 =
    [Add_column ''tasks'' (opt_col ''payload_pointer'' Text_type), Add_column ''tasks'' (opt_col ''principal_ai'' (varchar 255)),
     Backfill ''principal_ai'', Backfill ''payload_pointer'',
     Create_index (plain_index ''idx_tasks_principal_ai'' ''tasks'' [''tenant_id'', ''principal_ai''])]"

definition downgrade_0003 :: "migration_op list" where
  "downgrade_0003 =
    [Drop_index ''idx_tasks_principal_ai'', Drop_column ''tasks'' ''principal_ai'', Drop_column ''tasks'' ''payload_pointer'']"

section \<open>The schema the tables declare\<close>

text \<open>The enumeration columns take the values of the Python enumerations.\<close>

definition principalkind :: column_type where
  "principalkind = Enum_type ''principalkind'' (map kind_value [AGENT, WORKER, SERVICE, SYSTEM, HUMAN])"

definition taskstatus :: column_type where
  "taskstatus = Enum_type ''taskstatus'' (map status_value [QUEUED, LEASED, RUNNING, SUCCEEDED, FAILED, CANCELED])"

definition receipttype :: column_type where
  "receipttype = Enum_type ''receipttype'' (map receipt_type_value all_receipt_types)"

definition task_table :: table where
  "task_table = \<lparr>tb_name = ''tasks'', tb_columns =
     [key_col ''tenant_id'' Uuid_type, key_col ''task_id'' Uuid_type, req_col ''type'' (varchar 255), req_col ''payload'' Jsonb,
      opt_col ''payload_pointer'' Text_type, req_col ''created_by_kind'' principalkind, req_col ''created_by_id'' (varchar 255),
      opt_col ''created_by_instance_id'' (varchar 255), opt_col ''principal_ai'' (varchar 255), req_col ''requirements'' Jsonb,
      opt_col ''expected_outcome_kind'' (varchar 50), opt_col ''expected_artifact_mime'' (varchar 255),
      req_col ''priority'' Integer_type, req_col ''status'' taskstatus, req_col ''attempt'' Integer_type,
      req_col ''max_attempts'' Integer_type, req_col ''retry_backoff_seconds'' Integer_type,
      opt_col ''idempotency_key'' (varchar 255), req_col ''created_at'' timestamptz, req_col ''updated_at'' timestamptz,
      opt_col ''next_eligible_at'' timestamptz, opt_col ''started_at'' timestamptz, opt_col ''result_outcome'' (varchar 50),
      opt_col ''result_data'' Jsonb, opt_col ''result_error'' Jsonb, opt_col ''result_artifacts'' Jsonb,
      opt_col ''completed_at'' timestamptz, opt_col ''asyncgate_instance'' (varchar 255)],
     tb_uniques = [[''tenant_id'', ''idempotency_key'']], tb_foreign = []\<rparr>"

definition task_indexes :: "index list" where
  "task_indexes =
    [plain_index ''ix_tasks_type'' ''tasks'' [''type''],
     plain_index ''idx_tasks_leasable'' ''tasks'' [''tenant_id'', ''status'', ''next_eligible_at'', ''priority'', ''created_at''],
     plain_index ''idx_tasks_tenant_status'' ''tasks'' [''tenant_id'', ''status'', ''created_at''],
     plain_index ''idx_tasks_running'' ''tasks'' [''tenant_id'', ''status'', ''started_at''],
     plain_index ''idx_tasks_instance'' ''tasks'' [''asyncgate_instance''],
     plain_index ''idx_tasks_principal_ai'' ''tasks'' [''tenant_id'', ''principal_ai'']]"

definition lease_table :: table where
  "lease_table = \<lparr>tb_name = ''leases'', tb_columns =
     [key_col ''lease_id'' Uuid_type, req_col ''tenant_id'' Uuid_type, req_col ''task_id'' Uuid_type,
      req_col ''worker_id'' (varchar 255), req_col ''expires_at'' timestamptz, req_col ''created_at'' timestamptz,
      req_col ''acquired_at'' timestamptz, req_col ''renewal_count'' Integer_type],
     tb_uniques = [[''tenant_id'', ''task_id'']],
     tb_foreign = [([''tenant_id'', ''task_id''], ''tasks'', [''tenant_id'', ''task_id''])]\<rparr>"

definition lease_indexes :: "index list" where
  "lease_indexes = [plain_index ''idx_leases_expires'' ''leases'' [''expires_at''],
     plain_index ''idx_leases_worker'' ''leases'' [''tenant_id'', ''worker_id'']]"

definition receipt_table :: table where
  "receipt_table = \<lparr>tb_name = ''receipts'', tb_columns =
     [key_col ''tenant_id'' Uuid_type, key_col ''receipt_id'' Uuid_type, req_col ''receipt_type'' receipttype,
      req_col ''created_at'' timestamptz, req_col ''from_kind'' principalkind, req_col ''from_id'' (varchar 255),
      req_col ''to_kind'' principalkind, req_col ''to_id'' (varchar 255), opt_col ''task_id'' Uuid_type,
      opt_col ''lease_id'' Uuid_type, opt_col ''schedule_id'' (varchar 255), req_col ''parents'' Jsonb, req_col ''body'' Jsonb,
      opt_col ''hash'' (varchar 64), opt_col ''asyncgate_instance'' (varchar 255), opt_col ''delivered_at'' timestamptz],
     tb_uniques = [[''tenant_id'', ''hash'']], tb_foreign = []\<rparr>"

definition receipt_indexes :: "index list" where
  "receipt_indexes =
    [plain_index ''idx_receipts_to'' ''receipts'' [''tenant_id'', ''to_kind'', ''to_id'', ''created_at''],
     plain_index ''idx_receipts_task'' ''receipts'' [''tenant_id'', ''task_id'', ''created_at''],
     plain_index ''idx_receipts_lease'' ''receipts'' [''tenant_id'', ''lease_id'', ''created_at''],
     plain_index ''idx_receipts_type'' ''receipts'' [''tenant_id'', ''receipt_type'', ''created_at''],
     plain_index ''idx_receipts_hash'' ''receipts'' [''tenant_id'', ''hash''],
     plain_index ''idx_receipts_parents_gin'' ''receipts'' [''parents'']]"

definition progress_table :: table where
  "progress_table = \<lparr>tb_name = ''progress'', tb_columns =
     [key_col ''tenant_id'' Uuid_type, key_col ''task_id'' Uuid_type, req_col ''progress'' Jsonb, req_col ''updated_at'' timestamptz],
     tb_uniques = [], tb_foreign = [([''tenant_id'', ''task_id''], ''tasks'', [''tenant_id'', ''task_id''])]\<rparr>"

definition audit_event_table :: table where
  "audit_event_table = \<lparr>tb_name = ''audit_events'', tb_columns =
     [key_col ''tenant_id'' Uuid_type, key_col ''event_id'' Uuid_type, req_col ''task_id'' Uuid_type,
      req_col ''event_type'' (varchar 100), req_col ''payload'' Jsonb, req_col ''created_at'' timestamptz],
     tb_uniques = [], tb_foreign = []\<rparr>"

definition audit_event_indexes :: "index list" where
  "audit_event_indexes = [plain_index ''idx_audit_task'' ''audit_events'' [''tenant_id'', ''task_id'', ''created_at''],
     plain_index ''idx_audit_type'' ''audit_events'' [''tenant_id'', ''event_type'', ''created_at'']]"

definition relationship_table :: table where
  "relationship_table = \<lparr>tb_name = ''relationships'', tb_columns =
     [key_col ''tenant_id'' Uuid_type, key_col ''principal_kind'' principalkind, key_col ''principal_id'' (varchar 255),
      opt_col ''principal_instance_id'' (varchar 255), req_col ''first_seen_at'' timestamptz, req_col ''last_seen_at'' timestamptz,
      req_col ''sessions_count'' Integer_type], tb_uniques = [], tb_foreign = []\<rparr>"

definition relationship_indexes :: "index list" where
  "relationship_indexes = [plain_index ''idx_relationships_last_seen'' ''relationships'' [''tenant_id'', ''last_seen_at'']]"

definition user_table :: table where
  "user_table = \<lparr>tb_name = ''auth_users'', tb_columns =
     [key_col ''id'' Uuid_type, req_col ''email'' (Varchar None), opt_col ''name'' (Varchar None),
      opt_col ''oauth_provider'' (Varchar None), opt_col ''oauth_subject'' (Varchar None), req_col ''is_active'' Boolean_type,
      req_col ''is_admin'' Boolean_type, req_col ''created_at'' (Timestamp False), req_col ''last_login'' (Timestamp False),
      opt_col ''updated_at'' (Timestamp False), req_col ''metadata'' Jsonb],
     tb_uniques = [], tb_foreign = []\<rparr>"

text \<open>\<open>unique=True, index=True\<close> on a column is one unique index.\<close>

definition user_indexes :: "index list" where
  "user_indexes =
    [\<lparr>ix_name = ''ix_auth_users_email'', ix_table = ''auth_users'', ix_columns = [''email''], ix_unique = True, ix_where = None\<rparr>,
     \<lparr>ix_name = ''idx_auth_oauth_provider_subject'', ix_table = ''auth_users'',
       ix_columns = [''oauth_provider'', ''oauth_subject''], ix_unique = True, ix_where = Some ''oauth_provider IS NOT NULL''\<rparr>]"

definition api_key_table :: table where
  "api_key_table = \<lparr>tb_name = ''auth_api_keys'', tb_columns =
     [key_col ''id'' Uuid_type, req_col ''user_id'' Uuid_type, req_col ''key_prefix'' (Varchar None),
      req_col ''key_hash'' (Varchar None), req_col ''name'' (Varchar None), req_col ''scopes'' Jsonb,
      req_col ''created_at'' (Timestamp False), opt_col ''last_used'' (Timestamp False), req_col ''usage_count'' Integer_type,
      opt_col ''expires_at'' (Timestamp False), req_col ''is_revoked'' Boolean_type],
     tb_uniques = [[''key_hash'']], tb_foreign = [([''user_id''], ''auth_users'', [''id''])]\<rparr>"

definition api_key_indexes :: "index list" where
  "api_key_indexes = [plain_index ''ix_auth_api_keys_user_id'' ''auth_api_keys'' [''user_id''],
     plain_index ''ix_auth_api_keys_key_prefix'' ''auth_api_keys'' [''key_prefix'']]"

definition declared :: schema where
  "declared = \<lparr>
     sc_types = [(''principalkind'', map kind_value [AGENT, WORKER, SERVICE, SYSTEM, HUMAN]),
       (''taskstatus'', map status_value [QUEUED, LEASED, RUNNING, SUCCEEDED, FAILED, CANCELED]),
       (''receipttype'', map receipt_type_value all_receipt_types)],
     sc_tables = [user_table, api_key_table, task_table, lease_table, receipt_table, progress_table, audit_event_table,
       relationship_table],
     sc_indexes = user_indexes @ api_key_indexes @ task_indexes @ lease_indexes @ receipt_indexes @ audit_event_indexes @
       relationship_indexes\<rparr>"

section \<open>Comparing them\<close>

text \<open>
  What a schema says of a table, in no order: its columns with their types (an enumeration by its
  name, its labels are in the schema's types), what is unique, what refers to what, and
  the indexes that speed up queries.
\<close>

definition same_set :: "'a list \<Rightarrow> 'a list \<Rightarrow> bool" where
  "same_set xs ys \<longleftrightarrow> list_all (\<lambda>x. x \<in> set ys) xs \<and> list_all (\<lambda>y. y \<in> set xs) ys"

definition plain_type :: "column_type \<Rightarrow> column_type" where
  "plain_type t = (case t of Enum_type n _ \<Rightarrow> Enum_type n [] | _ \<Rightarrow> t)"

definition columns_of :: "schema \<Rightarrow> string \<Rightarrow> column list" where
  "columns_of s n = concat (map (\<lambda>t. if tb_name t = n then map (\<lambda>c. c\<lparr>c_type := plain_type (c_type c)\<rparr>) (tb_columns t) else [])
     (sc_tables s))"

definition foreign_of :: "schema \<Rightarrow> string \<Rightarrow> (string list \<times> string \<times> string list) list" where
  "foreign_of s n = concat (map (\<lambda>t. if tb_name t = n then tb_foreign t else []) (sc_tables s))"

definition uniques_of :: "schema \<Rightarrow> string \<Rightarrow> (string list \<times> string option) list" where
  "uniques_of s n =
     concat (map (\<lambda>t. if tb_name t = n then map (\<lambda>cs. (cs, None)) (tb_uniques t) else []) (sc_tables s)) @
     map (\<lambda>i. (ix_columns i, ix_where i)) (filter (\<lambda>i. ix_table i = n \<and> ix_unique i) (sc_indexes s))"

definition lookups_of :: "schema \<Rightarrow> string \<Rightarrow> string list list" where
  "lookups_of s n = map ix_columns (filter (\<lambda>i. ix_table i = n \<and> \<not> ix_unique i) (sc_indexes s))"

definition same_shape :: "schema \<Rightarrow> schema \<Rightarrow> string \<Rightarrow> bool" where
  "same_shape s s' n \<longleftrightarrow> same_set (foreign_of s n) (foreign_of s' n) \<and> same_set (uniques_of s n) (uniques_of s' n) \<and>
     same_set (lookups_of s n) (lookups_of s' n)"

definition same_types :: "schema \<Rightarrow> schema \<Rightarrow> bool" where
  "same_types s s' \<longleftrightarrow> same_set (map fst (sc_types s)) (map fst (sc_types s')) \<and>
     list_all (\<lambda>(n, ls). case map_of (sc_types s') n of Some ls' \<Rightarrow> same_set ls ls' | None \<Rightarrow> False) (sc_types s)"

definition differing :: "schema \<Rightarrow> schema \<Rightarrow> string \<Rightarrow> string list" where
  "differing s s' n = map c_name (filter (\<lambda>c. c \<notin> set (columns_of s' n)) (columns_of s n))"

section \<open>Properties\<close>


text \<open>Each downgrade can be applied to what its upgrade built, and all of them leave nothing behind.\<close>

lemma migrations_reversible:
  "case apply_ops (upgrade_0001 @ upgrade_0002) empty_schema of
     None \<Rightarrow> False
   | Some s \<Rightarrow> Option.bind (apply_ops upgrade_0003 s) (apply_ops downgrade_0003) = Some s \<and>
       apply_ops (downgrade_0002 @ downgrade_0001) s = Some empty_schema"
  by code_simp

end
