(* ===== verification/Rows.thy ===== *)
theory Rows
  imports Engine
begin

text \<open>
  The columns behind the models: the rows of \<open>TaskTable\<close> and \<open>ReceiptTable\<close>, the values the
  repositories write into them, and \<open>_row_to_model\<close>, which reads them back and may fail. The
  other theories keep a row and its model in one record; the lemmas here show that this loses
  nothing: whatever is written is read back, and every condition and order over the columns
  selects the same tasks.
\<close>

section \<open>Task rows\<close>

record task_row =
  tc_tenant :: uuid
  tc_id :: uuid
  tc_type :: string
  tc_payload :: dict
  tc_payload_pointer :: "string option"
  tc_created_by_kind :: principal_kind
  tc_created_by_id :: string
  tc_created_by_instance :: "string option"
  tc_principal_ai :: "string option"
  tc_requirements :: dict
  tc_expected_outcome_kind :: "string option"
  tc_expected_artifact_mime :: "string option"
  tc_priority :: int
  tc_status :: task_status
  tc_attempt :: int
  tc_max_attempts :: int
  tc_retry_backoff :: int
  tc_idempotency_key :: "string option"
  tc_created_at :: datetime
  tc_updated_at :: datetime
  tc_next_eligible_at :: "datetime option"
  tc_started_at :: "datetime option"
  tc_result_outcome :: "string option"
  tc_result_data :: "dict option"
  tc_result_error :: "dict option"
  tc_result_artifacts :: "json option"
  tc_completed_at :: "datetime option"
  tc_instance :: "string option"

text \<open>\<open>Outcome(value)\<close>.\<close>

definition outcome_of :: "string \<Rightarrow> outcome option" where
  "outcome_of s = find (\<lambda>x. outcome_value x = s) [O_SUCCEEDED, O_FAILED, O_CANCELED]"

definition row_result :: "task_row \<Rightarrow> exn + task_result option" where
  "row_result r = (if \<not> truthy_str (tc_result_outcome r) then Inr None
     else case outcome_of (the (tc_result_outcome r)) of
       None \<Rightarrow> Inl (ValueError (Bad_enum (the (tc_result_outcome r))))
     | Some oc \<Rightarrow> (case tc_completed_at r of
         None \<Rightarrow> Inl ValidationError
       | Some c \<Rightarrow> if artifacts_valid (tc_result_artifacts r)
           then Inr (Some \<lparr>tr_outcome = oc, tr_result = tc_result_data r, tr_error = tc_result_error r,
                      tr_artifacts = tc_result_artifacts r, tr_completed_at = c\<rparr>)
           else Inl ValidationError))"

text \<open>\<open>TaskRequirements(**row.requirements)\<close>.\<close>

definition row_requirements :: "dict \<Rightarrow> exn + task_requirements" where
  "row_requirements d = (case (requirement_field d ''capabilities'', requirement_field d ''tags'') of
     (Some c, Some g) \<Rightarrow> Inr \<lparr>capabilities = c, tags = g\<rparr> | _ \<Rightarrow> Inl ValidationError)"

definition row_to_task :: "task_row \<Rightarrow> exn + task" where
  "row_to_task r = (case row_result r of Inl x \<Rightarrow> Inl x
     | Inr result \<Rightarrow> (case row_requirements (tc_requirements r) of Inl x \<Rightarrow> Inl x
     | Inr requirements \<Rightarrow> Inr
        \<lparr>t_tenant = tc_tenant r, t_id = tc_id r, t_type = tc_type r, t_payload = tc_payload r,
         t_payload_pointer = tc_payload_pointer r,
         t_created_by = \<lparr>p_kind = tc_created_by_kind r, p_id = tc_created_by_id r,
                         p_instance = tc_created_by_instance r\<rparr>,
         t_principal_ai = or_str (tc_principal_ai r) (tc_created_by_id r), t_requirements = requirements,
         t_expected_outcome_kind = tc_expected_outcome_kind r,
         t_expected_artifact_mime = tc_expected_artifact_mime r, t_priority = tc_priority r,
         t_status = tc_status r, t_attempt = tc_attempt r, t_max_attempts = tc_max_attempts r,
         t_retry_backoff = tc_retry_backoff r, t_idempotency_key = tc_idempotency_key r,
         t_created_at = tc_created_at r, t_updated_at = tc_updated_at r,
         t_next_eligible_at = tc_next_eligible_at r, t_started_at = tc_started_at r,
         t_result = result, t_instance = tc_instance r\<rparr>))"

text \<open>\<open>[self._row_to_model(r) for r in rows]\<close>: the first row that cannot be read raises.\<close>

fun rows_to_tasks :: "task_row list \<Rightarrow> exn + task list" where
  "rows_to_tasks [] = Inr []"
| "rows_to_tasks (r # rs) = (case row_to_task r of Inl x \<Rightarrow> Inl x
     | Inr t \<Rightarrow> (case rows_to_tasks rs of Inl x \<Rightarrow> Inl x | Inr ts \<Rightarrow> Inr (t # ts)))"

section \<open>What the repositories write\<close>

definition new_task_row ::
    "settings \<Rightarrow> uuid \<Rightarrow> uuid \<Rightarrow> datetime \<Rightarrow> string \<Rightarrow> dict \<Rightarrow> principal \<Rightarrow> string option \<Rightarrow>
     string option \<Rightarrow> task_requirements option \<Rightarrow> string option \<Rightarrow> string option \<Rightarrow> int \<Rightarrow>
     string option \<Rightarrow> int option \<Rightarrow> int option \<Rightarrow> datetime option \<Rightarrow> task_row" where
  "new_task_row s tn tid now type payload created_by principal_ai payload_pointer requirements
      expected_kind expected_mime priority idempotency_key max_attempts backoff eligible =
   \<lparr>tc_tenant = tn, tc_id = tid, tc_type = type, tc_payload = payload,
    tc_payload_pointer = Some (or_str payload_pointer (''inline://task/'' @ uuid_str tid)),
    tc_created_by_kind = p_kind created_by, tc_created_by_id = p_id created_by,
    tc_created_by_instance = p_instance created_by,
    tc_principal_ai = Some (resolve_principal_ai principal_ai created_by),
    tc_requirements = (case requirements of None \<Rightarrow> [] | Some q \<Rightarrow> dump_requirements q),
    tc_expected_outcome_kind = expected_kind, tc_expected_artifact_mime = expected_mime,
    tc_priority = priority, tc_status = QUEUED, tc_attempt = 0,
    tc_max_attempts = or_default max_attempts (default_max_attempts s),
    tc_retry_backoff = or_default backoff (default_retry_backoff s),
    tc_idempotency_key = idempotency_key, tc_created_at = now, tc_updated_at = now,
    tc_next_eligible_at = eligible, tc_started_at = None, tc_result_outcome = None,
    tc_result_data = None, tc_result_error = None, tc_result_artifacts = None,
    tc_completed_at = None, tc_instance = Some (instance_id s)\<rparr>"

text \<open>The \<open>values\<close> of \<open>update_status\<close>.\<close>

definition row_with_status ::
    "datetime \<Rightarrow> task_status \<Rightarrow> task_result option \<Rightarrow> datetime option \<Rightarrow> task_row \<Rightarrow> task_row" where
  "row_with_status now new_status result started_at r =
     (let r1 = r\<lparr>tc_status := new_status, tc_updated_at := now\<rparr>;
          r2 = (case result of None \<Rightarrow> r1
            | Some x \<Rightarrow> r1\<lparr>tc_result_outcome := Some (outcome_value (tr_outcome x)),
                tc_result_data := tr_result x, tc_result_error := tr_error x,
                tc_result_artifacts := tr_artifacts x, tc_completed_at := Some (tr_completed_at x)\<rparr>)
      in case started_at of None \<Rightarrow> r2 | Some s \<Rightarrow> r2\<lparr>tc_started_at := Some s\<rparr>)"

text \<open>The \<open>values\<close> of the two requeue methods.\<close>

definition requeued_row :: "datetime \<Rightarrow> int \<Rightarrow> datetime \<Rightarrow> task_row \<Rightarrow> task_row" where
  "requeued_row now attempt eligible r =
     r\<lparr>tc_status := QUEUED, tc_attempt := attempt, tc_next_eligible_at := Some eligible,
       tc_updated_at := now, tc_started_at := None\<rparr>"

text \<open>The two attributes \<open>claim_next\<close> sets.\<close>

definition claimed_row :: "datetime \<Rightarrow> task_row \<Rightarrow> task_row" where
  "claimed_row now r = r\<lparr>tc_status := LEASED, tc_updated_at := now\<rparr>"

text \<open>The statements on the table, with the values they are given.\<close>

datatype task_stmt =
    Insert_task settings uuid uuid datetime string dict principal "string option" "string option"
      "task_requirements option" "string option" "string option" int "string option" "int option"
      "int option" "datetime option"
  | Set_status uuid uuid datetime task_status "task_result option" "datetime option"
  | Requeue uuid uuid datetime int datetime
  | Claim uuid uuid datetime

definition row_at :: "uuid \<Rightarrow> uuid \<Rightarrow> task_row \<Rightarrow> bool" where
  "row_at tn tid r \<longleftrightarrow> tc_tenant r = tn \<and> tc_id r = tid"

fun on_rows :: "task_stmt \<Rightarrow> task_row list \<Rightarrow> task_row list" where
  "on_rows (Insert_task s tn tid now ty pl cb ai pp rq ek em pr key ma bo el) rows =
     rows @ [new_task_row s tn tid now ty pl cb ai pp rq ek em pr key ma bo el]"
| "on_rows (Set_status tn tid now st result started) rows =
     update_where (row_at tn tid) (row_with_status now st result started) rows"
| "on_rows (Requeue tn tid now attempt eligible) rows =
     update_where (row_at tn tid) (requeued_row now attempt eligible) rows"
| "on_rows (Claim tn tid now) rows = update_where (row_at tn tid) (claimed_row now) rows"

text \<open>The same statements on the models, as the other theories have them.\<close>

fun on_tasks :: "task_stmt \<Rightarrow> task list \<Rightarrow> task list" where
  "on_tasks (Insert_task s tn tid now ty pl cb ai pp rq ek em pr key ma bo el) ts =
     ts @ [new_task s tn tid now ty pl cb ai pp rq ek em pr key ma bo el]"
| "on_tasks (Set_status tn tid now st result started) ts =
     update_where (task_at tn tid) (with_status now st result started) ts"
| "on_tasks (Requeue tn tid now attempt eligible) ts =
     update_where (task_at tn tid) (requeued now attempt eligible) ts"
| "on_tasks (Claim tn tid now) ts =
     update_where (task_at tn tid) (\<lambda>t. t\<lparr>t_status := LEASED, t_updated_at := now\<rparr>) ts"

text \<open>A result is a \<open>TaskResult\<close>, so its artifacts are valid.\<close>

fun stmt_ok :: "task_stmt \<Rightarrow> bool" where
  "stmt_ok (Set_status _ _ _ _ (Some x) _) = artifacts_valid (tr_artifacts x)"
| "stmt_ok _ = True"

section \<open>The columns the queries read\<close>

record task_columns =
  col_tenant :: uuid
  col_id :: uuid
  col_type :: string
  col_created_by_id :: string
  col_priority :: int
  col_status :: task_status
  col_idempotency_key :: "string option"
  col_created_at :: datetime
  col_next_eligible_at :: "datetime option"
  col_instance :: "string option"
  col_capabilities :: json

text \<open>\<open>task.requirements.get("capabilities", [])\<close>, which \<open>claim_next\<close> reads from the row.\<close>

definition row_columns :: "task_row \<Rightarrow> task_columns" where
  "row_columns r = \<lparr>col_tenant = tc_tenant r, col_id = tc_id r, col_type = tc_type r,
     col_created_by_id = tc_created_by_id r, col_priority = tc_priority r, col_status = tc_status r,
     col_idempotency_key = tc_idempotency_key r, col_created_at = tc_created_at r,
     col_next_eligible_at = tc_next_eligible_at r, col_instance = tc_instance r,
     col_capabilities = get_or (tc_requirements r) ''capabilities'' (JList [])\<rparr>"

definition task_columns :: "task \<Rightarrow> task_columns" where
  "task_columns t = \<lparr>col_tenant = t_tenant t, col_id = t_id t, col_type = t_type t,
     col_created_by_id = p_id (t_created_by t), col_priority = t_priority t, col_status = t_status t,
     col_idempotency_key = t_idempotency_key t, col_created_at = t_created_at t,
     col_next_eligible_at = t_next_eligible_at t, col_instance = t_instance t,
     col_capabilities = JList (map JStr (capabilities (t_requirements t)))\<rparr>"

section \<open>Receipt rows\<close>

record receipt_row =
  rc_tenant :: uuid
  rc_id :: uuid
  rc_type :: receipt_type
  rc_created_at :: datetime
  rc_from_kind :: principal_kind
  rc_from_id :: string
  rc_to_kind :: principal_kind
  rc_to_id :: string
  rc_task :: "uuid option"
  rc_lease :: "uuid option"
  rc_schedule :: "string option"
  rc_parents :: "string list"
  rc_body :: dict
  rc_hash :: "string option"
  rc_instance :: "string option"
  rc_delivered_at :: "datetime option"

definition new_receipt_row ::
    "settings \<Rightarrow> uuid \<Rightarrow> uuid \<Rightarrow> receipt_type \<Rightarrow> datetime \<Rightarrow> principal \<Rightarrow> principal \<Rightarrow> uuid option \<Rightarrow>
     uuid option \<Rightarrow> string option \<Rightarrow> uuid list \<Rightarrow> dict \<Rightarrow> string option \<Rightarrow> receipt_row" where
  "new_receipt_row s tn rid ty now sender to task lease schedule parents body h =
   \<lparr>rc_tenant = tn, rc_id = rid, rc_type = ty, rc_created_at = now, rc_from_kind = p_kind sender,
    rc_from_id = p_id sender, rc_to_kind = p_kind to, rc_to_id = p_id to, rc_task = task, rc_lease = lease,
    rc_schedule = schedule, rc_parents = map uuid_str parents, rc_body = body, rc_hash = h,
    rc_instance = Some (instance_id s), rc_delivered_at = None\<rparr>"

text \<open>\<open>[UUID(p) for p in row.parents]\<close>.\<close>

fun parse_parents :: "string list \<Rightarrow> exn + uuid list" where
  "parse_parents [] = Inr []"
| "parse_parents (p # ps) = (case uuid_of_str p of None \<Rightarrow> Inl (ValueError (Bad_uuid p))
     | Some u \<Rightarrow> (case parse_parents ps of Inl x \<Rightarrow> Inl x | Inr us \<Rightarrow> Inr (u # us)))"

definition row_to_receipt :: "receipt_row \<Rightarrow> exn + receipt" where
  "row_to_receipt r = (case parse_parents (rc_parents r) of Inl x \<Rightarrow> Inl x | Inr ps \<Rightarrow> Inr
     \<lparr>r_tenant = rc_tenant r, r_id = rc_id r, r_type = rc_type r, r_created_at = rc_created_at r,
      r_from = mk_principal (rc_from_kind r) (rc_from_id r), r_to = mk_principal (rc_to_kind r) (rc_to_id r),
      r_task = rc_task r, r_lease = rc_lease r, r_schedule = rc_schedule r, r_parents = ps,
      r_body = rc_body r, r_hash = rc_hash r, r_instance = rc_instance r,
      r_delivered_at = rc_delivered_at r\<rparr>)"

text \<open>\<open>ReceiptTable.parents.contains([str(parent)])\<close>.\<close>

definition row_has_parent :: "uuid \<Rightarrow> uuid \<Rightarrow> receipt_row \<Rightarrow> bool" where
  "row_has_parent tn parent r \<longleftrightarrow> rc_tenant r = tn \<and> uuid_str parent \<in> set (rc_parents r)"

section \<open>Lemmas\<close>

lemma outcome_of_value [simp]: "outcome_of (outcome_value x) = Some x"
  by (cases x) (simp_all add: outcome_of_def)

lemma outcome_value_truthy [simp]: "truthy_str (Some (outcome_value x))"
  by (cases x) (simp_all add: truthy_str_def)

lemma string_list_JStr [simp]: "string_list (JList (map JStr xs)) = Some xs"
  by (simp add: string_list_def list_all_iff o_def)

lemma string_list_inv: "string_list j = Some xs \<Longrightarrow> j = JList (map JStr xs)"
proof -
  have "list_all (\<lambda>x. case x of JStr _ \<Rightarrow> True | _ \<Rightarrow> False) ys \<Longrightarrow>
      ys = map JStr (map (\<lambda>x. case x of JStr s \<Rightarrow> s | _ \<Rightarrow> []) ys)" for ys
    by (induction ys) (auto split: json.splits)
  then show "string_list j = Some xs \<Longrightarrow> ?thesis"
    by (auto simp: string_list_def split: json.splits if_splits)
qed

text \<open>\<open>model_dump()\<close> and the empty object are read back.\<close>

lemma row_requirements_dump [simp]: "row_requirements (dump_requirements q) = Inr q"
  by (simp add: row_requirements_def requirement_field_def dump_requirements_def has_key_def dict_get_def)

lemma row_requirements_Nil [simp]: "row_requirements [] = Inr \<lparr>capabilities = [], tags = []\<rparr>"
  by (simp add: row_requirements_def requirement_field_def has_key_def)

lemma capabilities_read:
  "row_requirements d = Inr q \<Longrightarrow> get_or d ''capabilities'' (JList []) = JList (map JStr (capabilities q))"
  by (auto simp: row_requirements_def requirement_field_def get_or_def has_key_def dict_get_def
      split: option.splits if_splits dest: string_list_inv)

lemma or_str_again: "or_str (Some (or_str a (or_str b c))) c = or_str a (or_str b c)"
  by (auto simp: or_str_def split: option.splits)

lemma new_row_read:
  "row_to_task (new_task_row s tn tid now ty pl cb ai pp rq ek em pr key ma bo el) =
     Inr (new_task s tn tid now ty pl cb ai pp rq ek em pr key ma bo el)"
  by (cases rq) (simp_all add: row_to_task_def row_result_def new_task_row_def new_task_def truthy_str_def
      resolve_principal_ai_def or_str_again)

lemma row_read_cases:
  assumes "row_to_task r = Inr t"
  obtains q where "row_result r = Inr (t_result t)" "row_requirements (tc_requirements r) = Inr q" "t_requirements t = q"
  using assms by (auto simp: row_to_task_def split: sum.splits)

lemma status_row_read:
  assumes "row_to_task r = Inr t" and "stmt_ok (Set_status tn tid now st result started)"
  shows "row_to_task (row_with_status now st result started r) = Inr (with_status now st result started t)"
  using assms
  by (cases result; cases started)
    (auto simp: row_to_task_def row_result_def row_with_status_def with_status_def Let_def split: sum.splits option.splits if_splits)

lemma requeued_row_read:
  "row_to_task r = Inr t \<Longrightarrow> row_to_task (requeued_row now a el r) = Inr (requeued now a el t)"
  by (auto simp: row_to_task_def row_result_def requeued_row_def requeued_def split: sum.splits option.splits if_splits)

lemma claimed_row_read:
  "row_to_task r = Inr t \<Longrightarrow> row_to_task (claimed_row now r) = Inr (t\<lparr>t_status := LEASED, t_updated_at := now\<rparr>)"
  by (auto simp: row_to_task_def row_result_def claimed_row_def split: sum.splits option.splits if_splits)

lemma columns_read: "row_to_task r = Inr t \<Longrightarrow> task_columns t = row_columns r"
  by (auto simp: row_to_task_def task_columns_def row_columns_def capabilities_read split: sum.splits)

lemma row_at_read: "row_to_task r = Inr t \<Longrightarrow> task_at tn tid t = row_at tn tid r"
  by (auto simp: row_to_task_def task_at_def row_at_def split: sum.splits)

text \<open>Reading a table is reading each of its rows.\<close>

definition mirrors :: "task_row list \<Rightarrow> task list \<Rightarrow> bool" where
  "mirrors = list_all2 (\<lambda>r t. row_to_task r = Inr t)"

lemma rows_to_tasks_iff: "rows_to_tasks rs = Inr ts \<longleftrightarrow> mirrors rs ts"
  unfolding mirrors_def
proof (induction rs arbitrary: ts)
  case (Cons r rs)
  then show ?case
    by (cases ts; cases "row_to_task r"; cases "rows_to_tasks rs") (auto simp: Cons.IH [symmetric] simp del: Cons.IH)
qed auto

lemma mirrors_update:
  assumes "mirrors rs ts" and "\<And>r t. row_to_task r = Inr t \<Longrightarrow> row_to_task (f r) = Inr (g t)"
  shows "mirrors (update_where (row_at tn tid) f rs) (update_where (task_at tn tid) g ts)"
  using assms(1) unfolding mirrors_def
  by (induction rule: list_all2_induct) (auto simp: row_at_read assms(2))

lemma mirrors_stmt:
  assumes "mirrors rs ts" and "stmt_ok s"
  shows "mirrors (on_rows s rs) (on_tasks s ts)"
proof (cases s)
  case (Insert_task s tn tid now ty pl cb ai pp rq ek em pr key ma bo el)
  with assms(1) show ?thesis by (auto simp: mirrors_def new_row_read intro!: list_all2_appendI)
next
  case (Set_status tn tid now st result started)
  with assms show ?thesis by (auto intro!: mirrors_update status_row_read)
next
  case (Requeue tn tid now a el)
  with assms(1) show ?thesis by (auto intro!: mirrors_update requeued_row_read)
next
  case (Claim tn tid now)
  with assms(1) show ?thesis by (auto intro!: mirrors_update claimed_row_read)
qed

lemma mirrors_history: "mirrors rs ts \<Longrightarrow> \<forall>s \<in> set ss. stmt_ok s \<Longrightarrow> mirrors (fold on_rows ss rs) (fold on_tasks ss ts)"
  by (induction ss arbitrary: rs ts) (auto intro: mirrors_stmt)

lemma mirrors_filter:
  "mirrors rs ts \<Longrightarrow> mirrors (filter (P \<circ> row_columns) rs) (filter (P \<circ> task_columns) ts)"
  unfolding mirrors_def by (induction rule: list_all2_induct) (auto simp: columns_read)

lemma mirrors_insort:
  "mirrors rs ts \<Longrightarrow> row_to_task r = Inr t \<Longrightarrow>
   mirrors (insort_key (k \<circ> row_columns) r rs) (insort_key (k \<circ> task_columns) t ts)"
  for k :: "task_columns \<Rightarrow> 'k :: linorder"
  unfolding mirrors_def by (induction rule: list_all2_induct) (auto simp: columns_read)

lemma mirrors_sort:
  "mirrors rs ts \<Longrightarrow> mirrors (sort_key (k \<circ> row_columns) rs) (sort_key (k \<circ> task_columns) ts)"
  for k :: "task_columns \<Rightarrow> 'k :: linorder"
proof (induction rs arbitrary: ts)
  case (Cons r rs)
  then obtain t ts' where "ts = t # ts'" "row_to_task r = Inr t" "mirrors rs ts'"
    by (auto simp: mirrors_def list_all2_Cons1)
  then show ?case using mirrors_insort [OF Cons.IH, of ts' r t k] by (simp add: o_def)
qed (simp add: mirrors_def)

subsection \<open>Receipts\<close>

lemma parse_parents_str: "\<forall>p \<in> set ps. p < 2 ^ 128 \<Longrightarrow> parse_parents (map uuid_str ps) = Inr ps"
  by (induction ps) (simp_all add: uuid_roundtrip)

lemma receipt_row_read:
  assumes "\<forall>p \<in> set ps. p < 2 ^ 128"
  shows "row_to_receipt (new_receipt_row s tn rid ty now sender to task lease schedule ps body h) =
     Inr (new_receipt s tn rid ty now sender to task lease schedule ps body h)"
  by (simp add: row_to_receipt_def new_receipt_row_def new_receipt_def parse_parents_str [OF assms])

lemma parent_query_read:
  assumes "\<forall>p \<in> set ps. p < 2 ^ 128" "parent < 2 ^ 128"
  shows "row_has_parent tn' parent (new_receipt_row s tn rid ty now sender to task lease schedule ps body h) =
     has_parent tn' parent (new_receipt s tn rid ty now sender to task lease schedule ps body h)"
  using assms uuid_str_inject
  by (auto simp: row_has_parent_def has_parent_def new_receipt_row_def new_receipt_def)

section \<open>Properties\<close>

text \<open>C39: the rows of the task table mirror the models: after any statements of the repository, every query,
  whatever its condition and its order over the columns it reads, finds rows that can all be read back
  (no written result is a row that raises), and reads exactly the tasks the same query finds among the
  models the same statements make.\<close>

theorem rows_mirror_tasks:
  fixes k :: "task_columns \<Rightarrow> int"
  assumes "\<forall>s \<in> set ss. stmt_ok s"
  shows "rows_to_tasks (sort_key (k \<circ> row_columns) (filter (P \<circ> row_columns) (fold on_rows ss []))) =
     Inr (sort_key (k \<circ> task_columns) (filter (P \<circ> task_columns) (fold on_tasks ss [])))"
  unfolding rows_to_tasks_iff
  by (intro mirrors_sort mirrors_filter mirrors_history assms) (simp add: mirrors_def)

text \<open>A task is created without requirements, claimed and completed: the query for it reads its result.\<close>

abbreviation demo_stmts :: "task_stmt list" where
  "demo_stmts \<equiv> [Insert_task default_settings 7 1 5 ''echo'' [] (mk_principal AGENT ''alice'') None None None None None 0 None None None None,
     Claim 7 1 6,
     Set_status 7 1 9 SUCCEEDED (Some \<lparr>tr_outcome = O_SUCCEEDED, tr_result = Some [], tr_error = None,
       tr_artifacts = Some (JList [JDict []]), tr_completed_at = 8\<rparr>) None]"

theorem rows_mirror_tasks_witness:
  "\<exists>t. rows_to_tasks (filter (\<lambda>r. tc_id r = 1) (fold on_rows demo_stmts [])) = Inr [t] \<and>
     t_status t = SUCCEEDED \<and> map_option tr_completed_at (t_result t) = Some 8 \<and> t_principal_ai t = ''alice''"
proof -
  have ok: "\<forall>s \<in> set demo_stmts. stmt_ok s" by (simp add: artifacts_valid_def is_dict_def)
  from rows_mirror_tasks [OF ok, of "\<lambda>_. 0" "\<lambda>c. col_id c = 1"] show ?thesis
    by (simp add: row_columns_def task_columns_def new_task_row_def new_task_def row_at_def task_at_def claimed_row_def
        row_with_status_def with_status_def resolve_principal_ai_def or_str_def truthy_str_def o_def)
qed

end
