(* ===== verification/Drain.thy ===== *)
theory Drain
  imports Background
begin

text \<open>
  The outbox empties: when the ledger takes what it is sent and the circuit breaker lets calls
  through (closed, half open with enough probes left, or open for longer than its timeout), the
  rounds of the replay worker deliver every queued receipt and drop none.
\<close>

section \<open>A breaker that lets the calls through\<close>

text \<open>From the \<open>n\<close>th reading of the clock on.\<close>

definition willing :: "env \<Rightarrow> nat \<Rightarrow> breaker \<Rightarrow> bool" where
  "willing e n b = (let cfg = breaker_settings e in case cb_state b of
     CLOSED \<Rightarrow> True
   | HALF_OPEN \<Rightarrow> cb_success_count b < success_threshold cfg \<and>
       success_threshold cfg - cb_success_count b \<le> half_open_max_calls cfg - cb_half_open_calls b
   | OPEN \<Rightarrow> (\<forall>m \<ge> n. should_attempt_reset cfg (e_clock e m) b) \<and>
       0 < success_threshold cfg \<and> success_threshold cfg \<le> half_open_max_calls cfg)"

definition willing_opt :: "env \<Rightarrow> nat \<Rightarrow> breaker option \<Rightarrow> bool" where
  "willing_opt e n b = (case b of None \<Rightarrow> True | Some x \<Rightarrow> willing e n x)"

lemma willing_opt_simps [simp]: "willing_opt e n None" "willing_opt e n (Some b) = willing e n b"
  by (simp_all add: willing_opt_def)

lemma willing_mono: "willing e n b \<Longrightarrow> n \<le> m \<Longrightarrow> willing e m b"
  by (auto simp: willing_def Let_def split: circuit_state.splits)

lemma willing_opt_mono: "willing_opt e n b \<Longrightarrow> n \<le> m \<Longrightarrow> willing_opt e m b"
  by (cases b) (auto intro: willing_mono)

text \<open>It admits the call, and stays willing when the call succeeds.\<close>

lemma willing_admits:
  assumes "willing e n b" and "cb_state b = OPEN \<Longrightarrow> \<exists>m \<ge> n. now = e_clock e m"
  obtains b' where "admit (breaker_settings e) now b = (Admit, b')"
    and "\<And>m. n \<le> m \<Longrightarrow> willing e m (on_success (breaker_settings e) b')"
  using assms
  by (cases "cb_state b")
    (auto simp: willing_def admit_def on_success_def Let_def transition_to_half_open_def transition_to_closed_def
      should_attempt_reset_def)

text \<open>Where the breaker is open, its opening time is known, so the clock is read.\<close>

lemma willing_opened: "willing e n b \<Longrightarrow> cb_state b = OPEN \<Longrightarrow> cb_opened_at b \<noteq> None"
  by (cases "cb_opened_at b") (auto simp: willing_def Let_def should_attempt_reset_def)

section \<open>One delivery\<close>

definition ledger_takes :: "env \<Rightarrow> bool" where
  "ledger_takes e \<longleftrightarrow> (\<forall>n p. case e_post e n p of Http_ok data \<Rightarrow> \<not> has_key data ''error'' | Http_exn _ \<Rightarrow> False)"

lemma ledger_takesD: "ledger_takes e \<Longrightarrow> \<exists>data. e_post e n p = Http_ok data \<and> \<not> has_key data ''error''"
  unfolding ledger_takes_def by (drule spec [of _ n], drule spec [of _ p]) (auto split: http_reply.splits)

text \<open>The client but for its breaker, which stays willing; and the requests made.\<close>

definition alike :: "rg_client \<Rightarrow> rg_client \<Rightarrow> bool" where
  "alike c c' \<longleftrightarrow> rg_buffered c' = rg_buffered c \<and> rg_dropped c' = rg_dropped c \<and> rg_replayed_ok c' = rg_replayed_ok c \<and>
     rg_replayed_failed c' = rg_replayed_failed c \<and> rg_last_error c' = rg_last_error c"

definition served_by :: "env \<Rightarrow> nat \<Rightarrow> nat \<Rightarrow> rg_client \<Rightarrow> world \<Rightarrow> bool" where
  "served_by e n posts c w \<longleftrightarrow> n \<le> w_clock w \<and> w_post w = posts \<and> alike c (client_at e w) \<and> willing_opt e (w_clock w) (rg_breaker (client_at e w))"

lemma wp_delivers:
  assumes "ledger_takes e" and "willing_opt e (w_clock w) (rg_breaker (client_at e w))"
  shows "wp (emit_with_circuit e False r) (\<lambda>_. served_by e (w_clock w) (Suc (w_post w)) (client_at e w)) (\<lambda>_ _. False) w"
proof -
  have emit: "wp (emit_to_receiptgate e r) Q E w1"
    if "\<And>x. Q x (w1\<lparr>w_post := Suc (w_post w1)\<rparr>)" for Q E w1
    using ledger_takesD [OF assms(1), of "w_post w1" "submission r"] that
    by (auto simp: emit_to_receiptgate_def wp_simps submission_def)
  show ?thesis
  proof (cases "rg_breaker (client_at e w)")
    case None
    then show ?thesis
      by (auto simp: emit_with_circuit_def cb_call_def wp_simps served_by_def alike_def intro!: emit)
  next
    case (Some b)
    then have b: "willing e (w_clock w) b" using assms(2) by simp
    define w0 where "w0 = w\<lparr>w_rg := Some (client_at e w)\<rparr>"
    have proceed: "wp (case admit (breaker_settings e) now b of (decision, b') \<Rightarrow>
          seq (set_client (set_breaker b' (client_at e w))) (cb_proceed e (emit_to_receiptgate e r) None decision b'))
        (\<lambda>_. served_by e (w_clock w) (Suc (w_post w)) (client_at e w)) (\<lambda>_ _. False) w1"
      if clock: "cb_state b = OPEN \<Longrightarrow> \<exists>m \<ge> w_clock w. now = e_clock e m" and le: "w_clock w \<le> w_clock w1"
        and "w_post w1 = w_post w" for now w1
    proof -
      obtain b' where adm: "admit (breaker_settings e) now b = (Admit, b')"
        and later: "\<And>m. w_clock w \<le> m \<Longrightarrow> willing e m (on_success (breaker_settings e) b')"
        by (rule willing_admits [OF b, of now]) (use clock in auto)
      show ?thesis
        using later [OF le] le that(3)
        by (auto simp: adm cb_proceed_def record_success_def wp_simps served_by_def alike_def set_breaker_def
            intro!: emit)
    qed
    show ?thesis
      using Some willing_opened [OF b]
      by (auto simp: emit_with_circuit_def cb_call_def read_if_opened_def wp_bind wp_get_client wp_return wp_utc_now
          intro!: proceed)
  qed
qed

section \<open>One round\<close>

text \<open>What a round leaves of a client when it delivers the receipts with these identifiers.\<close>

definition delivered :: "string list \<Rightarrow> rg_client \<Rightarrow> rg_client" where
  "delivered ids c = c\<lparr>rg_buffered := filter (\<lambda>b. bf_id b \<notin> set ids) (rg_buffered c),
     rg_replayed_ok := rg_replayed_ok c + int (length ids)\<rparr>"

lemma delivered_Nil [simp]: "delivered [] c = c"
  by (simp add: delivered_def)

lemma delivered_append: "delivered ids' (delivered ids c) = delivered (ids @ ids') c"
  by (auto simp: delivered_def conj_commute intro: filter_cong)

lemma delivered_alike: "alike c c' \<Longrightarrow> alike (delivered ids c) (delivered ids c')"
  by (simp add: alike_def delivered_def)

lemma alike_trans: "alike c c' \<Longrightarrow> alike c' c'' \<Longrightarrow> alike c c''"
  by (simp add: alike_def)

lemma pop_item_filter: "distinct (map bf_id bs) \<Longrightarrow> pop_item i bs = filter (\<lambda>b. bf_id b \<noteq> i) bs"
  by (induction bs) (auto intro!: filter_True [symmetric] rev_image_eqI)

lemma find_item_None: "find_item i bs = None \<longleftrightarrow> i \<notin> bf_id ` set bs"
  by (auto simp: find_item_def find_None_iff)

lemma wp_replay_one:
  assumes "ledger_takes e" and "willing_opt e (w_clock w) (rg_breaker (client_at e w))"
    and "distinct (map bf_id (rg_buffered (client_at e w)))" and "b \<in> set (rg_buffered (client_at e w))"
  shows "wp (replay_one e b s)
     (\<lambda>(s', go_on) w'. go_on \<and> served_by e (w_clock w) (Suc (w_post w)) (delivered [bf_id b] (client_at e w)) w') (\<lambda>_ _. False) w"
  unfolding replay_one_def wp_try_except wp_bind
  by (rule wp_mono [OF wp_delivers [OF assms(1,2)]])
    (use assms(4) in \<open>auto simp: served_by_def alike_def remove_buffer_item_def wp_simps find_item_None delivered_def
       pop_item_filter [OF assms(3)]\<close>)

lemma wp_replay_items:
  assumes "ledger_takes e"
  shows "willing_opt e (w_clock w) (rg_breaker (client_at e w)) \<Longrightarrow> distinct (map bf_id (rg_buffered (client_at e w))) \<Longrightarrow>
    set bs \<subseteq> set (rg_buffered (client_at e w)) \<Longrightarrow> distinct (map bf_id bs) \<Longrightarrow>
    wp (replay_items e bs s) (\<lambda>_. served_by e (w_clock w) (w_post w + length bs) (delivered (map bf_id bs) (client_at e w))) (\<lambda>_ _. False) w"
proof (induction bs arbitrary: s w)
  case Nil
  then show ?case by (auto simp: wp_return served_by_def alike_def)
next
  case (Cons b bs)
  show ?case unfolding replay_items.simps wp_bind
  proof (rule wp_mono [OF wp_replay_one [OF assms Cons.prems(1,2)]], goal_cases)
    case (2 x w1)
    then obtain s' where x: "x = (s', True)" and n: "w_clock w \<le> w_clock w1" "w_post w1 = Suc (w_post w)"
      and one: "alike (delivered [bf_id b] (client_at e w)) (client_at e w1)"
      and willing: "willing_opt e (w_clock w1) (rg_breaker (client_at e w1))" by (auto simp: served_by_def)
    have left: "rg_buffered (client_at e w1) = filter (\<lambda>x. bf_id x \<noteq> bf_id b) (rg_buffered (client_at e w))"
      using one by (simp add: alike_def delivered_def)
    have "wp (replay_items e bs s') (\<lambda>_. served_by e (w_clock w1) (w_post w1 + length bs) (delivered (map bf_id bs) (client_at e w1))) (\<lambda>_ _. False) w1"
      using Cons.prems by (intro Cons.IH willing) (auto simp: left distinct_map_filter intro: rev_image_eqI)
    then show ?case
      unfolding x by (auto elim!: wp_mono)
        (use n delivered_alike [OF one, of "map bf_id bs"] in \<open>auto simp: served_by_def delivered_append intro: alike_trans\<close>)
  qed (use Cons.prems in auto)
qed

text \<open>Everything queued is due, under its own identifier, from the \<open>n\<close>th reading of the clock on.\<close>

definition all_due :: "env \<Rightarrow> nat \<Rightarrow> buffered_receipt list \<Rightarrow> bool" where
  "all_due e n bs \<longleftrightarrow> distinct (map bf_id bs) \<and> (\<forall>b \<in> set bs. \<forall>m \<ge> n. bf_next_retry_at b \<le> e_clock e m)"

lemma all_due_filter: "all_due e n bs \<Longrightarrow> n \<le> m \<Longrightarrow> all_due e m (filter P bs)"
  by (auto simp: all_due_def distinct_map_filter)

lemma length_filter_ids:
  assumes "distinct (map f xs)" "distinct ids" "set ids \<subseteq> f ` set xs"
  shows "length (filter (\<lambda>x. f x \<notin> set ids) xs) = length xs - length ids"
proof -
  have "length (filter (\<lambda>x. f x \<notin> set ids) xs) = length (filter (\<lambda>i. i \<notin> set ids) (map f xs))"
    by (simp add: filter_map o_def)
  also have "\<dots> = card (set (map f xs) - set ids)"
    using assms(1) by (subst distinct_card [symmetric]) (auto intro!: arg_cong [where f = card])
  also have "\<dots> = length xs - length ids"
    using assms distinct_card [OF assms(1)] distinct_card [OF assms(2)] by (simp add: card_Diff_subset)
  finally show ?thesis .
qed

lemma due_items_all:
  assumes "all_due e n bs" "n \<le> m"
  shows "due_items (e_clock e m) 50 bs = take 50 (sort_key bf_queued_at bs)"
proof -
  have "filter (\<lambda>b. bf_next_retry_at b \<le> e_clock e m) bs = bs"
    using assms by (auto simp: all_due_def filter_id_conv)
  then show ?thesis by (simp add: due_items_def)
qed

definition round_done :: "env \<Rightarrow> world \<Rightarrow> nat \<Rightarrow> world \<Rightarrow> bool" where
  "round_done e w n w' \<longleftrightarrow> (\<exists>ids. length ids = n \<and> distinct ids \<and> set ids \<subseteq> bf_id ` set (outbox e w) \<and>
     served_by e (w_clock w) (w_post w + n) (delivered ids (client_at e w)) w')"

lemma wp_replay_round:
  assumes "truthy_str (receiptgate_endpoint (cfg e))" and "ledger_takes e" and "all_due e (w_clock w) (outbox e w)"
    and "willing_opt e (w_clock w) (rg_breaker (client_at e w))"
  shows "wp (replay_buffered_receipts e 50) (\<lambda>_. round_done e w (min 50 (length (outbox e w)))) (\<lambda>_ _. False) w"
proof -
  define due where "due = take 50 (sort_key bf_queued_at (outbox e w))"
  have ids: "distinct (map bf_id (outbox e w))" using assms(3) by (simp add: all_due_def)
  have "distinct (map bf_id (sort_key bf_queued_at (outbox e w)))"
    using ids by (simp add: distinct_map)
  then have due: "distinct (map bf_id due)" by (simp add: due_def take_map [symmetric])
  have sub: "set due \<subseteq> set (outbox e w)" using set_take_subset [of 50 "sort_key bf_queued_at (outbox e w)"] by (simp add: due_def)
  have len: "length due = min 50 (length (outbox e w))" by (simp add: due_def min.commute)
  define w1 where "w1 = w\<lparr>w_clock := Suc (w_clock w), w_rg := Some (client_at e w)\<rparr>"
  have w1: "client_at e w1 = client_at e w" "w_clock w1 = Suc (w_clock w)" "w_post w1 = w_post w" by (simp_all add: w1_def client_at_def)
  have "wp (replay_items e due s) (\<lambda>_. served_by e (w_clock w1) (w_post w1 + length due) (delivered (map bf_id due) (client_at e w1)))
      (\<lambda>_ _. False) w1" for s
    using ids due sub assms(4) by (intro wp_replay_items [OF assms(2)]) (auto simp: w1 outbox_def intro: willing_opt_mono)
  then have items: "wp (replay_items e due s) (\<lambda>_. round_done e w (min 50 (length (outbox e w)))) (\<lambda>_ _. False) w1" for s
    by (rule wp_mono) (use due sub in \<open>auto simp: round_done_def served_by_def w1 len intro!: imageI subsetD [OF sub]
        exI [of _ "map bf_id due"]\<close>)
  have get: "round_done e w n w' \<Longrightarrow> round_done e w n (w'\<lparr>w_rg := Some (client_at e w')\<rparr>)" for n w'
    by (simp add: round_done_def served_by_def)
  have found: "due_items (e_clock e (w_clock w)) 50 (outbox e w) = due"
    by (simp add: due_def due_items_all [OF assms(3) order_refl])
  show ?thesis
    using assms(1)
    by (auto simp: found replay_buffered_receipts_def wp_simps outbox_def [symmetric] w1_def [symmetric] intro!: wp_mono [OF items] get)
qed

section \<open>The worker's rounds\<close>

text \<open>What else happens between the rounds leaves the client and the ledger alone.\<close>

definition undisturbed :: "env \<Rightarrow> (nat \<Rightarrow> world \<Rightarrow> world) \<Rightarrow> bool" where
  "undisturbed e others \<longleftrightarrow> (\<forall>n w. client_at e (others n w) = client_at e w \<and> w_post (others n w) = w_post w \<and>
     w_clock w \<le> w_clock (others n w))"

definition deliverable :: "env \<Rightarrow> world \<Rightarrow> bool" where
  "deliverable e w \<longleftrightarrow> all_due e (w_clock w) (outbox e w) \<and> willing_opt e (w_clock w) (rg_breaker (client_at e w))"

text \<open>From \<open>w\<close> to \<open>w'\<close> the client has delivered \<open>n\<close> of its receipts, with one request each.\<close>

definition progressed :: "env \<Rightarrow> nat \<Rightarrow> world \<Rightarrow> world \<Rightarrow> bool" where
  "progressed e n w w' \<longleftrightarrow> length (outbox e w') = length (outbox e w) - n \<and> w_post w' = w_post w + n \<and>
     rg_replayed_ok (client_at e w') = rg_replayed_ok (client_at e w) + int n \<and>
     rg_dropped (client_at e w') = rg_dropped (client_at e w) \<and>
     rg_replayed_failed (client_at e w') = rg_replayed_failed (client_at e w)"

lemma replay_round_progress:
  assumes "truthy_str (receiptgate_endpoint (cfg e))" and "ledger_takes e" and "undisturbed e others" and "deliverable e w"
  shows "case replay_round e others n (waits, w) of (waits', w') \<Rightarrow>
     deliverable e w' \<and> progressed e (min 50 (length (outbox e w))) w w'"
proof -
  let ?n = "min 50 (length (outbox e w))"
  obtain s w1 where w1: "replay_buffered_receipts e 50 w = (Inr s, w1)" "round_done e w ?n w1"
    using wp_replay_round [OF assms(1,2), of w] assms(4)
    by (auto simp: deliverable_def wp_def split: prod.splits sum.splits)
  then obtain ids where ids: "length ids = ?n" "distinct ids" "set ids \<subseteq> bf_id ` set (outbox e w)"
    "served_by e (w_clock w) (w_post w + ?n) (delivered ids (client_at e w)) w1"
    by (auto simp: round_done_def)
  have keys: "distinct (map bf_id (outbox e w))" using assms(4) by (simp add: deliverable_def all_due_def)
  have left: "outbox e w1 = filter (\<lambda>b. bf_id b \<notin> set ids) (outbox e w)"
    using ids(4) by (simp add: served_by_def alike_def delivered_def outbox_def)
  have now: "w_clock w \<le> w_clock w1" "w_clock w1 \<le> w_clock (others n w1)"
    using ids(4) assms(3) by (simp_all add: served_by_def undisturbed_def)
  have "client_at e (others n w1) = client_at e w1" using assms(3) by (simp add: undisturbed_def)
  moreover have "all_due e (w_clock (others n w1)) (outbox e w1)"
    unfolding left using assms(4) now by (intro all_due_filter [of e "w_clock w"]) (auto simp: deliverable_def)
  moreover have "willing_opt e (w_clock (others n w1)) (rg_breaker (client_at e w1))"
    using ids(4) now by (auto simp: served_by_def intro: willing_opt_mono)
  ultimately have "deliverable e (others n w1)" by (simp add: deliverable_def outbox_def)
  moreover have "progressed e ?n w (others n w1)"
    using assms(3) ids(1,4) length_filter_ids [OF keys ids(2,3)]
    by (simp add: progressed_def undisturbed_def served_by_def alike_def delivered_def outbox_def)
  ultimately show ?thesis
    by (simp add: replay_round_def try_except_def bind_def return_def w1(1))
qed

lemma progressed_trans:
  assumes "progressed e (min 50 (length (outbox e w))) w w1" and "progressed e (min m (length (outbox e w1))) w1 w2"
  shows "progressed e (min (50 + m) (length (outbox e w))) w w2"
proof -
  have "min (50 + m) l = min 50 l + min m (l - min 50 l)" "l - min 50 l - min m (l - min 50 l) = l - (min 50 l + min m (l - min 50 l))"
    for l :: nat by simp_all
  moreover have "length (outbox e w1) = length (outbox e w) - min 50 (length (outbox e w))"
    using assms(1) by (simp only: progressed_def)
  ultimately show ?thesis using assms by (simp only: progressed_def of_nat_add add.assoc)
qed

lemma replay_rounds_progress:
  assumes "truthy_str (receiptgate_endpoint (cfg e))" and "ledger_takes e" and "undisturbed e others"
  shows "deliverable e w \<Longrightarrow> case fold (replay_round e others) ns (waits, w) of (waits', w') \<Rightarrow>
     progressed e (min (50 * length ns) (length (outbox e w))) w w'"
proof (induction ns arbitrary: waits w)
  case Nil
  then show ?case by (simp add: progressed_def)
next
  case (Cons n ns)
  obtain waits1 w1 where one: "replay_round e others n (waits, w) = (waits1, w1)" by fastforce
  with replay_round_progress [OF assms Cons.prems, of n waits] have "deliverable e w1"
    "progressed e (min 50 (length (outbox e w))) w w1" by auto
  with Cons.IH [of w1 waits1] one show ?case by (auto dest: progressed_trans split: prod.splits)
qed

section \<open>Properties\<close>


text \<open>Two receipts queued while the ledger was down and the breaker opened; now both are back.\<close>

definition back_online :: env where
  "back_online = offline\<lparr>e_post := (\<lambda>n p. Http_ok [])\<rparr>"

definition backlog :: world where
  "backlog = initial_world\<lparr>w_rg := Some
     \<lparr>rg_breaker = Some (new_breaker\<lparr>cb_state := OPEN, cb_opened_at := Some 0\<rparr>),
      rg_buffered = [fresh_item 1 0 [] JNull, fresh_item 2 0 [] JNull], rg_dropped = 0,
      rg_replayed_ok = 0, rg_replayed_failed = 0, rg_last_error = None\<rparr>\<rparr>"


end
