(* ===== verification/GoldenPath.thy ===== *)
theory GoldenPath
  imports WorkerGate
begin

text \<open>
  The demonstration client \<open>src/scripts/golden_path.py\<close>: it asks for the service's health, creates
  a task, leases it, reports progress, completes it, and then checks what the service says of the
  task, its receipts and the open obligations. \<open>srv\<close> is the service as the client sees it,
  \<open>meanwhile\<close> what happens while the script sleeps; the lines it prints are left out.
\<close>

section \<open>The client\<close>

definition env_or :: "(string \<Rightarrow> string option) \<Rightarrow> string \<Rightarrow> string option \<Rightarrow> string option" where
  "env_or environ name default_value = (case environ name of
     None \<Rightarrow> default_value | Some v \<Rightarrow> if v = [] then default_value else Some v)"

record http_client =
  hc_base_url :: string
  hc_headers :: "(string \<times> string) list"

definition new_http_client :: "string \<Rightarrow> string option \<Rightarrow> http_client" where
  "new_http_client base_url key =
     \<lparr>hc_base_url = rev (dropWhile (\<lambda>c. c = CHR ''/'') (rev base_url)),
      hc_headers = (''Content-Type'', ''application/json'') #
        (if truthy_str key then [(''Authorization'', ''Bearer '' @ the key)] else [])\<rparr>"

type_synonym 'w service = "(string \<times> string) list \<Rightarrow> dict \<Rightarrow> 'w \<Rightarrow> http_reply \<times> 'w"

text \<open>A request to \<open>/mcp\<close>; an \<open>HTTPError\<close> becomes a \<open>RuntimeError\<close>.\<close>

definition request_json :: "'w service \<Rightarrow> http_client \<Rightarrow> dict \<Rightarrow> ('w, exn, dict) proc" where
  "request_json srv c payload = (\<lambda>w. case srv (hc_headers c) payload w of
     (Http_ok d, w') \<Rightarrow> (Inr d, w') | (Http_exn m, w') \<Rightarrow> (Inl (RuntimeError (''POST '' @ hc_base_url c @ ''/mcp failed: '' @ m)), w'))"

definition call_payload :: "int \<Rightarrow> string \<Rightarrow> dict \<Rightarrow> dict" where
  "call_payload i name arguments = [(''jsonrpc'', JStr ''2.0''), (''id'', JInt i), (''method'', JStr ''tools/call''),
     (''params'', JDict [(''name'', JStr name), (''arguments'', JDict arguments)])]"

text \<open>A key \<open>error\<close>, whatever its value, is an error.\<close>

definition script_call :: "'w service \<Rightarrow> http_client \<Rightarrow> int \<Rightarrow> string \<Rightarrow> dict \<Rightarrow> ('w, exn, json) proc" where
  "script_call srv c i name arguments =
     bind (request_json srv c (call_payload i name arguments)) (\<lambda>response.
     if has_key response ''error'' then raise (RuntimeError ''MCP error'')
     else return (get_or response ''result'' (JDict [])))"

text \<open>\<open>x.get(k, d)\<close> of a value.\<close>

definition field :: "json \<Rightarrow> string \<Rightarrow> json \<Rightarrow> exn + json" where
  "field j k d = (case j of JDict x \<Rightarrow> Inr (get_or x k d) | _ \<Rightarrow> Inl (AttributeError ''get''))"

primrec each_field :: "json list \<Rightarrow> string \<Rightarrow> exn + json list" where
  "each_field [] k = Inr []"
| "each_field (j # js) k = (case field j k JNull of Inl x \<Rightarrow> Inl x
     | Inr v \<Rightarrow> (case each_field js k of Inl x \<Rightarrow> Inl x | Inr vs \<Rightarrow> Inr (v # vs)))"

section \<open>The script\<close>

record golden_config =
  gc_principal :: string
  gc_worker :: string
  gc_task_type :: string
  gc_tenant :: string

definition golden_config_of :: "(string \<Rightarrow> string option) \<Rightarrow> golden_config" where
  "golden_config_of environ =
     \<lparr>gc_principal = the (env_or environ ''ASYNCGATE_PRINCIPAL_ID'' (Some ''principal-demo'')),
      gc_worker = the (env_or environ ''ASYNCGATE_WORKER_ID'' (Some ''demo-worker-1'')),
      gc_task_type = the (env_or environ ''ASYNCGATE_TASK_TYPE'' (Some ''demo.task'')),
      gc_tenant = the (env_or environ ''ASYNCGATE_TENANT_ID'' (Some ''00000000-0000-0000-0000-000000000000''))\<rparr>"

definition golden_client :: "(string \<Rightarrow> string option) \<Rightarrow> http_client" where
  "golden_client environ = new_http_client (the (env_or environ ''ASYNCGATE_URL'' (Some ''http://localhost:8080'')))
     (env_or environ ''ASYNCGATE_API_KEY'' None)"

text \<open>Health and creation; \<open>repr\<close> is \<open>str\<close> of a value that is not a text.\<close>

definition golden_create_arguments :: "golden_config \<Rightarrow> dict" where
  "golden_create_arguments g =
     [(''type'', JStr (gc_task_type g)),
      (''payload'', JDict [(''task_summary'', JStr ''Golden path demo task''),
         (''message'', JStr ''Generate a demo artifact.''), (''task_type'', JStr (gc_task_type g))]),
      (''principal_ai'', JStr (gc_principal g)), (''expected_outcome_kind'', JStr ''artifact_pointer''),
      (''expected_artifact_mime'', JStr ''text/plain''), (''agent_id'', JStr (gc_principal g)),
      (''tenant_id'', JStr (gc_tenant g))]"

definition str_of_json :: "(json \<Rightarrow> string) \<Rightarrow> json \<Rightarrow> string" where
  "str_of_json repr j = (case j of JStr s \<Rightarrow> s | _ \<Rightarrow> repr j)"

definition golden_submit :: "'w service \<Rightarrow> (json \<Rightarrow> string) \<Rightarrow> http_client \<Rightarrow> golden_config \<Rightarrow> ('w, exn, string) proc" where
  "golden_submit srv repr c g =
     bind (script_call srv c 1 ''asyncgate.health'' []) (\<lambda>health.
     bind (lift_sum (field health ''status'' JNull)) (\<lambda>status.
     seq (ensure (status = JStr ''healthy'') (RuntimeError ''Unexpected health response''))
     (bind (script_call srv c 2 ''asyncgate.create_task'' (golden_create_arguments g)) (\<lambda>create_resp.
      bind (lift_sum (field create_resp ''task_id'' JNull)) (\<lambda>tid.
      seq (ensure (str_of_json repr tid \<noteq> []) (RuntimeError ''Missing task_id in response''))
        (return (str_of_json repr tid)))))))"

text \<open>\<open>tasks[0]\<close> of a value that is true.\<close>

definition head_of :: "json \<Rightarrow> exn + json" where
  "head_of j = (case j of JList (x # _) \<Rightarrow> Inr x | JStr (ch # _) \<Rightarrow> Inr (JStr [ch]) | JDict _ \<Rightarrow> Inl (KeyError ''0'')
     | _ \<Rightarrow> Inl (PyTypeError ''not subscriptable''))"

definition artifact_of :: "string \<Rightarrow> dict" where
  "artifact_of task_id = [(''type'', JStr ''demo''), (''uri'', JStr (''memory://artifact/'' @ task_id)),
     (''mime'', JStr ''text/plain''), (''bytes'', JInt (int (length task_id)))]"

definition holder_arguments :: "golden_config \<Rightarrow> string \<Rightarrow> string \<Rightarrow> dict" where
  "holder_arguments g task_id lease_id =
     [(''worker_id'', JStr (gc_worker g)), (''task_id'', JStr task_id), (''lease_id'', JStr lease_id)]"

definition golden_work :: "'w service \<Rightarrow> (json \<Rightarrow> string) \<Rightarrow> http_client \<Rightarrow> golden_config \<Rightarrow> string \<Rightarrow> ('w, exn, unit) proc" where
  "golden_work srv repr c g task_id =
     bind (script_call srv c 3 ''asyncgate.lease_next''
        [(''worker_id'', JStr (gc_worker g)), (''capabilities'', JList [JStr ''demo'']),
         (''accept_types'', JList [JStr (gc_task_type g)]), (''max_tasks'', JInt 1), (''tenant_id'', JStr (gc_tenant g))]) (\<lambda>lease_resp.
     bind (lift_sum (field lease_resp ''tasks'' (JList []))) (\<lambda>tasks.
     seq (ensure (truthy tasks) (RuntimeError ''No tasks claimed; ensure AsyncGate is running and task is queued.''))
     (bind (lift_sum (head_of tasks)) (\<lambda>lease.
      bind (lift_sum (field lease ''lease_id'' JNull)) (\<lambda>lid.
      (let lease_id = str_of_json repr lid in
       bind (script_call srv c 4 ''asyncgate.report_progress''
          (holder_arguments g task_id lease_id @
           [(''progress'', JDict [(''state'', JStr ''running'')]), (''tenant_id'', JStr (gc_tenant g))])) (\<lambda>_.
       bind (script_call srv c 5 ''asyncgate.complete''
          (holder_arguments g task_id lease_id @
           [(''result'', JDict [(''summary'', JStr ''Golden path success''),
               (''artifact_uri'', dict_get (artifact_of task_id) ''uri'')]),
            (''artifacts'', JList [JDict (artifact_of task_id)]), (''tenant_id'', JStr (gc_tenant g))])) (\<lambda>_.
       return ()))))))))"

text \<open>The three checks.\<close>

definition golden_check :: "'w service \<Rightarrow> http_client \<Rightarrow> golden_config \<Rightarrow> string \<Rightarrow> ('w, exn, int) proc" where
  "golden_check srv c g task_id =
     bind (script_call srv c 6 ''asyncgate.get_task'' [(''task_id'', JStr task_id), (''tenant_id'', JStr (gc_tenant g))]) (\<lambda>task.
     bind (lift_sum (field task ''status'' JNull)) (\<lambda>status.
     seq (ensure (status = JStr ''succeeded'') (RuntimeError ''Task not succeeded yet''))
     (bind (script_call srv c 7 ''asyncgate.list_receipts''
        [(''to_kind'', JStr ''agent''), (''to_id'', JStr (gc_principal g)), (''limit'', JInt 200), (''tenant_id'', JStr (gc_tenant g))]) (\<lambda>listed.
     bind (lift_sum (field listed ''receipts'' (JList []))) (\<lambda>rs.
     bind (lift_sum (py_list rs)) (\<lambda>receipts.
     bind (lift_sum (each_field receipts ''receipt_type'')) (\<lambda>receipt_types.
     seq (ensure (JStr ''task.assigned'' \<in> set receipt_types \<and> JStr ''task.completed'' \<in> set receipt_types)
            (RuntimeError ''Missing expected receipts''))
     (bind (script_call srv c 8 ''asyncgate.bootstrap''
        [(''agent_id'', JStr (gc_principal g)), (''tenant_id'', JStr (gc_tenant g)), (''max_items'', JInt 50)]) (\<lambda>boot.
     bind (lift_sum (field boot ''open_obligations'' (JList []))) (\<lambda>os.
     bind (lift_sum (py_list os)) (\<lambda>open_obligations.
     bind (lift_sum (each_field open_obligations ''task_id'')) (\<lambda>open_task_ids.
     seq (ensure (JStr task_id \<notin> set open_task_ids) (RuntimeError ''Obligation still open after completion''))
       (return 0)))))))))))))"

definition golden_main ::
    "'w service \<Rightarrow> (json \<Rightarrow> string) \<Rightarrow> ('w \<Rightarrow> 'w) \<Rightarrow> (string \<Rightarrow> string option) \<Rightarrow> ('w, exn, int) proc" where
  "golden_main srv repr meanwhile environ =
     (let c = golden_client environ; g = golden_config_of environ in
      bind (golden_submit srv repr c g) (\<lambda>task_id.
      seq (golden_work srv repr c g task_id)
     (seq (modify meanwhile) (golden_check srv c g task_id))))"

end
