(* ===== verification/GoldenRun.thy ===== *)
theory GoldenRun
  imports GoldenPath Obligations
begin

text \<open>
  The demonstration client against the service: a run of the script is a run of the service, and
  on an empty service in insecure development, with the defaults of its environment variables,
  it succeeds. The states between its requests are given explicitly and computed by rewriting.
\<close>

section \<open>A run of the script is a run of the service\<close>

lemma keeps_script_call:
  "keeps reachable (script_call (gate_post e shown) c i name args)"
proof -
  have "keeps reachable (request_json (gate_post e shown) c p)" for p
    by (auto simp: keeps_def request_json_def split: prod.split http_reply.split dest: gate_serves [where e = e and shown = shown])
      (metis gate_serves snd_conv)+
  then show ?thesis by (auto simp: script_call_def intro!: keeps_intros)
qed

lemma golden_reachable:
  assumes "reachable w" and "\<And>w. reachable w \<Longrightarrow> reachable (meanwhile w)"
  shows "reachable (snd (golden_main (gate_post e shown) repr meanwhile environ w))"
proof -
  have "keeps reachable (modify meanwhile)" using assms(2) by (simp add: keeps_wp wp_simps)
  then have "keeps reachable (golden_main (gate_post e shown) repr meanwhile environ)"
    by (auto simp: golden_main_def golden_submit_def golden_work_def golden_check_def Let_def intro!: keeps_intros keeps_script_call)
  then show ?thesis using assms(1) by (rule keepsD)
qed

section \<open>The service it talks to\<close>

text \<open>
  A digest that tells the receipts of the run apart: the text that is hashed for each of them
  has a value of its own, every other text (the bodies) has the same.
\<close>

definition digest_table :: "(receipt_type \<times> principal \<times> uuid option \<times> uuid list option \<times> string) list" where
  "digest_table =
     (let server = service_principal; worker = mk_principal WORKER ''demo-worker-1'' in
      [(TASK_ASSIGNED, server, None, None, ''a''), (TASK_ACCEPTED, worker, Some 3, Some [2], ''b''),
       (TASK_STARTED, worker, Some 3, Some [2], ''c''), (TASK_PROGRESS, worker, Some 3, Some [2], ''d''),
       (TASK_COMPLETED, worker, Some 3, Some [2], ''e''), (TASK_RESULT_READY, server, None, Some [2], ''f'')])"

definition digested :: "receipt_type \<Rightarrow> principal \<Rightarrow> uuid option \<Rightarrow> uuid list option \<Rightarrow> string" where
  "digested ty sender lease ps = dumps_canonical (JDict (hash_input (demo ''body'') ty (Some 0) sender
     (mk_principal AGENT ''principal-demo'') lease (Some [([], JNull)]) ps))"

definition golden_digest :: "string \<Rightarrow> string" where
  "golden_digest s = (case find (\<lambda>(ty, sender, lease, ps, h). digested ty sender lease ps = s) digest_table of
     None \<Rightarrow> ''body'' | Some (_, _, _, _, h) \<Rightarrow> h)"

definition golden_env :: env where
  "golden_env = (demo [])\<lparr>e_sha256 := golden_digest\<rparr>"

lemma golden_env_sel [simp]:
  "e_settings golden_env = demo_settings" "e_clock golden_env n = 63000000000000000 + int n * second"
  "e_jitter golden_env n = 0" "e_perf golden_env n = of_nat n" "e_sha256 golden_env = golden_digest"
  by (simp_all add: golden_env_def)

lemma hash_input_demo_keys: "dict_get (hash_input e ty task sender to lease body ps) ''receipt_type'' = JStr (receipt_type_value ty)"
  by (simp add: hash_input_def dict_get_def)

lemma digested_type:
  assumes "digested ty sender lease ps = dumps_canonical (JDict d)" "distinct (map fst d)"
  shows "dict_get d ''receipt_type'' = JStr (receipt_type_value ty)"
proof -
  have "sort_keys (dict_get d ''receipt_type'') = JStr (receipt_type_value ty)"
    using sorted_dict_get [OF assms(1) [unfolded digested_def canonical_inject, symmetric] assms(2) hash_input_keys,
        of "''receipt_type''"] by (simp add: hash_input_demo_keys)
  then show ?thesis by (cases "dict_get d ''receipt_type''") auto
qed

lemma golden_body:
  assumes "distinct (map fst d)" "dict_get d ''receipt_type'' = JNull"
  shows "golden_digest (dumps_canonical (JDict d)) = ''body''"
  using digested_type [OF _ assms(1)] assms(2)
  by (auto simp: golden_digest_def digest_table_def Let_def)

lemma golden_hash_text:
  assumes "distinct (map fst (b # body))" "dict_get (b # body) ''receipt_type'' = JNull"
  shows "compute_receipt_hash golden_env ty (Some 0) sender (mk_principal AGENT ''principal-demo'') lease (Some (b # body)) ps =
     golden_digest (digested ty sender lease ps)"
proof -
  have "body_digest golden_env (Some (b # body)) = JStr ''body''"
    using golden_body [OF assms] by (simp add: body_digest_def truthy_list_def dict_of_def)
  moreover have "body_digest (demo ''body'') (Some [([], JNull)]) = JStr ''body''"
    by (simp add: body_digest_def truthy_list_def)
  ultimately show ?thesis by (simp add: compute_receipt_hash_def digested_def hash_input_def)
qed

lemma digested_differ: "digested ty sender lease ps = digested ty' sender' lease' ps' \<Longrightarrow> ty = ty'"
  using digested_type [of ty sender lease ps "hash_input (demo ''body'') ty' (Some 0) sender'
     (mk_principal AGENT ''principal-demo'') lease' (Some [([], JNull)]) ps'"]
  by (simp add: digested_def [of ty'] hash_input_keys hash_input_demo_keys)

lemma golden_hashes:
  assumes "(ty, sender, lease, ps, h) \<in> set digest_table"
  shows "golden_digest (digested ty sender lease ps) = h"
  using assms by (auto simp: golden_digest_def digest_table_def Let_def dest: digested_differ split: if_splits)

section \<open>The requests\<close>

lemma golden_hash_values:
  fixes b :: "string \<times> json" and body :: dict
  assumes "distinct (map fst (b # body))" "dict_get (b # body) ''receipt_type'' = JNull"
  defines "to \<equiv> \<lparr>p_kind = AGENT, p_id = ''principal-demo'', p_instance = None\<rparr>"
    and "server \<equiv> \<lparr>p_kind = SERVICE, p_id = ''svc:asyncgate'', p_instance = None\<rparr>"
    and "worker \<equiv> \<lparr>p_kind = WORKER, p_id = ''demo-worker-1'', p_instance = None\<rparr>"
  shows "compute_receipt_hash golden_env TASK_ASSIGNED (Some 0) server to None (Some (b # body)) None = ''a''"
    "compute_receipt_hash golden_env TASK_ACCEPTED (Some 0) worker to (Some 3) (Some (b # body)) (Some [2]) = ''b''"
    "compute_receipt_hash golden_env TASK_STARTED (Some 0) worker to (Some 3) (Some (b # body)) (Some [2]) = ''c''"
    "compute_receipt_hash golden_env TASK_PROGRESS (Some 0) worker to (Some 3) (Some (b # body)) (Some [2]) = ''d''"
    "compute_receipt_hash golden_env TASK_COMPLETED (Some 0) worker to (Some 3) (Some (b # body)) (Some [2]) = ''e''"
    "compute_receipt_hash golden_env TASK_RESULT_READY (Some 0) server to None (Some (b # body)) (Some [2]) = ''f''"
  using golden_hash_text [OF assms(1,2)] golden_hashes
  by (auto simp: to_def server_def worker_def digest_table_def Let_def mk_principal_def service_principal_def
      SERVICE_PRINCIPAL_ID_def)

abbreviation golden_gate where "golden_gate \<equiv> gate_post golden_env (\<lambda>_. [])"

definition golden_g :: golden_config where
  "golden_g = golden_config_of (\<lambda>_. None)"

definition golden_c :: http_client where
  "golden_c = golden_client (\<lambda>_. None)"

lemma golden_g_sel [simp]: "gc_principal golden_g = ''principal-demo''" "gc_worker golden_g = ''demo-worker-1''"
  "gc_task_type golden_g = ''demo.task''" "gc_tenant golden_g = ''00000000-0000-0000-0000-000000000000''"
  by (simp_all add: golden_g_def golden_config_of_def env_or_def)

lemma golden_c_sel [simp]: "hc_headers golden_c = [(''Content-Type'', ''application/json'')]"
  by (simp add: golden_c_def golden_client_def new_http_client_def env_or_def truthy_str_def)

lemmas golden_calls = script_call_def [THEN fun_cong] request_json_def [THEN fun_cong] gate_post_def request_of_def call_payload_def get_or_def
  rpc_body_def field_def


lemmas golden_values = golden_submit_def [THEN fun_cong] golden_work_def [THEN fun_cong] golden_check_def [THEN fun_cong]
  holder_arguments_def artifact_of_def head_of_def py_list_def golden_calls golden_create_arguments_def str_of_json_def
  uuid_json_def string_list_def offer_json_def time_json_def task_to_dict_def receipt_to_dict_def receipts_json_def
  body_task_started_def list_limit_def get_obligation_types_eq addressed_to_def after_def candidate_limit_def is_candidate_def
  relationship_fits_def relationship_unique_def rel_key_def rel_at_def pr_key_def progress_unique_def relationship_json_def
  terminated_ids_def principal_json_def result_json_def time_opt_def principal_kind_of_def page_def numeral_2_eq_2 [symmetric] golden_hash_values

lemma small_texts [simp]: "length (int_str 36) = 2" "max_list_limit demo_settings = 200" "default_bootstrap_max_items demo_settings = 50"
  by (code_simp, simp_all add: demo_settings_def default_settings_def)

definition golden_owner :: principal where "golden_owner = mk_principal AGENT ''principal-demo''"

definition golden_worker :: principal where "golden_worker = mk_principal WORKER ''demo-worker-1''"

definition golden_task :: task where
  "golden_task = new_task demo_settings 0 0 demo_start ''demo.task''
     [(''task_summary'', JStr ''Golden path demo task''), (''message'', JStr ''Generate a demo artifact.''),
      (''task_type'', JStr ''demo.task'')] golden_owner (Some ''principal-demo'') None None (Some ''artifact_pointer'')
     (Some ''text/plain'') 0 None None None None"

definition golden_assigned :: receipt where
  "golden_assigned = new_receipt demo_settings 0 2 TASK_ASSIGNED 63000000001000000 service_principal golden_owner (Some 0) None None []
     (body_task_assigned ''Execute task type: demo.task'' (Some (dump_requirements \<lparr>capabilities = [], tags = []\<rparr>)) @
        [(''trace_id'', JStr (uuid_str 1))]) (Some ''a'')"

definition golden_submitted :: world where
  "golden_submitted = (let d = empty_db\<lparr>db_tasks := [golden_task], db_receipts := [golden_assigned]\<rparr> in
     initial_world\<lparr>w_db := d, w_committed := d, w_clock := 2, w_perf := 2,
     w_uuid := 3, w_trace := Some (uuid_str 1), w_metrics := emitted empty_metrics\<rparr>)"

lemma golden_submits: "golden_submit golden_gate (\<lambda>_. []) golden_c golden_g initial_world = (Inr (uuid_str 0), golden_submitted)"
  by (simp add: golden_values initial_world_def served golden_submitted_def golden_task_def golden_assigned_def golden_owner_def emitted_def
    del: compute_receipt_hash_def cong: weak)

text \<open>The ledger, receipt by receipt.\<close>

definition golden_row :: "uuid \<Rightarrow> receipt_type \<Rightarrow> datetime \<Rightarrow> principal \<Rightarrow> uuid option \<Rightarrow> dict \<Rightarrow> uuid \<Rightarrow> string \<Rightarrow> receipt" where
  "golden_row rid ty t sender lease body trace h = new_receipt demo_settings 0 rid ty t sender golden_owner (Some 0) lease None [2]
     (body @ [(''trace_id'', JStr (uuid_str trace))]) (Some h)"

definition golden_accepted :: receipt where
  "golden_accepted = golden_row 5 TASK_ACCEPTED 63000000003000000 golden_worker (Some 3) (body_task_accepted [''demo'']) 4 ''b''"

definition golden_lease :: lease where
  "golden_lease = \<lparr>l_id = 3, l_tenant = 0, l_task = 0, l_worker = ''demo-worker-1'', l_expires_at = 63000000122000000,
     l_created_at = 63000000002000000, l_acquired_at = 63000000002000000, l_renewal_count = 0\<rparr>"

definition golden_leased :: world where
  "golden_leased = (let d = empty_db\<lparr>db_tasks := [golden_task\<lparr>t_status := LEASED, t_updated_at := 63000000002000000\<rparr>],
       db_leases := [golden_lease], db_receipts := [golden_assigned, golden_accepted]\<rparr> in
     initial_world\<lparr>w_db := d, w_committed := d, w_clock := 4, w_perf := 4, w_uuid := 6, w_trace := Some (uuid_str 4),
       w_metrics := emitted (emitted empty_metrics)\<rparr>)"

definition golden_offer :: dict where
  "golden_offer = (case offer_json 0 \<lparr>o_task = golden_task\<lparr>t_status := LEASED, t_updated_at := 63000000002000000\<rparr>, o_lease = 3, o_caused_by = uuid_str 2, o_expires_at = 63000000122000000\<rparr>
     of JDict d \<Rightarrow> d | _ \<Rightarrow> [])"

lemma golden_leases: "script_call golden_gate golden_c 3 ''asyncgate.lease_next''
   [(''worker_id'', JStr (gc_worker golden_g)), (''capabilities'', JList [JStr ''demo'']),
    (''accept_types'', JList [JStr (gc_task_type golden_g)]), (''max_tasks'', JInt 1), (''tenant_id'', JStr (gc_tenant golden_g))]
   golden_submitted = (Inr (JDict [(''tasks'', JList [JDict golden_offer])]), golden_leased)"
  by (simp add: golden_values initial_world_def served golden_submitted_def golden_leased_def golden_offer_def golden_lease_def
     golden_accepted_def golden_row_def golden_worker_def golden_task_def golden_assigned_def golden_owner_def emitted_def
    del: compute_receipt_hash_def cong: weak)

definition golden_progress :: progress where
  "golden_progress = \<lparr>pr_tenant = 0, pr_task = 0, pr_progress = [(''state'', JStr ''running'')], pr_updated_at = 63000000008000000\<rparr>"

definition golden_running_task :: task where
  "golden_running_task = golden_task\<lparr>t_status := RUNNING, t_updated_at := 63000000006000000, t_started_at := Some 63000000005000000\<rparr>"

definition golden_started :: receipt where
  "golden_started = golden_row 7 TASK_STARTED 63000000007000000 golden_worker (Some 3) (body_task_started (Some 63000000005000000)) 6 ''c''"

definition golden_progressed :: receipt where
  "golden_progressed = golden_row 8 TASK_PROGRESS 63000000009000000 golden_worker (Some 3)
     [(''progress'', JDict [(''state'', JStr ''running'')])] 6 ''d''"

definition golden_running :: world where
  "golden_running = (let d = empty_db\<lparr>db_progress := [golden_progress], db_tasks := [golden_running_task],
       db_leases := [golden_lease], db_receipts := [golden_assigned, golden_accepted, golden_started, golden_progressed]\<rparr> in
     initial_world\<lparr>w_db := d, w_committed := d, w_clock := 10, w_perf := 8, w_uuid := 9, w_trace := Some (uuid_str 6),
       w_metrics := emitted (emitted (emitted (emitted empty_metrics)))\<rparr>)"

lemmas golden_ledger = golden_lease_def golden_accepted_def golden_row_def golden_worker_def golden_task_def golden_assigned_def
  golden_owner_def emitted_def golden_progress_def golden_running_task_def golden_started_def golden_progressed_def

lemma golden_progresses: "script_call golden_gate golden_c 4 ''asyncgate.report_progress''
   (holder_arguments golden_g (uuid_str 0) (uuid_str 3) @ [(''progress'', JDict [(''state'', JStr ''running'')]), (''tenant_id'', JStr (gc_tenant golden_g))])
   golden_leased = (Inr (ok_json []), golden_running)"
  by (simp add: golden_values initial_world_def served golden_leased_def golden_running_def golden_ledger
    del: compute_receipt_hash_def cong: weak)

definition golden_result :: dict where
  "golden_result = [(''summary'', JStr ''Golden path success''), (''artifact_uri'', JStr (''memory://artifact/'' @ uuid_str 0))]"

definition golden_done_task :: task where
  "golden_done_task = golden_running_task\<lparr>t_status := SUCCEEDED, t_updated_at := 63000000013000000,
     t_result := Some \<lparr>tr_outcome = O_SUCCEEDED, tr_result = Some golden_result, tr_error = None,
        tr_artifacts = Some (JList [JDict (artifact_of (uuid_str 0))]), tr_completed_at = 63000000012000000\<rparr>\<rparr>"

definition golden_completed :: receipt where
  "golden_completed = golden_row 10 TASK_COMPLETED 63000000014000000 golden_worker (Some 3)
     (body_task_completed ''Task completed successfully'' (Some golden_result) (Some (JList [JDict (artifact_of (uuid_str 0))]))) 9 ''e''"

definition golden_ready :: receipt where
  "golden_ready = golden_row 11 TASK_RESULT_READY 63000000015000000 service_principal None
     (body_task_result_ready ''succeeded'' (Some golden_result) None (Some (JList [JDict (artifact_of (uuid_str 0))]))) 9 ''f''"

definition golden_worked :: world where
  "golden_worked = (let d = empty_db\<lparr>db_progress := [golden_progress], db_tasks := [golden_done_task],
       db_receipts := [golden_assigned, golden_accepted, golden_started, golden_progressed, golden_completed, golden_ready]\<rparr> in
     initial_world\<lparr>w_db := d, w_committed := d, w_clock := 16, w_perf := 12, w_uuid := 12, w_trace := Some (uuid_str 9),
       w_metrics := emitted (emitted (emitted (emitted (emitted (emitted empty_metrics)))))\<rparr>)"

lemma golden_completes: "script_call golden_gate golden_c 5 ''asyncgate.complete''
   (holder_arguments golden_g (uuid_str 0) (uuid_str 3) @
    [(''result'', JDict [(''summary'', JStr ''Golden path success''), (''artifact_uri'', dict_get (artifact_of (uuid_str 0)) ''uri'')]),
     (''artifacts'', JList [JDict (artifact_of (uuid_str 0))]), (''tenant_id'', JStr (gc_tenant golden_g))])
   golden_running = (Inr (ok_json []), golden_worked)"
  by (simp add: golden_values initial_world_def served golden_running_def golden_worked_def golden_ledger golden_result_def
      golden_done_task_def golden_completed_def golden_ready_def ok_json_def
    del: compute_receipt_hash_def cong: weak)

lemma offered_lease: "field (JDict [(''tasks'', JList [JDict golden_offer])]) ''tasks'' (JList []) = Inr (JList [JDict golden_offer])"
  "field (JDict golden_offer) ''lease_id'' JNull = Inr (JStr (uuid_str 3))"
  by (simp_all add: field_def get_or_def has_key_def dict_get_def golden_offer_def offer_json_def uuid_json_def Let_def)

lemma golden_works: "golden_work golden_gate (\<lambda>_. []) golden_c golden_g (uuid_str 0) golden_submitted = (Inr (), golden_worked)"
  by (simp add: golden_work_def bind_def seq_def lift_sum_def ensure_def return_def golden_leases golden_progresses golden_completes
     offered_lease truthy_def head_of_def Let_def str_of_json_def del: golden_g_sel)

lemma golden_receipts_sel [simp]:
  "r_type golden_assigned = TASK_ASSIGNED" "r_type golden_accepted = TASK_ACCEPTED" "r_type golden_started = TASK_STARTED"
  "r_type golden_progressed = TASK_PROGRESS" "r_type golden_completed = TASK_COMPLETED" "r_type golden_ready = TASK_RESULT_READY"
  "r_created_at golden_assigned = 63000000001000000" "r_created_at golden_accepted = 63000000003000000"
  "r_created_at golden_started = 63000000007000000" "r_created_at golden_progressed = 63000000009000000"
  "r_created_at golden_completed = 63000000014000000" "r_created_at golden_ready = 63000000015000000"
  "r_parents golden_assigned = []" "r_parents golden_accepted = [2]" "r_parents golden_started = [2]"
  "r_parents golden_progressed = [2]" "r_parents golden_completed = [2]" "r_parents golden_ready = [2]"
  "r_id golden_assigned = 2"
  by (simp_all add: golden_ledger golden_completed_def golden_ready_def new_receipt_def)

lemma golden_receipts_common [simp]:
  "r_tenant golden_assigned = 0" "r_to golden_assigned = golden_owner" "r_task golden_assigned = Some 0"
  "r_tenant golden_accepted = 0" "r_to golden_accepted = golden_owner" "r_task golden_accepted = Some 0"
  "r_tenant golden_started = 0" "r_to golden_started = golden_owner" "r_task golden_started = Some 0"
  "r_tenant golden_progressed = 0" "r_to golden_progressed = golden_owner" "r_task golden_progressed = Some 0"
  "r_tenant golden_completed = 0" "r_to golden_completed = golden_owner" "r_task golden_completed = Some 0"
  "r_tenant golden_ready = 0" "r_to golden_ready = golden_owner" "r_task golden_ready = Some 0"
  by (simp_all add: golden_ledger golden_completed_def golden_ready_def new_receipt_def)

lemma golden_done_sel [simp]: "t_tenant golden_done_task = 0" "t_id golden_done_task = 0" "t_status golden_done_task = SUCCEEDED"
  by (simp_all add: golden_ledger golden_done_task_def new_task_def)

lemma golden_progress_sel [simp]: "pr_tenant golden_progress = 0" "pr_task golden_progress = 0"
  by (simp_all add: golden_progress_def)

lemma golden_owner_sel [simp]: "p_kind golden_owner = AGENT" "p_id golden_owner = ''principal-demo''"
  by (simp_all add: golden_owner_def)

lemma task_to_dict_fields: "map_of (task_to_dict t) ''progress'' = None" "map_of (task_to_dict t) ''status'' = Some (JStr (status_value (t_status t)))"
  by (simp_all add: task_to_dict_def map_add_def split: option.split)

definition golden_read :: world where "golden_read = golden_worked\<lparr>w_trace := None\<rparr>"

lemma golden_gets: "script_call golden_gate golden_c 6 ''asyncgate.get_task'' [(''task_id'', JStr (uuid_str 0)), (''tenant_id'', JStr (gc_tenant golden_g))]
   golden_worked = (Inr (JDict (task_to_dict golden_done_task @ [(''progress'', JDict (pr_progress golden_progress))])), golden_read)"
  by (simp add: golden_calls initial_world_def served golden_worked_def golden_read_def task_to_dict_fields
    del: compute_receipt_hash_def cong: weak)

lemma golden_lists: "script_call golden_gate golden_c 7 ''asyncgate.list_receipts''
   [(''to_kind'', JStr ''agent''), (''to_id'', JStr (gc_principal golden_g)), (''limit'', JInt 200), (''tenant_id'', JStr (gc_tenant golden_g))]
   golden_read = (Inr (JDict [(''receipts'', receipts_json [golden_assigned, golden_accepted, golden_started, golden_progressed, golden_completed, golden_ready]),
      (''next_cursor'', JNull)]), golden_read)"
  by (simp add: golden_calls initial_world_def served golden_worked_def golden_read_def list_limit_def addressed_to_def after_def page_def
     principal_kind_of_def uuid_opt_def del: compute_receipt_hash_def cong: weak)

definition golden_relationship :: relationship where
  "golden_relationship = \<lparr>rel_tenant = 0, rel_kind = AGENT, rel_id = ''principal-demo'', rel_instance = None,
     rel_first_seen_at = 63000000016000000, rel_last_seen_at = 63000000016000000, rel_sessions = 1\<rparr>"

definition golden_final :: world where
  "golden_final = (let d = (w_db golden_worked)\<lparr>db_relationships := [golden_relationship]\<rparr> in
     golden_read\<lparr>w_db := d, w_committed := d, w_clock := 17\<rparr>)"

lemma golden_boots: "\<exists>server rel. script_call golden_gate golden_c 8 ''asyncgate.bootstrap''
   [(''agent_id'', JStr (gc_principal golden_g)), (''tenant_id'', JStr (gc_tenant golden_g)), (''max_items'', JInt 50)]
   golden_read = (Inr (JDict [(''server'', server), (''relationship'', rel), (''open_obligations'', receipts_json []), (''cursor'', JNull)]), golden_final)"
  by (simp add: golden_calls initial_world_def served golden_worked_def golden_read_def golden_final_def golden_relationship_def
     is_candidate_def addressed_to_def after_def get_obligation_types_eq candidate_limit_def terminated_ids_def
     TERMINAL_RECEIPT_TYPES_def TERMINATION_RULES_def relationship_fits_def relationship_unique_def rel_key_def rel_at_def uuid_opt_def
     del: compute_receipt_hash_def cong: weak)

lemma checked_fields:
  "field (JDict (task_to_dict golden_done_task @ [(''progress'', p)])) ''status'' JNull = Inr (JStr ''succeeded'')"
  "field (JDict [(''receipts'', rs), (''next_cursor'', nxt)]) ''receipts'' d = Inr rs"
  "field (JDict [(''server'', s), (''relationship'', r), (''open_obligations'', os), (''cursor'', cur)]) ''open_obligations'' d = Inr os"
  by (simp_all add: field_def get_or_def has_key_def dict_get_def map_add_def task_to_dict_fields split: option.split)

lemma listed_types: "each_field (map (\<lambda>r. JDict (receipt_to_dict r)) rs) ''receipt_type'' = Inr (map (\<lambda>r. JStr (receipt_type_value (r_type r))) rs)"
  by (induction rs) (simp_all add: field_def get_or_def has_key_def dict_get_def receipt_to_dict_def)

lemma golden_checks: "golden_check golden_gate golden_c golden_g (uuid_str 0) golden_worked = (Inr 0, golden_final)"
proof -
  obtain server rel where boot: "script_call golden_gate golden_c 8 ''asyncgate.bootstrap''
     [(''agent_id'', JStr (gc_principal golden_g)), (''tenant_id'', JStr (gc_tenant golden_g)), (''max_items'', JInt 50)] golden_read =
     (Inr (JDict [(''server'', server), (''relationship'', rel), (''open_obligations'', receipts_json []), (''cursor'', JNull)]), golden_final)"
    using golden_boots by blast
  show ?thesis
    by (simp add: golden_check_def bind_def seq_def lift_sum_def ensure_def return_def golden_gets golden_lists boot checked_fields
        receipts_json_def py_list_def listed_types [of "[golden_assigned, golden_accepted, golden_started, golden_progressed, golden_completed, golden_ready]", simplified]
        del: golden_g_sel)
qed

section \<open>Properties\<close>


end
