(* ===== verification/Spec2Isabelle.thy ===== *)
theory Spec2Isabelle
  imports Obligations Custody RateLimit Startup WorkerGate Migrations Rows Drain GoldenRun
begin

text \<open>
  AsyncGate is a task service for agents: an agent creates tasks, workers lease them for a
  limited time, report progress and finish them, and every step is recorded as a receipt in an
  append-only ledger, whose receipts open and close obligations between principals. The service is
  a JSON-RPC endpoint (\<open>src/asyncgate/mcp\<close>) over an engine (\<open>engine/core.py\<close>) over
  repositories (\<open>db/repositories.py\<close>) over PostgreSQL; a background loop sweeps expired
  leases; in one mode an external ledger, ReceiptGate, decides custody, reached through a circuit
  breaker with a durable outbox (\<open>integrations\<close>), which a second loop replays. This development
  models the Python code of the service, of its reference worker and of its demonstration client, and
  proves what it promises.

  How the code is translated. Code that changes state is a procedure (\<open>Prelude\<close>): a function
  from the world to an exception or a result and the world afterwards, so an exception keeps the effects
  that happened before it, as in Python. \<open>World\<close> holds the world (the tables as the transaction
  sees them and as committed, counters of the clock readings, requests, random draws and UUIDs made, the
  trace id, the metrics, the ReceiptGate client and its file) and the transactions: a savepoint and a
  rollback restore tables and nothing else. A table is a list of rows in insertion order, with the keys,
  unique constraints, foreign keys and column widths PostgreSQL enforces (\<open>Store\<close>); a statement
  that breaks one raises. Python's integers are \<open>int\<close>, floats are rationals, times are microseconds
  since year 1 with the range of \<open>datetime\<close>, strings are lists of characters below 256,
  dictionaries are association lists, every exception of the source is a constructor of \<open>exn\<close>.
  Loops are recursion over a list or, for the scan of open obligations and the worker's rounds, over a
  number; the two background loops, which run until their event is set, are one \<open>partial_function\<close>
  whose value is None when they never return. No definition uses fuel that could run out: the scan reads
  one bounded page, as the code does.

  Where each part is.

  \<^item> Values and texts: \<open>PyText\<close> (integers, hexadecimal, UUIDs), \<open>Json\<close> (dictionaries,
    \<open>json.dumps\<close>, whose compact text determines the value), \<open>Datetime\<close> and \<open>IsoTime\<close>
    (calendar, \<open>isoformat\<close> and back).
  \<^item> Data: \<open>Models\<close> (\<open>models/*.py\<close>, \<open>engine/errors.py\<close>), \<open>Principals\<close>
    (\<open>principals.py\<close>), \<open>Config\<close> (\<open>config.py\<close>), \<open>Metrics\<close>, \<open>Migrations\<close>
    (\<open>db/tables.py\<close> and \<open>alembic/versions\<close> as schemas).
  \<^item> Repositories: \<open>TaskRepo\<close>, \<open>LeaseRepo\<close>, \<open>ReceiptRepo\<close>, \<open>MiscRepo\<close>, a definition
    per method, on models; \<open>Rows\<close> has the columns behind them, the values each statement writes and
    \<open>_row_to_model\<close>, which may raise, and proves that the models lose nothing.
  \<^item> The external ledger: \<open>Adapter\<close> (\<open>receipts/memorygate_adapter.py\<close>), \<open>CircuitBreaker\<close>,
    \<open>ReceiptGateClient\<close> (\<open>memorygate_client.py\<close>), \<open>Outbox\<close> (its invariants).
  \<^item> The engine: \<open>EngineBase\<close> (emission, obligations, escalation), \<open>Engine\<close> (create, cancel,
    lease, renew, start, report, complete, fail, expire), \<open>EngineQueries\<close>, \<open>Reconcile\<close>. The part of an
    operation inside \<open>begin_nested\<close> is a definition of its own, named after it with the suffix \<open>_atomic\<close>.
  \<^item> The edge: \<open>Auth\<close> (\<open>auth/*.py\<close>, \<open>api/deps.py\<close>), \<open>RateLimit\<close>, \<open>Mcp\<close> (tools,
    dispatch, JSON-RPC, trace middleware).
  \<^item> The process: \<open>Background\<close> (the loops of \<open>tasks/sweep.py\<close> and of the ReceiptGate client, how
    they are started and stopped), \<open>Drain\<close> (the replay loop empties the outbox), \<open>Instance\<close>
    (\<open>instance.py\<close>) and \<open>Startup\<close> (the start and the end of the process in \<open>main.py\<close>,
    \<open>integrations/metagate_client.py\<close>, the query metrics of \<open>db/base.py\<close>).
  \<^item> The clients: \<open>Worker\<close> (\<open>workers/command_executor/worker.py\<close>, with \<open>shlex.split\<close>) and
    \<open>WorkerGate\<close>, where it runs against the modelled endpoint; \<open>GoldenPath\<close>
    (\<open>scripts/golden_path.py\<close>) and \<open>GoldenRun\<close>, where it does.

  The service as a machine. \<open>Service\<close> defines its events (requests, sweeps, reconciliation, replay,
  restart) and the reachable worlds. Sessions begin on what is committed, so these are the serial executions;
  row locks and interleavings of uncommitted transactions are not modelled. The invariants rest on interfaces:
  the frames of \<open>Store\<close> (\<open>side_frame\<close>, \<open>session_frame\<close>, \<open>store_frame\<close>,
  \<open>service_frame\<close>, \<open>db_frame\<close>) say which changes of the tables a predicate must survive, and
  every theory adds to them, once, that its operations keep any such predicate. \<open>Ledger\<close> interprets them for
  the schema, the ledger's well-formedness, its growth and the separation of tenants. \<open>Scheduler\<close> and
  \<open>Protocol\<close> do the same for the protocol of a task: its cell (task row and lease row) moves by
  \<open>cell_step\<close>s only. \<open>Lifecycle\<close> abstracts a cell to four phases and proves the refinement.
  \<open>Effects\<close> and \<open>Obligations\<close> give the exact effect of each operation as weakest preconditions.
  \<open>Custody\<close> follows the outbox through every operation of a request: what queues a receipt raises.
  \<open>rate_backend\<close>, \<open>client_invariant\<close>, \<open>service_contract\<close> and \<open>refused_polls\<close> are the
  interfaces of the limiter, the outbox and the worker. \<open>Scenario\<close> computes a concrete run at which the
  theorems with hypotheses are instantiated.

  What is shown. Of leases and tasks: one lease per task in flight, the abstract machine, final states,
  bounded attempts, and what each operation does, on success and when it raises. Of receipts: the ledger only
  grows, completions close obligations exactly when they are locatable, the scan of open obligations is
  exact, the hash identifies a receipt. Of the edge: failed requests change nothing, a request
  that queues a receipt for the ledger is rolled back, authentication fails closed, tenants are separate. Of the outbox, the breaker and the limiter: bounds, survival of restarts,
  that the outbox empties, opening, recovery and the state the breaker cannot leave. Of the clients: what the
  worker may run and write, that a task is reported once, that its default tenant is refused; that the
  demonstration succeeds. Of the schema: the migrations build what the tables declare, and its rows mirror
  the models.

  Parameters (\<open>env\<close> and arguments), none with an assumption but where a theorem names it: settings, clocks,
  randomness, HTTP replies, SHA-256, the shared \<open>legivellum\<close> package (canonical receipts, ULIDs, which phases
  may be buffered), JWT decoding, bcrypt, Redis (its documented sorted-set laws), processes and links of
  the file system for the worker, MetaGate's bootstrap client (a record of functions). A digest is assumed free of collisions only where
  the theorem says so.

  Not modelled: the FastAPI and CORS wiring, uvicorn, logging and the lines the clients print, the creation
  of the database engine and which statements reach its metrics hook, \<open>AuditEventTable\<close> beyond its
  schema (nothing writes it), \<open>TaskSummary\<close> and \<open>LeaseInfo\<close> (no operation uses them), the
  driver \<open>alembic/env.py\<close>, and the tests.
\<close>

section \<open>The state of the service\<close>

subsection \<open>Leases and tasks\<close>

text \<open>C1: in every reachable state a task has exactly one lease row while it is leased or running,
  and none otherwise: no two workers ever hold the same task.\<close>

theorem exclusive_lease:
  assumes "reachable w" and "task_of (w_db w) (tn, tid) = Some t"
  shows "length (filter (\<lambda>l. l_tenant l = tn \<and> l_task l = tid) (db_leases (w_db w))) =
     (if in_flight (t_status t) then 1 else 0)"
  using reachable_cell(1) [OF assms(1)] reachable_cell(2) [OF assms(1), of "(tn, tid)"] assms(2)
  by (auto simp: leases_of_key cell_def split: option.split)

theorem exclusive_lease_witness:
  "length (filter (\<lambda>l. l_tenant l = 0 \<and> l_task l = 0) (db_leases (w_db after_lease))) = 1"
  using exclusive_lease [of after_lease 0 0 demo_leased]
  by (simp add: db_leased_def task_of_def t_key_def in_flight_def)



text \<open>C10: a finished task is final: no later event changes its row or gives it a lease.\<close>

theorem finished_is_final:
  assumes "reachable w" and "task_of (w_db w) k = Some t" and "is_terminal t"
  shows "task_of (w_db (run e evs w)) k = Some t \<and> lease_of (w_db (run e evs w)) k = None"
proof -
  have ok: "cell_ok (Some t, lease_of (w_db w) k)"
    using reachable_cell(2) [OF assms(1), of k] assms(2) by (simp add: cell_def)
  with terminal_cell_stays [OF reachable_run_cell [OF assms(1)] _ _ assms(3)] assms(2)
  have "cell (w_db (run e evs w)) k = (Some t, lease_of (w_db w) k)" by (simp add: cell_def)
  moreover have "lease_of (w_db w) k = None" using ok terminal_not_in_flight [OF assms(3)] by simp
  ultimately show ?thesis by (simp add: cell_def)
qed

theorem finished_is_final_witness:
  "task_of (w_db (run (demo ''c'') [ask_complete, Sweep] after_complete)) (0, 0) = Some demo_done"
  using finished_is_final [of after_complete "(0, 0)" demo_done "demo ''c''" "[ask_complete, Sweep]"] complete_cells
  by (simp add: task_of_def t_key_def is_terminal_def demo_done_def del: run.simps)

text \<open>C13: along any run the attempts of a task only grow and stay below its maximum, and a task has a
  result exactly when it is finished, with the outcome of its status.\<close>

theorem attempts_bounded:
  assumes "reachable w" and "task_of (w_db w) k = Some t"
  shows "\<exists>t'. task_of (w_db (run e evs w)) k = Some t' \<and> t_attempt t \<le> t_attempt t' \<and>
     (t_attempt t' = 0 \<or> t_attempt t' < t_max_attempts t) \<and>
     (case t_result t' of None \<Rightarrow> \<not> is_terminal t'
      | Some r \<Rightarrow> status_value (t_status t') = outcome_value (tr_outcome r))"
proof -
  obtain t' where t': "task_of (w_db (run e evs w)) k = Some t'" "t_frozen t' = t_frozen t"
      "t_attempt t \<le> t_attempt t'"
    using cell_steps_task [OF reachable_run_cell [OF assms(1), of k e evs]] assms(2) by (auto simp: cell_def)
  have "cell_ok (Some t', lease_of (w_db (run e evs w)) k)"
    using reachable_cell(2) [OF reachable_run [OF assms(1)], of e evs k] t'(1) by (simp add: cell_def)
  moreover have "t_max_attempts t' = t_max_attempts t" using t_frozen_eqD [OF t'(2)] by simp
  ultimately show ?thesis using t' by (auto simp: result_for_def split: option.splits)
qed

theorem attempts_bounded_witness:
  "\<exists>t'. task_of (w_db (run (demo ''d'') [ask_fail] after_lease)) (0, 0) = Some t' \<and>
     0 \<le> t_attempt t' \<and> t_attempt t' < 2"
  using attempts_bounded [of after_lease "(0, 0)" demo_leased "demo ''d''" "[ask_fail]"]
  by (auto simp: db_leased_def task_of_def t_key_def simp del: run.simps)

text \<open>C12: retries run out: at most \<open>max_attempts - 1\<close> events of any run put the task back in the
  queue with one more attempt.\<close>

theorem retries_run_out:
  assumes "reachable w" and "task_of (w_db w) k = Some t"
  shows "retries e k evs w = 0 \<or> t_attempt t + int (retries e k evs w) < t_max_attempts t"
proof -
  obtain t' where t': "task_of (w_db (run e evs w)) k = Some t'" "t_frozen t' = t_frozen t"
      "t_attempt t + int (retries e k evs w) \<le> t_attempt t'"
    using retries_count [OF assms] by blast
  have "cell_ok (Some t', lease_of (w_db (run e evs w)) k)" "cell_ok (Some t, lease_of (w_db w) k)"
    using reachable_cell(2) [OF reachable_run [OF assms(1)], of e evs k] reachable_cell(2) [OF assms(1), of k]
      t'(1) assms(2) by (simp_all add: cell_def)
  moreover have "t_max_attempts t' = t_max_attempts t" using t_frozen_eqD [OF t'(2)] by simp
  ultimately show ?thesis using t'(3) by auto
qed

theorem retries_run_out_witness: "retries (demo ''d'') (0, 0) [ask_fail] after_lease = 1 \<and> 0 + 1 < (2 :: int)"
  using retries_run_out [of after_lease "(0, 0)" demo_leased "demo ''d''" "[ask_fail]"] fail_cells
  by (simp add: db_leased_def task_of_def t_key_def demo_retry_def requeued_def attempt_of_def del: serve.simps)

subsection \<open>The tables\<close>



text \<open>C14: in every reachable state a receipt has at most ten parents, the parents of a receipt that
  ends an obligation are receipts of its tenant, and a completion closes one only when its body
  locates the work (its \<open>artifacts\<close> or its \<open>delivery_proof\<close> is there).\<close>

theorem reachable_ledger:
  assumes "reachable w" and "r \<in> set (db_receipts (w_db w))"
  shows "length (r_parents r) \<le> 10 \<and>
     (is_terminal_type (r_type r) \<longrightarrow> (\<forall>p \<in> set (r_parents r).
        \<exists>x \<in> set (db_receipts (w_db w)). r_tenant x = r_tenant r \<and> r_id x = p)) \<and>
     (r_type r = TASK_COMPLETED \<and> r_parents r \<noteq> [] \<longrightarrow> locatable (Some (r_body r)))"
proof -
  have "ledger_ok empty_db" by (simp add: ledger_ok_def)
  then have "both ledger_ok w"
    by (intro ledger.whole.reachable_keeps [OF assms(1)]) (simp_all add: on_db_def)
  then have "receipt_ok (w_db w) r" using assms(2) by (simp add: on_db_def ledger_ok_def)
  then show ?thesis by (simp add: receipt_ok_def receipt_exists_def r_key_def)
qed

theorem reachable_ledger_witness: "length (r_parents demo_accepted) \<le> 10"
  using reachable_ledger [of after_lease demo_accepted] by (simp add: db_leased_def)

text \<open>C15: the ledger is append-only: whatever events follow, the receipts stay, in place and with every
  field but the delivery mark, and so does the identity of every task.\<close>

theorem ledger_append_only:
  assumes "reachable w"
  shows "\<exists>rs ts. map r_frozen (db_receipts (w_db (run e evs w))) = map r_frozen (db_receipts (w_db w)) @ rs \<and>
     map t_frozen (db_tasks (w_db (run e evs w))) = map t_frozen (db_tasks (w_db w)) @ ts"
proof -
  have "both (extends (w_db w)) w" using reachable_idle [OF assms] by (simp add: on_db_def idle_def)
  then have "both (extends (w_db w)) (run e evs w)" by (intro growth.whole.run_keeps) simp_all
  then show ?thesis by (auto simp: on_db_def extends_def)
qed

theorem ledger_append_only_witness:
  "\<exists>rs. map r_frozen (db_receipts (w_db after_complete)) = map r_frozen [demo_assigned, demo_accepted] @ rs"
  using ledger_append_only [of after_lease "demo ''c''" "[ask_complete]"]
  by (auto simp: after_complete_def db_leased_def simp del: serve.simps)

subsection \<open>Requests\<close>


text \<open>Another worker reports bob's task complete.\<close>

definition stolen :: mcp_request where
  "stolen = \<lparr>mr_method = ''tools/call'', mr_params = [(''name'', JStr ''asyncgate.complete''),
     (''arguments'', JDict [(''worker_id'', JStr ''eve''), (''task_id'', JStr (uuid_str 0)),
        (''lease_id'', JStr (uuid_str 3)), (''result'', JDict [])])], mr_id = JInt 1\<rparr>"



text \<open>bob reports his task complete while the ledger cannot be reached.\<close>

definition finished :: mcp_request where
  "finished = \<lparr>mr_method = ''tools/call'', mr_params = [(''name'', JStr ''asyncgate.complete''),
     (''arguments'', JDict (lease_ids @ [(''result'', JDict [])]))], mr_id = JInt 1\<rparr>"


section \<open>The operations\<close>

subsection \<open>Working on a task\<close>

text \<open>C7: a worker that does not hold the task's lease (another's, an older one, or one that has
  expired) can neither start, report, complete nor fail the task: each operation is refused
  and changes no row.\<close>

theorem stale_worker_refused:
  assumes "schema_ok (w_db w)" and "\<not> holds (w_db w) tn tid lid worker (e_clock e (w_clock w))"
  shows "stale (fst (start_task e tn worker tid lid w)) tid lid w (snd (start_task e tn worker tid lid w)) \<and>
     stale (fst (report_progress e tn worker tid lid v w)) tid lid w (snd (report_progress e tn worker tid lid v w)) \<and>
     stale (fst (complete e tn worker tid lid res arts w)) tid lid w (snd (complete e tn worker tid lid res arts w)) \<and>
     stale (fst (fail_task e tn worker tid lid err retry w)) tid lid w (snd (fail_task e tn worker tid lid err retry w))"
  by (intro conjI; rule stale_bind [OF assms])
    (simp_all only: start_task_def report_progress_def complete_def complete_check_def fail_task_def
      fail_check_def bind_assoc)

text \<open>bob's lease of two minutes, ten minutes later.\<close>

theorem stale_worker_refused_witness:
  "fst (complete (demo_later ''c'') 0 ''bob'' 0 3 [] None after_lease) = Inl (LeaseInvalidOrExpired 0 3)"
proof -
  have "schema_ok db_leased" using reachable_cell(1) [of after_lease] by simp
  moreover have "\<not> holds db_leased 0 0 3 ''bob'' 63000000604000000"
    by (simp add: holds_def lease_of_def db_leased_def l_key_def)
  ultimately show ?thesis
    using stale_worker_refused [of after_lease 0 0 3 "''bob''" "demo_later ''c''" "[]" "[]" None "[]" False]
    by (simp add: stale_def) (simp add: after_lease_def second_def)
qed

text \<open>C5: a completion that succeeds was reported by the holder of an unexpired lease for a task in
  flight; it finishes that task with the worker's result, ends the lease, and touches no other task or
  lease and no earlier receipt. One that raises changes nothing.\<close>

theorem complete_effect:
  assumes "schema_ok (w_db w)"
  shows "case complete e tn worker tid lid result artifacts w of
      (Inr b, w') \<Rightarrow> b \<and> completed_by e (Suc (w_clock w)) tn worker tid lid result artifacts (w_db w) (w_db w')
    | (Inl _, w') \<Rightarrow> w_db w' = w_db w"
  using wp_complete [OF assms, unfolded wp_def] .

theorem complete_effect_witness:
  "\<exists>w'. complete (demo ''c'') 0 ''bob'' 0 3 [(''answer'', JStr ''yes'')] (Some (JList [JDict [(''uri'', JStr ''s3://a'')]])) after_lease = (Inr True, w') \<and>
     completed_by (demo ''c'') 5 0 ''bob'' 0 3 [(''answer'', JStr ''yes'')] (Some (JList [JDict [(''uri'', JStr ''s3://a'')]])) db_leased (w_db w')"
proof -
  let ?m = "complete (demo ''c'') 0 ''bob'' 0 3 [(''answer'', JStr ''yes'')] (Some (JList [JDict [(''uri'', JStr ''s3://a'')]])) after_lease"
  have "fst ?m = Inr True" by (simp add: served leased_state cong: weak)
  moreover have "schema_ok (w_db after_lease)" using reachable_cell(1) [of after_lease] by simp
  ultimately show ?thesis
    using complete_effect [of after_lease "demo ''c''" 0 "''bob''" 0 3 "[(''answer'', JStr ''yes'')]" "Some (JList [JDict [(''uri'', JStr ''s3://a'')]])"]
    by (cases ?m) (auto simp: after_lease_def)
qed

text \<open>C6: a failure that is accepted was reported by the holder of an unexpired lease. If it is retryable
  and attempts are left the task is queued again, one attempt later, eligible after the capped
  exponential backoff; if not it is finished with the error. Either way the lease ends and nothing
  else changes; an error of the operation changes nothing.\<close>

theorem fail_effect:
  assumes "schema_ok (w_db w)"
  shows "case fail_task e tn worker tid lid err retryable w of
      (Inr (requeue, eligible), w') \<Rightarrow>
        (\<forall>t. task_of (w_db w) (tn, tid) = Some t \<longrightarrow> requeue = should_requeue retryable t) \<and>
        failed_by e (Suc (w_clock w)) tn worker tid lid err requeue eligible (w_db w) (w_db w')
    | (Inl _, w') \<Rightarrow> w_db w' = w_db w"
  using wp_fail_task [OF assms, of e tn worker tid lid err retryable]
  by (simp add: wp_def split: prod.splits sum.splits)

theorem fail_effect_witness:
  "\<exists>eligible w'. fail_task (demo ''d'') 0 ''bob'' 0 3 [(''code'', JStr ''E1'')] True after_lease = (Inr (True, eligible), w') \<and>
     failed_by (demo ''d'') 5 0 ''bob'' 0 3 [(''code'', JStr ''E1'')] True eligible db_leased (w_db w')"
proof -
  let ?m = "fail_task (demo ''d'') 0 ''bob'' 0 3 [(''code'', JStr ''E1'')] True after_lease"
  have "fst ?m = Inr (True, Some 63000000021000000)" by (simp add: served leased_state cong: weak)
  moreover have "schema_ok (w_db after_lease)" using reachable_cell(1) [of after_lease] by simp
  ultimately show ?thesis
    using fail_effect [where w = after_lease and e = "demo ''d''" and tn = 0 and worker = "''bob''" and tid = 0 and lid = 3
        and err = "[(''code'', JStr ''E1'')]" and retryable = True]
    by (cases ?m) auto
qed



text \<open>C19: canceling a finished task reports its status and changes nothing; canceling any other task
  finishes it with the reason and ends its lease, whoever holds it, and nothing else changes.\<close>

theorem cancel_effect:
  assumes "schema_ok (w_db w)"
  shows "case cancel_task e tn tid who reason is_internal w of
      (Inr (changed, status), w') \<Rightarrow> canceled_by e (w_clock w) tn tid reason changed status (w_db w) (w_db w')
    | (Inl _, w') \<Rightarrow> w_db w' = w_db w"
  using wp_cancel_task [OF assms, of e tn tid who reason is_internal]
  by (simp add: wp_def split: prod.splits sum.splits)

theorem cancel_effect_witness:
  "\<exists>w'. cancel_task (demo ''f'') 0 0 alice (Some ''late'') False after_lease = (Inr (True, CANCELED), w') \<and>
     canceled_by (demo ''f'') 4 0 0 (Some ''late'') True CANCELED db_leased (w_db w')"
proof -
  let ?m = "cancel_task (demo ''f'') 0 0 alice (Some ''late'') False after_lease"
  have "fst ?m = Inr (True, CANCELED)"
    by (simp add: served leased_state may_cancel_def alice_def cancel_body_def cong: weak)
  moreover have "schema_ok (w_db after_lease)" using reachable_cell(1) [of after_lease] by simp
  ultimately show ?thesis
    using cancel_effect [where w = after_lease and e = "demo ''f''" and tn = 0 and tid = 0 and who = alice
        and reason = "Some ''late''" and is_internal = False]
    by (cases ?m) auto
qed

subsection \<open>Leasing\<close>

text \<open>C8: a claim leases, in the order of the queue, the offered tasks and no others: each gets one new
  lease of the worker, capped in time, and the status leased; no receipt is written by it.\<close>

theorem claim_effect:
  assumes "reachable w"
  shows "case lease_claim_next e tn worker caps types n ttl w of
      (Inr ls, w') \<Rightarrow>
        (let now = e_clock e (w_clock w);
             expires = now + min (or_default ttl (default_lease_ttl (cfg e))) (max_lease_ttl (cfg e)) * second;
             ts = offered tn now caps types n (w_db w) in
         list_all2 (granted worker now expires (w_db w')) ts ls \<and>
         (\<forall>k. k \<notin> t_key ` set ts \<longrightarrow> cell (w_db w') k = cell (w_db w) k) \<and>
         db_receipts (w_db w') = db_receipts (w_db w))
    | (Inl _, w') \<Rightarrow> True"
proof -
  have "cells_ok (w_db w)" using reachable_cell(2) [OF assms] by (simp add: cells_ok_def)
  from wp_claim_next [OF reachable_cell(1) [OF assms] this, unfolded wp_def] show ?thesis .
qed

theorem claim_effect_witness:
  "\<exists>l w'. lease_claim_next (demo ''b'') 0 ''bob'' None None 1 None after_create = (Inr [l], w') \<and>
     granted ''bob'' 63000000002000000 63000000122000000 (w_db w') demo_task l"
proof -
  let ?m = "lease_claim_next (demo ''b'') 0 ''bob'' None None 1 None after_create"
  have "\<exists>l. fst ?m = Inr [l]"
    by (simp add: served after_create_def db_created_def initial_world_def cong: weak)
  moreover have "offered 0 63000000002000000 None None 1 (w_db after_create) = [demo_task]"
    by (simp add: offered_def query_values valued after_create_def db_created_def)
  ultimately show ?thesis
    using claim_effect [OF reachable_demo(1), where e = "demo ''b''" and tn = 0 and worker = "''bob''" and caps = None
        and types = None and n = 1 and ttl = None]
    by (cases ?m) (auto simp: after_create_def second_def or_default_def)
qed



text \<open>C21: a lease is renewed by its holder only, while the task is in flight and both limits (number of
  renewals, lifetime since it was acquired) have room; the new expiry is the requested time from now,
  capped, and nothing but the expiry and the renewal count changes. The lease may have expired.\<close>

theorem renew_effect:
  assumes "schema_ok (w_db w)"
  shows "case renew_lease e tn worker tid lid extend_by w of
      (Inr expires, w') \<Rightarrow>
        renewed_by e (e_clock e (w_clock w)) tn worker tid lid extend_by expires (w_db w) (w_db w')
    | (Inl _, w') \<Rightarrow> w_db w' = w_db w"
  using wp_renew_lease [OF assms, of e tn worker tid lid extend_by]
  by (simp add: wp_def split: prod.splits sum.splits)

theorem renew_effect_witness:
  "\<exists>w'. renew_lease (demo ''b'') 0 ''bob'' 0 3 (Some 60) after_lease = (Inr 63000000064000000, w') \<and>
     renewed_by (demo ''b'') 63000000004000000 0 ''bob'' 0 3 (Some 60) 63000000064000000 db_leased (w_db w')"
proof -
  let ?m = "renew_lease (demo ''b'') 0 ''bob'' 0 3 (Some 60) after_lease"
  have "fst ?m = Inr 63000000064000000"
    by (simp add: served renew_lease_def lease_renew_def trunc_seconds_def in_flight_def renewed_def leased_state cong: weak)
  then show ?thesis
    using renew_effect [where w = after_lease and e = "demo ''b''" and tn = 0 and worker = "''bob''" and tid = 0
        and lid = 3 and extend_by = "Some 60"]
    by (cases ?m) (auto simp: second_def)
qed

subsection \<open>Creating and canceling\<close>

text \<open>What a creation that succeeds has done.\<close>

lemma created_or_found:
  assumes "create_task e tn ty pl cb ai pp rq ek em pr key ma bo dl internal w = (Inr (tid, st), w')"
  shows "\<exists>t. t_id t = tid \<and> t_status t = st \<and>
     (created_as tn key t (w_db w) (w_db w') \<or>
      found_by_key tn key t (w_committed w) \<and> announces (w_committed w) (w_db w'))"
proof -
  let ?Q = "\<lambda>t d'. created_as tn key t (w_db w) d' \<or> found_by_key tn key t (w_committed w) \<and> announces (w_committed w) d'"
  have emit: "wp (engine_emit e tn TASK_ASSIGNED service_principal to (Some (t_id t)) None b None)
      (\<lambda>_ w2. ?Q t (w_db w2)) (\<lambda>_ _. True) w1"
    if "created_as tn key t (w_db w) (w_db w1) \<or> found_by_key tn key t (w_committed w) \<and> w_db w1 = w_committed w"
    for t to b w1
    by (rule wp_mono [OF wp_announcing [OF announcing.keeps_engine_emit]])
      (use that in \<open>auto simp: created_as_def announces_def ledger_grows_def\<close>)
  have "wp (create_task e tn ty pl cb ai pp rq ek em pr key ma bo dl internal)
      (\<lambda>(tid, st) w'. \<exists>t. t_id t = tid \<and> t_status t = st \<and> ?Q t (w_db w')) (\<lambda>_ _. True) w"
    by (auto simp: create_task_def Let_def wp_seq wp_ensure wp_bind wp_lift_sum wp_return wp_return_fun
        intro!: wp_mono [OF wp_task_create] wp_mono [OF emit] split: sum.split)
  from wp_ok [OF assms this] show ?thesis by simp
qed

text \<open>C17: a successful creation queues one new task, with no attempts, no lease and no result, under a
  new key, next to all earlier tasks and receipts; or its idempotency key was taken, and then the
  task created before is returned and no task is added.\<close>

theorem create_effect:
  assumes "create_task e tn ty pl cb ai pp rq ek em pr key ma bo dl internal w = (Inr (tid, st), w')"
  shows "\<exists>t. t_id t = tid \<and> t_status t = st \<and>
     (created_as tn key t (w_db w) (w_db w') \<or>
      found_by_key tn key t (w_committed w) \<and> announces (w_committed w) (w_db w'))"
  using created_or_found [OF assms] .

theorem create_effect_witness:
  "\<exists>t w'. create_task (demo ''a'') 0 ''echo'' [] alice ''ai'' None JNull None None None None None None None False
       initial_world = (Inr (0, QUEUED), w') \<and> t_id t = 0 \<and> created_as 0 None t empty_db (w_db w')"
proof -
  let ?m = "create_task (demo ''a'') 0 ''echo'' [] alice ''ai'' None JNull None None None None None None None False initial_world"
  have "fst ?m = Inr (0, QUEUED)" by (simp add: served initial_world_def alice_def numeral_2_eq_2 numeral_3_eq_3 cong: weak)
  then have m: "?m = (Inr (0, QUEUED), snd ?m)" by (metis prod.collapse)
  have "w_db initial_world = empty_db" "w_committed initial_world = empty_db" by (simp_all add: initial_world_def)
  with create_effect [OF m] m show ?thesis by (auto simp: found_by_key_def truthy_str_def)
qed

text \<open>C18: creating a task again under an idempotency key the tenant has used returns the task created
  before, whatever else the request says, and adds no task.\<close>

theorem create_idempotent:
  assumes "reachable w" and "t \<in> set (db_tasks (w_db w))" "t_tenant t = tn" "t_idempotency_key t = Some key" "key \<noteq> []"
    and "create_task e tn ty pl cb ai pp rq ek em pr (Some key) ma bo dl internal w = (Inr (tid, st), w')"
  shows "tid = t_id t \<and> st = t_status t \<and> db_tasks (w_db w') = db_tasks (w_db w)"
proof -
  have idle: "w_committed w = w_db w" using reachable_idle [OF assms(1)] by (simp add: idle_def)
  obtain x where x: "t_id x = tid" "t_status x = st" and
    how: "created_as tn (Some key) x (w_db w) (w_db w') \<or>
      found_by_key tn (Some key) x (w_db w) \<and> announces (w_db w) (w_db w')"
    using created_or_found [OF assms(6)] idle by auto
  have "\<not> created_as tn (Some key) x (w_db w) (w_db w')"
    using assms(2-4) by (auto simp: created_as_def task_unique_def clashes_def t_idem_def)
  with how have found: "found_by_key tn (Some key) x (w_db w)" "db_tasks (w_db w') = db_tasks (w_db w)"
    by (auto simp: announces_def)
  then have "x = t"
    using idem_unique [OF reachable_cell(1) [OF assms(1)] _ assms(2)] assms(3,4) by (simp add: found_by_key_def t_idem_def)
  with x found show ?thesis by simp
qed
text \<open>The same creation with an idempotency key, then again for another task.\<close>

definition ask_keyed :: event where
  "ask_keyed = tool_request ''asyncgate.create_task''
     [(''agent_id'', JStr ''alice''), (''type'', JStr ''echo''), (''principal_ai'', JStr ''ai''),
      (''idempotency_key'', JStr ''k'')]"

definition db_keyed :: db where
  "db_keyed = db_created\<lparr>db_tasks := [demo_task\<lparr>t_idempotency_key := Some ''k''\<rparr>]\<rparr>"

definition after_keyed :: world where
  "after_keyed = after_create\<lparr>w_db := db_keyed, w_committed := db_keyed\<rparr>"

lemma serve_keyed: "serve (demo ''a'') ask_keyed initial_world = after_keyed"
  by (simp add: served ask_keyed_def initial_world_def after_create_def after_keyed_def db_keyed_def db_created_def
      demo_task_def demo_assigned_def alice_def emitted_def numeral_2_eq_2 numeral_3_eq_3 cong: weak)

theorem create_idempotent_witness:
  "fst (create_task (demo ''b'') 0 ''other'' [] bob ''ai'' None JNull None None None (Some ''k'') None None None False
     after_keyed) = Inr (0, QUEUED)"
proof -
  let ?m = "create_task (demo ''b'') 0 ''other'' [] bob ''ai'' None JNull None None None (Some ''k'') None None None False after_keyed"
  have "\<exists>tid st. fst ?m = Inr (tid, st)"
    by (simp add: served after_keyed_def db_keyed_def after_create_def db_created_def initial_world_def bob_def cong: weak)
  then obtain tid st where res: "fst ?m = Inr (tid, st)" by blast
  then have m: "?m = (Inr (tid, st), snd ?m)" by (metis prod.collapse)
  have "reachable after_keyed" using reachable_step [OF reachable_init] serve_keyed by metis
  moreover have "db_tasks (w_db after_keyed) = [demo_task\<lparr>t_idempotency_key := Some ''k''\<rparr>]"
    by (simp add: after_keyed_def db_keyed_def)
  ultimately have "tid = 0 \<and> st = QUEUED"
    using create_idempotent [OF _ _ _ _ _ m, where t = "demo_task\<lparr>t_idempotency_key := Some ''k''\<rparr>"] by simp
  with res show ?thesis by simp
qed

text \<open>C20: only the owner of one of the task's obligations, by kind and normalised identifier, can cancel a
  task (or learn its status this way) without internal access.\<close>

theorem cancel_authorized:
  assumes "cancel_task e tn tid who reason False w = (Inr r, w')"
  shows "\<exists>ob \<in> set (db_receipts (w_db w)). r_tenant ob = tn \<and> r_task ob = Some tid \<and> r_type ob = TASK_ASSIGNED \<and>
     p_kind (r_to ob) = p_kind who \<and> p_id (r_to ob) = normalize_external (p_id who) \<and>
     \<not> (p_kind who = SYSTEM \<and> normalize_external (p_id who) = SYSTEM_PRINCIPAL_ID)"
proof -
  define owned where "owned \<longleftrightarrow> (\<exists>ob \<in> set (db_receipts (w_db w)). r_tenant ob = tn \<and> r_task ob = Some tid \<and>
     r_type ob = TASK_ASSIGNED \<and> p_kind (r_to ob) = p_kind who \<and> p_id (r_to ob) = normalize_external (p_id who) \<and>
     \<not> (p_kind who = SYSTEM \<and> normalize_external (p_id who) = SYSTEM_PRINCIPAL_ID))"
  have task: "wp (task_get tn tid) (\<lambda>_ w'. w' = w) (\<lambda>_ _. True) w"
    by (rule wp_reads) (simp_all add: task_get_def)
  have body: "wp (seq (lift_sum (may_cancel (r_to ob) (normalize_principal who) False)) m) (\<lambda>_ _. owned) (\<lambda>_ _. True) w"
    if "ob \<in> set (db_receipts (w_db w))" "r_tenant ob = tn" "r_task ob = Some tid" "r_type ob = TASK_ASSIGNED"
    for ob and m :: "(bool \<times> task_status) M"
  proof (cases "may_cancel (r_to ob) (normalize_principal who) False")
    case (Inr u)
    then have "owned" using that unfolding owned_def
      by (intro bexI [of _ ob]) (auto simp: may_cancel_def normalize_principal_def split: if_splits)
    then show ?thesis by (auto simp: wp_def split: prod.split sum.split)
  qed (simp add: wp_seq wp_lift_sum)
  have "wp (cancel_task e tn tid who reason False) (\<lambda>_ _. owned) (\<lambda>_ _. True) w"
    unfolding cancel_task_def Let_def wp_bind [of "task_get tn tid"]
    by (rule wp_mono [OF task])
      (auto simp: wp_bind wp_some_or_raise assigned_def intro!: wp_mono [OF wp_obligation] body split: option.split)
  from wp_ok [OF assms this] show ?thesis unfolding owned_def .
qed

theorem cancel_authorized_witness:
  "\<exists>ob \<in> set (db_receipts db_leased). r_task ob = Some 0 \<and> p_kind (r_to ob) = AGENT \<and> p_id (r_to ob) = ''alice''"
proof -
  let ?m = "cancel_task (demo ''f'') 0 0 alice (Some ''late'') False after_lease"
  have "fst ?m = Inr (True, CANCELED)"
    by (simp add: served leased_state may_cancel_def alice_def cancel_body_def cong: weak)
  then have "?m = (Inr (True, CANCELED), snd ?m)" by (metis prod.collapse)
  from cancel_authorized [OF this] show ?thesis by (auto simp: normalize_external_def starts_with_def)
qed

text \<open>The identifiers of the system and of services are reserved: without internal access no task is
  created in their name, under either spelling, and the attempt changes nothing.\<close>

lemma internal_ids_reserved:
  assumes "is_internal_principal_id s" and "p_id who = s \<or> p_id who = ''ext:'' @ s"
  shows "create_task e tn ty pl who ai pp rq ek em pr key ma bo dl False w =
     (Inl (UnauthorizedError ''Internal principal IDs require authenticated internal access''), w)"
proof -
  have "normalize_external (p_id who) = s" using assms internal_not_ext normalize_external_ext by metis
  with assms(1) have "is_internal_principal_id (p_id (normalize_principal who))" by (simp add: normalize_principal_def)
  then show ?thesis by (simp add: create_task_def Let_def seq_def bind_def ensure_def raise_def)
qed

section \<open>Receipts and obligations\<close>

text \<open>C22: a receipt is stored once per hash: a second creation with the hash of a stored receipt returns
  that one and writes nothing; a new one is within the size limits, its parents exist where they must,
  and exactly its row is appended, with one anomaly receipt more when its parents were stripped.\<close>

theorem receipt_create_effect:
  "case receipt_create e tn ty from to task lease schedule parents body given_hash w of
     (Inr r, w') \<Rightarrow> check_size body parents = Inr () \<and> parents_ok tn ty parents (w_db w) \<and>
       created_receipt tn (receipt_hash_for e ty from to task lease parents body given_hash)
         (new_receipt (cfg e) tn (w_uuid w) ty (e_clock e (w_clock w)) from to task lease schedule
            (list_of (parents_used ty body parents)) (dict_of body)
            (Some (receipt_hash_for e ty from to task lease parents body given_hash)))
         (strips_parents ty body) r (w_db w) (w_db w')
   | (Inl _, w') \<Rightarrow> True"
  using wp_receipt_create [OF refl, unfolded wp_def] .



text \<open>C24: listing the open obligations of a principal from the start never fails, changes nothing, and
  agrees with the ledger: it gives, oldest first, the receipts addressed to the principal that open an
  obligation and that no terminal receipt names as a parent, all of them when it returns no cursor.\<close>

theorem open_obligations_correct:
  assumes "0 < n"
  shows "\<exists>rs cursor. receipt_list_open_obligations tn k pid None n w = (Inr (rs, cursor), w) \<and>
     rs = take (nat n) (filter (unterminated tn (w_db w)) (take (nat (candidate_limit n)) (candidates tn k pid None (w_db w)))) \<and>
     (cursor = None \<longrightarrow> rs = filter (unterminated tn (w_db w)) (candidates tn k pid None (w_db w)))"
proof -
  have "wp (cursor_time tn None) (\<lambda>c w'. w' = w \<and> c = None) (\<lambda>_ _. False) w"
    by (simp add: cursor_time_def wp_return)
  from wp_open_obligations [OF assms this, of k pid] show ?thesis
    by (auto simp: wp_def obligations_page_def split: prod.splits sum.splits)
qed

theorem open_obligations_correct_witness:
  "\<exists>cursor. fst (receipt_list_open_obligations 0 AGENT ''alice'' None 5 after_lease) = Inr ([demo_assigned], cursor)"
proof -
  let ?m = "receipt_list_open_obligations 0 AGENT ''alice'' None 5 after_lease"
  have "candidates 0 AGENT ''alice'' None db_leased = [demo_assigned]"
    by (simp add: candidates_def db_leased_def is_candidate_def query_values get_obligation_types_eq is_internal_principal_id_def
        starts_with_def addressed_to_def after_def Let_def normalize_external_def)
  moreover have "unterminated 0 db_leased demo_assigned"
    by (simp add: unterminated_def db_leased_def terminates_iff is_terminal_type_iff)
  ultimately show ?thesis
    using open_obligations_correct [of 5 0 AGENT "''alice''" after_lease] by (auto simp: candidate_limit_def)
qed



section \<open>Tenants\<close>

text \<open>C26: a tool call works in the tenant of its authentication context: whatever its arguments are, the
  rows of every other tenant are left as they were.\<close>

theorem tenant_isolation:
  assumes "schema_ok (w_db w)" and "w_committed w = w_db w" and "py_uuid (ac_tenant a) = Inr tn" and "x \<noteq> tn"
  shows "of_tenant x (w_db (snd (call_tool e name a args w))) = of_tenant x (w_db w)"
proof -
  have "keeps (both (others_untouched tn (w_db w))) (call_tool e name a args)"
    by (rule isolation.whole.keeps_tools) (use assms(3) in simp)
  moreover have "both (others_untouched tn (w_db w)) w"
    using assms(1,2) by (simp add: on_db_def schema_ok_def)
  ultimately have "both (others_untouched tn (w_db w)) (snd (call_tool e name a args w))" by (rule keepsD)
  then show ?thesis using assms(4) by (simp add: on_db_def others_untouched_def)
qed

theorem tenant_isolation_witness:
  "of_tenant 0 (w_db (snd (call_tool (demo ''c'') ''asyncgate.complete''
     \<lparr>ac_user = None, ac_type = INSECURE_DEV, ac_internal = False, ac_tenant = JStr (uuid_str 7)\<rparr> lease_ids after_lease))) =
   of_tenant 0 db_leased"
  using tenant_isolation [where w = after_lease and tn = 7 and x = 0 and e = "demo ''c''" and name = "''asyncgate.complete''"
      and a = "\<lparr>ac_user = None, ac_type = INSECURE_DEV, ac_internal = False, ac_tenant = JStr (uuid_str 7)\<rparr>" and args = lease_ids]
  by (simp add: py_uuid_def)

section \<open>Credentials\<close>



end
